(* ===== verification/Chassis_Prelude.thy ===== *)
theory Chassis_Prelude
  imports Complex_Main "HOL-Library.List_Lexorder" "HOL-Library.Char_ord"
begin

text \<open>
  Shared vocabulary of the development: the types every service uses (identifiers, instants,
  three-valued DTO fields, JSON payloads), the exceptions the services throw, the JavaScript
  string and number functions the sources call, and the generic lemmas the component theories
  rewrite with.

  Strings are sequences of ASCII characters. Instants are \<^typ>\<open>int\<close>, milliseconds since the
  epoch (\<^verbatim>\<open>Date.now()\<close>). JavaScript numbers that are counts or identifiers are \<^typ>\<open>int\<close> or
  \<^typ>\<open>nat\<close>, money is \<^typ>\<open>rat\<close>.
\<close>

named_theorems chassis_defs \<open>definitions unfolded by the component proofs\<close>
named_theorems chassis_store \<open>laws of the tables and of the key-value store\<close>

type_synonym uuid = string
type_synonym instant = int

text \<open>A field of a request body: absent, JSON null, or a value.\<close>

datatype 'a field = Undefined | Null | Value 'a

fun field_or_null :: "'a field \<Rightarrow> 'a option" where
  "field_or_null (Value v) = Some v"
| "field_or_null _ = None"

text \<open>\<^verbatim>\<open>x ?? d\<close> on a value that may be null or undefined.\<close>

definition coalesce :: "'a option \<Rightarrow> 'a \<Rightarrow> 'a" where
  "coalesce x d = (case x of None \<Rightarrow> d | Some v \<Rightarrow> v)"

lemma coalesce_simps [simp]: "coalesce None d = d" "coalesce (Some v) d = v"
  by (simp_all add: coalesce_def)

text \<open>Truthiness of a string that may be absent: the empty string is falsy.\<close>

definition truthy :: "string option \<Rightarrow> bool" where
  "truthy s = (case s of None \<Rightarrow> False | Some x \<Rightarrow> x \<noteq> [])"

lemma truthy_simps [simp]: "truthy None = False" "truthy (Some x) = (x \<noteq> [])"
  by (simp_all add: truthy_def)

text \<open>
  JSON payloads of events and responses. \<open>JTime\<close> stands for the ISO text of an instant
  (\<^verbatim>\<open>new Date().toISOString()\<close>).
\<close>

datatype json =
    JNull
  | JBool bool
  | JNum rat
  | JStr string
  | JTime instant
  | JArr "json list"
  | JObj "(string \<times> json) list"

text \<open>A property of a serialised object: \<^verbatim>\<open>JSON.stringify\<close> leaves an undefined one out.\<close>

fun json_field :: "string \<Rightarrow> string field \<Rightarrow> (string \<times> json) list" where
  "json_field k Undefined = []"
| "json_field k Null = [(k, JNull)]"
| "json_field k (Value v) = [(k, JStr v)]"

text \<open>
  Exceptions: the NestJS HTTP exceptions by status, the database driver's
  \<^verbatim>\<open>QueryFailedError\<close> with its SQLSTATE, and any other \<^verbatim>\<open>Error\<close>.
\<close>

datatype exn =
    BadRequest string
  | Unauthorized string
  | Forbidden string
  | NotFound string
  | Conflict string
  | QueryFailed string
  | JsError string

type_synonym 'a result = "exn + 'a"

text \<open>
  Sequencing of effectful calls: a state is passed on, and a thrown exception skips the rest and
  keeps what was written before it.
\<close>

definition and_then :: "('a result \<times> 's) \<Rightarrow> ('a \<Rightarrow> 's \<Rightarrow> 'b result \<times> 's) \<Rightarrow> 'b result \<times> 's" where
  "and_then p f = (case p of (Inl x, s) \<Rightarrow> (Inl x, s) | (Inr a, s) \<Rightarrow> f a s)"

lemma and_then_simps [simp]: "and_then (Inl x, s) f = (Inl x, s)" "and_then (Inr a, s) f = f a s"
  by (simp_all add: and_then_def)

lemma and_then_split: "P (and_then p f) \<longleftrightarrow>
    (\<forall>x s. p = (Inl x, s) \<longrightarrow> P (Inl x, s)) \<and> (\<forall>a s. p = (Inr a, s) \<longrightarrow> P (f a s))"
  by (cases p; cases "fst p") auto

text \<open>A property that every write keeps holds after the sequence, whichever call throws.\<close>

lemma and_then_preserves:
  "Q (snd p) \<Longrightarrow> (\<And>a s. p = (Inr a, s) \<Longrightarrow> Q s \<Longrightarrow> Q (snd (f a s))) \<Longrightarrow> Q (snd (and_then p f))"
  by (cases p; cases "fst p") auto

subsection \<open>Strings\<close>

text \<open>A text fits a \<^verbatim>\<open>varchar\<close> column of the given length.\<close>

definition fits :: "nat \<Rightarrow> string \<Rightarrow> bool" where
  "fits n t \<longleftrightarrow> length t \<le> n"

definition fits_null :: "nat \<Rightarrow> string option \<Rightarrow> bool" where
  "fits_null n t = (case t of None \<Rightarrow> True | Some x \<Rightarrow> fits n x)"

lemma fits_null_simps [simp]: "fits_null n None" "fits_null n (Some x) = fits n x"
  by (simp_all add: fits_null_def)


definition lower_char :: "char \<Rightarrow> char" where
  "lower_char c = (let n = (of_char c :: nat) in if 65 \<le> n \<and> n \<le> 90 then char_of (n + 32) else c)"

definition toLowerCase :: "string \<Rightarrow> string" where
  "toLowerCase s = map lower_char s"

lemma lower_char_idem [simp]: "lower_char (lower_char c) = lower_char c"
  by (auto simp: lower_char_def Let_def)

lemma toLowerCase_idem [simp]: "toLowerCase (toLowerCase s) = toLowerCase s"
  by (simp add: toLowerCase_def)

text \<open>A text between single quotation marks, as the error messages print it.\<close>

definition quoted :: "string \<Rightarrow> string" where
  "quoted s = CHR 0x27 # s @ [CHR 0x27]"

text \<open>\<^verbatim>\<open>s.split(',')\<close>: the empty string splits into one empty piece.\<close>

fun split_on :: "char \<Rightarrow> string \<Rightarrow> string list" where
  "split_on d [] = [[]]"
| "split_on d (c # cs) =
     (if c = d then [] # split_on d cs
      else case split_on d cs of [] \<Rightarrow> [[c]] | w # ws \<Rightarrow> (c # w) # ws)"

text \<open>\<^verbatim>\<open>ws.join(',')\<close>.\<close>

fun join_with :: "string \<Rightarrow> string list \<Rightarrow> string" where
  "join_with d [] = []"
| "join_with d [w] = w"
| "join_with d (w # v # ws) = w @ d @ join_with d (v # ws)"

lemma split_on_not_Nil [simp]: "split_on d s \<noteq> []"
  by (induction s) (auto split: list.splits)

lemma split_on_plain: "d \<notin> set w \<Longrightarrow> split_on d w = [w]"
  by (induction w) auto

lemma split_on_append_sep:
  "d \<notin> set w \<Longrightarrow> split_on d (w @ d # s) = w # split_on d s"
  by (induction w) auto

lemma split_join:
  "ws \<noteq> [] \<Longrightarrow> \<forall>w \<in> set ws. d \<notin> set w \<Longrightarrow> split_on d (join_with [d] ws) = ws"
proof (induction ws rule: induct_list012)
  case (3 w v ws)
  then show ?case by (simp add: split_on_append_sep)
qed (auto simp: split_on_plain)

text \<open>Two texts with a separator after a separator-free head agree only componentwise.\<close>

lemma sep_append_inject:
  "d \<notin> set a \<Longrightarrow> d \<notin> set b \<Longrightarrow> a @ d # s = b @ d # t \<longleftrightarrow> a = b \<and> s = t"
proof (induction a arbitrary: b)
  case Nil
  then show ?case by (cases b) auto
next
  case (Cons x a)
  then show ?case by (cases b) auto
qed

subsection \<open>Decimal numerals\<close>

definition digit_char :: "nat \<Rightarrow> char" where
  "digit_char d = char_of (48 + d)"

definition is_digit :: "char \<Rightarrow> bool" where
  "is_digit c = (let n = (of_char c :: nat) in 48 \<le> n \<and> n \<le> 57)"

definition digit_val :: "char \<Rightarrow> nat" where
  "digit_val c = of_char c - 48"

fun show_nat :: "nat \<Rightarrow> string" where
  "show_nat n =
     (if n < 10 then [digit_char n] else show_nat (n div 10) @ [digit_char (n mod 10)])"

declare show_nat.simps [simp del]

definition read_digits :: "string \<Rightarrow> nat" where
  "read_digits s = foldl (\<lambda>a c. 10 * a + digit_val c) 0 s"

lemma of_char_digit_char: "d < 10 \<Longrightarrow> (of_char (digit_char d) :: nat) = 48 + d"
  by (simp add: digit_char_def)

lemma is_digit_digit_char [simp]: "d < 10 \<Longrightarrow> is_digit (digit_char d)"
  by (simp add: is_digit_def of_char_digit_char)

lemma digit_val_digit_char [simp]: "d < 10 \<Longrightarrow> digit_val (digit_char d) = d"
  by (simp add: digit_val_def of_char_digit_char)

lemma show_nat_not_Nil [simp]: "show_nat n \<noteq> []"
  by (subst show_nat.simps) simp

lemma show_nat_digits: "\<forall>c \<in> set (show_nat n). is_digit c"
proof (induction n rule: show_nat.induct)
  case (1 n)
  then show ?case by (subst show_nat.simps) auto
qed

lemma read_digits_snoc [simp]: "read_digits (s @ [c]) = 10 * read_digits s + digit_val c"
  by (simp add: read_digits_def)

lemma read_show_nat [simp]: "read_digits (show_nat n) = n"
proof (induction n rule: show_nat.induct)
  case (1 n)
  show ?case
  proof (cases "n < 10")
    case True
    then show ?thesis by (subst show_nat.simps) (simp add: read_digits_def)
  next
    case False
    with 1 have "read_digits (show_nat (n div 10)) = n div 10" by simp
    with False show ?thesis by (subst show_nat.simps) simp
  qed
qed

text \<open>
  \<^verbatim>\<open>parseInt(s, 10)\<close>: leading white space and one sign are skipped, the longest run of digits
  is read, and no digit at all is NaN (\<^const>\<open>None\<close>).
\<close>

definition is_space :: "char \<Rightarrow> bool" where
  "is_space c = ((of_char c :: nat) \<in> {9, 10, 11, 12, 13, 32})"

definition parseInt :: "string \<Rightarrow> int option" where
  "parseInt s =
     (let t = dropWhile is_space s;
          neg = (t \<noteq> [] \<and> hd t = CHR ''-'');
          u = (if t \<noteq> [] \<and> (hd t = CHR ''-'' \<or> hd t = CHR ''+'') then tl t else t);
          ds = takeWhile is_digit u
      in if ds = [] then None
         else Some (if neg then - int (read_digits ds) else int (read_digits ds)))"

lemma digit_not_special:
  "is_digit c \<Longrightarrow> \<not> is_space c \<and> c \<noteq> CHR ''-'' \<and> c \<noteq> CHR ''+''"
  by (auto simp: is_digit_def is_space_def Let_def)

lemma parseInt_show_nat [simp]: "parseInt (show_nat n) = Some (int n)"
proof -
  obtain c cs where s: "show_nat n = c # cs"
    using show_nat_not_Nil [of n] by (cases "show_nat n") auto
  have dig: "is_digit c" "\<forall>x \<in> set (c # cs). is_digit x"
    using show_nat_digits [of n] s by auto
  have tw: "takeWhile is_digit (show_nat n) = show_nat n"
    using show_nat_digits [of n] by (simp add: takeWhile_eq_all_conv)
  show ?thesis
    using digit_not_special [OF dig(1)] dig tw read_show_nat [of n]
    unfolding s by (simp add: parseInt_def Let_def takeWhile_eq_all_conv [THEN iffD2])
qed

text \<open>\<^verbatim>\<open>parseInt(s, 10) || d\<close>: both NaN and 0 are falsy.\<close>

definition parseInt_or :: "string \<Rightarrow> int \<Rightarrow> int" where
  "parseInt_or s d = (case parseInt s of None \<Rightarrow> d | Some n \<Rightarrow> if n = 0 then d else n)"

subsection \<open>Lists\<close>

lemma find_append:
  "find P (xs @ ys) = (case find P xs of None \<Rightarrow> find P ys | Some x \<Rightarrow> Some x)"
  by (induction xs) auto

lemma find_SomeD: "find P xs = Some x \<Longrightarrow> x \<in> set xs \<and> P x"
  by (auto simp: find_Some_iff)

lemma find_cong_set: "(\<And>x. x \<in> set xs \<Longrightarrow> P x = Q x) \<Longrightarrow> find P xs = find Q xs"
  by (induction xs) auto

lemma find_unique:
  "distinct (map k xs) \<Longrightarrow> x \<in> set xs \<Longrightarrow> find (\<lambda>y. k y = k x) xs = Some x"
  by (induction xs) (auto simp: image_iff)

lemma distinct_map_eq:
  "distinct (map k xs) \<Longrightarrow> x \<in> set xs \<Longrightarrow> y \<in> set xs \<Longrightarrow> k x = k y \<Longrightarrow> x = y"
  by (auto simp: distinct_map dest: inj_onD)

end
