(* ===== verification/Data_Store.thy ===== *)
theory Data_Store
  imports Chassis_Prelude
begin

text \<open>
  The state the services keep outside their processes: SQL tables (lists of rows in physical
  order), the Redis keyspace (values with an optional expiry instant) and the log of messages
  handed to the RabbitMQ channel. The operations are the ones the sources call on their
  repositories, on the Redis client and on \<^verbatim>\<open>RabbitMqPublisherService\<close>; what the components
  rely on is stated as two interfaces, \<open>keyed_store\<close> and \<open>ttl_store\<close>, and one for the publisher,
  \<open>event_log\<close>.
\<close>

subsection \<open>Tables\<close>

text \<open>\<^verbatim>\<open>repo.save(row)\<close> on a row with its primary key: replaces the stored row, else inserts.\<close>

definition save_row :: "('r \<Rightarrow> 'k) \<Rightarrow> 'r \<Rightarrow> 'r list \<Rightarrow> 'r list" where
  "save_row key r t =
     (if \<exists>x \<in> set t. key x = key r then map (\<lambda>x. if key x = key r then r else x) t else t @ [r])"

text \<open>A column of an \<^verbatim>\<open>UPDATE\<close> that writes the columns in which an entity differs from the row selected
  before it: what the row ends with.\<close>

definition changed :: "('r \<Rightarrow> 'v) \<Rightarrow> 'r \<Rightarrow> 'r \<Rightarrow> 'r \<Rightarrow> 'v" where
  "changed col selected entity row = (if col entity = col selected then col row else col entity)"

lemma changed_selected [simp]: "changed col row entity row = col entity"
  by (simp add: changed_def)

lemma changed_cases: "changed col selected entity row = col row \<or> changed col selected entity row = col entity"
  by (simp add: changed_def)

text \<open>\<^verbatim>\<open>repo.update(where, patch)\<close> and \<^verbatim>\<open>repo.delete(where)\<close>.\<close>

definition update_where :: "('r \<Rightarrow> bool) \<Rightarrow> ('r \<Rightarrow> 'r) \<Rightarrow> 'r list \<Rightarrow> 'r list" where
  "update_where p f t = map (\<lambda>x. if p x then f x else x) t"

definition delete_where :: "('r \<Rightarrow> bool) \<Rightarrow> 'r list \<Rightarrow> 'r list" where
  "delete_where p t = filter (\<lambda>x. \<not> p x) t"

definition unique_on :: "('r \<Rightarrow> 'k) \<Rightarrow> 'r list \<Rightarrow> bool" where
  "unique_on key t = distinct (map key t)"

lemma unique_on_Nil [simp]: "unique_on key []"
  by (simp add: unique_on_def)

lemma unique_on_snoc [simp]:
  "unique_on key (t @ [r]) \<longleftrightarrow> unique_on key t \<and> key r \<notin> key ` set t"
  by (auto simp: unique_on_def)

lemma map_key_replace:
  "map key (map (\<lambda>x. if key x = key r then r else x) t) = map key t"
  by (induction t) auto

lemma unique_save_row [chassis_store]: "unique_on key t \<Longrightarrow> unique_on key (save_row key r t)"
  unfolding save_row_def by (auto simp: unique_on_def map_key_replace simp del: map_map)

lemma unique_save_row_other:
  assumes "unique_on key2 t" "\<forall>x \<in> set t. key x \<noteq> key r \<longrightarrow> key2 x \<noteq> key2 r"
    and "unique_on key t"
  shows "unique_on key2 (save_row key r t)"
proof (cases "\<exists>x \<in> set t. key x = key r")
  case False
  with assms show ?thesis by (auto simp: save_row_def)
next
  case True
  have "distinct (map key2 (map (\<lambda>x. if key x = key r then r else x) t))"
    using assms
  proof (induction t)
    case (Cons a t)
    then show ?case
      by (auto simp: unique_on_def image_iff)
  qed simp
  with True show ?thesis by (simp add: save_row_def unique_on_def)
qed

lemma set_save_row:
  "unique_on key t \<Longrightarrow> set (save_row key r t) = insert r {x \<in> set t. key x \<noteq> key r}"
  by (auto simp: save_row_def)

lemma in_save_row: "x \<in> set (save_row key r t) \<Longrightarrow> x = r \<or> x \<in> set t"
  by (auto simp: save_row_def split: if_splits)

lemma find_save_row [chassis_store]:
  "find (\<lambda>x. key x = k) (save_row key r t) = (if k = key r then Some r else find (\<lambda>x. key x = k) t)"
proof -
  have same: "find (\<lambda>x. key x = key r) (map (\<lambda>x. if key x = key r then r else x) t) = Some r"
    if "\<exists>x \<in> set t. key x = key r" for t
    using that by (induction t) auto
  have other: "find (\<lambda>x. key x = k) (map (\<lambda>x. if key x = key r then r else x) t)
      = find (\<lambda>x. key x = k) t" if "k \<noteq> key r" for t
    using that by (induction t) auto
  have none: "find (\<lambda>x. key x = key r) t = None" if "\<not> (\<exists>x \<in> set t. key x = key r)"
    using that by (auto simp: find_None_iff)
  show ?thesis
    using same other none by (auto simp: save_row_def find_append split: option.splits)
qed

lemma save_row_same: "unique_on key t \<Longrightarrow> r \<in> set t \<Longrightarrow> save_row key r t = t"
proof -
  assume u: "unique_on key t" and r: "r \<in> set t"
  have "map (\<lambda>x. if key x = key r then r else x) t = t"
    using u r by (intro map_idI) (metis distinct_map_eq unique_on_def)
  with r show ?thesis by (auto simp: save_row_def)
qed

lemma save_row_last:
  "\<forall>x \<in> set t. key x \<noteq> key r \<Longrightarrow> key r0 = key r \<Longrightarrow> save_row key r (t @ [r0]) = t @ [r]"
  by (auto simp: save_row_def intro: map_idI)

text \<open>A query by another column finds the saved row where it found the one it replaces.\<close>

lemma find_replaced:
  assumes "unique_on key t" "find (\<lambda>x. col x = c) t = Some r" "key r = key r'" "col r = col r'"
  shows "find (\<lambda>x. col x = c) (save_row key r' t) = Some r'"
proof -
  have r: "r \<in> set t" "col r = c" using find_SomeD [OF assms(2)] by auto
  have "find (\<lambda>x. col x = c) (map (\<lambda>x. if key x = key r' then r' else x) t) = Some r'"
    using assms(1,2) r
  proof (induction t)
    case (Cons x t)
    then show ?case using assms(3,4) by (auto simp: unique_on_def image_iff split: if_splits)
  qed simp
  moreover have "\<exists>x \<in> set t. key x = key r'" using r(1) assms(3) by auto
  ultimately show ?thesis by (simp add: save_row_def)
qed

text \<open>Saving a changed copy of a stored row by its primary key is saving it by any other unique key
  the change leaves alone.\<close>

lemma save_row_key_swap:
  assumes "unique_on k1 t" "unique_on k2 t" "r0 \<in> set t" "k1 r0 = k1 r" "k2 r0 = k2 r"
  shows "save_row k1 r t = save_row k2 r t"
proof -
  have "k1 x = k1 r \<longleftrightarrow> k2 x = k2 r" if "x \<in> set t" for x
    using that assms distinct_map_eq [of k1 t x r0] distinct_map_eq [of k2 t x r0]
    by (auto simp: unique_on_def)
  then show ?thesis using assms(3-5) by (auto simp: save_row_def)
qed

lemma set_update_where: "set (update_where p f t) = f ` {x \<in> set t. p x} \<union> {x \<in> set t. \<not> p x}"
  by (auto simp: update_where_def)

lemma unique_update_where [chassis_store]:
  "(\<And>x. key (f x) = key x) \<Longrightarrow> unique_on key (update_where p f t) = unique_on key t"
proof -
  assume k: "\<And>x. key (f x) = key x"
  have "map key (update_where p f t) = map key t"
    by (simp add: update_where_def k)
  then show ?thesis by (simp add: unique_on_def)
qed

lemma find_update_where [chassis_store]:
  assumes "\<And>x. key (f x) = key x"
  shows "find (\<lambda>x. key x = k) (update_where p f t) =
    map_option (\<lambda>x. if p x then f x else x) (find (\<lambda>x. key x = k) t)"
  using assms by (induction t) (auto simp: update_where_def)

lemma set_delete_where [simp]: "set (delete_where p t) = {x \<in> set t. \<not> p x}"
  by (auto simp: delete_where_def)

lemma unique_delete_where [chassis_store]: "unique_on key t \<Longrightarrow> unique_on key (delete_where p t)"
  by (induction t) (auto simp: unique_on_def delete_where_def)

text \<open>What a component relies on when it keeps rows by a key.\<close>

locale keyed_store =
  fixes key :: "'r \<Rightarrow> 'k"
    and lookup :: "'k \<Rightarrow> 't \<Rightarrow> 'r option"
    and save :: "'r \<Rightarrow> 't \<Rightarrow> 't"
    and rows :: "'t \<Rightarrow> 'r set"
    and invar :: "'t \<Rightarrow> bool"
  assumes lookup_iff: "invar t \<Longrightarrow> lookup k t = Some r \<longleftrightarrow> r \<in> rows t \<and> key r = k"
    and lookup_save: "invar t \<Longrightarrow> lookup k (save r t) = (if k = key r then Some r else lookup k t)"
    and invar_save: "invar t \<Longrightarrow> invar (save r t)"
begin

lemma lookup_save_same: "invar t \<Longrightarrow> lookup (key r) (save r t) = Some r"
  by (simp add: lookup_save)

lemma rows_save: "invar t \<Longrightarrow> rows (save r t) = insert r {x \<in> rows t. key x \<noteq> key r}"
proof -
  assume t: "invar t"
  have "x \<in> rows (save r t) \<longleftrightarrow> x = r \<or> x \<in> rows t \<and> key x \<noteq> key r" for x
    using lookup_iff [OF invar_save [OF t], of "key x" r x] lookup_iff [OF t, of "key x" x]
    by (auto simp: lookup_iff [OF invar_save [OF t], symmetric] lookup_save [OF t] lookup_iff [OF t]
        split: if_splits)
  then show ?thesis by auto
qed

lemma save_overwrites:
  "invar t \<Longrightarrow> key r' = key r \<Longrightarrow> rows (save r' (save r t)) = rows (save r' t)"
  by (auto simp: rows_save invar_save)

lemma save_frame: "invar t \<Longrightarrow> key x \<noteq> key r \<Longrightarrow> x \<in> rows (save r t) \<longleftrightarrow> x \<in> rows t"
  by (auto simp: rows_save)

lemma row_keys_unique: "invar t \<Longrightarrow> x \<in> rows t \<Longrightarrow> y \<in> rows t \<Longrightarrow> key x = key y \<Longrightarrow> x = y"
  by (metis lookup_iff option.inject)

end

text \<open>Every table with a unique key is such a store; the component theories instantiate it.\<close>

lemma table_keyed_store:
  "keyed_store key (\<lambda>k. find (\<lambda>x. key x = k)) (save_row key) set (unique_on key)"
proof
  fix t :: "'a list" and k r
  assume t: "unique_on key t"
  show "find (\<lambda>x. key x = k) t = Some r \<longleftrightarrow> r \<in> set t \<and> key r = k"
    using t find_unique [of key t r] find_SomeD [of "\<lambda>x. key x = k" t r]
    by (auto simp: unique_on_def)
qed (simp_all add: find_save_row unique_save_row)

subsection \<open>Redis\<close>

type_synonym keyspace = "string \<rightharpoonup> string \<times> instant option"

definition redis_get :: "instant \<Rightarrow> string \<Rightarrow> keyspace \<Rightarrow> string option" where
  "redis_get now k ks =
     (case ks k of None \<Rightarrow> None
      | Some (v, None) \<Rightarrow> Some v
      | Some (v, Some e) \<Rightarrow> if now < e then Some v else None)"

definition redis_setex :: "instant \<Rightarrow> string \<Rightarrow> int \<Rightarrow> string \<Rightarrow> keyspace \<Rightarrow> keyspace" where
  "redis_setex now k ttl v ks = ks(k \<mapsto> (v, Some (now + ttl * 1000)))"

definition redis_del :: "string list \<Rightarrow> keyspace \<Rightarrow> keyspace" where
  "redis_del xs ks = (\<lambda>k. if k \<in> set xs then None else ks k)"

definition redis_expire :: "instant \<Rightarrow> string \<Rightarrow> int \<Rightarrow> keyspace \<Rightarrow> keyspace" where
  "redis_expire now k ttl ks =
     (case redis_get now k ks of None \<Rightarrow> ks(k := None)
      | Some v \<Rightarrow> ks(k \<mapsto> (v, Some (now + ttl * 1000))))"

text \<open>
  \<^verbatim>\<open>INCR\<close> keeps the key's expiry; a missing or expired key counts from 0 without expiry; a value
  that is not a number is the server's error.
\<close>

definition redis_incr :: "instant \<Rightarrow> string \<Rightarrow> keyspace \<Rightarrow> (nat \<times> keyspace) result" where
  "redis_incr now k ks =
     (case redis_get now k ks of
        None \<Rightarrow> Inr (1, ks(k \<mapsto> (show_nat 1, None)))
      | Some v \<Rightarrow>
          if v \<noteq> [] \<and> list_all is_digit v
          then Inr (read_digits v + 1, ks(k \<mapsto> (show_nat (read_digits v + 1), snd (the (ks k)))))
          else Inl (JsError ''ERR value is not an integer or out of range''))"

locale ttl_store =
  fixes get :: "instant \<Rightarrow> string \<Rightarrow> 's \<Rightarrow> string option"
    and setex :: "instant \<Rightarrow> string \<Rightarrow> int \<Rightarrow> string \<Rightarrow> 's \<Rightarrow> 's"
    and del :: "string list \<Rightarrow> 's \<Rightarrow> 's"
  assumes get_setex: "get now' k' (setex now k ttl v s) =
      (if k' = k then (if now' < now + ttl * 1000 then Some v else None) else get now' k' s)"
    and get_del: "get now k (del ks s) = (if k \<in> set ks then None else get now k s)"
    and get_antimono: "now \<le> now' \<Longrightarrow> get now' k s = Some v \<Longrightarrow> get now k s = Some v"
begin

lemma get_setex_live: "now' < now + ttl * 1000 \<Longrightarrow> get now' k (setex now k ttl v s) = Some v"
  by (simp add: get_setex)

lemma get_setex_expired: "now + ttl * 1000 \<le> now' \<Longrightarrow> get now' k (setex now k ttl v s) = None"
  by (simp add: get_setex)

lemma missing_stays_missing: "now \<le> now' \<Longrightarrow> get now k s = None \<Longrightarrow> get now' k s = None"
  by (metis get_antimono not_None_eq option.distinct(1))

lemma del_setex_other: "k' \<noteq> k \<Longrightarrow> get now' k' (del [k] (setex now k ttl v s)) = get now' k' s"
  by (simp add: get_del get_setex)

end

interpretation redis: ttl_store redis_get redis_setex redis_del
proof
  fix now now' :: instant and k k' :: string and ttl v ks and s :: keyspace
  show "redis_get now' k' (redis_setex now k ttl v s) =
      (if k' = k then (if now' < now + ttl * 1000 then Some v else None) else redis_get now' k' s)"
    by (simp add: redis_get_def redis_setex_def)
  show "redis_get now k (redis_del ks s) = (if k \<in> set ks then None else redis_get now k s)"
    by (simp add: redis_get_def redis_del_def)
  show "now \<le> now' \<Longrightarrow> redis_get now' k s = Some v \<Longrightarrow> redis_get now k s = Some v"
    by (auto simp: redis_get_def split: option.splits if_splits)
qed

declare redis.get_setex [chassis_store] redis.get_del [chassis_store]

subsection \<open>Event publisher\<close>

record bus_msg =
  exchange :: string
  routingKey :: string
  payload :: json

text \<open>
  \<open>channel\<close> is \<^verbatim>\<open>this.channel !== null\<close>; \<open>rejects\<close> says for which messages the AMQP library's
  \<^verbatim>\<open>channel.publish\<close> throws; \<open>published\<close> is what the channel accepted, in order.
\<close>

record bus =
  channel :: bool
  rejects :: "bus_msg \<Rightarrow> bool"
  published :: "bus_msg list"

text \<open>
  \<^verbatim>\<open>onModuleInit\<close>: the channel is assigned once connecting and creating it succeeded; a failing
  \<^verbatim>\<open>assertExchange\<close> afterwards is logged and leaves it assigned.
\<close>

definition onModuleInit :: "bool \<Rightarrow> bool \<Rightarrow> bus \<Rightarrow> bus" where
  "onModuleInit connect_ok create_ok b =
     (if connect_ok \<and> create_ok then b\<lparr>channel := True\<rparr> else b)"

definition publish :: "string \<Rightarrow> string \<Rightarrow> json \<Rightarrow> bus \<Rightarrow> bus" where
  "publish ex rk msg b =
     (if \<not> channel b then b
      else let m = \<lparr>exchange = ex, routingKey = rk, payload = msg\<rparr>
           in if rejects b m then b else b\<lparr>published := published b @ [m]\<rparr>)"

definition isConnected :: "bus \<Rightarrow> bool" where
  "isConnected b = channel b"

text \<open>A publisher whose channel works.\<close>

definition bus_up :: "bus \<Rightarrow> bool" where
  "bus_up b \<longleftrightarrow> channel b \<and> (\<forall>m. \<not> rejects b m)"

text \<open>What handlers rely on: publishing never fails and only ever appends.\<close>

locale event_log =
  fixes emit :: "string \<Rightarrow> string \<Rightarrow> json \<Rightarrow> 'b \<Rightarrow> 'b"
    and log :: "'b \<Rightarrow> bus_msg list"
    and up :: "'b \<Rightarrow> bool"
  assumes emit_up: "up b \<Longrightarrow>
      log (emit ex rk p b) = log b @ [\<lparr>exchange = ex, routingKey = rk, payload = p\<rparr>]"
    and emit_appends: "\<exists>ms. log (emit ex rk p b) = log b @ ms \<and> length ms \<le> 1"
    and up_emit: "up (emit ex rk p b) = up b"
begin

lemma emit_keeps: "m \<in> set (log b) \<Longrightarrow> m \<in> set (log (emit ex rk p b))"
  using emit_appends [of ex rk p b] by auto

lemma emit_twice_up: "up b \<Longrightarrow> log (emit e2 r2 p2 (emit e1 r1 p1 b)) =
    log b @ [\<lparr>exchange = e1, routingKey = r1, payload = p1\<rparr>,
             \<lparr>exchange = e2, routingKey = r2, payload = p2\<rparr>]"
  by (simp add: emit_up up_emit)

lemma emitted_only: "m \<in> set (log (emit ex rk p b)) \<Longrightarrow> m \<notin> set (log b) \<Longrightarrow>
    up b \<Longrightarrow> exchange m = ex \<and> routingKey m = rk \<and> payload m = p"
  by (auto simp: emit_up)

end

interpretation pub: event_log publish published bus_up
proof
  fix ex rk p b
  show "bus_up b \<Longrightarrow>
      published (publish ex rk p b) = published b @ [\<lparr>exchange = ex, routingKey = rk, payload = p\<rparr>]"
    by (simp add: bus_up_def publish_def)
  show "\<exists>ms. published (publish ex rk p b) = published b @ ms \<and> length ms \<le> 1"
    by (auto simp: publish_def Let_def)
  show "bus_up (publish ex rk p b) = bus_up b"
    by (simp add: bus_up_def publish_def Let_def)
qed

lemma channel_publish [simp]: "channel (publish ex rk p b) = channel b"
  by (simp add: publish_def Let_def)

lemma rejects_publish [simp]: "rejects (publish ex rk p b) = rejects b"
  by (simp add: publish_def Let_def)

lemma publish_down [simp]: "\<not> channel b \<Longrightarrow> publish ex rk p b = b"
  by (simp add: publish_def)

end
