(* ===== verification/Tenant_Entities.thy ===== *)
theory Tenant_Entities
  imports Data_Store
begin

text \<open>
  The data of the tenant manager (\<^verbatim>\<open>services/tenant-manager\<close>): its four entities, the state the
  service works on, the integrity constraints of \<^verbatim>\<open>migrations/tenants\<close>, and the read side of
  the plan catalogue (\<^verbatim>\<open>plans.service.ts\<close>).
\<close>

subsection \<open>Entities\<close>

datatype tenantStatus =
  TS_provisioning | TS_active | TS_suspended | TS_cancelled | TS_past_due | TS_archived

record tenant =
  t_id :: uuid
  t_name :: string
  t_slug :: string
  t_status :: tenantStatus
  t_stripeCustomerId :: "string option"
  t_currentPlan :: string
  t_metadata :: json
  t_enabledFeatures :: "string list"
  t_adminEmail :: string
  t_phone :: "string option"
  t_address :: "string option"
  t_trialEndsAt :: "instant option"
  t_suspendedAt :: "instant option"
  t_cancelledAt :: "instant option"
  t_createdAt :: instant
  t_updatedAt :: instant

datatype featureCategory = FC_core | FC_addon | FC_premium

record featureDefinition =
  fd_id :: uuid
  fd_code :: string
  fd_name :: string
  fd_description :: "string option"
  fd_category :: featureCategory
  fd_defaultEnabled :: bool
  fd_requiresPlan :: "string option"
  fd_createdAt :: instant

record tenantFeature =
  tf_id :: uuid
  tf_tenantId :: uuid
  tf_featureCode :: string
  tf_isEnabled :: bool
  tf_enabledBy :: "uuid option"
  tf_enabledAt :: instant

record plan =
  p_id :: uuid
  p_code :: string
  p_name :: string
  p_description :: "string option"
  p_priceMonthly :: "rat option"
  p_priceYearly :: "rat option"
  p_stripePriceIdMonthly :: "string option"
  p_stripePriceIdYearly :: "string option"
  p_maxUsers :: "int option"
  p_maxUnits :: "int option"
  p_includedFeatures :: "string list"
  p_isActive :: bool
  p_sortOrder :: int
  p_createdAt :: instant
  p_updatedAt :: instant

text \<open>A call to another service over HTTP, as \<^verbatim>\<open>fetch\<close> sends it.\<close>

record http_request =
  rq_url :: string
  rq_method :: string
  rq_headers :: "(string \<times> string) list"
  rq_body :: json

record tm_state =
  tenants :: "tenant list"
  tenantFeatures :: "tenantFeature list"
  featureDefs :: "featureDefinition list"
  plans :: "plan list"
  tm_redis :: keyspace
  tm_bus :: bus
  tm_requests :: "http_request list"

text \<open>
  What the code takes from its environment: the clock, the clock of the Redis server when a check fills
  the cache (the statements before it take time of their own), the identifiers the database generates,
  the third-party functions it calls (\<^verbatim>\<open>uuidv4\<close>, \<^verbatim>\<open>slugify\<close>, parsing of a date text), the Redis
  server's replies to \<^verbatim>\<open>SCAN\<close>, the configuration, the UUID check of \<^verbatim>\<open>ParseUUIDPipe\<close> and the texts PostgreSQL reads as
  a \<^verbatim>\<open>uuid\<close>.
\<close>

record tm_env =
  tm_now :: instant
  tm_cacheNow :: instant
  newTenantId :: uuid
  newFeatureId :: "uuid \<Rightarrow> string \<Rightarrow> uuid"
  uuidv4 :: string
  slugify :: "string \<Rightarrow> string"
  parseDate :: "string \<Rightarrow> instant"
  scan :: "keyspace \<Rightarrow> string \<Rightarrow> nat \<Rightarrow> nat \<times> string list"
  identityServiceUrl :: "string option"
  internalServiceToken :: "string option"
  isUUID :: "string \<Rightarrow> bool"
  tm_pgUuid :: "string \<Rightarrow> bool"

subsection \<open>Events\<close>

text \<open>The event classes of \<^verbatim>\<open>tenant-provisioned.event.ts\<close>, as serialised; the constructor stamps the time.\<close>

definition TenantProvisionedEvent :: "instant \<Rightarrow> uuid \<Rightarrow> string \<Rightarrow> string \<Rightarrow> string \<Rightarrow> json" where
  "TenantProvisionedEvent now tenantId slug plan adminEmail =
     JObj [(''tenantId'', JStr tenantId), (''slug'', JStr slug), (''plan'', JStr plan),
           (''adminEmail'', JStr adminEmail), (''timestamp'', JTime now)]"

definition TenantSuspendedEvent :: "instant \<Rightarrow> uuid \<Rightarrow> string field \<Rightarrow> json" where
  "TenantSuspendedEvent now tenantId reason =
     JObj ([(''tenantId'', JStr tenantId)] @ json_field ''reason'' reason @ [(''timestamp'', JTime now)])"

definition TenantPlanChangedEvent :: "instant \<Rightarrow> uuid \<Rightarrow> string \<Rightarrow> string \<Rightarrow> json" where
  "TenantPlanChangedEvent now tenantId oldPlan newPlan =
     JObj [(''tenantId'', JStr tenantId), (''oldPlan'', JStr oldPlan), (''newPlan'', JStr newPlan),
           (''timestamp'', JTime now)]"

definition TenantFeatureToggledEvent :: "instant \<Rightarrow> uuid \<Rightarrow> string \<Rightarrow> bool \<Rightarrow> json" where
  "TenantFeatureToggledEvent now tenantId featureCode enabled =
     JObj [(''tenantId'', JStr tenantId), (''featureCode'', JStr featureCode), (''enabled'', JBool enabled),
           (''timestamp'', JTime now)]"

subsection \<open>Integrity constraints\<close>

abbreviation find_tenant :: "uuid \<Rightarrow> tm_state \<Rightarrow> tenant option" where
  "find_tenant i s \<equiv> find (\<lambda>t. t_id t = i) (tenants s)"

abbreviation find_override :: "uuid \<Rightarrow> string \<Rightarrow> tm_state \<Rightarrow> tenantFeature option" where
  "find_override t c s \<equiv> find (\<lambda>f. tf_tenantId f = t \<and> tf_featureCode f = c) (tenantFeatures s)"

abbreviation find_definition :: "string \<Rightarrow> tm_state \<Rightarrow> featureDefinition option" where
  "find_definition c s \<equiv> find (\<lambda>d. fd_code d = c) (featureDefs s)"

abbreviation tf_key :: "tenantFeature \<Rightarrow> uuid \<times> string" where
  "tf_key f \<equiv> (tf_tenantId f, tf_featureCode f)"

text \<open>
  Inserting a tenant with a text longer than its column fails with SQLSTATE 22001, before the
  constraints are looked at; it violates \<^verbatim>\<open>uq_tenant_slug\<close> or the primary key with 23505; a feature
  row violates \<^verbatim>\<open>uq_tenant_feature\<close> or the primary key with 23505 and a foreign key with 23503.
\<close>

definition tenant_fits :: "tenant \<Rightarrow> bool" where
  "tenant_fits t \<longleftrightarrow> fits 200 (t_name t) \<and> fits 100 (t_slug t) \<and> fits_null 100 (t_stripeCustomerId t) \<and>
     fits 50 (t_currentPlan t) \<and> fits 320 (t_adminEmail t) \<and> fits_null 20 (t_phone t)"

definition insert_tenant :: "tenant \<Rightarrow> tm_state \<Rightarrow> tm_state result" where
  "insert_tenant t s =
     (if \<not> tenant_fits t then Inl (QueryFailed ''22001'')
      else if \<exists>x \<in> set (tenants s). t_id x = t_id t \<or> t_slug x = t_slug t then Inl (QueryFailed ''23505'')
      else Inr (s\<lparr>tenants := tenants s @ [t]\<rparr>))"

definition insert_feature :: "tenantFeature \<Rightarrow> tm_state \<Rightarrow> tm_state result" where
  "insert_feature f s =
     (if \<exists>x \<in> set (tenantFeatures s). tf_id x = tf_id f \<or> tf_key x = tf_key f
      then Inl (QueryFailed ''23505'')
      else if find_definition (tf_featureCode f) s = None \<or> find_tenant (tf_tenantId f) s = None
      then Inl (QueryFailed ''23503'')
      else Inr (s\<lparr>tenantFeatures := tenantFeatures s @ [f]\<rparr>))"

definition save_tenant :: "instant \<Rightarrow> tenant \<Rightarrow> tm_state \<Rightarrow> tenant \<times> tm_state" where
  "save_tenant now t s =
     (let t' = (if find_tenant (t_id t) s = Some t then t else t\<lparr>t_updatedAt := now\<rparr>)
      in (t', s\<lparr>tenants := save_row t_id t' (tenants s)\<rparr>))"

definition tm_wf :: "tm_state \<Rightarrow> bool" where
  "tm_wf s \<longleftrightarrow>
     unique_on t_id (tenants s) \<and> unique_on t_slug (tenants s) \<and>
     unique_on tf_id (tenantFeatures s) \<and> unique_on tf_key (tenantFeatures s) \<and>
     unique_on fd_code (featureDefs s) \<and> unique_on p_code (plans s) \<and>
     (\<forall>f \<in> set (tenantFeatures s).
        find_definition (tf_featureCode f) s \<noteq> None \<and> find_tenant (tf_tenantId f) s \<noteq> None)"

interpretation tenants: keyed_store t_id "\<lambda>i. find (\<lambda>t. t_id t = i)" "save_row t_id" set "unique_on t_id"
  by (rule table_keyed_store)

interpretation overrides: keyed_store tf_key
  "\<lambda>k. find (\<lambda>f. tf_key f = k)" "save_row tf_key" set "unique_on tf_key"
  by (rule table_keyed_store)

lemma find_tenant_iff:
  "tm_wf s \<Longrightarrow> find_tenant i s = Some t \<longleftrightarrow> t \<in> set (tenants s) \<and> t_id t = i"
  by (rule tenants.lookup_iff) (simp add: tm_wf_def)

lemma find_override_iff:
  "tm_wf s \<Longrightarrow> find_override t c s = Some f \<longleftrightarrow>
    f \<in> set (tenantFeatures s) \<and> tf_tenantId f = t \<and> tf_featureCode f = c"
  using overrides.lookup_iff [of "tenantFeatures s" "(t, c)" f]
  by (simp add: tm_wf_def)

subsection \<open>Effects of the table operations\<close>

lemma save_tenant_simps [simp]:
  "tenantFeatures (snd (save_tenant now t s)) = tenantFeatures s"
  "featureDefs (snd (save_tenant now t s)) = featureDefs s"
  "plans (snd (save_tenant now t s)) = plans s"
  "tm_redis (snd (save_tenant now t s)) = tm_redis s"
  "tm_bus (snd (save_tenant now t s)) = tm_bus s"
  "tm_requests (snd (save_tenant now t s)) = tm_requests s"
  "t_id (fst (save_tenant now t s)) = t_id t"
  "t_slug (fst (save_tenant now t s)) = t_slug t"
  "t_name (fst (save_tenant now t s)) = t_name t"
  "t_status (fst (save_tenant now t s)) = t_status t"
  "t_currentPlan (fst (save_tenant now t s)) = t_currentPlan t"
  "t_enabledFeatures (fst (save_tenant now t s)) = t_enabledFeatures t"
  "t_suspendedAt (fst (save_tenant now t s)) = t_suspendedAt t"
  "t_cancelledAt (fst (save_tenant now t s)) = t_cancelledAt t"
  "t_stripeCustomerId (fst (save_tenant now t s)) = t_stripeCustomerId t"
  by (simp_all add: save_tenant_def Let_def)

lemma find_save_tenant:
  "find_tenant i (snd (save_tenant now t s)) =
    (if i = t_id t then Some (fst (save_tenant now t s)) else find_tenant i s)"
  by (simp add: save_tenant_def Let_def find_save_row)

text \<open>Storing a row that keeps its slug keeps the constraints.\<close>

lemma tm_wf_replace:
  assumes wf: "tm_wf s" and t: "find_tenant (t_id t) s = Some t0" and slug: "t_slug t = t_slug t0"
  shows "tm_wf (s\<lparr>tenants := save_row t_id t (tenants s)\<rparr>)"
proof -
  let ?s = "s\<lparr>tenants := save_row t_id t (tenants s)\<rparr>"
  have t0: "t0 \<in> set (tenants s)" "t_id t0 = t_id t"
    using t wf by (simp_all add: find_tenant_iff)
  have "unique_on t_slug (save_row t_id t (tenants s))"
  proof (rule unique_save_row_other)
    show "\<forall>x \<in> set (tenants s). t_id x \<noteq> t_id t \<longrightarrow> t_slug x \<noteq> t_slug t"
      using wf t0 slug by (auto simp: tm_wf_def unique_on_def dest: distinct_map_eq)
  qed (use wf in \<open>simp_all add: tm_wf_def\<close>)
  moreover have "find_tenant i ?s \<noteq> None" if "find_tenant i s \<noteq> None" for i
    using that by (simp add: find_save_row)
  ultimately show ?thesis
    using wf by (auto simp: tm_wf_def unique_save_row simp del: find_None_iff)
qed

lemma tm_wf_save_tenant:
  assumes "tm_wf s" "find_tenant (t_id t) s = Some t0" "t_slug t = t_slug t0"
  shows "tm_wf (snd (save_tenant now t s))"
proof -
  have "snd (save_tenant now t s) = s\<lparr>tenants := save_row t_id (fst (save_tenant now t s)) (tenants s)\<rparr>"
    by (simp add: save_tenant_def Let_def)
  then show ?thesis using tm_wf_replace [OF assms(1), of "fst (save_tenant now t s)" t0] assms(2,3) by simp
qed

lemma insert_feature_wf:
  "tm_wf s \<Longrightarrow> insert_feature f s = Inr s' \<Longrightarrow> tm_wf s'"
  unfolding insert_feature_def tm_wf_def
  by (fastforce simp: image_iff split: if_splits)

lemma insert_tenant_wf:
  assumes "tm_wf s" "insert_tenant t s = Inr s'"
  shows "tm_wf s'"
  using assms by (fastforce simp: insert_tenant_def tm_wf_def image_iff find_append
      split: if_splits option.splits)

subsection \<open>Plans\<close>

definition plans_findAll :: "tm_state \<Rightarrow> plan list" where
  "plans_findAll s = sort_key p_sortOrder (filter p_isActive (plans s))"

text \<open>The identifier is not checked before the query: the database refuses a text that is no \<^verbatim>\<open>uuid\<close>.\<close>

definition plans_findById :: "tm_env \<Rightarrow> string \<Rightarrow> tm_state \<Rightarrow> plan result" where
  "plans_findById e i s =
     (if \<not> tm_pgUuid e i then Inl (QueryFailed ''22P02'')
      else case find (\<lambda>p. p_id p = i) (plans s) of
        None \<Rightarrow> Inl (NotFound (''Plan with ID '' @ i @ '' not found''))
      | Some p \<Rightarrow> Inr p)"

text \<open>The plan \<^verbatim>\<open>findByCode\<close> builds when the catalogue has not even a free plan.\<close>

definition default_plan :: "instant \<Rightarrow> plan" where
  "default_plan now = \<lparr>p_id = ''default'', p_code = ''free'', p_name = ''Free'', p_description = None,
     p_priceMonthly = Some 0, p_priceYearly = None, p_stripePriceIdMonthly = None,
     p_stripePriceIdYearly = None, p_maxUsers = Some 5, p_maxUnits = Some 1,
     p_includedFeatures = [''module.financial_core'', ''module.universal_ledger''],
     p_isActive = True, p_sortOrder = 0, p_createdAt = now, p_updatedAt = now\<rparr>"

definition plans_findByCode :: "instant \<Rightarrow> string \<Rightarrow> tm_state \<Rightarrow> plan" where
  "plans_findByCode now code s =
     (case find (\<lambda>p. p_code p = code) (plans s) of
        Some p \<Rightarrow> p
      | None \<Rightarrow>
          (case find (\<lambda>p. p_code p = ''free'') (plans s) of
             Some p \<Rightarrow> p
           | None \<Rightarrow> default_plan now))"

lemma plans_findByCode_cong: "plans s = plans s' \<Longrightarrow> plans_findByCode now c s = plans_findByCode now c s'"
  unfolding plans_findByCode_def by (auto split: option.split)

lemma plans_findByCode_code:
  "p_code (plans_findByCode now c s) = c \<or> p_code (plans_findByCode now c s) = ''free''"
  by (auto simp: plans_findByCode_def default_plan_def split: option.splits dest: find_SomeD)

end
