(* ===== verification/Tenant_Features.thy ===== *)
theory Tenant_Features
  imports Tenant_Entities "HOL-Library.Sublist" "HOL-Library.Multiset"
begin

text \<open>
  \<^verbatim>\<open>features.service.ts\<close>: definitions, per-tenant overrides and the Redis cache in front of them.
  The main result is cache coherence: whatever the service answers from its cache is what the
  tables say, and toggling a feature or replacing a tenant's features keeps it so.
\<close>

definition cacheTtlSeconds :: int where
  "cacheTtlSeconds = 300"

definition cacheKey :: "uuid \<Rightarrow> string \<Rightarrow> string" where
  "cacheKey tenantId featureCode = ''feature:'' @ tenantId @ '':'' @ featureCode"

definition flag :: "bool \<Rightarrow> string" where
  "flag b = (if b then ''1'' else ''0'')"

subsection \<open>Queries\<close>

fun category_text :: "featureCategory \<Rightarrow> string" where
  "category_text FC_core = ''core''"
| "category_text FC_addon = ''addon''"
| "category_text FC_premium = ''premium''"

definition findAllDefinitions :: "tm_state \<Rightarrow> featureDefinition list" where
  "findAllDefinitions s = sort_key (\<lambda>d. category_text (fd_category d)) (sort_key fd_code (featureDefs s))"

definition findDefinitionByCode :: "string \<Rightarrow> tm_state \<Rightarrow> featureDefinition result" where
  "findDefinitionByCode c s =
     (case find_definition c s of
        None \<Rightarrow> Inl (NotFound (''Feature definition '' @ quoted c @ '' not found''))
      | Some d \<Rightarrow> Inr d)"

record featureWithStatus =
  fs_code :: string
  fs_name :: string
  fs_description :: "string option"
  fs_category :: featureCategory
  fs_defaultEnabled :: bool
  fs_requiresPlan :: "string option"
  fs_isEnabled :: bool
  fs_hasOverride :: bool

text \<open>\<^verbatim>\<open>new Map(overrides.map(...))\<close>: a later entry replaces an earlier one.\<close>

definition overrideMap :: "tenantFeature list \<Rightarrow> string \<rightharpoonup> tenantFeature" where
  "overrideMap os = foldl (\<lambda>m f. m(tf_featureCode f \<mapsto> f)) Map.empty os"

definition findTenantFeatures :: "uuid \<Rightarrow> tm_state \<Rightarrow> featureWithStatus list" where
  "findTenantFeatures tenantId s =
     (let m = overrideMap (filter (\<lambda>f. tf_tenantId f = tenantId) (tenantFeatures s))
      in map (\<lambda>d. \<lparr>fs_code = fd_code d, fs_name = fd_name d, fs_description = fd_description d,
                   fs_category = fd_category d, fs_defaultEnabled = fd_defaultEnabled d,
                   fs_requiresPlan = fd_requiresPlan d,
                   fs_isEnabled = (case m (fd_code d) of Some f \<Rightarrow> tf_isEnabled f
                                   | None \<Rightarrow> fd_defaultEnabled d),
                   fs_hasOverride = (m (fd_code d) \<noteq> None)\<rparr>)
           (findAllDefinitions s))"

text \<open>Cache first, then the override, then the definition's default.\<close>

definition isFeatureEnabled :: "tm_env \<Rightarrow> uuid \<Rightarrow> string \<Rightarrow> tm_state \<Rightarrow> bool \<times> tm_state" where
  "isFeatureEnabled e tenantId featureCode s =
     (let k = cacheKey tenantId featureCode in
      case redis_get (tm_now e) k (tm_redis s) of
        Some cached \<Rightarrow> (cached = ''1'', s)
      | None \<Rightarrow>
          (case find_override tenantId featureCode s of
             Some f \<Rightarrow>
               (tf_isEnabled f,
                s\<lparr>tm_redis := redis_setex (tm_cacheNow e) k cacheTtlSeconds (flag (tf_isEnabled f)) (tm_redis s)\<rparr>)
           | None \<Rightarrow>
               (let enabled = (case find_definition featureCode s of
                                 Some d \<Rightarrow> fd_defaultEnabled d | None \<Rightarrow> False)
                in (enabled,
                    s\<lparr>tm_redis := redis_setex (tm_cacheNow e) k cacheTtlSeconds (flag enabled) (tm_redis s)\<rparr>))))"

subsection \<open>Updates\<close>

definition toggleFeature ::
  "tm_env \<Rightarrow> uuid \<Rightarrow> string \<Rightarrow> bool \<Rightarrow> uuid \<Rightarrow> tm_state \<Rightarrow> tenantFeature result \<times> tm_state" where
  "toggleFeature e tenantId featureCode enabled userId s =
     (case find_definition featureCode s of
        None \<Rightarrow> (Inl (NotFound (''Feature '' @ quoted featureCode @ '' is not a known feature code'')), s)
      | Some _ \<Rightarrow>
          (let after_save = (\<lambda>f s1.
             let s2 = s1\<lparr>tm_redis := redis_del [cacheKey tenantId featureCode] (tm_redis s1)\<rparr>;
                 s3 = s2\<lparr>tm_bus := publish ''chassis.tenants'' ''tenant.feature-toggled''
                        (TenantFeatureToggledEvent (tm_now e) tenantId featureCode enabled) (tm_bus s2)\<rparr>
             in (Inr f, s3)) in
           case find_override tenantId featureCode s of
             Some f0 \<Rightarrow>
               (let f = f0\<lparr>tf_isEnabled := enabled, tf_enabledBy := Some userId\<rparr>
                in after_save f (s\<lparr>tenantFeatures := save_row tf_id f (tenantFeatures s)\<rparr>))
           | None \<Rightarrow>
               (let f = \<lparr>tf_id = newFeatureId e tenantId featureCode, tf_tenantId = tenantId,
                         tf_featureCode = featureCode, tf_isEnabled = enabled,
                         tf_enabledBy = Some userId, tf_enabledAt = tm_now e\<rparr>
                in case insert_feature f s of
                     Inl x \<Rightarrow> (Inl x, s)
                   | Inr s1 \<Rightarrow> after_save f s1)))"

fun bulkUpsertFeatures ::
  "tm_env \<Rightarrow> uuid \<Rightarrow> string list \<Rightarrow> bool \<Rightarrow> uuid \<Rightarrow> tm_state \<Rightarrow> unit result \<times> tm_state" where
  "bulkUpsertFeatures e tenantId [] enabled userId s = (Inr (), s)"
| "bulkUpsertFeatures e tenantId (c # cs) enabled userId s =
     (case find_override tenantId c s of
        Some f \<Rightarrow>
          bulkUpsertFeatures e tenantId cs enabled userId
            (s\<lparr>tenantFeatures := save_row tf_id
                 (f\<lparr>tf_isEnabled := enabled, tf_enabledBy := Some userId\<rparr>) (tenantFeatures s)\<rparr>)
      | None \<Rightarrow>
          (case insert_feature \<lparr>tf_id = newFeatureId e tenantId c, tf_tenantId = tenantId,
                 tf_featureCode = c, tf_isEnabled = enabled, tf_enabledBy = Some userId,
                 tf_enabledAt = tm_now e\<rparr> s of
             Inl x \<Rightarrow> (Inl x, s)
           | Inr s1 \<Rightarrow> bulkUpsertFeatures e tenantId cs enabled userId s1))"

text \<open>The insertion loop of \<^verbatim>\<open>replaceTenantFeatures\<close>; a failing insert leaves the rows before it.\<close>

fun insertFeatures ::
  "tm_env \<Rightarrow> uuid \<Rightarrow> string list \<Rightarrow> uuid \<Rightarrow> tm_state \<Rightarrow> unit result \<times> tm_state" where
  "insertFeatures e tenantId [] userId s = (Inr (), s)"
| "insertFeatures e tenantId (c # cs) userId s =
     (case insert_feature \<lparr>tf_id = newFeatureId e tenantId c, tf_tenantId = tenantId,
             tf_featureCode = c, tf_isEnabled = True, tf_enabledBy = Some userId,
             tf_enabledAt = tm_now e\<rparr> s of
        Inl x \<Rightarrow> (Inl x, s)
      | Inr s1 \<Rightarrow> insertFeatures e tenantId cs userId s1)"

definition replaceTenantFeatures ::
  "tm_env \<Rightarrow> uuid \<Rightarrow> string list \<Rightarrow> uuid \<Rightarrow> tm_state \<Rightarrow> unit result \<times> tm_state" where
  "replaceTenantFeatures e tenantId featureCodes userId s =
     insertFeatures e tenantId featureCodes userId
       (s\<lparr>tenantFeatures := delete_where (\<lambda>f. tf_tenantId f = tenantId) (tenantFeatures s)\<rparr>)"

text \<open>The \<^verbatim>\<open>do ... while (cursor !== 0)\<close> loop over \<^verbatim>\<open>SCAN\<close>; \<^const>\<open>None\<close> is a loop that never ends.\<close>

partial_function (option) scan_loop ::
  "(nat \<Rightarrow> nat \<times> string list) \<Rightarrow> nat \<Rightarrow> string list \<Rightarrow> string list option" where
  "scan_loop reply cursor keys =
     (let nextCursor = fst (reply cursor); keys' = keys @ snd (reply cursor)
      in if nextCursor = 0 then Some keys' else scan_loop reply nextCursor keys')"

definition tenant_prefix :: "uuid \<Rightarrow> string" where
  "tenant_prefix tenantId = ''feature:'' @ tenantId @ '':''"

definition invalidateTenantFeatureCache :: "tm_env \<Rightarrow> uuid \<Rightarrow> tm_state \<Rightarrow> tm_state option" where
  "invalidateTenantFeatureCache e tenantId s =
     (case scan_loop (scan e (tm_redis s) (tenant_prefix tenantId @ ''*'')) 0 [] of
        None \<Rightarrow> None
      | Some ks \<Rightarrow> Some (if ks = [] then s else s\<lparr>tm_redis := redis_del ks (tm_redis s)\<rparr>))"

subsection \<open>The scan loop\<close>

text \<open>The cursor the loop holds before its \<open>n\<close>-th request.\<close>

definition cursor_at :: "(nat \<Rightarrow> nat \<times> string list) \<Rightarrow> nat \<Rightarrow> nat" where
  "cursor_at reply n = ((\<lambda>c. fst (reply c)) ^^ n) 0"

lemma cursor_at_0 [simp]: "cursor_at reply 0 = 0"
  by (simp add: cursor_at_def)

lemma cursor_at_Suc: "cursor_at reply (Suc n) = fst (reply (cursor_at reply n))"
  by (simp add: cursor_at_def)

text \<open>
  What the server promises of an iteration: the cursor comes back to 0, for the first time after
  \<open>steps\<close> requests.
\<close>

locale scan_server =
  fixes reply :: "nat \<Rightarrow> nat \<times> string list" and steps :: nat
  assumes steps_pos: "0 < steps"
    and cursor_returns: "cursor_at reply steps = 0"
    and cursor_running: "0 < m \<Longrightarrow> m < steps \<Longrightarrow> cursor_at reply m \<noteq> 0"
begin

lemma loop_from:
  "m < steps \<Longrightarrow> scan_loop reply (cursor_at reply m) acc =
    Some (acc @ concat (map (\<lambda>j. snd (reply (cursor_at reply j))) [m..<steps]))"
proof (induction "steps - m" arbitrary: m acc)
  case 0
  then show ?case by simp
next
  case (Suc d)
  have up: "[m..<steps] = m # [Suc m..<steps]"
    using Suc.prems by (rule upt_conv_Cons)
  show ?case
  proof (cases "Suc m < steps")
    case True
    then have "fst (reply (cursor_at reply m)) \<noteq> 0"
      using cursor_running [of "Suc m"] by (simp add: cursor_at_Suc)
    moreover have "d = steps - Suc m" using Suc.hyps(2) by simp
    ultimately show ?thesis
      using Suc.hyps(1) [of "Suc m" "acc @ snd (reply (cursor_at reply m))"] True
      by (subst scan_loop.simps) (simp add: Let_def cursor_at_Suc up)
  next
    case False
    with Suc.prems have "steps = Suc m" by simp
    moreover from this have "fst (reply (cursor_at reply m)) = 0"
      using cursor_returns by (simp add: cursor_at_Suc)
    ultimately show ?thesis
      by (subst scan_loop.simps) (simp add: Let_def)
  qed
qed

lemma loop_returns:
  "scan_loop reply 0 [] = Some (concat (map (\<lambda>j. snd (reply (cursor_at reply j))) [0..<steps]))"
  using loop_from [of 0 "[]"] steps_pos by simp

end

text \<open>
  The documented guarantee of a full iteration for one pattern: it ends, every live key with the
  prefix is returned by one of the batches, and nothing else is.
\<close>

definition scan_complete ::
  "(nat \<Rightarrow> nat \<times> string list) \<Rightarrow> instant \<Rightarrow> keyspace \<Rightarrow> string \<Rightarrow> bool" where
  "scan_complete reply now ks pre \<longleftrightarrow>
     (\<exists>n. scan_server reply n \<and>
        (\<forall>k. prefix pre k \<longrightarrow> redis_get now k ks \<noteq> None \<longrightarrow>
           (\<exists>j<n. k \<in> set (snd (reply (cursor_at reply j))))) \<and>
        (\<forall>j<n. \<forall>k \<in> set (snd (reply (cursor_at reply j))). prefix pre k))"

lemma scan_completeE:
  assumes "scan_complete reply now ks pre"
  obtains keys where "scan_loop reply 0 [] = Some keys"
    and "\<And>k. prefix pre k \<Longrightarrow> redis_get now k ks \<noteq> None \<Longrightarrow> k \<in> set keys"
    and "\<And>k. k \<in> set keys \<Longrightarrow> prefix pre k"
proof -
  obtain n where n: "scan_server reply n"
    "\<forall>k. prefix pre k \<longrightarrow> redis_get now k ks \<noteq> None \<longrightarrow>
       (\<exists>j<n. k \<in> set (snd (reply (cursor_at reply j))))"
    "\<forall>j<n. \<forall>k \<in> set (snd (reply (cursor_at reply j))). prefix pre k"
    using assms by (auto simp: scan_complete_def)
  show thesis
  proof (rule that [OF scan_server.loop_returns [OF n(1)]])
    show "k \<in> set (concat (map (\<lambda>j. snd (reply (cursor_at reply j))) [0..<n]))"
      if "prefix pre k" "redis_get now k ks \<noteq> None" for k
      using n(2) that by fastforce
    show "prefix pre k"
      if "k \<in> set (concat (map (\<lambda>j. snd (reply (cursor_at reply j))) [0..<n]))" for k
      using n(3) that by auto
  qed
qed

text \<open>
  A server that keeps a snapshot of the keys and answers in batches of 100 (the \<^verbatim>\<open>COUNT\<close> the code
  asks for), the cursor being the number of the next batch.
\<close>

definition batch_reply :: "string list \<Rightarrow> nat \<Rightarrow> nat \<times> string list" where
  "batch_reply ks c = (if length ks \<le> Suc c * 100 then 0 else Suc c, take 100 (drop (c * 100) ks))"

definition batch_steps :: "string list \<Rightarrow> nat" where
  "batch_steps ks = max 1 ((length ks + 99) div 100)"

lemma batch_cursor: "m < batch_steps ks \<Longrightarrow> cursor_at (batch_reply ks) m = m"
proof (induction m)
  case (Suc m)
  then show ?case by (auto simp: cursor_at_Suc batch_reply_def batch_steps_def)
qed simp

interpretation batch: scan_server "batch_reply ks" "batch_steps ks"
proof
  show "0 < batch_steps ks" by (simp add: batch_steps_def)
  obtain m where m: "batch_steps ks = Suc m" by (cases "batch_steps ks") (auto simp: batch_steps_def)
  then show "cursor_at (batch_reply ks) (batch_steps ks) = 0"
    using batch_cursor [of m ks] by (auto simp: cursor_at_Suc batch_reply_def batch_steps_def)
  show "0 < m \<Longrightarrow> m < batch_steps ks \<Longrightarrow> cursor_at (batch_reply ks) m \<noteq> 0" for m
    by (simp add: batch_cursor)
qed

subsection \<open>The effect of the updates on the overrides\<close>

lemma find_override_append:
  "find (\<lambda>f. tf_tenantId f = t \<and> tf_featureCode f = c) (xs @ [g]) =
    (case find (\<lambda>f. tf_tenantId f = t \<and> tf_featureCode f = c) xs of
       Some f \<Rightarrow> Some f
     | None \<Rightarrow> if tf_tenantId g = t \<and> tf_featureCode g = c then Some g else None)"
  by (simp add: find_append split: option.split)

lemma insert_feature_eqs:
  assumes "insert_feature f s = Inr s1"
  shows "s1 = s\<lparr>tenantFeatures := tenantFeatures s @ [f]\<rparr>"
    and "find_override (tf_tenantId f) (tf_featureCode f) s = None"
  using assms by (auto simp: insert_feature_def find_None_iff split: if_splits)

lemma find_override_insert:
  assumes "insert_feature f s = Inr s1"
  shows "find_override t c s1 =
    (if t = tf_tenantId f \<and> c = tf_featureCode f then Some f else find_override t c s)"
  using insert_feature_eqs [OF assms] by (auto simp: find_override_append split: option.split)

lemma save_row_override:
  assumes wf: "tm_wf s" and f0: "find_override t c s = Some f0"
    and f: "tf_id f = tf_id f0" "tf_key f = tf_key f0"
  shows "save_row tf_id f (tenantFeatures s) = save_row tf_key f (tenantFeatures s)"
proof -
  have mem: "f0 \<in> set (tenantFeatures s)"
    using f0 wf by (simp add: find_override_iff)
  have "tf_id x = tf_id f \<longleftrightarrow> tf_key x = tf_key f" if "x \<in> set (tenantFeatures s)" for x
    using wf mem that f distinct_map_eq [of tf_id "tenantFeatures s" x f0]
      distinct_map_eq [of tf_key "tenantFeatures s" x f0]
    by (auto simp: tm_wf_def unique_on_def)
  then show ?thesis by (auto simp: save_row_def)
qed

lemma find_override_save:
  assumes "tm_wf s" "find_override t c s = Some f0" "tf_id f = tf_id f0" "tf_key f = tf_key f0"
  shows "find_override t' c' (s\<lparr>tenantFeatures := save_row tf_id f (tenantFeatures s)\<rparr>) =
    (if t' = t \<and> c' = c then Some f else find_override t' c' s)"
proof -
  have "tf_key f = (t, c)"
    using assms by (simp add: find_override_iff)
  then show ?thesis
    using save_row_override [OF assms] assms(1)
      overrides.lookup_save [of "tenantFeatures s" "(t', c')" f]
    by (auto simp: tm_wf_def)
qed

lemma tm_wf_save_override:
  assumes "tm_wf s" "find_override t c s = Some f0" "tf_id f = tf_id f0" "tf_key f = tf_key f0"
  shows "tm_wf (s\<lparr>tenantFeatures := save_row tf_id f (tenantFeatures s)\<rparr>)"
proof -
  have "unique_on tf_key (save_row tf_id f (tenantFeatures s))"
    using save_row_override [OF assms] assms(1) by (simp add: tm_wf_def unique_save_row)
  moreover have "f0 \<in> set (tenantFeatures s)"
    using assms by (simp add: find_override_iff)
  ultimately show ?thesis
    using assms by (auto simp: tm_wf_def unique_save_row set_save_row)
qed

subsection \<open>Cache coherence\<close>

text \<open>What the tables say about a feature of a tenant.\<close>

definition feature_state :: "tm_state \<Rightarrow> uuid \<Rightarrow> string \<Rightarrow> bool" where
  "feature_state s t c =
     (case find_override t c s of
        Some f \<Rightarrow> tf_isEnabled f
      | None \<Rightarrow> (case find_definition c s of Some d \<Rightarrow> fd_defaultEnabled d | None \<Rightarrow> False))"

definition coherent :: "instant \<Rightarrow> tm_state \<Rightarrow> bool" where
  "coherent now s \<longleftrightarrow>
     (\<forall>t c v. CHR '':'' \<notin> set t \<longrightarrow> redis_get now (cacheKey t c) (tm_redis s) = Some v \<longrightarrow>
        v = flag (feature_state s t c))"

lemma flag_eq_1 [simp]: "flag b = ''1'' \<longleftrightarrow> b"
  by (simp add: flag_def)

lemma cacheKey_inject:
  assumes "CHR '':'' \<notin> set t" "CHR '':'' \<notin> set t'"
  shows "cacheKey t c = cacheKey t' c' \<longleftrightarrow> t = t' \<and> c = c'"
  using sep_append_inject [OF assms, of c c'] by (simp add: cacheKey_def)

lemma prefix_cacheKey:
  assumes "CHR '':'' \<notin> set t" "CHR '':'' \<notin> set t'"
  shows "prefix (tenant_prefix t) (cacheKey t' c) \<longleftrightarrow> t = t'"
proof
  assume "prefix (tenant_prefix t) (cacheKey t' c)"
  then obtain w where "t' @ CHR '':'' # c = t @ CHR '':'' # w"
    by (auto simp: tenant_prefix_def cacheKey_def prefix_def)
  then show "t = t'" using sep_append_inject [OF assms(2,1)] by simp
qed (simp add: tenant_prefix_def cacheKey_def prefix_def)

lemma coherent_later: "coherent now s \<Longrightarrow> now \<le> now' \<Longrightarrow> coherent now' s"
  unfolding coherent_def by (meson redis.get_antimono)

lemma feature_state_redis [simp]: "feature_state (s\<lparr>tm_redis := r\<rparr>) t c = feature_state s t c"
  unfolding feature_state_def by (simp split: option.split)

lemma feature_state_bus [simp]: "feature_state (s\<lparr>tm_bus := r\<rparr>) t c = feature_state s t c"
  unfolding feature_state_def by (simp split: option.split)

lemma isFeatureEnabled_eqs:
  "isFeatureEnabled e t c s =
    (case redis_get (tm_now e) (cacheKey t c) (tm_redis s) of
       Some v \<Rightarrow> (v = ''1'', s)
     | None \<Rightarrow> (feature_state s t c,
          s\<lparr>tm_redis := redis_setex (tm_cacheNow e) (cacheKey t c) cacheTtlSeconds
             (flag (feature_state s t c)) (tm_redis s)\<rparr>))"
  by (auto simp: isFeatureEnabled_def feature_state_def Let_def split: option.split)

lemma isFeatureEnabled_frame:
  "tenants (snd (isFeatureEnabled e t c s)) = tenants s"
  "tenantFeatures (snd (isFeatureEnabled e t c s)) = tenantFeatures s"
  "featureDefs (snd (isFeatureEnabled e t c s)) = featureDefs s"
  "plans (snd (isFeatureEnabled e t c s)) = plans s"
  "tm_bus (snd (isFeatureEnabled e t c s)) = tm_bus s"
  by (auto simp: isFeatureEnabled_eqs split: option.split)

lemma coherent_setex:
  assumes co: "coherent now s" and t: "CHR '':'' \<notin> set t"
  shows "coherent now (s\<lparr>tm_redis := redis_setex now' (cacheKey t c) ttl
    (flag (feature_state s t c)) (tm_redis s)\<rparr>)"
  using co t by (auto simp: coherent_def redis.get_setex cacheKey_inject split: if_splits)

lemma coherent_drop:
  assumes co: "coherent now s" and r: "tm_redis s' = redis_del ks (tm_redis s)"
    and same: "\<And>t c. CHR '':'' \<notin> set t \<Longrightarrow> cacheKey t c \<notin> set ks \<Longrightarrow>
      redis_get now (cacheKey t c) (tm_redis s) \<noteq> None \<Longrightarrow> feature_state s' t c = feature_state s t c"
  shows "coherent now s'"
  unfolding coherent_def
proof (intro allI impI)
  fix t c v
  assume "CHR '':'' \<notin> set t" "redis_get now (cacheKey t c) (tm_redis s') = Some v"
  then have "cacheKey t c \<notin> set ks" "redis_get now (cacheKey t c) (tm_redis s) = Some v"
    by (auto simp: r redis.get_del split: if_splits)
  then show "v = flag (feature_state s' t c)"
    using co same \<open>CHR '':'' \<notin> set t\<close> by (auto simp: coherent_def)
qed

subsection \<open>Properties\<close>

text \<open>C30: on a coherent cache \<^const>\<open>isFeatureEnabled\<close> answers what the tables say (override, else the
  definition's default, else disabled), whether it hits or misses the cache, and filling the
  cache keeps it coherent and touches no table.\<close>

theorem isFeatureEnabled_correct:
  assumes "coherent (tm_now e) s" and "CHR '':'' \<notin> set t"
  shows "fst (isFeatureEnabled e t c s) = feature_state s t c \<and>
    coherent (tm_now e) (snd (isFeatureEnabled e t c s)) \<and>
    tenantFeatures (snd (isFeatureEnabled e t c s)) = tenantFeatures s \<and>
    featureDefs (snd (isFeatureEnabled e t c s)) = featureDefs s"
proof (cases "redis_get (tm_now e) (cacheKey t c) (tm_redis s)")
  case None
  then show ?thesis
    using coherent_setex [OF assms, of "tm_cacheNow e" c cacheTtlSeconds] by (simp add: isFeatureEnabled_eqs)
next
  case (Some v)
  then have "v = flag (feature_state s t c)"
    using assms unfolding coherent_def by blast
  with Some assms(1) show ?thesis by (simp add: isFeatureEnabled_eqs)
qed

text \<open>An accepted toggle, case by case.\<close>

lemma toggleFeature_cases:
  assumes "toggleFeature e t c b u s = (r, s')"
  obtains (unknown) "find_definition c s = None" "s' = s"
      "r = Inl (NotFound (''Feature '' @ quoted c @ '' is not a known feature code''))"
  | (rejected) x where "r = Inl x" "s' = s" "find_definition c s \<noteq> None" "find_override t c s = None"
  | (saved) f s1 where "r = Inr f" "tf_key f = (t, c)" "tf_isEnabled f = b" "tf_enabledBy f = Some u"
      "find_definition c s \<noteq> None"
      "(\<exists>f0. find_override t c s = Some f0 \<and> tf_id f = tf_id f0 \<and>
          s1 = s\<lparr>tenantFeatures := save_row tf_id f (tenantFeatures s)\<rparr>) \<or>
        insert_feature f s = Inr s1"
      "tm_redis s' = redis_del [cacheKey t c] (tm_redis s)"
      "tm_bus s' = publish ''chassis.tenants'' ''tenant.feature-toggled''
         (TenantFeatureToggledEvent (tm_now e) t c b) (tm_bus s)"
      "tenantFeatures s' = tenantFeatures s1" "featureDefs s' = featureDefs s"
      "tenants s' = tenants s" "plans s' = plans s"
proof (cases "find_definition c s")
  case None
  then show thesis using assms by (intro unknown) (simp_all add: toggleFeature_def)
next
  case (Some d)
  show thesis
  proof (cases "find_override t c s")
    case f0: (Some f0)
    let ?f = "f0\<lparr>tf_isEnabled := b, tf_enabledBy := Some u\<rparr>"
    have "tf_key f0 = (t, c)" using find_SomeD [OF f0] by simp
    then show thesis
      using assms Some f0
      by (intro saved [of ?f "s\<lparr>tenantFeatures := save_row tf_id ?f (tenantFeatures s)\<rparr>"])
        (auto simp: toggleFeature_def Let_def)
  next
    case None
    let ?f = "\<lparr>tf_id = newFeatureId e t c, tf_tenantId = t, tf_featureCode = c, tf_isEnabled = b,
      tf_enabledBy = Some u, tf_enabledAt = tm_now e\<rparr>"
    show thesis
    proof (cases "insert_feature ?f s")
      case (Inl x)
      then show thesis
        using assms Some None by (intro rejected [of x]) (simp_all add: toggleFeature_def Let_def)
    next
      case (Inr s1)
      moreover have "s1 = s\<lparr>tenantFeatures := tenantFeatures s @ [?f]\<rparr>"
        using insert_feature_eqs(1) [OF Inr] .
      ultimately show thesis
        using assms Some None
        by (intro saved [of ?f s1]) (auto simp: toggleFeature_def Let_def)
    qed
  qed
qed

lemma toggled_override:
  assumes "tm_wf s" "toggleFeature e t c b u s = (Inr f, s')"
  shows "find_override t' c' s' = (if t' = t \<and> c' = c then Some f else find_override t' c' s)"
  using assms(2)
proof (cases rule: toggleFeature_cases)
  case (saved f' s1)
  have "find_override t' c' s1 = (if t' = t \<and> c' = c then Some f else find_override t' c' s)"
    using saved(1,2,6)
  proof (elim disjE exE conjE)
    fix f0 assume "find_override t c s = Some f0" "tf_id f' = tf_id f0"
      "s1 = s\<lparr>tenantFeatures := save_row tf_id f' (tenantFeatures s)\<rparr>"
    then show ?thesis
      using saved(1,2) find_override_save [OF assms(1), of t c f0 f' t' c'] find_SomeD
      by (fastforce dest: find_SomeD)
  next
    assume "insert_feature f' s = Inr s1"
    then show ?thesis using saved(1,2) find_override_insert [of f' s s1 t' c'] by auto
  qed
  then show ?thesis by (simp add: saved)
qed simp_all

lemma toggled_state:
  assumes "tm_wf s" "toggleFeature e t c b u s = (Inr f, s')"
  shows "feature_state s' t' c' = (if t' = t \<and> c' = c then b else feature_state s t' c')"
proof -
  have "tf_isEnabled f = b" "featureDefs s' = featureDefs s"
    using assms(2) by (cases rule: toggleFeature_cases; simp)+
  then show ?thesis
    using toggled_override [OF assms, of t' c'] by (auto simp: feature_state_def split: option.split)
qed

lemma toggleFeature_wf:
  assumes wf: "tm_wf s" and tg: "toggleFeature e t c b u s = (r, s')"
  shows "tm_wf s'"
  using tg
proof (cases rule: toggleFeature_cases)
  case (saved f s1)
  have "tm_wf s1"
    using saved(6)
  proof (elim disjE exE conjE)
    fix f0 assume f0: "find_override t c s = Some f0" "tf_id f = tf_id f0"
      "s1 = s\<lparr>tenantFeatures := save_row tf_id f (tenantFeatures s)\<rparr>"
    then have "tf_key f0 = (t, c)" by (auto dest: find_SomeD)
    with f0 saved(2) show ?thesis using tm_wf_save_override [OF wf f0(1), of f] by simp
  qed (rule insert_feature_wf [OF wf])
  moreover have "tenants s1 = tenants s" "plans s1 = plans s" "featureDefs s1 = featureDefs s"
    using saved(6) by (auto dest: insert_feature_eqs(1))
  ultimately show ?thesis
    by (simp add: tm_wf_def saved)
qed (use wf in simp_all)

text \<open>C38: a toggle is visible at once. Once a toggle is accepted every check of that tenant's feature in the state it leaves answers the new value,
  whatever the cache held before; no other tenant or feature is affected; the stored override
  records who toggled; and, when the channel is up, exactly the \<^verbatim>\<open>tenant.feature-toggled\<close> event
  with the new value has been published.\<close>

theorem toggleFeature_visible:
  assumes "tm_wf s" and "toggleFeature e t c b u s = (Inr f, s')"
  shows "(\<forall>e'. fst (isFeatureEnabled e' t c s') = b) \<and>
    (\<forall>t' c'. (t', c') \<noteq> (t, c) \<longrightarrow> feature_state s' t' c' = feature_state s t' c') \<and>
    f \<in> set (tenantFeatures s') \<and> tf_enabledBy f = Some u \<and>
    (bus_up (tm_bus s) \<longrightarrow> published (tm_bus s') = published (tm_bus s) @
      [\<lparr>exchange = ''chassis.tenants'', routingKey = ''tenant.feature-toggled'',
        payload = TenantFeatureToggledEvent (tm_now e) t c b\<rparr>])"
  using assms(2)
proof (cases rule: toggleFeature_cases)
  case (saved f' s1)
  have "redis_get n (cacheKey t c) (tm_redis s') = None" for n
    by (simp add: saved redis.get_del)
  then have "fst (isFeatureEnabled e' t c s') = b" for e'
    using toggled_state [OF assms, of t c] by (simp add: isFeatureEnabled_eqs)
  moreover have "f \<in> set (tenantFeatures s')"
    using toggled_override [OF assms, of t c] by (auto dest: find_SomeD)
  ultimately show ?thesis
    using toggled_state [OF assms] saved by (auto simp: pub.emit_up)
qed simp_all

text \<open>Every outcome of a toggle, accepted or refused, keeps the table constraints and the
  coherence of the cache.\<close>

lemma toggleFeature_coherent:
  assumes "tm_wf s" and "coherent now s" and "CHR '':'' \<notin> set t"
    and "toggleFeature e t c b u s = (r, s')"
  shows "tm_wf s' \<and> coherent now s'"
proof
  show "tm_wf s'" using assms(1,4) by (rule toggleFeature_wf)
  from assms(4) show "coherent now s'"
  proof (cases rule: toggleFeature_cases)
    case (saved f s1)
    have "feature_state s' t' c' = feature_state s t' c'" if "cacheKey t' c' \<noteq> cacheKey t c" for t' c'
      using toggled_state [OF assms(1), of e t c b u f s' t' c'] assms(4) saved(1) that by auto
    then show ?thesis
      by (intro coherent_drop [OF assms(2) saved(7)]) simp
  qed (use assms(2) in simp_all)
qed

text \<open>The row the insertion loop stores for one code.\<close>

abbreviation plan_row :: "tm_env \<Rightarrow> uuid \<Rightarrow> uuid \<Rightarrow> string \<Rightarrow> tenantFeature" where
  "plan_row e t u c \<equiv> \<lparr>tf_id = newFeatureId e t c, tf_tenantId = t, tf_featureCode = c,
     tf_isEnabled = True, tf_enabledBy = Some u, tf_enabledAt = tm_now e\<rparr>"

text \<open>
  The conditions under which the database accepts the rows of a list of codes: every code is
  defined and listed once, the tenant exists, and the generated identifiers are new.
\<close>

definition insertable :: "tm_env \<Rightarrow> uuid \<Rightarrow> string list \<Rightarrow> tm_state \<Rightarrow> bool" where
  "insertable e t cs s \<longleftrightarrow>
     distinct cs \<and> (\<forall>c \<in> set cs. find_definition c s \<noteq> None) \<and> find_tenant t s \<noteq> None \<and>
     inj_on (newFeatureId e t) (set cs) \<and>
     (\<forall>c \<in> set cs. newFeatureId e t c \<notin> tf_id ` {f \<in> set (tenantFeatures s). tf_tenantId f \<noteq> t})"

lemma insertFeatures_accepted:
  assumes "insertable e t cs s" and "\<forall>f \<in> set (tenantFeatures s). tf_tenantId f = t \<longrightarrow>
      tf_featureCode f \<notin> set cs \<and> tf_id f \<notin> newFeatureId e t ` set cs"
  shows "insertFeatures e t cs u s =
    (Inr (), s\<lparr>tenantFeatures := tenantFeatures s @ map (plan_row e t u) cs\<rparr>)"
  using assms
proof (induction cs arbitrary: s)
  case (Cons c cs)
  let ?s1 = "s\<lparr>tenantFeatures := tenantFeatures s @ [plan_row e t u c]\<rparr>"
  have ins: "insert_feature (plan_row e t u c) s = Inr ?s1"
    using Cons.prems by (auto simp: insert_feature_def insertable_def image_iff)
  have "insertable e t cs ?s1"
    using Cons.prems(1) by (auto simp: insertable_def)
  moreover have "\<forall>f \<in> set (tenantFeatures ?s1). tf_tenantId f = t \<longrightarrow>
      tf_featureCode f \<notin> set cs \<and> tf_id f \<notin> newFeatureId e t ` set cs"
    using Cons.prems by (auto simp: insertable_def inj_on_def)
  ultimately have "insertFeatures e t cs u ?s1 =
      (Inr (), ?s1\<lparr>tenantFeatures := tenantFeatures ?s1 @ map (plan_row e t u) cs\<rparr>)"
    by (rule Cons.IH)
  then show ?case by (simp add: ins)
qed simp

lemma find_plan_row:
  "find (\<lambda>f. tf_tenantId f = t' \<and> tf_featureCode f = c') (map (plan_row e t u) cs) =
    (if t' = t \<and> c' \<in> set cs then Some (plan_row e t u c') else None)"
  by (induction cs) auto

lemma find_override_deleted:
  "find (\<lambda>f. tf_tenantId f = t' \<and> tf_featureCode f = c') (delete_where (\<lambda>f. tf_tenantId f = t) fs) =
    (if t' = t then None else find (\<lambda>f. tf_tenantId f = t' \<and> tf_featureCode f = c') fs)"
  by (induction fs) (auto simp: delete_where_def)

lemma replaceTenantFeatures_accepted:
  assumes "insertable e t cs s"
  shows "replaceTenantFeatures e t cs u s = (Inr (), s\<lparr>tenantFeatures :=
      delete_where (\<lambda>f. tf_tenantId f = t) (tenantFeatures s) @ map (plan_row e t u) cs\<rparr>)"
  unfolding replaceTenantFeatures_def
  by (subst insertFeatures_accepted) (use assms in \<open>auto simp: insertable_def\<close>)

lemma replaced_override:
  assumes "insertable e t cs s"
  shows "find_override t' c (snd (replaceTenantFeatures e t cs u s)) =
    (if t' = t then if c \<in> set cs then Some (plan_row e t u c) else None else find_override t' c s)"
  by (simp add: replaceTenantFeatures_accepted [OF assms] find_append find_plan_row
      find_override_deleted split: option.split)

text \<open>When the database accepts the rows, replacing a tenant's features leaves exactly one enabled
  override per listed code for that tenant and leaves every other tenant's overrides alone.\<close>

lemma replaceTenantFeatures_exact:
  assumes "insertable e t cs s" and "replaceTenantFeatures e t cs u s = (r, s')"
  shows "r = Inr () \<and>
    (\<forall>c. feature_state s' t c \<longleftrightarrow> c \<in> set cs \<or>
       (\<exists>d. find_definition c s = Some d \<and> fd_defaultEnabled d)) \<and>
    (\<forall>t' c. t' \<noteq> t \<longrightarrow> find_override t' c s' = find_override t' c s) \<and>
    length (filter (\<lambda>f. tf_tenantId f = t) (tenantFeatures s')) = length cs"
proof -
  have eq: "r = Inr ()" "s' = s\<lparr>tenantFeatures :=
      delete_where (\<lambda>f. tf_tenantId f = t) (tenantFeatures s) @ map (plan_row e t u) cs\<rparr>"
    using assms by (simp_all add: replaceTenantFeatures_accepted)
  have ov: "find_override t' c s' =
      (if t' = t then if c \<in> set cs then Some (plan_row e t u c) else None else find_override t' c s)"
    for t' c
    using replaced_override [OF assms(1), of t' c u] assms(2) by simp
  have "length (filter (\<lambda>f. tf_tenantId f = t) (tenantFeatures s')) = length cs"
    by (simp add: eq delete_where_def filter_map o_def)
  then show ?thesis
    using eq(1) ov by (auto simp: feature_state_def eq(2) split: option.splits)
qed

text \<open>An undefined feature code at the head of the list makes the replacement fail on the foreign
  key after the old rows are gone: the tenant is left without any override.\<close>

lemma replaceTenantFeatures_undefined_code:
  assumes "find_definition c s = None"
    and "newFeatureId e t c \<notin> tf_id ` set (tenantFeatures s)"
  shows "fst (replaceTenantFeatures e t (c # cs) u s) = Inl (QueryFailed ''23503'') \<and>
    (\<forall>c'. find_override t c' (snd (replaceTenantFeatures e t (c # cs) u s)) = None)"
  using assms by (auto simp: replaceTenantFeatures_def insert_feature_def find_override_deleted image_iff)

text \<open>C35: given the server's guarantee for a full \<^verbatim>\<open>SCAN\<close> iteration the invalidation loop returns, no
  cached answer of the tenant survives it, and the cached answers of every other tenant do.\<close>

theorem invalidateTenantFeatureCache_complete:
  assumes "scan_complete (scan e (tm_redis s) (tenant_prefix t @ ''*'')) now (tm_redis s) (tenant_prefix t)"
    and "CHR '':'' \<notin> set t"
  shows "\<exists>r. invalidateTenantFeatureCache e t s = Some (s\<lparr>tm_redis := r\<rparr>) \<and>
    (\<forall>c. redis_get now (cacheKey t c) r = None) \<and>
    (\<forall>t' c n. CHR '':'' \<notin> set t' \<longrightarrow> t' \<noteq> t \<longrightarrow>
       redis_get n (cacheKey t' c) r = redis_get n (cacheKey t' c) (tm_redis s))"
proof -
  obtain keys where keys: "scan_loop (scan e (tm_redis s) (tenant_prefix t @ ''*'')) 0 [] = Some keys"
    and all: "\<And>k. prefix (tenant_prefix t) k \<Longrightarrow> redis_get now k (tm_redis s) \<noteq> None \<Longrightarrow> k \<in> set keys"
    and only: "\<And>k. k \<in> set keys \<Longrightarrow> prefix (tenant_prefix t) k"
    using scan_completeE [OF assms(1)] by blast
  let ?r = "redis_del keys (tm_redis s)"
  have "invalidateTenantFeatureCache e t s = Some (s\<lparr>tm_redis := ?r\<rparr>)"
    by (simp add: invalidateTenantFeatureCache_def keys redis_del_def)
  moreover have "redis_get now (cacheKey t c) ?r = None" for c
    using all [of "cacheKey t c"] prefix_cacheKey [OF assms(2,2), of c]
    by (cases "redis_get now (cacheKey t c) (tm_redis s)") (auto simp: redis.get_del)
  moreover have "cacheKey t' c \<notin> set keys" if "CHR '':'' \<notin> set t'" "t' \<noteq> t" for t' c
    using only [of "cacheKey t' c"] prefix_cacheKey [OF assms(2) that(1), of c] that by auto
  ultimately show ?thesis by (intro exI [of _ ?r]) (simp add: redis.get_del)
qed

lemma overrideMap_find:
  "unique_on tf_featureCode os \<Longrightarrow> overrideMap os c = find (\<lambda>f. tf_featureCode f = c) os"
proof (induction os rule: rev_induct)
  case (snoc f os)
  then show ?case
    by (auto simp: overrideMap_def find_append image_iff split: option.split dest!: find_SomeD)
qed (simp add: overrideMap_def)

lemma tenant_overrides_unique:
  "unique_on tf_key fs \<Longrightarrow> unique_on tf_featureCode (filter (\<lambda>f. tf_tenantId f = t) fs)"
  by (induction fs) (auto simp: unique_on_def image_iff)

lemma find_filter: "find P (filter Q xs) = find (\<lambda>x. Q x \<and> P x) xs"
  by (induction xs) auto

text \<open>The merged view lists every definition exactly once, sorted by category, and reports for each
  the same state that a check of that feature reports.\<close>

lemma findTenantFeatures_agrees:
  assumes "tm_wf s"
  shows "(\<forall>v \<in> set (findTenantFeatures t s). fs_isEnabled v = feature_state s t (fs_code v) \<and>
      (fs_hasOverride v \<longleftrightarrow> find_override t (fs_code v) s \<noteq> None)) \<and>
    mset (map fs_code (findTenantFeatures t s)) = mset (map fd_code (featureDefs s)) \<and>
    sorted (map (category_text \<circ> fs_category) (findTenantFeatures t s))"
proof -
  let ?m = "overrideMap (filter (\<lambda>f. tf_tenantId f = t) (tenantFeatures s))"
  have m: "?m c = find_override t c s" for c
    using assms by (simp add: overrideMap_find tenant_overrides_unique tm_wf_def find_filter)
  have def: "find_definition (fd_code d) s = Some d" if "d \<in> set (featureDefs s)" for d
    using assms that find_unique [of fd_code "featureDefs s" d] by (simp add: tm_wf_def unique_on_def)
  show ?thesis
    by (auto simp: findTenantFeatures_def findAllDefinitions_def m Let_def feature_state_def def o_def
        split: option.splits)
qed

end
