(* ===== verification/Http_Envelope.thy ===== *)
theory Http_Envelope
  imports Chassis_Prelude
begin

text \<open>
  What every controller shares: the response DTO (\<^verbatim>\<open>common/dto/api-response.dto.ts\<close>), the
  normalisation of the \<open>page\<close> and \<open>limit\<close> query parameters and the page of rows they select.
\<close>

record pageMeta =
  pm_total :: int
  pm_page :: int
  pm_limit :: int
  pm_totalPages :: int

record 'a apiResponse =
  ar_success :: bool
  ar_data :: "'a option"
  ar_message :: "string option"
  ar_errors :: "string list option"
  ar_meta :: "pageMeta option"

definition api_ok :: "'a \<Rightarrow> string option \<Rightarrow> 'a apiResponse" where
  "api_ok data message =
     \<lparr>ar_success = True, ar_data = Some data, ar_message = message, ar_errors = None, ar_meta = None\<rparr>"

definition api_created :: "'a \<Rightarrow> 'a apiResponse" where
  "api_created data =
     \<lparr>ar_success = True, ar_data = Some data, ar_message = Some ''Created successfully'',
      ar_errors = None, ar_meta = None\<rparr>"

definition api_error :: "string \<Rightarrow> string list option \<Rightarrow> 'a apiResponse" where
  "api_error message errors =
     \<lparr>ar_success = False, ar_data = None, ar_message = Some message, ar_errors = errors, ar_meta = None\<rparr>"

definition api_paginated :: "'a list \<Rightarrow> int \<Rightarrow> int \<Rightarrow> int \<Rightarrow> 'a list apiResponse" where
  "api_paginated data totalCount page limit =
     \<lparr>ar_success = True, ar_data = Some data, ar_message = None, ar_errors = None,
      ar_meta = Some \<lparr>pm_total = totalCount, pm_page = page, pm_limit = limit,
        pm_totalPages = \<lceil>rat_of_int totalCount / rat_of_int limit\<rceil>\<rparr>\<rparr>"

text \<open>\<^verbatim>\<open>Math.max(1, parseInt(page, 10) || 1)\<close>, \<^verbatim>\<open>Math.min(100, Math.max(1, parseInt(limit, 10) || 20))\<close>.\<close>

definition pageNum :: "string \<Rightarrow> int" where
  "pageNum page = max 1 (parseInt_or page 1)"

definition limitNum :: "string \<Rightarrow> int" where
  "limitNum limit = min 100 (max 1 (parseInt_or limit 20))"

text \<open>\<^verbatim>\<open>skip: (page - 1) * limit, take: limit\<close> of an ordered query.\<close>

definition page_slice :: "int \<Rightarrow> int \<Rightarrow> 'a list \<Rightarrow> 'a list" where
  "page_slice page limit xs = take (nat limit) (drop (nat ((page - 1) * limit)) xs)"

lemma pageNum_ge: "1 \<le> pageNum page"
  by (simp add: pageNum_def)

lemma limitNum_range: "1 \<le> limitNum limit" "limitNum limit \<le> 100"
  by (auto simp: limitNum_def)

lemma length_page_slice: "0 \<le> limit \<Longrightarrow> int (length (page_slice page limit xs)) \<le> limit"
  by (simp add: page_slice_def)

lemma set_page_slice: "set (page_slice page limit xs) \<subseteq> set xs"
  unfolding page_slice_def by (meson set_drop_subset set_take_subset subset_trans)

text \<open>The first \<open>n\<close> pages together are the first \<open>n * limit\<close> rows.\<close>

lemma pages_prefix:
  assumes "0 < k"
  shows "concat (map (\<lambda>p. page_slice (int p) (int k) xs) [1..<Suc n]) = take (n * k) xs"
proof (induction n)
  case (Suc n)
  have "nat (int n * int k) = n * k" by (simp add: nat_mult_distrib)
  with Suc show ?case
    by (simp add: page_slice_def take_add [symmetric] add.commute)
qed simp

lemma ceiling_pages:
  assumes "0 < k"
  shows "length xs \<le> nat \<lceil>rat_of_int (int (length xs)) / rat_of_int (int k)\<rceil> * k"
proof -
  let ?q = "rat_of_int (int (length xs)) / rat_of_int (int k)"
  have c: "?q \<le> of_int \<lceil>?q\<rceil>" by (rule le_of_int_ceiling)
  have "0 < rat_of_int (int k)" using assms by simp
  with c have "rat_of_int (int (length xs)) \<le> of_int \<lceil>?q\<rceil> * rat_of_int (int k)"
    by (simp only: pos_divide_le_eq)
  then have "rat_of_int (int (length xs)) \<le> rat_of_int (\<lceil>?q\<rceil> * int k)"
    by (simp only: of_int_mult)
  then have "int (length xs) \<le> \<lceil>?q\<rceil> * int k"
    by (simp only: of_int_le_iff)
  moreover have "0 \<le> \<lceil>?q\<rceil>" by (simp add: zero_le_ceiling less_le_trans [of "-1" 0])
  ultimately show ?thesis by (metis int_nat_eq nat_int_comparison(3) of_nat_mult)
qed

lemma pages_partition:
  assumes "0 < k"
  shows "concat (map (\<lambda>p. page_slice (int p) (int k) xs)
      [1..<Suc (nat \<lceil>rat_of_int (int (length xs)) / rat_of_int (int k)\<rceil>)]) = xs"
  by (simp only: pages_prefix [OF assms] take_all [OF ceiling_pages [OF assms]])

end
