(* ===== verification/Tenant_Lifecycle.thy ===== *)
theory Tenant_Lifecycle
  imports Tenant_Features Http_Envelope
begin

text \<open>
  \<^verbatim>\<open>tenants.service.ts\<close>, \<^verbatim>\<open>tenants.controller.ts\<close> and \<^verbatim>\<open>billing-events.controller.ts\<close>: provisioning,
  updates, plan changes, the suspend/activate/archive lifecycle and the billing events that drive
  the same status field. Operations that run the cache invalidation loop return an \<^typ>\<open>'a option\<close>,
  \<^const>\<open>None\<close> being a loop that never ends.
\<close>

subsection \<open>Provisioning\<close>

record createTenantDto =
  ct_name :: string
  ct_adminEmail :: string
  ct_plan :: "string option"
  ct_phone :: "string option"
  ct_address :: "string option"
  ct_metadata :: "json option"
  ct_stripeCustomerId :: "string option"
  ct_trialEndsAt :: "string option"

definition planFeatures :: "string \<Rightarrow> string list option" where
  "planFeatures code = map_of
     [(''free'', [''basic_reporting'']),
      (''starter'', [''basic_reporting'', ''api_access'', ''webhooks'']),
      (''pro'', [''basic_reporting'', ''api_access'', ''webhooks'', ''advanced_analytics'', ''sso'']),
      (''enterprise'', [''basic_reporting'', ''api_access'', ''webhooks'', ''advanced_analytics'', ''sso'',
        ''custom_domain'', ''audit_logs''])] code"

text \<open>Step 3b: enable each code of the plan unless a row for it exists.\<close>

fun provisionFeatures ::
  "tm_env \<Rightarrow> uuid \<Rightarrow> string list \<Rightarrow> uuid \<Rightarrow> tm_state \<Rightarrow> tm_state result" where
  "provisionFeatures e tenantId [] userId s = Inr s"
| "provisionFeatures e tenantId (c # cs) userId s =
     (case find_override tenantId c s of
        Some _ \<Rightarrow> provisionFeatures e tenantId cs userId s
      | None \<Rightarrow>
          (case insert_feature (plan_row e tenantId userId c) s of
             Inl x \<Rightarrow> Inl x
           | Inr s1 \<Rightarrow> provisionFeatures e tenantId cs userId s1))"

definition finalSlug :: "tm_env \<Rightarrow> string \<Rightarrow> string" where
  "finalSlug e name = slugify e name @ ''-'' @ take 4 (uuidv4 e)"

text \<open>The row of step 3a.\<close>

definition provisioningRow :: "tm_env \<Rightarrow> createTenantDto \<Rightarrow> string \<Rightarrow> tenant" where
  "provisioningRow e dto planCode =
     \<lparr>t_id = newTenantId e, t_name = ct_name dto, t_slug = finalSlug e (ct_name dto),
      t_status = TS_provisioning, t_stripeCustomerId = ct_stripeCustomerId dto,
      t_currentPlan = planCode, t_metadata = coalesce (ct_metadata dto) (JObj []),
      t_enabledFeatures = [], t_adminEmail = toLowerCase (ct_adminEmail dto),
      t_phone = ct_phone dto, t_address = ct_address dto,
      t_trialEndsAt = (if truthy (ct_trialEndsAt dto)
                       then Some (parseDate e (the (ct_trialEndsAt dto))) else None),
      t_suspendedAt = None, t_cancelledAt = None,
      t_createdAt = tm_now e, t_updatedAt = tm_now e\<rparr>"

text \<open>The body of \<^verbatim>\<open>dataSource.transaction\<close>; an error makes the caller keep the state before it.\<close>

definition provision ::
  "tm_env \<Rightarrow> createTenantDto \<Rightarrow> string \<Rightarrow> plan \<Rightarrow> uuid \<Rightarrow> tm_state \<Rightarrow> (tenant \<times> tm_state) result" where
  "provision e dto planCode plan userId s =
     (let t0 = provisioningRow e dto planCode in
      case insert_tenant t0 s of
        Inl x \<Rightarrow> Inl x
      | Inr s1 \<Rightarrow>
          (case provisionFeatures e (t_id t0) (p_includedFeatures plan) userId s1 of
             Inl x \<Rightarrow> Inl x
           | Inr s2 \<Rightarrow>
               Inr (save_tenant (tm_now e)
                 (t0\<lparr>t_enabledFeatures := p_includedFeatures plan, t_status := TS_active\<rparr>) s2)))"

text \<open>Step 4: the membership request to the identity service, sent when both settings are present.\<close>

definition requestOwnerMembership :: "tm_env \<Rightarrow> uuid \<Rightarrow> uuid \<Rightarrow> tm_state \<Rightarrow> tm_state" where
  "requestOwnerMembership e tenantId userId s =
     (if truthy (identityServiceUrl e) \<and> truthy (internalServiceToken e)
      then s\<lparr>tm_requests := tm_requests s @
             [\<lparr>rq_url = the (identityServiceUrl e) @ ''/api/v1/memberships'', rq_method = ''POST'',
               rq_headers = [(''Content-Type'', ''application/json''),
                             (''X-Service-Token'', the (internalServiceToken e)),
                             (''X-Tenant-ID'', tenantId), (''X-User-ID'', userId)],
               rq_body = JObj [(''userId'', JStr userId), (''tenantId'', JStr tenantId),
                               (''role'', JStr ''owner'')]\<rparr>]\<rparr>
      else s)"

definition createTenant ::
  "tm_env \<Rightarrow> createTenantDto \<Rightarrow> uuid \<Rightarrow> tm_state \<Rightarrow> tenant result \<times> tm_state" where
  "createTenant e dto userId s =
     (let planCode = coalesce (ct_plan dto) ''free'';
          plan = plans_findByCode (tm_now e) planCode s in
      case provision e dto planCode plan userId s of
        Inl x \<Rightarrow>
          (if x = QueryFailed ''23505''
           then (Inl (Conflict (''Tenant slug '' @ quoted (finalSlug e (ct_name dto)) @ '' is already taken'')), s)
           else (Inl x, s))
      | Inr (t, s1) \<Rightarrow>
          (let s2 = requestOwnerMembership e (t_id t) userId s1;
               s3 = s2\<lparr>tm_bus := publish ''chassis.tenants'' ''tenant.provisioned''
                      (TenantProvisionedEvent (tm_now e) (t_id t) (t_slug t) (t_currentPlan t) (t_adminEmail t)) (tm_bus s2)\<rparr>
           in (Inr t, s3)))"

subsection \<open>Reads and updates\<close>

definition tenants_findAll :: "int \<Rightarrow> int \<Rightarrow> tm_state \<Rightarrow> tenant list \<times> int \<times> int \<times> int" where
  "tenants_findAll page limit s =
     (page_slice page limit (sort_key (\<lambda>t. - t_createdAt t) (tenants s)),
      int (length (tenants s)), page, limit)"

definition tenants_findById :: "uuid \<Rightarrow> tm_state \<Rightarrow> tenant result" where
  "tenants_findById i s =
     (case find_tenant i s of
        None \<Rightarrow> Inl (NotFound (''Tenant with ID '' @ i @ '' not found''))
      | Some t \<Rightarrow> Inr t)"

definition tenants_findBySlug :: "string \<Rightarrow> tm_state \<Rightarrow> tenant result" where
  "tenants_findBySlug slug s =
     (case find (\<lambda>t. t_slug t = slug) (tenants s) of
        None \<Rightarrow> Inl (NotFound (''Tenant with slug '' @ quoted slug @ '' not found''))
      | Some t \<Rightarrow> Inr t)"

record updateTenantDto =
  ut_name :: "string field"
  ut_adminEmail :: "string field"
  ut_plan :: "string field"
  ut_phone :: "string field"
  ut_address :: "string field"
  ut_metadata :: "json field"
  ut_stripeCustomerId :: "string field"

text \<open>
  The field assignments of \<^verbatim>\<open>updateTenant\<close>. A null e-mail fails on \<^verbatim>\<open>toLowerCase\<close>; a null name,
  metadata or plan is assigned and then refused by the column's NOT NULL constraint when the row is
  saved, which is the first effect of either path.
\<close>

definition patch_opt :: "'a field \<Rightarrow> 'a option \<Rightarrow> 'a option" where
  "patch_opt f old = (case f of Undefined \<Rightarrow> old | _ \<Rightarrow> field_or_null f)"

definition patch_val :: "'a field \<Rightarrow> 'a \<Rightarrow> 'a" where
  "patch_val f old = (case f of Value v \<Rightarrow> v | _ \<Rightarrow> old)"

definition patch_tenant :: "updateTenantDto \<Rightarrow> tenant \<Rightarrow> tenant result" where
  "patch_tenant dto t =
     (if ut_adminEmail dto = Null then Inl (JsError ''Cannot read properties of null'')
      else if ut_name dto = Null \<or> ut_metadata dto = Null \<or> ut_plan dto = Null then Inl (QueryFailed ''23502'')
      else Inr (t\<lparr>t_name := patch_val (ut_name dto) (t_name t),
                  t_adminEmail := (case ut_adminEmail dto of Value v \<Rightarrow> toLowerCase v | _ \<Rightarrow> t_adminEmail t),
                  t_phone := patch_opt (ut_phone dto) (t_phone t),
                  t_address := patch_opt (ut_address dto) (t_address t),
                  t_metadata := patch_val (ut_metadata dto) (t_metadata t),
                  t_stripeCustomerId := patch_opt (ut_stripeCustomerId dto) (t_stripeCustomerId t)\<rparr>))"

text \<open>The plan-change branch: save, replace the feature rows, invalidate the cache, publish.\<close>

definition changePlan ::
  "tm_env \<Rightarrow> uuid \<Rightarrow> string \<Rightarrow> tenant \<Rightarrow> tm_state \<Rightarrow> (tenant result \<times> tm_state) option" where
  "changePlan e i newPlan t s =
     (let codes = p_includedFeatures (plans_findByCode (tm_now e) newPlan s);
          (saved, s1) = save_tenant (tm_now e)
             (t\<lparr>t_currentPlan := newPlan, t_enabledFeatures := codes\<rparr>) s;
          toSync = (if codes \<noteq> [] then codes else coalesce (planFeatures newPlan) []);
          (r, s2) = replaceTenantFeatures e i toSync i s1
      in case r of
           Inl x \<Rightarrow> Some (Inl x, s2)
         | Inr _ \<Rightarrow>
             (case invalidateTenantFeatureCache e i s2 of
                None \<Rightarrow> None
              | Some s3 \<Rightarrow>
                  Some (Inr saved,
                    s3\<lparr>tm_bus := publish ''chassis.tenants'' ''tenant.plan-changed''
                      (TenantPlanChangedEvent (tm_now e) i (t_currentPlan t) newPlan) (tm_bus s3)\<rparr>)))"

definition updateTenant ::
  "tm_env \<Rightarrow> uuid \<Rightarrow> updateTenantDto \<Rightarrow> tm_state \<Rightarrow> (tenant result \<times> tm_state) option" where
  "updateTenant e i dto s =
     (case tenants_findById i s of
        Inl x \<Rightarrow> Some (Inl x, s)
      | Inr t0 \<Rightarrow>
          (case patch_tenant dto t0 of
             Inl x \<Rightarrow> Some (Inl x, s)
           | Inr t \<Rightarrow>
               (case ut_plan dto of
                  Value p \<Rightarrow>
                    if p \<noteq> t_currentPlan t0 then changePlan e i p t s
                    else (let (saved, s1) = save_tenant (tm_now e) t s in Some (Inr saved, s1))
                | _ \<Rightarrow> (let (saved, s1) = save_tenant (tm_now e) t s in Some (Inr saved, s1)))))"

subsection \<open>Lifecycle\<close>

definition suspendTenant ::
  "tm_env \<Rightarrow> uuid \<Rightarrow> string field \<Rightarrow> tm_state \<Rightarrow> tenant result \<times> tm_state" where
  "suspendTenant e i reason s =
     (case tenants_findById i s of
        Inl x \<Rightarrow> (Inl x, s)
      | Inr t \<Rightarrow>
          if t_status t = TS_suspended then (Inl (BadRequest ''Tenant is already suspended''), s)
          else if t_status t = TS_cancelled then (Inl (BadRequest ''Cannot suspend a cancelled tenant''), s)
          else (let (saved, s1) = save_tenant (tm_now e)
                      (t\<lparr>t_status := TS_suspended, t_suspendedAt := Some (tm_now e)\<rparr>) s
                in (Inr saved,
                    s1\<lparr>tm_bus := publish ''chassis.tenants'' ''tenant.suspended''
                      (TenantSuspendedEvent (tm_now e) i reason) (tm_bus s1)\<rparr>)))"

definition activateTenant :: "tm_env \<Rightarrow> uuid \<Rightarrow> tm_state \<Rightarrow> tenant result \<times> tm_state" where
  "activateTenant e i s =
     (case tenants_findById i s of
        Inl x \<Rightarrow> (Inl x, s)
      | Inr t \<Rightarrow>
          if t_status t = TS_active then (Inl (BadRequest ''Tenant is already active''), s)
          else if t_status t = TS_cancelled then (Inl (BadRequest ''Cannot activate a cancelled tenant''), s)
          else (let (saved, s1) = save_tenant (tm_now e)
                      (t\<lparr>t_status := TS_active, t_suspendedAt := None\<rparr>) s
                in (Inr saved, s1)))"

definition archiveTenant :: "tm_env \<Rightarrow> uuid \<Rightarrow> tm_state \<Rightarrow> (unit result \<times> tm_state) option" where
  "archiveTenant e i s =
     (case tenants_findById i s of
        Inl x \<Rightarrow> Some (Inl x, s)
      | Inr t \<Rightarrow>
          if t_status t = TS_cancelled
          then Some (Inl (BadRequest ''Tenant is already archived/cancelled''), s)
          else (let (_, s1) = save_tenant (tm_now e)
                      (t\<lparr>t_status := TS_cancelled, t_cancelledAt := Some (tm_now e)\<rparr>) s
                in map_option (\<lambda>s2. (Inr (), s2)) (invalidateTenantFeatureCache e i s1)))"

subsection \<open>Billing events\<close>

text \<open>
  The members of a payload are texts, null or absent. The empty criteria of an update without
  \<^verbatim>\<open>tenantId\<close> and a customer longer than its column are errors, which the handler catches; an absent
  customer is no column of the update, which then writes \<^verbatim>\<open>updated_at\<close> alone.
\<close>

definition handleBillingSynced :: "tm_env \<Rightarrow> string field \<Rightarrow> string field \<Rightarrow> tm_state \<Rightarrow> tm_state" where
  "handleBillingSynced e tenantId customer s =
     (case tenantId of
        Value i \<Rightarrow>
          if fits_null 100 (field_or_null customer)
          then s\<lparr>tenants := update_where (\<lambda>t. t_id t = i)
            (\<lambda>t. t\<lparr>t_stripeCustomerId := patch_opt customer (t_stripeCustomerId t), t_updatedAt := tm_now e\<rparr>) (tenants s)\<rparr>
          else s
      | _ \<Rightarrow> s)"

text \<open>\<^verbatim>\<open>findOne\<close> by the \<^verbatim>\<open>tenantId\<close> of the payload: a condition that is null or undefined is left out
  of the query, so that without one the first row of the table is found.\<close>

definition subscription_tenant :: "string field \<Rightarrow> tm_state \<Rightarrow> tenant option" where
  "subscription_tenant tenantId s =
     (case tenantId of
        Value i \<Rightarrow> find_tenant i s
      | _ \<Rightarrow> (case tenants s of [] \<Rightarrow> None | t # _ \<Rightarrow> Some t))"

text \<open>The status arrives as text; one that none of the branches names changes no status.\<close>

definition applySubscriptionStatus :: "tm_env \<Rightarrow> string option \<Rightarrow> tenant \<Rightarrow> tenant" where
  "applySubscriptionStatus e status t =
     (if status = Some ''active'' then t\<lparr>t_status := TS_active, t_suspendedAt := None\<rparr>
      else if status = Some ''suspended'' \<or> status = Some ''past_due''
      then t\<lparr>t_status := TS_suspended, t_suspendedAt := Some (tm_now e)\<rparr>
      else if status = Some ''cancelled''
      then t\<lparr>t_status := TS_cancelled, t_cancelledAt := Some (tm_now e)\<rparr>
      else t)"

text \<open>A plan longer than its column is not the stored one, so that it is assigned and the save fails;
  the handler catches the error and nothing is stored.\<close>

definition handleSubscriptionStatus ::
  "tm_env \<Rightarrow> string field \<Rightarrow> string option \<Rightarrow> string option \<Rightarrow> tm_state \<Rightarrow> tm_state" where
  "handleSubscriptionStatus e tenantId status plan s =
     (case subscription_tenant tenantId s of
        None \<Rightarrow> s
      | Some t0 \<Rightarrow>
          (let t1 = applySubscriptionStatus e status t0;
               t2 = (if truthy plan \<and> the plan \<noteq> t_currentPlan t1
                     then t1\<lparr>t_currentPlan := the plan\<rparr> else t1)
           in if fits_null 50 plan then snd (save_tenant (tm_now e) t2 s) else s))"

subsection \<open>The operations keep the constraints and the lifecycle invariant\<close>

text \<open>A tenant's timestamps agree with its status; a provisioning row is never visible.\<close>

fun lifecycle_status :: "tenantStatus \<Rightarrow> instant option \<Rightarrow> instant option \<Rightarrow> bool" where
  "lifecycle_status TS_active suspendedAt cancelledAt = (suspendedAt = None)"
| "lifecycle_status TS_suspended suspendedAt cancelledAt = (suspendedAt \<noteq> None)"
| "lifecycle_status TS_cancelled suspendedAt cancelledAt = (cancelledAt \<noteq> None)"
| "lifecycle_status _ suspendedAt cancelledAt = False"

abbreviation lifecycle_row :: "tenant \<Rightarrow> bool" where
  "lifecycle_row t \<equiv> lifecycle_status (t_status t) (t_suspendedAt t) (t_cancelledAt t)"

definition tm_inv :: "tm_state \<Rightarrow> bool" where
  "tm_inv s \<longleftrightarrow> tm_wf s \<and> (\<forall>t \<in> set (tenants s). lifecycle_row t)"

lemma tm_inv_cong:
  "tenants s' = tenants s \<Longrightarrow> tenantFeatures s' = tenantFeatures s \<Longrightarrow> featureDefs s' = featureDefs s \<Longrightarrow>
   plans s' = plans s \<Longrightarrow> tm_inv s' = tm_inv s"
  by (simp add: tm_inv_def tm_wf_def)

lemma tm_inv_updates [simp]:
  "tm_inv (s\<lparr>tm_redis := r\<rparr>) = tm_inv s" "tm_inv (s\<lparr>tm_bus := b\<rparr>) = tm_inv s"
  "tm_inv (s\<lparr>tm_requests := q\<rparr>) = tm_inv s"
  by (simp_all add: tm_inv_def tm_wf_def)

lemma tenants_save: "tenants (snd (save_tenant now t s)) = save_row t_id (fst (save_tenant now t s)) (tenants s)"
  by (simp add: save_tenant_def Let_def)

lemma tm_inv_save:
  assumes "tm_inv s" "find_tenant (t_id t) s = Some t0" "t_slug t = t_slug t0" "lifecycle_row t"
  shows "tm_inv (snd (save_tenant now t s))"
proof -
  have "tm_wf (snd (save_tenant now t s))"
    using assms by (intro tm_wf_save_tenant) (simp_all add: tm_inv_def)
  moreover have "\<forall>x \<in> set (tenants (snd (save_tenant now t s))). lifecycle_row x"
    using assms by (auto simp: tm_inv_def tm_wf_def tenants_save set_save_row)
  ultimately show ?thesis by (simp add: tm_inv_def)
qed

lemma find_tenant_id: "tenants_findById i s = Inr t \<Longrightarrow> find_tenant i s = Some t \<and> t_id t = i"
  by (auto simp: tenants_findById_def split: option.splits dest: find_SomeD)

lemma insertFeatures_frame:
  "insertFeatures e t cs u s = (r, s') \<Longrightarrow>
    tenants s' = tenants s \<and> featureDefs s' = featureDefs s \<and> plans s' = plans s \<and>
    tm_redis s' = tm_redis s \<and> tm_bus s' = tm_bus s \<and> (tm_wf s \<longrightarrow> tm_wf s')"
proof (induction cs arbitrary: s)
  case (Cons c cs)
  show ?case
  proof (cases "insert_feature (plan_row e t u c) s")
    case (Inr s1)
    with Cons.prems Cons.IH [of s1] show ?thesis
      by (auto simp: insert_feature_eqs(1) [OF Inr] dest: insert_feature_wf)
  qed (use Cons.prems in simp)
qed simp

lemma replaceTenantFeatures_frame:
  assumes "replaceTenantFeatures e t cs u s = (r, s')"
  shows "tenants s' = tenants s" "featureDefs s' = featureDefs s" "plans s' = plans s"
    "tm_redis s' = tm_redis s" "tm_bus s' = tm_bus s" "tm_wf s \<Longrightarrow> tm_wf s'"
proof -
  let ?s = "s\<lparr>tenantFeatures := delete_where (\<lambda>f. tf_tenantId f = t) (tenantFeatures s)\<rparr>"
  have fr: "insertFeatures e t cs u ?s = (r, s')"
    using assms by (simp add: replaceTenantFeatures_def)
  have "tm_wf s \<Longrightarrow> tm_wf ?s"
    by (auto simp: tm_wf_def unique_delete_where)
  then show "tenants s' = tenants s" "featureDefs s' = featureDefs s" "plans s' = plans s"
    "tm_redis s' = tm_redis s" "tm_bus s' = tm_bus s" "tm_wf s \<Longrightarrow> tm_wf s'"
    using insertFeatures_frame [OF fr] by auto
qed

lemma invalidate_frame:
  "invalidateTenantFeatureCache e t s = Some s' \<Longrightarrow> \<exists>r. s' = s\<lparr>tm_redis := r\<rparr>"
  by (auto simp: invalidateTenantFeatureCache_def split: option.splits if_splits) (metis tm_state.surjective tm_state.update_convs(5))

lemma patch_tenant_keeps:
  "patch_tenant dto t = Inr t' \<Longrightarrow> t_id t' = t_id t \<and> t_slug t' = t_slug t \<and> t_status t' = t_status t \<and>
    t_suspendedAt t' = t_suspendedAt t \<and> t_cancelledAt t' = t_cancelledAt t \<and>
    t_currentPlan t' = t_currentPlan t \<and> t_enabledFeatures t' = t_enabledFeatures t"
  by (auto simp: patch_tenant_def split: if_splits)

text \<open>The plan change in named steps, with the row it saves and the codes it synchronises.\<close>

abbreviation plan_codes :: "tm_env \<Rightarrow> string \<Rightarrow> tm_state \<Rightarrow> string list" where
  "plan_codes e p s \<equiv> p_includedFeatures (plans_findByCode (tm_now e) p s)"

abbreviation sync_codes :: "tm_env \<Rightarrow> string \<Rightarrow> tm_state \<Rightarrow> string list" where
  "sync_codes e p s \<equiv> (if plan_codes e p s \<noteq> [] then plan_codes e p s else coalesce (planFeatures p) [])"

abbreviation repriced :: "tm_env \<Rightarrow> string \<Rightarrow> tenant \<Rightarrow> tm_state \<Rightarrow> tenant \<times> tm_state" where
  "repriced e p t s \<equiv> save_tenant (tm_now e)
     (t\<lparr>t_currentPlan := p, t_enabledFeatures := plan_codes e p s\<rparr>) s"

lemma changePlan_replaced:
  assumes "replaceTenantFeatures e i (sync_codes e p s) i (snd (repriced e p t s)) = (q, s2)"
  shows "changePlan e i p t s =
    (case q of
       Inl x \<Rightarrow> Some (Inl x, s2)
     | Inr _ \<Rightarrow>
         map_option (\<lambda>s3. (Inr (fst (repriced e p t s)),
             s3\<lparr>tm_bus := publish ''chassis.tenants'' ''tenant.plan-changed''
               (TenantPlanChangedEvent (tm_now e) i (t_currentPlan t) p) (tm_bus s3)\<rparr>))
           (invalidateTenantFeatureCache e i s2))"
  unfolding changePlan_def Let_def case_prod_beta assms fst_conv snd_conv
  by (simp split: sum.split option.split)

lemma changePlan_inv:
  assumes "tm_inv s" "find_tenant (t_id t) s = Some t0" "t_slug t = t_slug t0" "lifecycle_row t"
    and ch: "changePlan e i p t s = Some (r, s')"
  shows "tm_inv s'"
proof -
  obtain q s2 where rep: "replaceTenantFeatures e i (sync_codes e p s) i (snd (repriced e p t s)) = (q, s2)"
    by (rule prod.exhaust)
  have "tm_inv (snd (repriced e p t s))" using assms by (intro tm_inv_save) simp_all
  then have s2: "tm_inv s2"
    using replaceTenantFeatures_frame [OF rep] by (simp add: tm_inv_def)
  show ?thesis
  proof (cases q)
    case (Inl x)
    with ch s2 show ?thesis by (simp add: changePlan_replaced [OF rep])
  next
    case (Inr u)
    then obtain s3 where "invalidateTenantFeatureCache e i s2 = Some s3"
        and s': "\<exists>b. s' = s3\<lparr>tm_bus := b\<rparr>"
      using ch by (auto simp: changePlan_replaced [OF rep])
    from invalidate_frame [OF this(1)] s' s2 show ?thesis by auto
  qed
qed

lemma updateTenant_inv: "tm_inv s \<Longrightarrow> updateTenant e i dto s = Some (r, s') \<Longrightarrow> tm_inv s'"
proof -
  assume inv: "tm_inv s" and up: "updateTenant e i dto s = Some (r, s')"
  show "tm_inv s'"
  proof (cases "tenants_findById i s")
    case (Inr t0)
    have t0: "find_tenant i s = Some t0" "t_id t0 = i" "lifecycle_row t0"
      using find_tenant_id [OF Inr] inv by (auto simp: tm_inv_def find_tenant_iff)
    show ?thesis
    proof (cases "patch_tenant dto t0")
      case (Inr t)
      note keep = patch_tenant_keeps [OF Inr]
      have "tm_inv (snd (save_tenant (tm_now e) t s))"
        by (rule tm_inv_save [OF inv, of _ t0]) (use t0 keep in simp_all)
      moreover have "tm_inv s'" if "changePlan e i p t s = Some (r, s')" for p
        by (rule changePlan_inv [OF inv, of t t0]) (use t0 keep that in simp_all)
      ultimately show ?thesis
        using up \<open>tenants_findById i s = Inr t0\<close> Inr
        by (auto simp: updateTenant_def Let_def case_prod_beta split: field.splits if_splits)
    qed (use up inv Inr in \<open>simp add: updateTenant_def\<close>)
  qed (use up inv in \<open>simp add: updateTenant_def\<close>)
qed

lemma provisionFeatures_frame:
  "provisionFeatures e t cs u s = Inr s' \<Longrightarrow>
    tenants s' = tenants s \<and> featureDefs s' = featureDefs s \<and> plans s' = plans s \<and>
    tm_redis s' = tm_redis s \<and> tm_bus s' = tm_bus s \<and> tm_requests s' = tm_requests s \<and>
    (tm_wf s \<longrightarrow> tm_wf s')"
proof (induction cs arbitrary: s)
  case (Cons c cs)
  show ?case
  proof (cases "find_override t c s")
    case None
    then obtain s1 where s1: "insert_feature (plan_row e t u c) s = Inr s1"
        "provisionFeatures e t cs u s1 = Inr s'"
      using Cons.prems by (auto split: sum.splits)
    with Cons.IH [OF s1(2)] show ?thesis
      by (auto simp: insert_feature_eqs(1) [OF s1(1)] dest: insert_feature_wf [rotated])
  qed (use Cons in simp)
qed simp

text \<open>The outcome of the transaction, step by step.\<close>

lemma provision_cases:
  assumes "provision e dto p plan u s = Inr (t, s')"
  obtains s1 s2 where "insert_tenant (provisioningRow e dto p) s = Inr s1"
    "provisionFeatures e (newTenantId e) (p_includedFeatures plan) u s1 = Inr s2"
    "(t, s') = save_tenant (tm_now e) ((provisioningRow e dto p)\<lparr>t_enabledFeatures := p_includedFeatures plan,
       t_status := TS_active\<rparr>) s2"
  using assms by (auto simp: provision_def Let_def provisioningRow_def split: sum.splits)

lemma insert_tenant_eqs:
  "insert_tenant t s = Inr s' \<Longrightarrow> s' = s\<lparr>tenants := tenants s @ [t]\<rparr> \<and>
    (\<forall>x \<in> set (tenants s). t_id x \<noteq> t_id t \<and> t_slug x \<noteq> t_slug t)"
  by (auto simp: insert_tenant_def split: if_splits)

lemma provision_result:
  assumes "provision e dto p plan u s = Inr (t, s')"
  shows "tenants s' = tenants s @ [t]" "t_id t = newTenantId e" "t_slug t = finalSlug e (ct_name dto)"
    "t_status t = TS_active" "t_currentPlan t = p" "t_enabledFeatures t = p_includedFeatures plan"
    "t_suspendedAt t = None" "t_adminEmail t = toLowerCase (ct_adminEmail dto)"
    "tm_redis s' = tm_redis s" "tm_bus s' = tm_bus s" "tm_requests s' = tm_requests s"
    "featureDefs s' = featureDefs s" "plans s' = plans s"
    "\<forall>x \<in> set (tenants s). t_id x \<noteq> t_id t \<and> t_slug x \<noteq> t_slug t"
    "tm_wf s \<Longrightarrow> tm_wf s'"
proof -
  obtain s1 s2 where s1: "insert_tenant (provisioningRow e dto p) s = Inr s1"
    and s2: "provisionFeatures e (newTenantId e) (p_includedFeatures plan) u s1 = Inr s2"
    and fin: "(t, s') = save_tenant (tm_now e) ((provisioningRow e dto p)\<lparr>t_enabledFeatures := p_includedFeatures plan,
       t_status := TS_active\<rparr>) s2"
    using provision_cases [OF assms] by blast
  note ins = insert_tenant_eqs [OF s1] and frame = provisionFeatures_frame [OF s2]
  let ?t = "(provisioningRow e dto p)\<lparr>t_enabledFeatures := p_includedFeatures plan, t_status := TS_active\<rparr>"
  have ts: "t = fst (save_tenant (tm_now e) ?t s2)" "s' = snd (save_tenant (tm_now e) ?t s2)"
    using fin by (simp_all add: prod_eq_iff)
  show row: "t_id t = newTenantId e" "t_slug t = finalSlug e (ct_name dto)"
    "t_status t = TS_active" "t_currentPlan t = p" "t_enabledFeatures t = p_includedFeatures plan"
    "t_suspendedAt t = None"
    by (simp_all add: ts provisioningRow_def)
  show "t_adminEmail t = toLowerCase (ct_adminEmail dto)"
    by (simp add: ts save_tenant_def Let_def provisioningRow_def)
  show "tm_redis s' = tm_redis s" "tm_bus s' = tm_bus s" "tm_requests s' = tm_requests s"
    "featureDefs s' = featureDefs s" "plans s' = plans s"
    using ins frame by (simp_all add: ts)
  have "t_id (provisioningRow e dto p) = newTenantId e" "t_slug (provisioningRow e dto p) = finalSlug e (ct_name dto)"
    by (simp_all add: provisioningRow_def)
  with ins row show fresh: "\<forall>x \<in> set (tenants s). t_id x \<noteq> t_id t \<and> t_slug x \<noteq> t_slug t" by auto
  have "tenants s2 = tenants s @ [provisioningRow e dto p]" using ins frame by simp
  then show "tenants s' = tenants s @ [t]"
    using fresh by (simp add: ts tenants_save save_row_last)
  have new: "find_tenant (t_id ?t) s2 = Some (provisioningRow e dto p)"
    using ins frame by (auto simp: find_append split: option.split dest!: find_SomeD)
  show "tm_wf s'" if "tm_wf s"
    unfolding ts
    by (rule tm_wf_save_tenant [OF _ new]) (use that frame insert_tenant_wf [OF _ s1] in simp_all)
qed

lemma requestOwnerMembership_frame [simp]:
  "tenants (requestOwnerMembership e i u s) = tenants s"
  "tenantFeatures (requestOwnerMembership e i u s) = tenantFeatures s"
  "featureDefs (requestOwnerMembership e i u s) = featureDefs s"
  "plans (requestOwnerMembership e i u s) = plans s"
  "tm_bus (requestOwnerMembership e i u s) = tm_bus s"
  "tm_redis (requestOwnerMembership e i u s) = tm_redis s"
  by (simp_all add: requestOwnerMembership_def)

text \<open>The message announcing a new tenant.\<close>

abbreviation provisioned_msg :: "tm_env \<Rightarrow> tenant \<Rightarrow> bus_msg" where
  "provisioned_msg e t \<equiv> \<lparr>exchange = ''chassis.tenants'', routingKey = ''tenant.provisioned'',
     payload = TenantProvisionedEvent (tm_now e) (t_id t) (t_slug t) (t_currentPlan t) (t_adminEmail t)\<rparr>"

lemma createTenant_cases:
  assumes "createTenant e dto u s = (r, s')"
  obtains (refused) x y where "r = Inl x" "s' = s"
      "provision e dto (coalesce (ct_plan dto) ''free'')
         (plans_findByCode (tm_now e) (coalesce (ct_plan dto) ''free'') s) u s = Inl y"
      "x = (if y = QueryFailed ''23505''
        then Conflict (''Tenant slug '' @ quoted (finalSlug e (ct_name dto)) @ '' is already taken'') else y)"
  | (created) t s1 where "r = Inr t"
      "provision e dto (coalesce (ct_plan dto) ''free'')
         (plans_findByCode (tm_now e) (coalesce (ct_plan dto) ''free'') s) u s = Inr (t, s1)"
      "s' = (requestOwnerMembership e (t_id t) u s1)\<lparr>tm_bus :=
         publish (exchange (provisioned_msg e t)) (routingKey (provisioned_msg e t))
           (payload (provisioned_msg e t)) (tm_bus s1)\<rparr>"
proof (cases "provision e dto (coalesce (ct_plan dto) ''free'')
         (plans_findByCode (tm_now e) (coalesce (ct_plan dto) ''free'') s) u s")
  case (Inl y)
  show thesis
    by (rule refused [OF _ _ Inl refl])
      (use assms in \<open>auto simp: createTenant_def Let_def Inl split: if_splits\<close>)
next
  case (Inr a)
  obtain t s1 where a: "a = (t, s1)" by (cases a)
  show thesis
    by (rule created [OF _ Inr [unfolded a]])
      (use assms in \<open>auto simp: createTenant_def Let_def Inr a\<close>)
qed

lemma createTenant_inv:
  assumes "tm_inv s" "createTenant e dto u s = (r, s')"
  shows "tm_inv s'"
  using assms(2)
proof (cases rule: createTenant_cases)
  case (created t s1)
  note res = provision_result [OF created(2)]
  have "tm_wf s1" using assms(1) res(15) by (simp add: tm_inv_def)
  moreover have "\<forall>x \<in> set (tenants s1). lifecycle_row x"
    using assms(1) by (auto simp: tm_inv_def res)
  ultimately show ?thesis
    by (simp add: tm_inv_def tm_wf_def created(3))
qed (use assms(1) in simp)

text \<open>
  The operations that look a tenant up and store it back with a new status share one shape.
\<close>

lemma status_change_inv:
  assumes inv: "tm_inv s" and t: "tenants_findById i s = Inr t"
    and keep: "t_id (f t) = t_id t" "t_slug (f t) = t_slug t" "lifecycle_row (f t)"
  shows "tm_inv (snd (save_tenant now (f t) s))"
  by (rule tm_inv_save [OF inv, of _ t]) (use find_tenant_id [OF t] keep in simp_all)

lemma stored_lifecycle: "tm_inv s \<Longrightarrow> tenants_findById i s = Inr t \<Longrightarrow> lifecycle_row t"
  by (auto dest!: find_tenant_id simp: tm_inv_def find_tenant_iff)

lemma suspendTenant_inv:
  assumes "tm_inv s" "suspendTenant e i why s = (r, s')"
  shows "tm_inv s'"
proof (cases "tenants_findById i s")
  case (Inr t)
  note this [simp]
  have "tm_inv (snd (save_tenant (tm_now e) (t\<lparr>t_status := TS_suspended, t_suspendedAt := Some (tm_now e)\<rparr>) s))"
    by (rule status_change_inv [OF assms(1) Inr]) simp_all
  with assms show ?thesis
    by (auto simp: suspendTenant_def Let_def case_prod_beta split: if_splits)
qed (use assms in \<open>simp add: suspendTenant_def\<close>)

lemma activateTenant_inv:
  assumes "tm_inv s" "activateTenant e i s = (r, s')"
  shows "tm_inv s'"
proof (cases "tenants_findById i s")
  case (Inr t)
  note this [simp]
  have "tm_inv (snd (save_tenant (tm_now e) (t\<lparr>t_status := TS_active, t_suspendedAt := None\<rparr>) s))"
    by (rule status_change_inv [OF assms(1) Inr]) simp_all
  with assms show ?thesis
    by (auto simp: activateTenant_def Let_def case_prod_beta split: if_splits)
qed (use assms in \<open>simp add: activateTenant_def\<close>)

lemma archiveTenant_inv:
  assumes "tm_inv s" "archiveTenant e i s = Some (r, s')"
  shows "tm_inv s'"
proof (cases "tenants_findById i s")
  case (Inr t)
  note this [simp]
  have "tm_inv (snd (save_tenant (tm_now e) (t\<lparr>t_status := TS_cancelled, t_cancelledAt := Some (tm_now e)\<rparr>) s))"
    by (rule status_change_inv [OF assms(1) Inr]) simp_all
  with assms show ?thesis
    by (auto simp: archiveTenant_def Let_def case_prod_beta split: if_splits dest!: invalidate_frame)
qed (use assms in \<open>simp add: archiveTenant_def\<close>)

lemma handleBillingSynced_inv: "tm_inv s \<Longrightarrow> tm_inv (handleBillingSynced e i c s)"
  by (auto simp: tm_inv_def tm_wf_def handleBillingSynced_def unique_update_where set_update_where
      find_update_where split: field.split)

lemma subscription_tenant_simps [simp]:
  "subscription_tenant (Value i) s = find_tenant i s"
  by (simp add: subscription_tenant_def)

lemma subscription_tenant_stored: "subscription_tenant i s = Some t \<Longrightarrow> find_tenant (t_id t) s = Some t"
proof (cases i)
  case (Value k)
  then show "subscription_tenant i s = Some t \<Longrightarrow> find_tenant (t_id t) s = Some t"
    using find_SomeD [of "\<lambda>t. t_id t = k" "tenants s" t] by simp
qed (cases "tenants s"; simp add: subscription_tenant_def)+

text \<open>A message without tenant is one about the tenant of the first row.\<close>

lemma subscription_message_about:
  "handleSubscriptionStatus e i st p s = s \<or>
   (\<exists>t. subscription_tenant i s = Some t \<and>
      handleSubscriptionStatus e i st p s = handleSubscriptionStatus e (Value (t_id t)) st p s)"
  using subscription_tenant_stored [of i s]
  by (cases "subscription_tenant i s") (simp_all add: handleSubscriptionStatus_def)

lemma applySubscriptionStatus_keeps:
  "t_id (applySubscriptionStatus e st t) = t_id t" "t_slug (applySubscriptionStatus e st t) = t_slug t"
  "lifecycle_row t \<Longrightarrow> lifecycle_row (applySubscriptionStatus e st t)"
  by (simp_all add: applySubscriptionStatus_def)

lemma handleSubscriptionStatus_inv:
  assumes "tm_inv s"
  shows "tm_inv (handleSubscriptionStatus e i st p s)"
proof (cases "subscription_tenant i s")
  case (Some t)
  then have t: "tenants_findById (t_id t) s = Inr t" by (simp add: tenants_findById_def subscription_tenant_stored)
  have "tm_inv (snd (save_tenant (tm_now e) ((\<lambda>t. let t1 = applySubscriptionStatus e st t in
      if truthy p \<and> the p \<noteq> t_currentPlan t1 then t1\<lparr>t_currentPlan := the p\<rparr> else t1) t) s))"
    by (rule status_change_inv [OF assms t])
      (use stored_lifecycle [OF assms t] in \<open>simp_all add: Let_def applySubscriptionStatus_keeps\<close>)
  with Some assms show ?thesis by (simp add: handleSubscriptionStatus_def Let_def)
qed (use assms in \<open>simp add: handleSubscriptionStatus_def\<close>)

end
