(* ===== verification/Access_Control.thy ===== *)
theory Access_Control
  imports Chassis_Prelude
begin

text \<open>
  Tokens and guards. The JWT payload is the one the identity service signs and the other services
  read (\<^verbatim>\<open>jwt.strategy.ts\<close> of each service, \<^verbatim>\<open>jwt-payload.interface.ts\<close> of the SDK). The guards are
  the permission and role guards of the identity service, of the billing engine and of the SDK;
  the SDK's read the headers the gateway forwards. One interface, \<open>permission_guard\<close>, states what a
  permission guard admits and is met by all three.
\<close>

subsection \<open>Tokens\<close>

text \<open>The claims the identity service signs, and the verified payload with its two instants.
  \<open>roles\<close> and \<open>permissions\<close> are optional properties in the payload type of the billing engine and
  the tenant manager, so they may be absent here.\<close>

record jwtClaims =
  jp_sub :: uuid
  jp_email :: string
  jp_displayName :: string
  jp_isPlatformAdmin :: bool
  jp_tenantId :: "uuid option"
  jp_tenantSlug :: "string option"
  jp_roles :: "string list option"
  jp_permissions :: "string list option"
  jp_isImpersonating :: bool
  jp_realUserId :: "uuid option"

record jwtPayload = jwtClaims +
  jp_iat :: int
  jp_exp :: int

text \<open>\<^verbatim>\<open>JwtAuthGuard.handleRequest\<close>: \<open>err\<close> and \<open>user\<close> are what passport hands over after verifying.\<close>

definition handleRequest :: "exn option \<Rightarrow> 'u option \<Rightarrow> 'u result" where
  "handleRequest err user =
     (case (err, user) of
        (None, Some u) \<Rightarrow> Inr u
      | (Some x, _) \<Rightarrow> Inl x
      | (None, None) \<Rightarrow> Inl (Unauthorized ''Invalid or missing access token''))"

text \<open>\<^verbatim>\<open>RequirePermission(resource, action)\<close>.\<close>

definition permission :: "string \<Rightarrow> string \<Rightarrow> string" where
  "permission resource action = resource @ '':'' @ action"

subsection \<open>Guards of the services\<close>

text \<open>\<^verbatim>\<open>user.permissions.includes(...)\<close> on an absent array raises a \<^verbatim>\<open>TypeError\<close>.\<close>

definition identity_PermissionsGuard :: "string list option \<Rightarrow> jwtPayload option \<Rightarrow> bool result" where
  "identity_PermissionsGuard requiredPermissions user =
     (if coalesce requiredPermissions [] = [] then Inr True
      else case user of
        None \<Rightarrow> Inl (Forbidden ''No authenticated user found'')
      | Some u \<Rightarrow>
          if jp_isPlatformAdmin u then Inr True
          else (case jp_permissions u of
             None \<Rightarrow> Inl (JsError ''Cannot read properties of undefined'')
           | Some ps \<Rightarrow>
               if list_all (\<lambda>perm. perm \<in> set ps) (the requiredPermissions) then Inr True
               else Inl (Forbidden (''Missing required permissions: '' @
                      join_with '', '' (the requiredPermissions)))))"

definition identity_RolesGuard :: "string list option \<Rightarrow> jwtPayload option \<Rightarrow> bool result" where
  "identity_RolesGuard requiredRoles user =
     (if coalesce requiredRoles [] = [] then Inr True
      else case user of
        None \<Rightarrow> Inl (Forbidden ''No authenticated user found'')
      | Some u \<Rightarrow>
          if jp_isPlatformAdmin u then Inr True
          else (case jp_roles u of
             None \<Rightarrow> Inl (JsError ''Cannot read properties of undefined'')
           | Some rs \<Rightarrow>
               if list_ex (\<lambda>role. role \<in> set rs) (the requiredRoles) then Inr True
               else Inl (Forbidden (''Requires one of these roles: '' @
                      join_with '', '' (the requiredRoles)))))"

definition billing_PermissionsGuard :: "string list option \<Rightarrow> jwtPayload option \<Rightarrow> bool result" where
  "billing_PermissionsGuard required user =
     (if coalesce required [] = [] then Inr True
      else case user of
        None \<Rightarrow> Inl (Forbidden ''No authenticated user'')
      | Some u \<Rightarrow>
          if jp_isPlatformAdmin u then Inr True
          else if list_all (\<lambda>perm. perm \<in> set (coalesce (jp_permissions u) [])) (the required) then Inr True
          else Inl (Forbidden (''Missing required permission(s): '' @ join_with '', '' (the required))))"

subsection \<open>Guards of the SDK\<close>

text \<open>Request headers, by lower-case name.\<close>

type_synonym headers = "string \<rightharpoonup> string"

definition sdk_JwtAuthGuard :: "bool \<Rightarrow> headers \<Rightarrow> bool result" where
  "sdk_JwtAuthGuard isPublic h =
     (if isPublic then Inr True
      else if \<not> truthy (h ''x-user-id'') then Inl (Unauthorized ''Missing gateway identity headers'')
      else Inr True)"

text \<open>\<^verbatim>\<open>header?.split(',') || []\<close>: an array is truthy, so the fallback is for an absent header.\<close>

definition header_list :: "string option \<Rightarrow> string list" where
  "header_list v = (case v of None \<Rightarrow> [] | Some s \<Rightarrow> split_on CHR '','' s)"

definition sdk_PermissionsGuard :: "string option \<Rightarrow> headers \<Rightarrow> bool result" where
  "sdk_PermissionsGuard requiredPermission h =
     (if \<not> truthy requiredPermission then Inr True
      else if h ''x-is-platform-admin'' = Some ''true'' then Inr True
      else if the requiredPermission \<notin> set (header_list (h ''x-permissions''))
      then Inl (Forbidden (''Required permission: '' @ the requiredPermission))
      else Inr True)"

definition sdk_RolesGuard :: "string list option \<Rightarrow> headers \<Rightarrow> bool result" where
  "sdk_RolesGuard requiredRoles h =
     (case requiredRoles of
        None \<Rightarrow> Inr True
      | Some rs \<Rightarrow>
          if h ''x-is-platform-admin'' = Some ''true'' then Inr True
          else Inr (list_ex (\<lambda>role. role \<in> set (header_list (h ''x-roles''))) rs))"

text \<open>\<^verbatim>\<open>FeatureGateGuard\<close> with the injected checker, if any; the checker may change its own state.\<close>

definition sdk_FeatureGateGuard ::
  "string option \<Rightarrow> (string option \<Rightarrow> string \<Rightarrow> 's \<Rightarrow> bool \<times> 's) option \<Rightarrow> headers \<Rightarrow> 's \<Rightarrow> bool result \<times> 's" where
  "sdk_FeatureGateGuard featureCode checker h s =
     (if \<not> truthy featureCode then (Inr True, s)
      else case checker of
        None \<Rightarrow> (Inr True, s)
      | Some isEnabled \<Rightarrow>
          (case isEnabled (h ''x-tenant-id'') (the featureCode) s of
             (enabled, s') \<Rightarrow>
               (if enabled then Inr True
                else Inl (Forbidden (''Feature '' @ quoted (the featureCode) @ '' is not enabled for this tenant'')), s')))"

text \<open>\<^verbatim>\<open>@CurrentTenant()\<close> and \<^verbatim>\<open>@CurrentUser()\<close>.\<close>

record tenantContext =
  tc_tenantId :: "string option"
  tc_tenantSlug :: "string option"
  tc_userId :: "string option"
  tc_roles :: "string list"
  tc_isPlatformAdmin :: bool
  tc_permissions :: "string list"

definition currentTenant :: "headers \<Rightarrow> tenantContext" where
  "currentTenant h = \<lparr>tc_tenantId = h ''x-tenant-id'', tc_tenantSlug = h ''x-tenant-slug'',
     tc_userId = h ''x-user-id'', tc_roles = header_list (h ''x-roles''),
     tc_isPlatformAdmin = (h ''x-is-platform-admin'' = Some ''true''),
     tc_permissions = header_list (h ''x-permissions'')\<rparr>"

record userContext =
  uc_userId :: "string option"
  uc_email :: string
  uc_displayName :: string
  uc_isPlatformAdmin :: bool
  uc_isImpersonating :: bool
  uc_realUserId :: "string option"

definition currentUser :: "jwtPayload option \<Rightarrow> headers \<Rightarrow> userContext" where
  "currentUser user h = \<lparr>uc_userId = h ''x-user-id'',
     uc_email = (case user of None \<Rightarrow> '''' | Some u \<Rightarrow> jp_email u),
     uc_displayName = (case user of None \<Rightarrow> '''' | Some u \<Rightarrow> jp_displayName u),
     uc_isPlatformAdmin = (h ''x-is-platform-admin'' = Some ''true''),
     uc_isImpersonating = (h ''x-is-impersonating'' = Some ''true''),
     uc_realUserId = h ''x-real-user-id''\<rparr>"

subsection \<open>What a permission guard admits\<close>

text \<open>
  A guard admits a request when nothing is required, or the caller is a platform admin, or every
  required permission is granted.
\<close>

locale permission_guard =
  fixes guard :: "'r \<Rightarrow> 'u \<Rightarrow> bool result"
    and needed :: "'r \<Rightarrow> string set"
    and granted :: "'u \<Rightarrow> string set"
    and admin :: "'u \<Rightarrow> bool"
  assumes admits_iff: "guard r u = Inr True \<longleftrightarrow> needed r = {} \<or> admin u \<or> needed r \<subseteq> granted u"
    and never_false: "guard r u \<noteq> Inr False"
begin

lemma refuses_iff: "(\<exists>x. guard r u = Inl x) \<longleftrightarrow> needed r \<noteq> {} \<and> \<not> admin u \<and> \<not> needed r \<subseteq> granted u"
proof (cases "guard r u")
  case (Inr b)
  then show ?thesis using admits_iff [of r u] never_false [of r u] by (cases b) auto
qed (use admits_iff [of r u] in auto)

lemma admits_mono:
  "guard r u = Inr True \<Longrightarrow> granted u \<subseteq> granted v \<Longrightarrow> (admin u \<Longrightarrow> admin v) \<Longrightarrow> guard r v = Inr True"
  by (auto simp: admits_iff)

lemma admits_weaker: "guard r u = Inr True \<Longrightarrow> needed q \<subseteq> needed r \<Longrightarrow> guard q u = Inr True"
  by (auto simp: admits_iff)

end

text \<open>A logged-in caller, as the guards of the two services see it.\<close>

interpretation identity_guard: permission_guard
  "\<lambda>r u. identity_PermissionsGuard r (Some u)" "\<lambda>r. set (coalesce r [])"
  "\<lambda>u. set (coalesce (jp_permissions u) [])" jp_isPlatformAdmin
proof
  fix r u
  show "identity_PermissionsGuard r (Some u) = Inr True \<longleftrightarrow>
      set (coalesce r []) = {} \<or> jp_isPlatformAdmin u \<or>
      set (coalesce r []) \<subseteq> set (coalesce (jp_permissions u) [])"
    by (cases r; cases "jp_permissions u") (auto simp: identity_PermissionsGuard_def list_all_iff)
  show "identity_PermissionsGuard r (Some u) \<noteq> Inr False"
    by (auto simp: identity_PermissionsGuard_def split: option.split)
qed

interpretation billing_guard: permission_guard
  "\<lambda>r u. billing_PermissionsGuard r (Some u)" "\<lambda>r. set (coalesce r [])"
  "\<lambda>u. set (coalesce (jp_permissions u) [])" jp_isPlatformAdmin
proof
  fix r u
  show "billing_PermissionsGuard r (Some u) = Inr True \<longleftrightarrow>
      set (coalesce r []) = {} \<or> jp_isPlatformAdmin u \<or>
      set (coalesce r []) \<subseteq> set (coalesce (jp_permissions u) [])"
    by (cases r) (auto simp: billing_PermissionsGuard_def list_all_iff)
  show "billing_PermissionsGuard r (Some u) \<noteq> Inr False"
    by (auto simp: billing_PermissionsGuard_def split: option.split)
qed

text \<open>The SDK's guard takes one permission and reads the grants from a header.\<close>

interpretation sdk_guard: permission_guard sdk_PermissionsGuard
  "\<lambda>r. if truthy r then {the r} else {}" "\<lambda>h. set (header_list (h ''x-permissions''))"
  "\<lambda>h. h ''x-is-platform-admin'' = Some ''true''"
  by unfold_locales (auto simp: sdk_PermissionsGuard_def)

text \<open>
  The headers that stand for a token: the gateway forwards the platform-admin flag as text and the
  permissions joined by commas.
\<close>

definition forwards :: "headers \<Rightarrow> jwtPayload \<Rightarrow> bool" where
  "forwards h u \<longleftrightarrow>
     h ''x-user-id'' = Some (jp_sub u) \<and> jp_sub u \<noteq> [] \<and>
     h ''x-is-platform-admin'' = Some (if jp_isPlatformAdmin u then ''true'' else ''false'') \<and>
     h ''x-permissions'' = Some (join_with '','' (coalesce (jp_permissions u) []))"

lemma header_list_joined:
  assumes "\<forall>w \<in> set ws. CHR '','' \<notin> set w"
  shows "set (header_list (Some (join_with '','' ws))) = (if ws = [] then {[]} else set ws)"
proof (cases "ws = []")
  case False
  then show ?thesis using split_join [OF False assms] by (simp add: header_list_def)
qed (simp add: header_list_def)


text \<open>The guards of the identity service refuse an unauthenticated caller whenever something is
  required, admit a platform admin, and never answer \<open>false\<close>: a refusal is a 403. The SDK's role
  guard answers \<open>false\<close> instead, also for an empty list of roles, which the identity service's
  admits.\<close>

lemma roles_guard_outcomes:
  "(identity_RolesGuard (Some (r # rs)) None = Inl (Forbidden ''No authenticated user found'')) \<and>
   (\<forall>u. identity_RolesGuard (Some (r # rs)) (Some u) = Inr True \<longleftrightarrow>
      jp_isPlatformAdmin u \<or> (\<exists>x. x \<in> set (coalesce (jp_roles u) []) \<and> x \<in> set (r # rs))) \<and>
   (\<forall>R v. identity_RolesGuard R v \<noteq> Inr False) \<and>
   identity_RolesGuard (Some []) None = Inr True \<and>
   (\<forall>h. sdk_RolesGuard (Some []) h = Inr (h ''x-is-platform-admin'' = Some ''true''))"
proof -
  have "identity_RolesGuard (Some (r # rs)) (Some u) = Inr True \<longleftrightarrow>
      jp_isPlatformAdmin u \<or> (\<exists>x. x \<in> set (coalesce (jp_roles u) []) \<and> x \<in> set (r # rs))" for u
    by (cases "jp_roles u") (auto simp: identity_RolesGuard_def list_ex_iff)
  moreover have "sdk_RolesGuard (Some []) h = Inr (h ''x-is-platform-admin'' = Some ''true'')" for h
    by (simp add: sdk_RolesGuard_def)
  moreover have "identity_RolesGuard R v \<noteq> Inr False" for R v
    by (auto simp: identity_RolesGuard_def split: option.split)
  ultimately show ?thesis by (simp add: identity_RolesGuard_def)
qed

end
