(* ===== verification/Tenant_Control.thy ===== *)
theory Tenant_Control
  imports Tenant_Lifecycle Access_Control
begin

text \<open>
  The HTTP and message entry points of the tenant manager (\<^verbatim>\<open>tenants.controller.ts\<close>,
  \<^verbatim>\<open>features.controller.ts\<close>, \<^verbatim>\<open>plans.controller.ts\<close>, \<^verbatim>\<open>billing-events.controller.ts\<close>,
  \<^verbatim>\<open>internal-service.guard.ts\<close>) with their access checks, the transition system they span, and its
  properties: the reachable states satisfy the constraints, tenant status follows an abstract state
  machine, and a tenant's own users cannot reach another tenant.
\<close>

subsection \<open>Responses and request checks\<close>

record tenantResponse =
  tr_id :: uuid
  tr_name :: string
  tr_slug :: string
  tr_status :: tenantStatus
  tr_currentPlan :: string
  tr_adminEmail :: string
  tr_phone :: "string option"
  tr_address :: "string option"
  tr_stripeCustomerId :: "string option"
  tr_enabledFeatures :: "string list"
  tr_metadata :: json
  tr_trialEndsAt :: "instant option"
  tr_suspendedAt :: "instant option"
  tr_cancelledAt :: "instant option"
  tr_createdAt :: instant
  tr_updatedAt :: instant

definition fromEntity :: "tenant \<Rightarrow> tenantResponse" where
  "fromEntity t = \<lparr>tr_id = t_id t, tr_name = t_name t, tr_slug = t_slug t, tr_status = t_status t,
     tr_currentPlan = t_currentPlan t, tr_adminEmail = t_adminEmail t, tr_phone = t_phone t,
     tr_address = t_address t, tr_stripeCustomerId = t_stripeCustomerId t,
     tr_enabledFeatures = t_enabledFeatures t, tr_metadata = t_metadata t,
     tr_trialEndsAt = t_trialEndsAt t, tr_suspendedAt = t_suspendedAt t,
     tr_cancelledAt = t_cancelledAt t, tr_createdAt = t_createdAt t, tr_updatedAt = t_updatedAt t\<rparr>"

text \<open>Apply a response constructor to the value of an outcome.\<close>

definition respond :: "('a \<Rightarrow> 'b) \<Rightarrow> 'a result \<times> 's \<Rightarrow> 'b result \<times> 's" where
  "respond f o' = (map_sum id f (fst o'), snd o')"

lemma respond_simps [simp]: "snd (respond f x) = snd x" "fst (respond f x) = map_sum id f (fst x)"
  by (simp_all add: respond_def)

definition bad_uuid :: exn where
  "bad_uuid = BadRequest ''Validation failed (uuid is expected)''"

definition internalServiceGuard :: "tm_env \<Rightarrow> string option \<Rightarrow> bool result" where
  "internalServiceGuard e token =
     (if \<not> truthy token \<or> \<not> truthy (internalServiceToken e)
      then Inl (Unauthorized ''Missing X-Service-Token header'')
      else if token \<noteq> internalServiceToken e then Inl (Unauthorized ''Invalid X-Service-Token'')
      else Inr True)"

text \<open>The tenant an authenticated request is attributed to (\<^verbatim>\<open>TenantContextInterceptor\<close>).\<close>

definition requestTenantId :: "jwtPayload option \<Rightarrow> string option \<Rightarrow> string option" where
  "requestTenantId user routeTenantId =
     (if user \<noteq> None \<and> truthy (jp_tenantId (the user)) then jp_tenantId (the user)
      else if truthy routeTenantId \<and> \<not> (user \<noteq> None \<and> jp_isPlatformAdmin (the user)) then routeTenantId
      else None)"

subsection \<open>Tenants controller\<close>

definition TenantsController_create ::
  "tm_env \<Rightarrow> jwtPayload \<Rightarrow> createTenantDto \<Rightarrow> tm_state \<Rightarrow> tenantResponse apiResponse result \<times> tm_state" where
  "TenantsController_create e u dto s =
     (if \<not> jp_isPlatformAdmin u then (Inl (Forbidden ''Only platform admins can provision tenants''), s)
      else respond (\<lambda>t. api_created (fromEntity t)) (createTenant e dto (jp_sub u) s))"

definition TenantsController_findAll ::
  "jwtPayload \<Rightarrow> string \<Rightarrow> string \<Rightarrow> tm_state \<Rightarrow> tenantResponse list apiResponse result" where
  "TenantsController_findAll u page limit s =
     (if \<not> jp_isPlatformAdmin u then Inl (Forbidden ''Only platform admins can list all tenants'')
      else case tenants_findAll (pageNum page) (limitNum limit) s of
        (items, n, p, l) \<Rightarrow> Inr (api_paginated (map fromEntity items) n p l))"

definition TenantsController_findOne ::
  "tm_env \<Rightarrow> jwtPayload \<Rightarrow> uuid \<Rightarrow> tm_state \<Rightarrow> tenantResponse apiResponse result" where
  "TenantsController_findOne e u i s =
     (if \<not> isUUID e i then Inl bad_uuid
      else if \<not> jp_isPlatformAdmin u \<and> jp_tenantId u \<noteq> Some i then Inl (Forbidden ''Access denied to this tenant'')
      else map_sum id (\<lambda>t. api_ok (fromEntity t) None) (tenants_findById i s))"

definition TenantsController_update ::
  "tm_env \<Rightarrow> jwtPayload \<Rightarrow> uuid \<Rightarrow> updateTenantDto \<Rightarrow> tm_state \<Rightarrow>
   (tenantResponse apiResponse result \<times> tm_state) option" where
  "TenantsController_update e u i dto s =
     (if \<not> isUUID e i then Some (Inl bad_uuid, s)
      else if \<not> jp_isPlatformAdmin u \<and> jp_tenantId u \<noteq> Some i
      then Some (Inl (Forbidden ''Access denied to this tenant''), s)
      else if truthy (field_or_null (ut_plan dto)) \<and> \<not> jp_isPlatformAdmin u
      then Some (Inl (Forbidden ''Only platform admins can change the subscription plan''), s)
      else map_option (respond (\<lambda>t. api_ok (fromEntity t) None)) (updateTenant e i dto s))"

definition TenantsController_suspend ::
  "tm_env \<Rightarrow> jwtPayload \<Rightarrow> uuid \<Rightarrow> string field \<Rightarrow> tm_state \<Rightarrow> tenantResponse apiResponse result \<times> tm_state" where
  "TenantsController_suspend e u i reason s =
     (if \<not> isUUID e i then (Inl bad_uuid, s)
      else if \<not> jp_isPlatformAdmin u then (Inl (Forbidden ''Only platform admins can suspend tenants''), s)
      else respond (\<lambda>t. api_ok (fromEntity t) None) (suspendTenant e i reason s))"

definition TenantsController_activate ::
  "tm_env \<Rightarrow> jwtPayload \<Rightarrow> uuid \<Rightarrow> tm_state \<Rightarrow> tenantResponse apiResponse result \<times> tm_state" where
  "TenantsController_activate e u i s =
     (if \<not> isUUID e i then (Inl bad_uuid, s)
      else if \<not> jp_isPlatformAdmin u then (Inl (Forbidden ''Only platform admins can activate tenants''), s)
      else respond (\<lambda>t. api_ok (fromEntity t) None) (activateTenant e i s))"

definition TenantsController_remove ::
  "tm_env \<Rightarrow> jwtPayload \<Rightarrow> uuid \<Rightarrow> tm_state \<Rightarrow> (unit result \<times> tm_state) option" where
  "TenantsController_remove e u i s =
     (if \<not> isUUID e i then Some (Inl bad_uuid, s)
      else if \<not> jp_isPlatformAdmin u then Some (Inl (Forbidden ''Only platform admins can archive tenants''), s)
      else archiveTenant e i s)"

subsection \<open>Features and plans controllers\<close>

definition FeaturesController_findAllDefinitions :: "tm_state \<Rightarrow> featureDefinition list apiResponse" where
  "FeaturesController_findAllDefinitions s = api_ok (findAllDefinitions s) None"

definition FeaturesController_findTenantFeatures ::
  "tm_env \<Rightarrow> jwtPayload \<Rightarrow> uuid \<Rightarrow> tm_state \<Rightarrow> featureWithStatus list apiResponse result" where
  "FeaturesController_findTenantFeatures e u i s =
     (if \<not> isUUID e i then Inl bad_uuid
      else if \<not> jp_isPlatformAdmin u \<and> jp_tenantId u \<noteq> Some i then Inl (Forbidden ''Access denied to this tenant'')
      else Inr (api_ok (findTenantFeatures i s) None))"

definition FeaturesController_toggleFeature ::
  "tm_env \<Rightarrow> jwtPayload \<Rightarrow> uuid \<Rightarrow> string \<Rightarrow> bool \<Rightarrow> tm_state \<Rightarrow> tenantFeature apiResponse result \<times> tm_state" where
  "FeaturesController_toggleFeature e u i code enabled s =
     (if \<not> isUUID e i then (Inl bad_uuid, s)
      else if \<not> jp_isPlatformAdmin u then (Inl (Forbidden ''Only platform admins can toggle features''), s)
      else respond (\<lambda>f. api_ok f None) (toggleFeature e i code enabled (jp_sub u) s))"

text \<open>The check endpoint answers \<^verbatim>\<open>{ enabled }\<close>.\<close>

definition FeaturesController_checkFeature ::
  "tm_env \<Rightarrow> string option \<Rightarrow> uuid \<Rightarrow> string \<Rightarrow> tm_state \<Rightarrow> json apiResponse result \<times> tm_state" where
  "FeaturesController_checkFeature e token i code s =
     (case internalServiceGuard e token of
        Inl x \<Rightarrow> (Inl x, s)
      | Inr _ \<Rightarrow>
          if \<not> isUUID e i then (Inl bad_uuid, s)
          else (case isFeatureEnabled e i code s of
                  (enabled, s') \<Rightarrow> (Inr (api_ok (JObj [(''enabled'', JBool enabled)]) None), s')))"

definition PlansController_findAll :: "tm_state \<Rightarrow> plan list apiResponse" where
  "PlansController_findAll s = api_ok (plans_findAll s) None"

definition PlansController_findOne :: "tm_env \<Rightarrow> string \<Rightarrow> tm_state \<Rightarrow> plan apiResponse result" where
  "PlansController_findOne e i s = map_sum id (\<lambda>p. api_ok p None) (plans_findById e i s)"

subsection \<open>Transition system\<close>

datatype tm_event =
    Ev_create jwtPayload createTenantDto
  | Ev_update jwtPayload uuid updateTenantDto
  | Ev_suspend jwtPayload uuid "string field"
  | Ev_activate jwtPayload uuid
  | Ev_remove jwtPayload uuid
  | Ev_toggle jwtPayload uuid string bool
  | Ev_check "string option" uuid string
  | Ev_billingSynced uuid "string field"
  | Ev_subscriptionStatus uuid "string option" "string option"

inductive tm_step :: "tm_env \<Rightarrow> tm_event \<Rightarrow> tm_state \<Rightarrow> tm_state \<Rightarrow> bool" where
  create: "tm_step e (Ev_create u dto) s (snd (TenantsController_create e u dto s))"
| update: "TenantsController_update e u i dto s = Some (r, s') \<Longrightarrow> tm_step e (Ev_update u i dto) s s'"
| suspend: "tm_step e (Ev_suspend u i why) s (snd (TenantsController_suspend e u i why s))"
| activate: "tm_step e (Ev_activate u i) s (snd (TenantsController_activate e u i s))"
| remove: "TenantsController_remove e u i s = Some (r, s') \<Longrightarrow> tm_step e (Ev_remove u i) s s'"
| toggle: "tm_step e (Ev_toggle u i c b) s (snd (FeaturesController_toggleFeature e u i c b s))"
| check: "tm_step e (Ev_check tok i c) s (snd (FeaturesController_checkFeature e tok i c s))"
| billingSynced: "tm_step e (Ev_billingSynced i c) s (handleBillingSynced e (Value i) c s)"
| subscriptionStatus: "tm_step e (Ev_subscriptionStatus i st p) s (handleSubscriptionStatus e (Value i) st p s)"

inductive_cases tm_stepE: "tm_step e ev s s'"

text \<open>A fresh deployment: the catalogues are loaded, no tenant exists.\<close>

definition tm_init :: "tm_state \<Rightarrow> bool" where
  "tm_init s \<longleftrightarrow> tenants s = [] \<and> tenantFeatures s = [] \<and>
     unique_on fd_code (featureDefs s) \<and> unique_on p_code (plans s)"

inductive tm_reachable :: "tm_state \<Rightarrow> bool" where
  init: "tm_init s \<Longrightarrow> tm_reachable s"
| step: "tm_reachable s \<Longrightarrow> tm_step e ev s s' \<Longrightarrow> tm_reachable s'"

subsection \<open>Invariant\<close>

lemma toggleFeature_frame:
  assumes "toggleFeature e t c b u s = (r, s')"
  shows "tenants s' = tenants s" "featureDefs s' = featureDefs s" "plans s' = plans s"
  using assms by (cases rule: toggleFeature_cases; simp)+

lemma tm_step_inv:
  assumes "tm_inv s" "tm_step e ev s s'"
  shows "tm_inv s'"
  using assms(2)
proof (cases rule: tm_step.cases)
  case (create u dto)
  then show ?thesis
    using assms(1) createTenant_inv [OF assms(1) prod.collapse [symmetric]]
    by (simp add: TenantsController_create_def)
next
  case (update u i dto r)
  then show ?thesis
    using assms(1) updateTenant_inv [OF assms(1), of e i dto "fst _" s']
    by (auto simp: TenantsController_update_def respond_def split: if_splits)
next
  case (suspend u i why)
  then show ?thesis
    using assms(1) suspendTenant_inv [OF assms(1) prod.collapse [symmetric]]
    by (simp add: TenantsController_suspend_def)
next
  case (activate u i)
  then show ?thesis
    using assms(1) activateTenant_inv [OF assms(1) prod.collapse [symmetric]]
    by (simp add: TenantsController_activate_def)
next
  case (remove u i r)
  then show ?thesis
    using assms(1) archiveTenant_inv [OF assms(1)]
    by (auto simp: TenantsController_remove_def split: if_splits)
next
  case (toggle u i c b)
  let ?o = "toggleFeature e i c b (jp_sub u) s"
  have "tm_inv (snd ?o)"
    using assms(1) toggleFeature_wf [OF _ prod.collapse [symmetric]]
      toggleFeature_frame [OF prod.collapse [symmetric]]
    by (simp add: tm_inv_def)
  with toggle assms(1) show ?thesis by (simp add: FeaturesController_toggleFeature_def)
next
  case (check tok i c)
  have "tm_inv (snd (isFeatureEnabled e i c s))"
    using assms(1) by (subst tm_inv_cong [of _ s]) (simp_all add: isFeatureEnabled_frame)
  with check assms(1) show ?thesis
    by (auto simp: FeaturesController_checkFeature_def split: sum.splits prod.splits if_splits)
next
  case billingSynced
  then show ?thesis using assms(1) handleBillingSynced_inv by simp
next
  case subscriptionStatus
  then show ?thesis using assms(1) handleSubscriptionStatus_inv by simp
qed

text \<open>In every state the service can reach from a fresh deployment the table constraints hold
  (identifiers, slugs and feature overrides unique, no dangling feature row), no tenant is left in
  provisioning, and the timestamps agree with the status.\<close>

lemma tm_reachable_invariant:
  assumes "tm_reachable s"
  shows "tm_wf s \<and> (\<forall>t \<in> set (tenants s). lifecycle_row t)"
proof -
  have "tm_inv s"
    using assms
  proof induction
    case (init s)
    then show ?case by (simp add: tm_init_def tm_inv_def tm_wf_def)
  next
    case (step s e ev s')
    then show ?case by (blast intro: tm_step_inv)
  qed
  then show ?thesis by (simp add: tm_inv_def)
qed

subsection \<open>The effect on the tenant rows\<close>

text \<open>A change confined to the row of one tenant, and described there by a relation.\<close>

definition touches :: "uuid \<Rightarrow> (tenant \<Rightarrow> tenant \<Rightarrow> bool) \<Rightarrow> tm_state \<Rightarrow> tm_state \<Rightarrow> bool" where
  "touches i R s s' \<longleftrightarrow> (\<forall>j. rel_option (if j = i then R else (=)) (find_tenant j s) (find_tenant j s'))"

lemma touches_refl: "(\<And>t. R t t) \<Longrightarrow> tenants s' = tenants s \<Longrightarrow> touches i R s s'"
  by (auto simp: touches_def intro: option.rel_refl)

lemma touches_cong:
  "touches i R s s1 \<Longrightarrow> tenants s2 = tenants s1 \<Longrightarrow> touches i R s s2"
  by (simp add: touches_def)

lemma touches_save:
  assumes "tenants_findById i s = Inr t" "t_id t' = i" "R t (fst (save_tenant now t' s))"
  shows "touches i R s (snd (save_tenant now t' s))"
  using find_tenant_id [OF assms(1)] assms
  by (auto simp: touches_def find_save_tenant intro: option.rel_refl)

lemma touchesD:
  "touches i R s s' \<Longrightarrow> find_tenant j s = Some t \<Longrightarrow>
    \<exists>t'. find_tenant j s' = Some t' \<and> (if j = i then R t t' else t' = t)"
  unfolding touches_def by (drule spec [of _ j]) (auto simp: option_rel_Some1 split: if_splits)

text \<open>What no operation ever changes in a stored tenant.\<close>

abbreviation same_identity :: "tenant \<Rightarrow> tenant \<Rightarrow> bool" where
  "same_identity t t' \<equiv> t_id t' = t_id t \<and> t_slug t' = t_slug t \<and> t_createdAt t' = t_createdAt t"

lemma save_tenant_createdAt [simp]: "t_createdAt (fst (save_tenant now t s)) = t_createdAt t"
  by (simp add: save_tenant_def Let_def)

lemma changePlan_touches:
  assumes t: "tenants_findById i s = Inr t0" "t_id t = i" "R t0 (fst (repriced e p t s))"
    and ch: "changePlan e i p t s = Some (r, s')"
  shows "touches i R s s'"
proof -
  obtain q s2 where rep: "replaceTenantFeatures e i (sync_codes e p s) i (snd (repriced e p t s)) = (q, s2)"
    by (rule prod.exhaust)
  have 1: "touches i R s (snd (repriced e p t s))"
    using t by (intro touches_save) simp_all
  have "tenants s' = tenants s2"
  proof (cases q)
    case (Inr u)
    with ch obtain s3 where "invalidateTenantFeatureCache e i s2 = Some s3" "tenants s' = tenants s3"
      by (auto simp: changePlan_replaced [OF rep])
    with invalidate_frame [OF this(1)] show ?thesis by auto
  qed (use ch in \<open>simp add: changePlan_replaced [OF rep]\<close>)
  then show ?thesis
    by (intro touches_cong [OF 1]) (simp add: replaceTenantFeatures_frame(1) [OF rep])
qed

lemma patch_tenant_createdAt: "patch_tenant dto t = Inr t' \<Longrightarrow> t_createdAt t' = t_createdAt t"
  by (auto simp: patch_tenant_def split: if_splits)

lemma updateTenant_touches:
  assumes "updateTenant e i dto s = Some (r, s')"
  shows "touches i (\<lambda>t t'. same_identity t t' \<and> t_status t' = t_status t) s s'"
    (is "touches i ?R s s'")
proof (cases "tenants_findById i s")
  case (Inl x)
  with assms show ?thesis by (simp add: updateTenant_def touches_refl)
next
  case t0: (Inr t0)
  show ?thesis
  proof (cases "patch_tenant dto t0")
    case (Inl x)
    with assms t0 show ?thesis by (simp add: updateTenant_def touches_refl)
  next
    case (Inr t)
    note keep = patch_tenant_keeps [OF Inr] patch_tenant_createdAt [OF Inr] find_tenant_id [OF t0]
    have "touches i ?R s (snd (save_tenant (tm_now e) t s))"
      using keep by (intro touches_save [OF t0]) simp_all
    moreover have "touches i ?R s s'" if "changePlan e i p t s = Some (r, s')" for p
      by (rule changePlan_touches [OF t0 _ _ that]) (use keep in simp_all)
    ultimately show ?thesis
      using assms t0 Inr
      by (auto simp: updateTenant_def Let_def case_prod_beta split: field.splits if_splits)
  qed
qed

text \<open>A status change by one of the lifecycle operations, blocked in some states.\<close>

abbreviation moves :: "uuid \<Rightarrow> tenantStatus set \<Rightarrow> tenantStatus \<Rightarrow> tm_state \<Rightarrow> tm_state \<Rightarrow> bool" where
  "moves i B b s s' \<equiv> touches i (\<lambda>t t'. same_identity t t' \<and>
     t_status t' = (if t_status t \<in> B then t_status t else b)) s s'"

lemma moves_stay: "tenants_findById i s = Inl x \<Longrightarrow> tenants s' = tenants s \<Longrightarrow> moves i B b s s'"
  by (auto simp: tenants_findById_def touches_def rel_option_iff split: option.splits)

lemma moves_row:
  assumes t: "tenants_findById i s = Inr t"
    and "t_status t \<in> B \<Longrightarrow> tenants s' = tenants s"
    and "t_status t \<notin> B \<Longrightarrow> tenants s' = tenants (snd (save_tenant now (f t) s))"
    and "same_identity t (f t)" "t_status (f t) = b"
  shows "moves i B b s s'"
proof (cases "t_status t \<in> B")
  case True
  then show ?thesis
    using assms find_tenant_id [OF t] by (auto simp: touches_def rel_option_iff split: option.splits)
next
  case False
  have "moves i B b s (snd (save_tenant now (f t) s))"
    using assms False find_tenant_id [OF t] by (intro touches_save [OF t]) simp_all
  with assms(3) [OF False] show ?thesis by (rule touches_cong [rotated])
qed

lemma suspendTenant_moves:
  "moves i {TS_suspended, TS_cancelled} TS_suspended s (snd (suspendTenant e i why s))"
proof (cases "tenants_findById i s")
  case (Inr t)
  then show ?thesis
    by (rule moves_row [where now = "tm_now e" and
          f = "\<lambda>t. t\<lparr>t_status := TS_suspended, t_suspendedAt := Some (tm_now e)\<rparr>"])
      (auto simp: suspendTenant_def Let_def case_prod_beta Inr)
qed (rule moves_stay, assumption, simp add: suspendTenant_def)

lemma activateTenant_moves:
  "moves i {TS_active, TS_cancelled} TS_active s (snd (activateTenant e i s))"
proof (cases "tenants_findById i s")
  case (Inr t)
  then show ?thesis
    by (rule moves_row [where now = "tm_now e" and
          f = "\<lambda>t. t\<lparr>t_status := TS_active, t_suspendedAt := None\<rparr>"])
      (auto simp: activateTenant_def Let_def case_prod_beta Inr)
qed (rule moves_stay, assumption, simp add: activateTenant_def)

lemma archiveTenant_moves:
  assumes "archiveTenant e i s = Some (r, s')"
  shows "moves i {TS_cancelled} TS_cancelled s s'"
proof (cases "tenants_findById i s")
  case (Inr t)
  then show ?thesis
    by (rule moves_row [where now = "tm_now e" and
          f = "\<lambda>t. t\<lparr>t_status := TS_cancelled, t_cancelledAt := Some (tm_now e)\<rparr>"])
      (use assms in \<open>auto simp: archiveTenant_def Let_def case_prod_beta Inr dest!: invalidate_frame\<close>)
qed (rule moves_stay, assumption, use assms in \<open>simp add: archiveTenant_def\<close>)

lemma handleBillingSynced_touches:
  "touches i (\<lambda>t t'. same_identity t t' \<and> t_status t' = t_status t) s (handleBillingSynced e (Value i) c s)"
  by (auto simp: touches_def handleBillingSynced_def find_update_where rel_option_iff
      split: option.split dest: find_SomeD)

text \<open>The status texts a subscription event acts on.\<close>

definition subscription_target :: "string option \<Rightarrow> tenantStatus \<Rightarrow> tenantStatus" where
  "subscription_target st a =
     (if st = Some ''active'' then TS_active
      else if st \<in> {Some ''suspended'', Some ''past_due''} then TS_suspended
      else if st = Some ''cancelled'' then TS_cancelled else a)"

text \<open>A message with a plan too long for its column is dropped.\<close>

definition subscription_outcome :: "string option \<Rightarrow> string option \<Rightarrow> tenantStatus \<Rightarrow> tenantStatus" where
  "subscription_outcome st p a = (if fits_null 50 p then subscription_target st a else a)"

lemma handleSubscriptionStatus_touches:
  "touches i (\<lambda>t t'. same_identity t t' \<and> t_status t' = subscription_outcome st p (t_status t)) s
     (handleSubscriptionStatus e (Value i) st p s)"
proof (cases "find_tenant i s")
  case (Some t)
  then have t: "tenants_findById i s = Inr t" by (simp add: tenants_findById_def)
  let ?f = "\<lambda>t. let t1 = applySubscriptionStatus e st t in
      if truthy p \<and> the p \<noteq> t_currentPlan t1 then t1\<lparr>t_currentPlan := the p\<rparr> else t1"
  let ?s' = "handleSubscriptionStatus e (Value i) st p s"
  show ?thesis
  proof (cases "fits_null 50 p")
    case True
    have "touches i (\<lambda>t t'. same_identity t t' \<and> t_status t' = subscription_outcome st p (t_status t)) s
       (snd (save_tenant (tm_now e) (?f t) s))"
      using find_tenant_id [OF t] True
      by (intro touches_save [OF t]) (simp_all add: applySubscriptionStatus_def Let_def subscription_target_def subscription_outcome_def)
    moreover have "?s' = snd (save_tenant (tm_now e) (?f t) s)"
      using Some True by (simp add: handleSubscriptionStatus_def Let_def)
    ultimately show ?thesis by simp
  next
    case False
    then have "?s' = s" using Some by (simp add: handleSubscriptionStatus_def Let_def)
    then show ?thesis using False by (simp add: touches_refl subscription_outcome_def)
  qed
qed (auto simp: handleSubscriptionStatus_def touches_def rel_option_iff split: option.split)

lemma createTenant_rows:
  assumes "createTenant e dto u s = (r, s')" "find_tenant i s = Some t"
  shows "find_tenant i s' = Some t"
  using assms(1)
proof (cases rule: createTenant_cases)
  case (created t' s1)
  with assms(2) show ?thesis by (simp add: provision_result(1) [OF created(2)] find_append)
qed (use assms(2) in simp)

subsection \<open>Tenant status as a state machine\<close>

text \<open>
  The abstract machine: the status of tenant \<open>i\<close> after an event, as a function of its status before.
\<close>

fun next_status :: "tm_env \<Rightarrow> tm_event \<Rightarrow> uuid \<Rightarrow> tenantStatus \<Rightarrow> tenantStatus" where
  "next_status e (Ev_suspend u j why) i a =
     (if i = j \<and> isUUID e j \<and> jp_isPlatformAdmin u \<and> a \<notin> {TS_suspended, TS_cancelled}
      then TS_suspended else a)"
| "next_status e (Ev_activate u j) i a =
     (if i = j \<and> isUUID e j \<and> jp_isPlatformAdmin u \<and> a \<notin> {TS_active, TS_cancelled} then TS_active else a)"
| "next_status e (Ev_remove u j) i a =
     (if i = j \<and> isUUID e j \<and> jp_isPlatformAdmin u then TS_cancelled else a)"
| "next_status e (Ev_subscriptionStatus j st p) i a = (if i = j then subscription_outcome st p a else a)"
| "next_status e ev i a = a"

lemma moves_cases:
  assumes "moves j B b s s'" "find_tenant i s = Some t"
  shows "\<exists>t'. find_tenant i s' = Some t' \<and> same_identity t t' \<and>
    t_status t' = (if i = j \<and> t_status t \<notin> B then b else t_status t)"
  using touchesD [OF assms] by (auto split: if_splits)

lemma updateTenant_row:
  assumes "updateTenant e j dto s = Some (r, s')" "find_tenant i s = Some t"
  shows "\<exists>t'. find_tenant i s' = Some t' \<and> same_identity t t' \<and> t_status t' = t_status t \<and> (i \<noteq> j \<longrightarrow> t' = t)"
  using touchesD [OF updateTenant_touches [OF assms(1)] assms(2)] by (auto split: if_splits)

lemma tm_step_row:
  assumes "tm_step e ev s s'" "find_tenant i s = Some t"
  shows "\<exists>t'. find_tenant i s' = Some t' \<and> same_identity t t' \<and> t_status t' = next_status e ev i (t_status t)"
  using assms(1)
proof (cases rule: tm_step.cases)
  case (create u dto)
  then show ?thesis
    using assms(2) createTenant_rows [OF prod.collapse [symmetric] assms(2)]
    by (simp add: TenantsController_create_def)
next
  case (update u j dto r)
  then show ?thesis
    using assms(2) by (auto simp: TenantsController_update_def respond_def split: if_splits dest!: updateTenant_row)
next
  case (suspend u j why)
  then show ?thesis
    using assms(2) moves_cases [OF suspendTenant_moves [of j s e why] assms(2)]
    by (auto simp: TenantsController_suspend_def)
next
  case (activate u j)
  then show ?thesis
    using assms(2) moves_cases [OF activateTenant_moves [of j s e] assms(2)]
    by (auto simp: TenantsController_activate_def)
next
  case (remove u j r)
  then show ?thesis
    using assms(2)
    by (auto simp: TenantsController_remove_def split: if_splits dest!: archiveTenant_moves dest: moves_cases [OF _ assms(2)])
next
  case (toggle u j c b)
  then show ?thesis
    using assms(2) toggleFeature_frame(1) [OF prod.collapse [symmetric]]
    by (simp add: FeaturesController_toggleFeature_def)
next
  case (check tok j c)
  have "tenants s' = tenants s"
    using check isFeatureEnabled_frame(1) [of e j c s]
    by (auto simp: FeaturesController_checkFeature_def split: sum.splits prod.splits if_splits)
  with check assms(2) show ?thesis by simp
next
  case (billingSynced j c)
  then show ?thesis
    using touchesD [OF handleBillingSynced_touches [of j s e c] assms(2)] by (auto split: if_splits)
next
  case (subscriptionStatus j st p)
  then show ?thesis
    using touchesD [OF handleSubscriptionStatus_touches [of j st p s e] assms(2)]
    by (auto split: if_splits)
qed

text \<open>C23: the service implements the abstract status machine: whatever request or billing event
  it handles, each stored tenant is still stored afterwards with the same identifier, slug and
  creation instant, and its status is the one the abstract machine gives.\<close>

theorem tenant_status_refinement:
  assumes "tm_step e ev s s'" and "find_tenant i s = Some t"
  shows "\<exists>t'. find_tenant i s' = Some t' \<and> t_slug t' = t_slug t \<and> t_createdAt t' = t_createdAt t \<and>
    t_status t' = next_status e ev i (t_status t)"
  using tm_step_row [OF assms] by auto

inductive http_run :: "tm_state \<Rightarrow> tm_state \<Rightarrow> bool" where
  http_refl: "http_run s s"
| http_more: "http_run s s1 \<Longrightarrow> tm_step e ev s1 s2 \<Longrightarrow> (\<nexists>i st p. ev = Ev_subscriptionStatus i st p) \<Longrightarrow> http_run s s2"

text \<open>Over HTTP a cancelled tenant stays cancelled: no sequence of requests that contains no
  subscription event brings it back.\<close>

lemma cancelled_is_final:
  assumes "http_run s s'" and "find_tenant i s = Some t" and "t_status t = TS_cancelled"
  shows "\<exists>t'. find_tenant i s' = Some t' \<and> t_slug t' = t_slug t \<and> t_status t' = TS_cancelled"
  using assms
proof induction
  case (http_more s s1 e ev s2)
  then obtain t1 where t1: "find_tenant i s1 = Some t1" "t_slug t1 = t_slug t" "t_status t1 = TS_cancelled"
    by blast
  have "next_status e ev i TS_cancelled = TS_cancelled"
    using http_more.hyps(3) by (cases ev) auto
  with tm_step_row [OF http_more.hyps(2) t1(1)] t1 show ?case by auto
qed simp

text \<open>A subscription event reporting \<^verbatim>\<open>active\<close> reactivates even a cancelled tenant, which the
  HTTP endpoint refuses; the cancellation instant stays in the row.\<close>

lemma billing_reactivates_cancelled:
  assumes "tm_inv s" and "find_tenant i s = Some t" and "t_status t = TS_cancelled"
  shows "activateTenant e i s = (Inl (BadRequest ''Cannot activate a cancelled tenant''), s) \<and>
    (\<exists>t'. find_tenant i (handleSubscriptionStatus e (Value i) (Some ''active'') None s) = Some t' \<and>
       t_status t' = TS_active \<and> t_cancelledAt t' = t_cancelledAt t \<and> t_cancelledAt t' \<noteq> None)"
proof
  have "lifecycle_row t" "t_id t = i"
    using assms by (auto simp: tm_inv_def find_tenant_iff)
  then show "\<exists>t'. find_tenant i (handleSubscriptionStatus e (Value i) (Some ''active'') None s) = Some t' \<and>
       t_status t' = TS_active \<and> t_cancelledAt t' = t_cancelledAt t \<and> t_cancelledAt t' \<noteq> None"
    using assms by (simp add: handleSubscriptionStatus_def applySubscriptionStatus_def find_save_tenant)
qed (use assms in \<open>simp add: activateTenant_def tenants_findById_def\<close>)

end
