(* ===== verification/Tenant_Theorems.thy ===== *)
theory Tenant_Theorems
  imports Tenant_Control
begin

text \<open>
  What the larger workflows of the tenant manager achieve: provisioning is all or nothing, a plan
  change replaces exactly the tenant's features and leaves the cache coherent, and a tenant's own
  users reach no other tenant. The theory also records where the workflows fall short.
\<close>

subsection \<open>Provisioning\<close>

lemma provisionFeatures_overrides:
  "provisionFeatures e t cs u s = Inr s' \<Longrightarrow>
    find_override t' c s' = (case find_override t' c s of
       Some f \<Rightarrow> Some f
     | None \<Rightarrow> if t' = t \<and> c \<in> set cs then Some (plan_row e t u c) else None)"
proof (induction cs arbitrary: s)
  case (Cons d cs)
  show ?case
  proof (cases "find_override t d s")
    case (Some f)
    with Cons show ?thesis by (auto split: option.split)
  next
    case None
    then obtain s1 where s1: "insert_feature (plan_row e t u d) s = Inr s1"
        "provisionFeatures e t cs u s1 = Inr s'"
      using Cons.prems by (auto split: sum.splits)
    show ?thesis
      using Cons.IH [OF s1(2)] find_override_insert [OF s1(1), of t' c] None
      by (auto split: option.split)
  qed
qed (simp split: option.split)

lemma no_overrides_yet:
  assumes "tm_wf s" "find_tenant i s = None"
  shows "find_override i c s = None"
proof (cases "find_override i c s")
  case (Some f)
  then have "f \<in> set (tenantFeatures s)" "tf_tenantId f = i"
    using assms(1) by (simp_all add: find_override_iff)
  with assms show ?thesis by (auto simp: tm_wf_def simp del: find_None_iff)
qed simp

text \<open>The overrides after a successful transaction.\<close>

lemma provision_overrides:
  assumes "tm_wf s" "provision e dto p plan u s = Inr (t, s')"
  shows "find_override t' c s' = (if t' = t_id t
     then if c \<in> set (p_includedFeatures plan) then Some (plan_row e (t_id t) u c) else None
     else find_override t' c s)"
proof -
  obtain s1 s2 where s1: "insert_tenant (provisioningRow e dto p) s = Inr s1"
    and s2: "provisionFeatures e (newTenantId e) (p_includedFeatures plan) u s1 = Inr s2"
    and fin: "(t, s') = save_tenant (tm_now e) ((provisioningRow e dto p)\<lparr>t_enabledFeatures := p_includedFeatures plan,
       t_status := TS_active\<rparr>) s2"
    using provision_cases [OF assms(2)] by blast
  note t = provision_result(2) [OF assms(2)]
  have "tenantFeatures s' = tenantFeatures s2" "tenantFeatures s1 = tenantFeatures s"
    using insert_tenant_eqs [OF s1] save_tenant_simps(1) fin by (auto simp: prod_eq_iff)
  moreover have "find_tenant (t_id t) s = None"
    using provision_result(14) [OF assms(2)] by (auto simp: find_None_iff)
  ultimately show ?thesis
    using provisionFeatures_overrides [OF s2, of t' c] no_overrides_yet [OF assms(1), of "t_id t" c]
    by (auto simp: t split: option.split)
qed

text \<open>Which row of the catalogue answers for a code: the one with the code, else the free plan's, else
  the two modules the source names.\<close>

lemma plan_of_code:
  assumes "unique_on p_code (plans s)" "p \<in> set (plans s)" "p_code p = c"
  shows "plans_findByCode now c s = p"
  using assms find_unique [of p_code "plans s" p] by (auto simp: plans_findByCode_def unique_on_def)

lemma plan_of_free:
  assumes "unique_on p_code (plans s)" "c \<notin> p_code ` set (plans s)" "p \<in> set (plans s)" "p_code p = ''free''"
  shows "plans_findByCode now c s = p"
proof -
  have "find (\<lambda>p. p_code p = c) (plans s) = None" using assms(2) by (auto simp: find_None_iff)
  then show ?thesis
    using assms(1,3,4) find_unique [of p_code "plans s" p] by (auto simp: plans_findByCode_def unique_on_def)
qed

lemma plan_missing:
  assumes "c \<notin> p_code ` set (plans s)" "''free'' \<notin> p_code ` set (plans s)"
  shows "plans_findByCode now c s = default_plan now"
proof -
  have "find (\<lambda>p. p_code p = c) (plans s) = None" "find (\<lambda>p. p_code p = ''free'') (plans s) = None"
    using assms by (auto simp: find_None_iff image_iff)
  then show ?thesis by (simp add: plans_findByCode_def)
qed

text \<open>C2: provisioning is all or nothing. A refusal leaves the whole state as it was: no tenant row,
  no feature row, no message, no membership request. A success adds exactly one tenant, active, on the
  requested plan (\<^verbatim>\<open>free\<close> by default) with a slug no other tenant has, and gives it exactly the
  features of the plan and no other tenant any: the features listed in the catalogue row with the
  requested code, or, when the catalogue has no such row, those of its free plan, or, when it has
  neither, the two core modules. When the channel is up it publishes exactly the
  \<^verbatim>\<open>tenant.provisioned\<close> message.\<close>

theorem createTenant_all_or_nothing:
  assumes "tm_wf s" and "createTenant e dto u s = (r, s')"
  shows "case r of
      Inl _ \<Rightarrow> s' = s
    | Inr t \<Rightarrow> tenants s' = tenants s @ [t] \<and> t_status t = TS_active \<and>
        t_currentPlan t = coalesce (ct_plan dto) ''free'' \<and>
        t_slug t \<notin> t_slug ` set (tenants s) \<and> t_adminEmail t = toLowerCase (ct_adminEmail dto) \<and>
        (\<forall>p \<in> set (plans s). p_code p = coalesce (ct_plan dto) ''free'' \<longrightarrow>
           t_enabledFeatures t = p_includedFeatures p) \<and>
        (coalesce (ct_plan dto) ''free'' \<notin> p_code ` set (plans s) \<longrightarrow>
           (\<forall>p \<in> set (plans s). p_code p = ''free'' \<longrightarrow> t_enabledFeatures t = p_includedFeatures p) \<and>
           (''free'' \<notin> p_code ` set (plans s) \<longrightarrow>
              t_enabledFeatures t = [''module.financial_core'', ''module.universal_ledger''])) \<and>
        (\<forall>c. find_override (t_id t) c s' \<noteq> None \<longleftrightarrow> c \<in> set (t_enabledFeatures t)) \<and>
        (\<forall>c \<in> set (t_enabledFeatures t). feature_state s' (t_id t) c) \<and>
        (\<forall>i c. i \<noteq> t_id t \<longrightarrow> find_override i c s' = find_override i c s) \<and>
        (bus_up (tm_bus s) \<longrightarrow> published (tm_bus s') = published (tm_bus s) @ [provisioned_msg e t])"
  using assms(2)
proof (cases rule: createTenant_cases)
  case (created t s1)
  note res = provision_result [OF created(2)] and ov = provision_overrides [OF assms(1) created(2)]
  have ov': "find_override i c s' = find_override i c s1" for i c by (simp add: created(3))
  have u: "unique_on p_code (plans s)" using assms(1) by (simp add: tm_wf_def)
  have catalogue: "\<forall>p \<in> set (plans s). p_code p = coalesce (ct_plan dto) ''free'' \<longrightarrow> t_enabledFeatures t = p_includedFeatures p"
    "coalesce (ct_plan dto) ''free'' \<notin> p_code ` set (plans s) \<longrightarrow>
       (\<forall>p \<in> set (plans s). p_code p = ''free'' \<longrightarrow> t_enabledFeatures t = p_includedFeatures p) \<and>
       (''free'' \<notin> p_code ` set (plans s) \<longrightarrow> t_enabledFeatures t = [''module.financial_core'', ''module.universal_ledger''])"
    using plan_of_code [OF u] plan_of_free [OF u] plan_missing res(6) by (simp_all add: default_plan_def)
  have "feature_state s' (t_id t) c" if "c \<in> set (t_enabledFeatures t)" for c
    using that ov [of "t_id t" c] by (simp add: feature_state_def ov' res(6))
  moreover have "published (tm_bus s') = published (tm_bus s) @ [provisioned_msg e t]" if "bus_up (tm_bus s)"
    using that by (simp add: created(3) res(10) pub.emit_up)
  moreover have "tenants s' = tenants s @ [t]" by (simp add: created(3) res(1))
  moreover note catalogue
  moreover have "t_slug t \<notin> t_slug ` set (tenants s)" using res(14) by auto
  ultimately show ?thesis
    by (simp add: created(1) res ov ov')
qed simp

text \<open>A slug that is already taken is reported as a conflict and changes nothing.\<close>

lemma createTenant_slug_conflict:
  assumes "t \<in> set (tenants s)" and "t_slug t = finalSlug e (ct_name dto)"
    and "tenant_fits (provisioningRow e dto (coalesce (ct_plan dto) ''free''))"
  shows "createTenant e dto u s =
    (Inl (Conflict (''Tenant slug '' @ quoted (finalSlug e (ct_name dto)) @ '' is already taken'')), s)"
proof -
  have "provision e dto (coalesce (ct_plan dto) ''free'') plan u s = Inl (QueryFailed ''23505'')" for plan
    using assms by (auto simp: provision_def Let_def insert_tenant_def provisioningRow_def)
  then show ?thesis by (simp only: createTenant_def Let_def sum.case simp_thms if_True)
qed

subsection \<open>Plan changes\<close>

lemma insertFeatures_others:
  "insertFeatures e t cs u s = (r, s') \<Longrightarrow> t' \<noteq> t \<Longrightarrow> find_override t' c s' = find_override t' c s"
proof (induction cs arbitrary: s)
  case (Cons d cs)
  show ?case
  proof (cases "insert_feature (plan_row e t u d) s")
    case (Inr s1)
    with Cons show ?thesis using find_override_insert [OF Inr, of t' c] by simp
  qed (use Cons.prems in simp)
qed simp

lemma replaceTenantFeatures_others:
  assumes "replaceTenantFeatures e t cs u s = (r, s')" "t' \<noteq> t"
  shows "find_override t' c s' = find_override t' c s"
proof -
  let ?s = "s\<lparr>tenantFeatures := delete_where (\<lambda>f. tf_tenantId f = t) (tenantFeatures s)\<rparr>"
  have "insertFeatures e t cs u ?s = (r, s')" using assms(1) by (simp add: replaceTenantFeatures_def)
  from insertFeatures_others [OF this assms(2)] assms(2) show ?thesis
    by (simp add: find_override_deleted)
qed

lemma insertable_repriced:
  "find_tenant i s \<noteq> None \<Longrightarrow> insertable e i cs (snd (save_tenant now t s)) = insertable e i cs s"
  by (auto simp: insertable_def find_save_tenant)

text \<open>A plan change whose rows the database accepts, on a server whose \<^verbatim>\<open>SCAN\<close> is complete.\<close>

lemma changePlan_accepted:
  assumes co: "coherent (tm_now e) s" and i: "CHR '':'' \<notin> set i" "find_tenant i s \<noteq> None"
    and ins: "insertable e i (sync_codes e p s) s"
    and sc: "scan_complete (scan e (tm_redis s) (tenant_prefix i @ ''*'')) (tm_now e) (tm_redis s) (tenant_prefix i)"
  shows "\<exists>s'. changePlan e i p t s = Some (Inr (fst (repriced e p t s)), s') \<and>
    coherent (tm_now e) s' \<and>
    (\<forall>c. feature_state s' i c \<longleftrightarrow> c \<in> set (sync_codes e p s) \<or>
       (\<exists>d. find_definition c s = Some d \<and> fd_defaultEnabled d)) \<and>
    tm_bus s' = publish ''chassis.tenants'' ''tenant.plan-changed''
       (TenantPlanChangedEvent (tm_now e) i (t_currentPlan t) p) (tm_bus s)"
proof -
  let ?s1 = "snd (repriced e p t s)"
  obtain q s2 where rep: "replaceTenantFeatures e i (sync_codes e p s) i ?s1 = (q, s2)"
    by (rule prod.exhaust)
  have ins1: "insertable e i (sync_codes e p s) ?s1" using ins insertable_repriced [OF i(2)] by blast
  note ov = replaced_override [OF ins1, of _ _ i, unfolded rep snd_conv]
  have q: "q = Inr ()" using replaceTenantFeatures_accepted [OF ins1, of i] rep by simp
  have frame: "tm_redis s2 = tm_redis s" "tm_bus s2 = tm_bus s" "featureDefs s2 = featureDefs s"
    using replaceTenantFeatures_frame [OF rep] by simp_all
  obtain keys where keys: "scan_loop (scan e (tm_redis s) (tenant_prefix i @ ''*'')) 0 [] = Some keys"
    and all: "\<And>k. prefix (tenant_prefix i) k \<Longrightarrow> redis_get (tm_now e) k (tm_redis s) \<noteq> None \<Longrightarrow> k \<in> set keys"
    using scan_completeE [OF sc] by metis
  have inv: "invalidateTenantFeatureCache e i s2 = Some (s2\<lparr>tm_redis := redis_del keys (tm_redis s)\<rparr>)"
    by (simp add: invalidateTenantFeatureCache_def frame keys redis_del_def)
  let ?m = "publish ''chassis.tenants'' ''tenant.plan-changed''
       (TenantPlanChangedEvent (tm_now e) i (t_currentPlan t) p) (tm_bus s)"
  let ?s' = "s2\<lparr>tm_redis := redis_del keys (tm_redis s), tm_bus := ?m\<rparr>"
  have st: "feature_state s2 i' c = (if i' = i then c \<in> set (sync_codes e p s) \<or>
       (\<exists>d. find_definition c s = Some d \<and> fd_defaultEnabled d) else feature_state s i' c)" for i' c
    using ov [of i' c] frame(3) by (auto simp: feature_state_def split: option.splits)
  have "coherent (tm_now e) ?s'"
  proof (rule coherent_drop [OF co])
    fix i' c
    assume a: "CHR '':'' \<notin> set i'" "cacheKey i' c \<notin> set keys"
      "redis_get (tm_now e) (cacheKey i' c) (tm_redis s) \<noteq> None"
    then have "i' \<noteq> i" using all [of "cacheKey i' c"] prefix_cacheKey [OF i(1) a(1), of c] by auto
    then show "feature_state ?s' i' c = feature_state s i' c" by (simp add: st)
  qed simp
  moreover have "changePlan e i p t s = Some (Inr (fst (repriced e p t s)), ?s')"
    by (simp add: changePlan_replaced [OF rep] q inv frame)
  ultimately show ?thesis by (intro exI [of _ ?s']) (simp add: st)
qed

text \<open>C34: changing the plan of a tenant, on a coherent cache, with every code of the plan defined and a
  server that completes its \<^verbatim>\<open>SCAN\<close>: the call returns, the stored tenant is on the new plan, its
  enabled features are exactly those of the plan and the defaults, every later check sees them (the
  cache is still coherent), and the \<^verbatim>\<open>tenant.plan-changed\<close> message names both plans.\<close>

theorem updateTenant_plan_change:
  assumes "tenants_findById i s = Inr t0" and "patch_tenant dto t0 = Inr t"
    and "ut_plan dto = Value p" and "p \<noteq> t_currentPlan t0"
    and "coherent (tm_now e) s" and "CHR '':'' \<notin> set i"
    and "insertable e i (sync_codes e p s) s"
    and "scan_complete (scan e (tm_redis s) (tenant_prefix i @ ''*'')) (tm_now e) (tm_redis s) (tenant_prefix i)"
  shows "\<exists>saved s'. updateTenant e i dto s = Some (Inr saved, s') \<and>
    find_tenant i s' = Some saved \<and> t_currentPlan saved = p \<and>
    (\<forall>c. feature_state s' i c \<longleftrightarrow> c \<in> set (sync_codes e p s) \<or>
       (\<exists>d. find_definition c s = Some d \<and> fd_defaultEnabled d)) \<and>
    coherent (tm_now e) s' \<and>
    (bus_up (tm_bus s) \<longrightarrow> published (tm_bus s') = published (tm_bus s) @
      [\<lparr>exchange = ''chassis.tenants'', routingKey = ''tenant.plan-changed'',
        payload = TenantPlanChangedEvent (tm_now e) i (t_currentPlan t0) p\<rparr>])"
proof -
  note keep = patch_tenant_keeps [OF assms(2)] find_tenant_id [OF assms(1)]
  have "find_tenant i s \<noteq> None" using keep by simp
  from changePlan_accepted [OF assms(5,6) this assms(7,8), of t]
  obtain s' where s': "changePlan e i p t s = Some (Inr (fst (repriced e p t s)), s')"
    and co: "coherent (tm_now e) s'"
    and fs: "\<And>c. feature_state s' i c \<longleftrightarrow> c \<in> set (sync_codes e p s) \<or>
       (\<exists>d. find_definition c s = Some d \<and> fd_defaultEnabled d)"
    and bus: "tm_bus s' = publish ''chassis.tenants'' ''tenant.plan-changed''
       (TenantPlanChangedEvent (tm_now e) i (t_currentPlan t) p) (tm_bus s)"
    by auto
  have "touches i (\<lambda>_ t'. t' = fst (repriced e p t s)) s s'"
    by (rule changePlan_touches [OF assms(1) _ _ s']) (use keep in simp_all)
  then have "find_tenant i s' = Some (fst (repriced e p t s))"
    using touchesD [of i _ s s' i t0] keep by auto
  moreover have "updateTenant e i dto s = Some (Inr (fst (repriced e p t s)), s')"
    using assms(1-4) s' by (simp add: updateTenant_def)
  moreover have "published (tm_bus s') = published (tm_bus s) @
      [\<lparr>exchange = ''chassis.tenants'', routingKey = ''tenant.plan-changed'',
        payload = TenantPlanChangedEvent (tm_now e) i (t_currentPlan t0) p\<rparr>]" if "bus_up (tm_bus s)"
    using that keep by (simp add: bus pub.emit_up)
  ultimately show ?thesis
    using co fs by (intro exI [of _ "fst (repriced e p t s)"] exI [of _ s']) simp
qed

text \<open>A plan change is not atomic. When a code of the new plan has no definition the call fails on
  the foreign key, but the tenant is already stored on the new plan, all its overrides are gone, and
  the cache, which is only invalidated afterwards, still answers with the old features.\<close>

lemma updateTenant_plan_change_partial:
  assumes "tenants_findById i s = Inr t0" and "patch_tenant dto t0 = Inr t"
    and "ut_plan dto = Value p" and "p \<noteq> t_currentPlan t0"
    and "sync_codes e p s = c # cs" and "find_definition c s = None"
    and "newFeatureId e i c \<notin> tf_id ` set (tenantFeatures s)"
  shows "\<exists>s'. updateTenant e i dto s = Some (Inl (QueryFailed ''23503''), s') \<and>
    (\<exists>t'. find_tenant i s' = Some t' \<and> t_currentPlan t' = p) \<and>
    (\<forall>c'. find_override i c' s' = None) \<and> tm_redis s' = tm_redis s"
proof -
  note keep = patch_tenant_keeps [OF assms(2)] find_tenant_id [OF assms(1)]
  let ?s1 = "snd (repriced e p t s)"
  obtain q s2 where rep: "replaceTenantFeatures e i (sync_codes e p s) i ?s1 = (q, s2)"
    by (rule prod.exhaust)
  have ins: "insert_feature (plan_row e i i c)
      (?s1\<lparr>tenantFeatures := delete_where (\<lambda>f. tf_tenantId f = i) (tenantFeatures ?s1)\<rparr>) = Inl (QueryFailed ''23503'')"
    using assms(6,7) by (auto simp: insert_feature_def image_iff)
  have q: "q = Inl (QueryFailed ''23503'')"
    and s2: "s2 = ?s1\<lparr>tenantFeatures := delete_where (\<lambda>f. tf_tenantId f = i) (tenantFeatures ?s1)\<rparr>"
    using rep ins unfolding replaceTenantFeatures_def assms(5) by simp_all
  have "updateTenant e i dto s = Some (Inl (QueryFailed ''23503''), s2)"
    using assms(1-4) changePlan_replaced [OF rep] by (simp add: updateTenant_def q)
  moreover have "find_tenant i s2 = Some (fst (repriced e p t s))"
    using keep by (simp add: s2 find_save_tenant)
  moreover have "find_override i c' s2 = None" for c'
    by (simp add: s2 find_override_deleted)
  ultimately show ?thesis by (intro exI [of _ s2]) (simp add: s2)
qed

subsection \<open>Isolation\<close>

text \<open>The caller of a request; message events and service calls have none.\<close>

fun ev_user :: "tm_event \<Rightarrow> jwtPayload option" where
  "ev_user (Ev_create u _) = Some u"
| "ev_user (Ev_update u _ _) = Some u"
| "ev_user (Ev_suspend u _ _) = Some u"
| "ev_user (Ev_activate u _) = Some u"
| "ev_user (Ev_remove u _) = Some u"
| "ev_user (Ev_toggle u _ _ _) = Some u"
| "ev_user _ = None"

lemma changePlan_others:
  assumes ch: "changePlan e i p t s = Some (r, s')" "j \<noteq> i"
  shows "find_override j c s' = find_override j c s"
proof -
  obtain q s2 where rep: "replaceTenantFeatures e i (sync_codes e p s) i (snd (repriced e p t s)) = (q, s2)"
    by (rule prod.exhaust)
  have "tenantFeatures s' = tenantFeatures s2"
  proof (cases q)
    case (Inr u)
    with ch(1) obtain s3 where "invalidateTenantFeatureCache e i s2 = Some s3"
        "tenantFeatures s' = tenantFeatures s3"
      by (auto simp: changePlan_replaced [OF rep])
    with invalidate_frame [OF this(1)] show ?thesis by auto
  qed (use ch(1) in \<open>simp add: changePlan_replaced [OF rep]\<close>)
  then show ?thesis using replaceTenantFeatures_others [OF rep ch(2), of c] by simp
qed

lemma updateTenant_others:
  assumes "updateTenant e i dto s = Some (r, s')" "j \<noteq> i"
  shows "find_override j c s' = find_override j c s"
  using assms(1)
  by (auto simp: updateTenant_def Let_def case_prod_beta split: sum.splits field.splits if_splits
      dest: changePlan_others [OF _ assms(2)])

lemma touches_other: "touches i R s s' \<Longrightarrow> j \<noteq> i \<Longrightarrow> find_tenant j s' = find_tenant j s"
  unfolding touches_def by (drule spec [of _ j]) (simp add: option.rel_eq)

lemma touches_None: "touches i R s s' \<Longrightarrow> find_tenant j s = None \<Longrightarrow> find_tenant j s' = None"
  unfolding touches_def by (drule spec [of _ j]) (simp only: rel_option_None1)

text \<open>C1: tenant isolation. A request by a user who is not a platform admin changes neither the row nor
  the feature overrides of any tenant other than the one named in the user's token, creates no tenant,
  and does not change the status, slug or identity of the user's own tenant.\<close>

theorem tenant_isolation:
  assumes "tm_step e ev s s'" and "ev_user ev = Some u" and "\<not> jp_isPlatformAdmin u"
  shows "(\<forall>i c. jp_tenantId u \<noteq> Some i \<longrightarrow>
      find_tenant i s' = find_tenant i s \<and> find_override i c s' = find_override i c s) \<and>
    (\<forall>i t. find_tenant i s = Some t \<longrightarrow> (\<exists>t'. find_tenant i s' = Some t' \<and>
      t_slug t' = t_slug t \<and> t_status t' = t_status t)) \<and>
    (\<forall>i. find_tenant i s = None \<longrightarrow> find_tenant i s' = None)"
proof -
  have "next_status e ev i a = a" for i a
    using assms(2,3) by (cases ev) auto
  then have own: "\<exists>t'. find_tenant i s' = Some t' \<and> t_slug t' = t_slug t \<and> t_status t' = t_status t"
    if "find_tenant i s = Some t" for i t
    using tm_step_row [OF assms(1) that] by auto
  have "(jp_tenantId u \<noteq> Some i \<longrightarrow> find_tenant i s' = find_tenant i s \<and> find_override i c s' = find_override i c s) \<and>
      (find_tenant i s = None \<longrightarrow> find_tenant i s' = None)" for i c
    using assms(1)
  proof (cases rule: tm_step.cases)
    case (update v j dto r)
    have v: "v = u" using update assms(2) by simp
    show ?thesis
    proof (cases "s' = s")
      case False
      then obtain r' where up: "updateTenant e j dto s = Some (r', s')" "jp_tenantId u = Some j"
        using update(2) assms(3) by (auto simp: v TenantsController_update_def respond_def split: if_splits)
      have "find_tenant i s = None \<longrightarrow> find_tenant i s' = None"
        using touches_None [OF updateTenant_touches [OF up(1)]] by blast
      moreover have "find_tenant i s' = find_tenant i s \<and> find_override i c s' = find_override i c s" if "i \<noteq> j"
        using touches_other [OF updateTenant_touches [OF up(1)]] updateTenant_others [OF up(1)] that by blast
      ultimately show ?thesis using up(2) by auto
    qed simp
  qed (use assms(2,3) in \<open>auto simp: TenantsController_create_def TenantsController_suspend_def TenantsController_activate_def
        TenantsController_remove_def FeaturesController_toggleFeature_def split: if_splits\<close>)
  then show ?thesis using own by blast
qed

text \<open>The check that reserves plan changes to platform admins tests whether the plan text is
  truthy, so a tenant's own user who sends the empty text passes it: the tenant is moved to the plan
  named by the empty text.\<close>

lemma empty_plan_bypasses_admin_check:
  assumes "\<not> jp_isPlatformAdmin u" and "jp_tenantId u = Some i" and "isUUID e i"
    and "tenants_findById i s = Inr t0" and "patch_tenant dto t0 = Inr t"
    and "ut_plan dto = Value []" and "t_currentPlan t0 \<noteq> []"
    and "coherent (tm_now e) s" and "CHR '':'' \<notin> set i"
    and "insertable e i (sync_codes e [] s) s"
    and "scan_complete (scan e (tm_redis s) (tenant_prefix i @ ''*'')) (tm_now e) (tm_redis s) (tenant_prefix i)"
  shows "\<exists>resp s' t'. TenantsController_update e u i dto s = Some (Inr resp, s') \<and>
    find_tenant i s' = Some t' \<and> t_currentPlan t' = [] \<and> ar_data resp = Some (fromEntity t')"
proof -
  note keep = patch_tenant_keeps [OF assms(5)] find_tenant_id [OF assms(4)]
  have "find_tenant i s \<noteq> None" using keep by simp
  from changePlan_accepted [OF assms(8,9) this assms(10,11), of t]
  obtain s' where s': "changePlan e i [] t s = Some (Inr (fst (repriced e [] t s)), s')"
    by blast
  have "touches i (\<lambda>_ t'. t' = fst (repriced e [] t s)) s s'"
    by (rule changePlan_touches [OF assms(4) _ _ s']) (use keep in simp_all)
  then have "find_tenant i s' = Some (fst (repriced e [] t s))"
    using touchesD [of i _ s s' i t0] keep by auto
  moreover have "updateTenant e i dto s = Some (Inr (fst (repriced e [] t s)), s')"
    using assms(4-7) s' by (simp add: updateTenant_def)
  ultimately show ?thesis
    using assms(1-3,6) by (simp add: TenantsController_update_def respond_def api_ok_def)
qed

end
