(* ===== verification/Identity_Entities.thy ===== *)
theory Identity_Entities
  imports Data_Store Access_Control
begin

text \<open>
  The data of the identity service (\<^verbatim>\<open>services/identity-service\<close>): its entities, the state it works
  on with the integrity constraints of \<^verbatim>\<open>migrations/iam\<close>, what it takes from its environment, and
  the roles service, which only reads.
\<close>

subsection \<open>Entities\<close>

record user =
  u_id :: uuid
  u_email :: string
  u_emailVerified :: bool
  u_passwordHash :: string
  u_displayName :: string
  u_avatarUrl :: "string option"
  u_phone :: "string option"
  u_isPlatformAdmin :: bool
  u_isActive :: bool
  u_lastLoginAt :: "instant option"
  u_createdAt :: instant
  u_updatedAt :: instant

datatype membershipStatus = MS_active | MS_invited | MS_suspended | MS_removed

record membership =
  m_id :: uuid
  m_userId :: uuid
  m_tenantId :: uuid
  m_roleId :: uuid
  m_status :: membershipStatus
  m_invitedBy :: "uuid option"
  m_invitedAt :: "instant option"
  m_joinedAt :: "instant option"
  m_createdAt :: instant
  m_updatedAt :: instant

record permission_row =
  pr_id :: uuid
  pr_resource :: string
  pr_action :: string
  pr_description :: "string option"
  pr_createdAt :: instant

text \<open>A role with the permissions its join table lists; the relation is loaded eagerly.\<close>

record role =
  ro_id :: uuid
  ro_tenantId :: "uuid option"
  ro_name :: string
  ro_displayName :: string
  ro_description :: "string option"
  ro_isSystemRole :: bool
  ro_createdAt :: instant
  ro_updatedAt :: instant
  ro_permissions :: "permission_row list"

record refreshToken =
  rt_id :: uuid
  rt_userId :: uuid
  rt_tokenHash :: string
  rt_deviceInfo :: "string option"
  rt_ipAddress :: "string option"
  rt_expiresAt :: instant
  rt_revokedAt :: "instant option"
  rt_createdAt :: instant

definition rt_isExpired :: "instant \<Rightarrow> refreshToken \<Rightarrow> bool" where
  "rt_isExpired now r \<longleftrightarrow> now > rt_expiresAt r"

definition rt_isRevoked :: "refreshToken \<Rightarrow> bool" where
  "rt_isRevoked r \<longleftrightarrow> rt_revokedAt r \<noteq> None"

definition rt_isValid :: "instant \<Rightarrow> refreshToken \<Rightarrow> bool" where
  "rt_isValid now r \<longleftrightarrow> \<not> rt_isExpired now r \<and> \<not> rt_isRevoked r"

record impersonationSession =
  is_id :: uuid
  is_adminUserId :: uuid
  is_targetUserId :: uuid
  is_targetTenantId :: uuid
  is_reason :: string
  is_tokenHash :: string
  is_expiresAt :: instant
  is_endedAt :: "instant option"
  is_createdAt :: instant

definition is_isActive :: "instant \<Rightarrow> impersonationSession \<Rightarrow> bool" where
  "is_isActive now x \<longleftrightarrow> is_endedAt x = None \<and> now < is_expiresAt x"

definition permissionString :: "permission_row \<Rightarrow> string" where
  "permissionString p = permission (pr_resource p) (pr_action p)"

subsection \<open>State and environment\<close>

record id_state =
  userRows :: "user list"
  membershipRows :: "membership list"
  roleRows :: "role list"
  permissionRows :: "permission_row list"
  tokenRows :: "refreshToken list"
  sessionRows :: "impersonationSession list"
  id_redis :: keyspace
  id_bus :: bus

text \<open>
  The environment: clock, generated identifiers, bcrypt (\<^verbatim>\<open>hashSync\<close> with the salt it draws,
  \<^verbatim>\<open>compareSync\<close>), SHA-256, the random refresh token, the JWT library's \<^verbatim>\<open>sign\<close>, the UUID check of
  \<^verbatim>\<open>ParseUUIDPipe\<close>, the texts PostgreSQL accepts as \<^verbatim>\<open>uuid\<close> and as \<^verbatim>\<open>inet\<close>, and the configuration.
\<close>

record id_env =
  id_now :: instant
  newUserId :: uuid
  newMembershipId :: uuid
  newTokenId :: uuid
  newSessionId :: uuid
  hashSync :: "string \<Rightarrow> string"
  compareSync :: "string \<Rightarrow> string \<Rightarrow> bool"
  sha256 :: "string \<Rightarrow> string"
  randomToken :: string
  jwt_sign :: "jwtClaims \<Rightarrow> string \<Rightarrow> string"
  id_isUUID :: "string \<Rightarrow> bool"
  id_pgUuid :: "string \<Rightarrow> bool"
  isInet :: "string \<Rightarrow> bool"
  loginMaxAttempts :: "int option"
  loginBlockDurationSeconds :: "int option"
  jwt_expiry :: "string option"
  jwt_refreshExpiry :: "string option"
  jwt_impersonationExpiry :: "string option"

abbreviation find_user :: "uuid \<Rightarrow> id_state \<Rightarrow> user option" where
  "find_user i s \<equiv> find (\<lambda>u. u_id u = i) (userRows s)"

abbreviation find_membership :: "uuid \<Rightarrow> uuid \<Rightarrow> id_state \<Rightarrow> membership option" where
  "find_membership u t s \<equiv> find (\<lambda>m. m_userId m = u \<and> m_tenantId m = t) (membershipRows s)"

abbreviation m_key :: "membership \<Rightarrow> uuid \<times> uuid" where
  "m_key m \<equiv> (m_userId m, m_tenantId m)"

abbreviation find_role :: "uuid \<Rightarrow> id_state \<Rightarrow> role option" where
  "find_role i s \<equiv> find (\<lambda>r. ro_id r = i) (roleRows s)"

abbreviation find_token :: "string \<Rightarrow> id_state \<Rightarrow> refreshToken option" where
  "find_token h s \<equiv> find (\<lambda>r. rt_tokenHash r = h) (tokenRows s)"

text \<open>Checks on insertion: column lengths, primary keys, the unique constraints, the user foreign
  key and the \<^verbatim>\<open>inet\<close> column.\<close>

definition user_fits :: "user \<Rightarrow> bool" where
  "user_fits u \<longleftrightarrow> fits 320 (u_email u) \<and> fits 255 (u_passwordHash u) \<and> fits 100 (u_displayName u) \<and>
     fits_null 500 (u_avatarUrl u) \<and> fits_null 20 (u_phone u)"

definition token_fits :: "refreshToken \<Rightarrow> bool" where
  "token_fits r \<longleftrightarrow> fits 255 (rt_tokenHash r) \<and> fits_null 255 (rt_deviceInfo r)"

definition insert_user :: "user \<Rightarrow> id_state \<Rightarrow> id_state result" where
  "insert_user u s =
     (if \<not> user_fits u then Inl (QueryFailed ''22001'')
      else if \<exists>x \<in> set (userRows s). u_id x = u_id u \<or> u_email x = u_email u then Inl (QueryFailed ''23505'')
      else Inr (s\<lparr>userRows := userRows s @ [u]\<rparr>))"

definition insert_membership :: "membership \<Rightarrow> id_state \<Rightarrow> id_state result" where
  "insert_membership m s =
     (if \<exists>x \<in> set (membershipRows s). m_id x = m_id m \<or> m_key x = m_key m then Inl (QueryFailed ''23505'')
      else if find_user (m_userId m) s = None then Inl (QueryFailed ''23503'')
      else Inr (s\<lparr>membershipRows := membershipRows s @ [m]\<rparr>))"

definition insert_token :: "id_env \<Rightarrow> refreshToken \<Rightarrow> id_state \<Rightarrow> id_state result" where
  "insert_token e r s =
     (if \<not> token_fits r then Inl (QueryFailed ''22001'')
      else if rt_ipAddress r \<noteq> None \<and> \<not> isInet e (the (rt_ipAddress r)) then Inl (QueryFailed ''22P02'')
      else if \<exists>x \<in> set (tokenRows s). rt_id x = rt_id r \<or> rt_tokenHash x = rt_tokenHash r then Inl (QueryFailed ''23505'')
      else if find_user (rt_userId r) s = None then Inl (QueryFailed ''23503'')
      else Inr (s\<lparr>tokenRows := tokenRows s @ [r]\<rparr>))"

definition id_wf :: "id_state \<Rightarrow> bool" where
  "id_wf s \<longleftrightarrow> unique_on u_id (userRows s) \<and> unique_on u_email (userRows s) \<and>
     (\<forall>u \<in> set (userRows s). u_email u = toLowerCase (u_email u)) \<and>
     unique_on m_id (membershipRows s) \<and> unique_on m_key (membershipRows s) \<and>
     unique_on rt_id (tokenRows s) \<and> unique_on rt_tokenHash (tokenRows s) \<and>
     (\<forall>m \<in> set (membershipRows s). find_user (m_userId m) s \<noteq> None) \<and>
     (\<forall>r \<in> set (tokenRows s). find_user (rt_userId r) s \<noteq> None)"

interpretation accounts: keyed_store u_id "\<lambda>i. find (\<lambda>u. u_id u = i)" "save_row u_id" set "unique_on u_id"
  by (rule table_keyed_store)

interpretation members: keyed_store m_key "\<lambda>k. find (\<lambda>m. m_key m = k)" "save_row m_key" set "unique_on m_key"
  by (rule table_keyed_store)

interpretation tokens: keyed_store rt_tokenHash "\<lambda>h. find (\<lambda>r. rt_tokenHash r = h)" "save_row rt_tokenHash" set
    "unique_on rt_tokenHash"
  by (rule table_keyed_store)

text \<open>Saving a loaded row: the \<^verbatim>\<open>@UpdateDateColumn\<close> is stamped when a column changed.\<close>

definition save_user :: "instant \<Rightarrow> user \<Rightarrow> id_state \<Rightarrow> user \<times> id_state" where
  "save_user now u s =
     (let u' = (if find_user (u_id u) s = Some u then u else u\<lparr>u_updatedAt := now\<rparr>)
      in (u', s\<lparr>userRows := save_row u_id u' (userRows s)\<rparr>))"

definition save_membership :: "instant \<Rightarrow> membership \<Rightarrow> id_state \<Rightarrow> membership \<times> id_state" where
  "save_membership now m s =
     (let m' = (if m \<in> set (membershipRows s) then m else m\<lparr>m_updatedAt := now\<rparr>)
      in (m', s\<lparr>membershipRows := save_row m_id m' (membershipRows s)\<rparr>))"

subsection \<open>Roles\<close>

text \<open>The tenant is a query parameter nothing checks: the database refuses a text that is no \<^verbatim>\<open>uuid\<close>.\<close>

definition roles_findAll :: "id_env \<Rightarrow> string option \<Rightarrow> id_state \<Rightarrow> role list result" where
  "roles_findAll e tenantId s =
     (if truthy tenantId \<and> \<not> id_pgUuid e (the tenantId) then Inl (QueryFailed ''22P02'')
      else Inr (sort_key ro_name
        (if truthy tenantId then filter (\<lambda>r. ro_tenantId r = tenantId \<or> ro_tenantId r = None) (roleRows s)
         else roleRows s)))"

definition roles_findById :: "uuid \<Rightarrow> id_state \<Rightarrow> role result" where
  "roles_findById i s =
     (case find_role i s of
        None \<Rightarrow> Inl (NotFound (''Role with ID '' @ i @ '' not found''))
      | Some r \<Rightarrow> Inr r)"

definition roles_findByName :: "string \<Rightarrow> uuid option \<Rightarrow> id_state \<Rightarrow> role option" where
  "roles_findByName name tenantId s = find (\<lambda>r. ro_name r = name \<and> ro_tenantId r = tenantId) (roleRows s)"

definition getPermissionsForRole :: "uuid \<Rightarrow> id_state \<Rightarrow> string list result" where
  "getPermissionsForRole i s =
     (case roles_findById i s of
        Inl x \<Rightarrow> Inl x
      | Inr r \<Rightarrow> Inr (map (\<lambda>p. permission (pr_resource p) (pr_action p)) (ro_permissions r)))"

definition findAllPermissions :: "id_state \<Rightarrow> permission_row list" where
  "findAllPermissions s = sort_key pr_resource (sort_key pr_action (permissionRows s))"

end
