(* ===== verification/Identity_Accounts.thy ===== *)
theory Identity_Accounts
  imports Identity_Entities Http_Envelope
begin

text \<open>
  \<^verbatim>\<open>users.service.ts\<close>, \<^verbatim>\<open>memberships.service.ts\<close> and their controllers with
  \<^verbatim>\<open>roles.controller.ts\<close>: accounts, memberships and role assignment, each behind the permission guard.
\<close>

subsection \<open>Users\<close>

text \<open>
  The fields \<^verbatim>\<open>create\<close> reads; \<open>isPlatformAdmin\<close> and \<open>emailVerified\<close> are no properties of
  \<^verbatim>\<open>CreateUserDto\<close>, and the validation pipe rejects a body that carries them.
\<close>

record createUserDto =
  cu_email :: string
  cu_password :: string
  cu_displayName :: string
  cu_phone :: "string option"
  cu_isPlatformAdmin :: "bool option"
  cu_emailVerified :: "bool option"

record updateUserDto =
  uu_displayName :: "string field"
  uu_phone :: "string field"
  uu_avatarUrl :: "string field"
  uu_isActive :: "bool field"
  uu_emailVerified :: "bool field"

definition users_findAll :: "bool \<Rightarrow> uuid option \<Rightarrow> id_state \<Rightarrow> user list" where
  "users_findAll isPlatformAdmin tenantId s =
     (if isPlatformAdmin then sort_key (\<lambda>u. - u_createdAt u) (userRows s)
      else if \<not> truthy tenantId then []
      else List.map_filter (\<lambda>m. find_user (m_userId m) s)
             (filter (\<lambda>m. Some (m_tenantId m) = tenantId) (membershipRows s)))"

definition users_findById :: "uuid \<Rightarrow> id_state \<Rightarrow> user result" where
  "users_findById i s =
     (case find_user i s of
        None \<Rightarrow> Inl (NotFound (''User with ID '' @ i @ '' not found''))
      | Some u \<Rightarrow> Inr u)"

definition users_findByEmail :: "string \<Rightarrow> id_state \<Rightarrow> user option" where
  "users_findByEmail email s = find (\<lambda>u. u_email u = toLowerCase email) (userRows s)"

definition new_user :: "id_env \<Rightarrow> createUserDto \<Rightarrow> user" where
  "new_user e dto =
     \<lparr>u_id = newUserId e, u_email = toLowerCase (cu_email dto),
      u_emailVerified = coalesce (cu_emailVerified dto) False, u_passwordHash = hashSync e (cu_password dto),
      u_displayName = cu_displayName dto, u_avatarUrl = None, u_phone = cu_phone dto,
      u_isPlatformAdmin = coalesce (cu_isPlatformAdmin dto) False, u_isActive = True,
      u_lastLoginAt = None, u_createdAt = id_now e, u_updatedAt = id_now e\<rparr>"

declare new_user_def [simp]

definition users_create :: "id_env \<Rightarrow> createUserDto \<Rightarrow> id_state \<Rightarrow> user result \<times> id_state" where
  "users_create e dto s =
     (case users_findByEmail (cu_email dto) s of
        Some _ \<Rightarrow> (Inl (Conflict (''A user with email '' @ cu_email dto @ '' already exists'')), s)
      | None \<Rightarrow>
          (let u = new_user e dto
           in case insert_user u s of
                Inl x \<Rightarrow> (Inl x, s)
              | Inr s' \<Rightarrow> (Inr u, s')))"

text \<open>The properties of the body replace those of the loaded row.\<close>

definition patch_user :: "updateUserDto \<Rightarrow> user \<Rightarrow> user" where
  "patch_user dto u =
     u\<lparr>u_displayName := (case uu_displayName dto of Value v \<Rightarrow> v | _ \<Rightarrow> u_displayName u),
       u_phone := (case uu_phone dto of Undefined \<Rightarrow> u_phone u | f \<Rightarrow> field_or_null f),
       u_avatarUrl := (case uu_avatarUrl dto of Undefined \<Rightarrow> u_avatarUrl u | f \<Rightarrow> field_or_null f),
       u_isActive := (case uu_isActive dto of Value v \<Rightarrow> v | _ \<Rightarrow> u_isActive u),
       u_emailVerified := (case uu_emailVerified dto of Value v \<Rightarrow> v | _ \<Rightarrow> u_emailVerified u)\<rparr>"

declare patch_user_def [simp]

text \<open>Null in a column that is NOT NULL is refused by the save.\<close>

definition users_update :: "id_env \<Rightarrow> uuid \<Rightarrow> updateUserDto \<Rightarrow> id_state \<Rightarrow> user result \<times> id_state" where
  "users_update e i dto s =
     (case users_findById i s of
        Inl x \<Rightarrow> (Inl x, s)
      | Inr u \<Rightarrow>
          if uu_displayName dto = Null \<or> uu_isActive dto = Null \<or> uu_emailVerified dto = Null
          then (Inl (QueryFailed ''23502''), s)
          else (let (saved, s') = save_user (id_now e) (patch_user dto u) s in (Inr saved, s')))"

definition users_softDelete :: "id_env \<Rightarrow> uuid \<Rightarrow> id_state \<Rightarrow> unit result \<times> id_state" where
  "users_softDelete e i s =
     (case users_findById i s of
        Inl x \<Rightarrow> (Inl x, s)
      | Inr u \<Rightarrow> (Inr (), snd (save_user (id_now e) (u\<lparr>u_isActive := False\<rparr>) s)))"

definition updateLastLogin :: "id_env \<Rightarrow> uuid \<Rightarrow> id_state \<Rightarrow> id_state" where
  "updateLastLogin e i s =
     s\<lparr>userRows := update_where (\<lambda>u. u_id u = i)
        (\<lambda>u. u\<lparr>u_lastLoginAt := Some (id_now e), u_updatedAt := id_now e\<rparr>) (userRows s)\<rparr>"

subsection \<open>Memberships\<close>

record createMembershipDto =
  cm_userId :: uuid
  cm_tenantId :: uuid
  cm_roleId :: uuid
  cm_status :: "string option"

text \<open>The values of the database enumeration.\<close>

definition membershipStatus_of :: "string \<Rightarrow> membershipStatus option" where
  "membershipStatus_of t = map_of [(''active'', MS_active), (''invited'', MS_invited),
     (''suspended'', MS_suspended), (''removed'', MS_removed)] t"

definition memberships_findByUserId :: "uuid \<Rightarrow> id_state \<Rightarrow> membership list" where
  "memberships_findByUserId i s = filter (\<lambda>m. m_userId m = i) (membershipRows s)"

definition memberships_findByTenantId :: "uuid \<Rightarrow> id_state \<Rightarrow> membership list" where
  "memberships_findByTenantId t s = filter (\<lambda>m. m_tenantId m = t \<and> m_status m = MS_active) (membershipRows s)"

definition findByUserAndTenant :: "uuid \<Rightarrow> uuid \<Rightarrow> id_state \<Rightarrow> membership option" where
  "findByUserAndTenant u t s = find_membership u t s"

text \<open>Storing the membership: restore a removed row or insert a new one.\<close>

definition store_membership ::
  "id_env \<Rightarrow> createMembershipDto \<Rightarrow> membershipStatus \<Rightarrow> membership option \<Rightarrow> id_state \<Rightarrow> (membership \<times> id_state) result" where
  "store_membership e dto st existing s =
     (case existing of
        Some m \<Rightarrow>
          Inr (save_membership (id_now e)
            (m\<lparr>m_roleId := cm_roleId dto, m_status := st, m_joinedAt := Some (id_now e)\<rparr>) s)
      | None \<Rightarrow>
          (let m = \<lparr>m_id = newMembershipId e, m_userId = cm_userId dto, m_tenantId = cm_tenantId dto,
                    m_roleId = cm_roleId dto, m_status = st, m_invitedBy = None, m_invitedAt = None,
                    m_joinedAt = Some (id_now e), m_createdAt = id_now e, m_updatedAt = id_now e\<rparr>
           in map_sum id (Pair m) (insert_membership m s)))"

definition userAddedPayload :: "id_env \<Rightarrow> createMembershipDto \<Rightarrow> role \<Rightarrow> json" where
  "userAddedPayload e dto role =
     JObj [(''tenantId'', JStr (cm_tenantId dto)), (''userId'', JStr (cm_userId dto)),
           (''role'', JStr (ro_name role)), (''timestamp'', JTime (id_now e))]"

declare userAddedPayload_def [simp]

definition memberships_create :: "id_env \<Rightarrow> createMembershipDto \<Rightarrow> id_state \<Rightarrow> membership result \<times> id_state" where
  "memberships_create e dto s =
     (let existing = find_membership (cm_userId dto) (cm_tenantId dto) s in
      case roles_findById (cm_roleId dto) s of
        Inl x \<Rightarrow> (Inl x, s)
      | Inr role \<Rightarrow>
          if existing \<noteq> None \<and> m_status (the existing) \<noteq> MS_removed
          then (Inl (Conflict (''User '' @ cm_userId dto @ '' already has an active membership in tenant '' @ cm_tenantId dto)), s)
          else (case membershipStatus_of (coalesce (cm_status dto) ''active'') of
             None \<Rightarrow> (Inl (QueryFailed ''22P02''), s)
           | Some st \<Rightarrow>
               (case store_membership e dto st existing s of
                  Inl x \<Rightarrow> (Inl x, s)
                | Inr (saved, s1) \<Rightarrow>
                    (Inr saved,
                     s1\<lparr>id_bus := publish ''chassis.tenants'' ''tenant.user-added'' (userAddedPayload e dto role)
                        (id_bus s1)\<rparr>))))"

definition memberships_remove :: "id_env \<Rightarrow> uuid \<Rightarrow> uuid \<Rightarrow> id_state \<Rightarrow> unit result \<times> id_state" where
  "memberships_remove e u t s =
     (case findByUserAndTenant u t s of
        None \<Rightarrow> (Inl (NotFound (''No membership found for user '' @ u @ '' in tenant '' @ t)), s)
      | Some m \<Rightarrow> (Inr (), snd (save_membership (id_now e) (m\<lparr>m_status := MS_removed\<rparr>) s)))"

subsection \<open>Controllers\<close>

text \<open>A handler behind the permission guard, on an authenticated caller.\<close>

definition guarded :: "string \<Rightarrow> string \<Rightarrow> jwtPayload \<Rightarrow> (id_state \<Rightarrow> 'a result \<times> id_state) \<Rightarrow> id_state \<Rightarrow> 'a result \<times> id_state" where
  "guarded resource action u handler s =
     (case identity_PermissionsGuard (Some [permission resource action]) (Some u) of
        Inl x \<Rightarrow> (Inl x, s)
      | Inr _ \<Rightarrow> handler s)"

text \<open>\<^verbatim>\<open>ParseUUIDPipe\<close> on a route parameter.\<close>

definition with_uuid :: "id_env \<Rightarrow> string \<Rightarrow> (id_state \<Rightarrow> 'a result \<times> id_state) \<Rightarrow> id_state \<Rightarrow> 'a result \<times> id_state" where
  "with_uuid e i handler s =
     (if id_isUUID e i then handler s else (Inl (BadRequest ''Validation failed (uuid is expected)''), s))"

definition answer :: "('a \<Rightarrow> 'b) \<Rightarrow> 'a result \<times> id_state \<Rightarrow> 'b result \<times> id_state" where
  "answer f o' = (map_sum id f (fst o'), snd o')"

definition UsersController_findAll :: "jwtPayload \<Rightarrow> id_state \<Rightarrow> user list apiResponse result \<times> id_state" where
  "UsersController_findAll u = guarded ''users'' ''read'' u
     (\<lambda>s. (Inr (api_ok (users_findAll (jp_isPlatformAdmin u) (jp_tenantId u) s) None), s))"

definition UsersController_findOne :: "id_env \<Rightarrow> jwtPayload \<Rightarrow> uuid \<Rightarrow> id_state \<Rightarrow> user apiResponse result \<times> id_state" where
  "UsersController_findOne e u i = guarded ''users'' ''read'' u
     (with_uuid e i (\<lambda>s. (map_sum id (\<lambda>v. api_ok v None) (users_findById i s), s)))"

definition UsersController_create :: "id_env \<Rightarrow> jwtPayload \<Rightarrow> createUserDto \<Rightarrow> id_state \<Rightarrow> user apiResponse result \<times> id_state" where
  "UsersController_create e u dto = guarded ''users'' ''write'' u (\<lambda>s. answer api_created (users_create e dto s))"

text \<open>\<^verbatim>\<open>update\<close> has no \<^verbatim>\<open>@RequirePermission\<close>; it checks for itself, evaluating the right to write first.\<close>

definition UsersController_update ::
  "id_env \<Rightarrow> jwtPayload \<Rightarrow> uuid \<Rightarrow> updateUserDto \<Rightarrow> id_state \<Rightarrow> user apiResponse result \<times> id_state" where
  "UsersController_update e u i dto = with_uuid e i (\<lambda>s.
     if \<not> jp_isPlatformAdmin u \<and> jp_permissions u = None
     then (Inl (JsError ''Cannot read properties of undefined''), s)
     else if jp_sub u \<noteq> i \<and> \<not> (jp_isPlatformAdmin u \<or> ''users:write'' \<in> set (the (jp_permissions u)))
     then (Inl (Forbidden ''You can only update your own profile or must have users:write permission''), s)
     else answer (\<lambda>v. api_ok v None) (users_update e i dto s))"

definition UsersController_remove :: "id_env \<Rightarrow> jwtPayload \<Rightarrow> uuid \<Rightarrow> id_state \<Rightarrow> unit apiResponse result \<times> id_state" where
  "UsersController_remove e u i = guarded ''users'' ''delete'' u
     (with_uuid e i (\<lambda>s. answer (\<lambda>v. api_ok v (Some ''User deleted successfully'')) (users_softDelete e i s)))"

definition MembershipsController_findByUser ::
  "id_env \<Rightarrow> jwtPayload \<Rightarrow> uuid \<Rightarrow> id_state \<Rightarrow> membership list apiResponse result \<times> id_state" where
  "MembershipsController_findByUser e u i = guarded ''users'' ''read'' u
     (with_uuid e i (\<lambda>s. (Inr (api_ok (memberships_findByUserId i s) None), s)))"

definition MembershipsController_findByTenant ::
  "id_env \<Rightarrow> jwtPayload \<Rightarrow> uuid \<Rightarrow> id_state \<Rightarrow> membership list apiResponse result \<times> id_state" where
  "MembershipsController_findByTenant e u t = guarded ''users'' ''read'' u
     (with_uuid e t (\<lambda>s. (Inr (api_ok (memberships_findByTenantId t s) None), s)))"

definition MembershipsController_create ::
  "id_env \<Rightarrow> jwtPayload \<Rightarrow> createMembershipDto \<Rightarrow> id_state \<Rightarrow> membership apiResponse result \<times> id_state" where
  "MembershipsController_create e u dto = guarded ''users'' ''manage'' u
     (\<lambda>s. answer api_created (memberships_create e dto s))"

definition MembershipsController_remove ::
  "id_env \<Rightarrow> jwtPayload \<Rightarrow> uuid \<Rightarrow> uuid \<Rightarrow> id_state \<Rightarrow> unit apiResponse result \<times> id_state" where
  "MembershipsController_remove e u i t = guarded ''users'' ''manage'' u
     (with_uuid e i (with_uuid e t
       (\<lambda>s. answer (\<lambda>v. api_ok v (Some ''Membership removed successfully'')) (memberships_remove e i t s))))"

definition RolesController_findAll ::
  "id_env \<Rightarrow> jwtPayload \<Rightarrow> string option \<Rightarrow> id_state \<Rightarrow> role list apiResponse result \<times> id_state" where
  "RolesController_findAll e u t = guarded ''users'' ''read'' u
     (\<lambda>s. (map_sum id (\<lambda>rs. api_ok rs None) (roles_findAll e t s), s))"

definition RolesController_findAllPermissions :: "jwtPayload \<Rightarrow> id_state \<Rightarrow> permission_row list apiResponse result \<times> id_state" where
  "RolesController_findAllPermissions u = guarded ''users'' ''read'' u
     (\<lambda>s. (Inr (api_ok (findAllPermissions s) None), s))"

definition RolesController_findOne :: "id_env \<Rightarrow> jwtPayload \<Rightarrow> uuid \<Rightarrow> id_state \<Rightarrow> role apiResponse result \<times> id_state" where
  "RolesController_findOne e u i = guarded ''users'' ''read'' u
     (with_uuid e i (\<lambda>s. (map_sum id (\<lambda>r. api_ok r None) (roles_findById i s), s)))"

text \<open>\<^verbatim>\<open>assignRole\<close>: remove the membership, if any, then create it with the new role.\<close>

definition RolesController_assignRole ::
  "id_env \<Rightarrow> jwtPayload \<Rightarrow> uuid \<Rightarrow> uuid \<Rightarrow> uuid \<Rightarrow> id_state \<Rightarrow> membership apiResponse result \<times> id_state" where
  "RolesController_assignRole e u userId tenantId roleId s =
     (case identity_RolesGuard (Some [''tenant_admin'', ''platform_admin'']) (Some u) of
        Inl x \<Rightarrow> (Inl x, s)
      | Inr _ \<Rightarrow>
          (let dto = \<lparr>cm_userId = userId, cm_tenantId = tenantId, cm_roleId = roleId, cm_status = None\<rparr>;
               assign = (\<lambda>s1. answer (\<lambda>m. api_ok m (Some ''Role assigned successfully'')) (memberships_create e dto s1))
           in case findByUserAndTenant userId tenantId s of
                None \<Rightarrow> assign s
              | Some _ \<Rightarrow>
                  (case memberships_remove e userId tenantId s of
                     (Inl x, s1) \<Rightarrow> (Inl x, s1)
                   | (Inr _, s1) \<Rightarrow> assign s1)))"

end
