(* ===== verification/Identity_Auth.thy ===== *)
theory Identity_Auth
  imports Identity_Accounts
begin

text \<open>
  \<^verbatim>\<open>auth.service.ts\<close>, \<^verbatim>\<open>impersonation.service.ts\<close>, the two passport strategies and their
  controllers: login with its attempt counter, refresh tokens, logout, switching tenants, and
  impersonation sessions.
\<close>

subsection \<open>Durations\<close>

text \<open>\<^verbatim>\<open>/^(\d+)([smhd])$/\<close>; a text that does not match counts as 15 minutes.\<close>

definition unit_seconds :: "char \<Rightarrow> nat option" where
  "unit_seconds c = map_of [(CHR ''s'', 1), (CHR ''m'', 60), (CHR ''h'', 3600), (CHR ''d'', 86400)] c"

definition parseDurationToSeconds :: "string \<Rightarrow> int" where
  "parseDurationToSeconds d =
     (if d = [] \<or> butlast d = [] \<or> \<not> list_all is_digit (butlast d) then 900
      else case unit_seconds (last d) of
        None \<Rightarrow> 900
      | Some k \<Rightarrow> int (read_digits (butlast d)) * int k)"

definition getExpiresInSeconds :: "id_env \<Rightarrow> int" where
  "getExpiresInSeconds e = parseDurationToSeconds (coalesce (jwt_expiry e) ''15m'')"

definition parseExpiry :: "id_env \<Rightarrow> string \<Rightarrow> instant" where
  "parseExpiry e d = id_now e + parseDurationToSeconds d * 1000"

subsection \<open>Credentials\<close>

definition loginAttemptsKey :: "string \<Rightarrow> string" where
  "loginAttemptsKey email = ''login_attempts:'' @ toLowerCase email"

definition incrementLoginAttempts :: "id_env \<Rightarrow> string \<Rightarrow> id_state \<Rightarrow> unit result \<times> id_state" where
  "incrementLoginAttempts e key s =
     (case redis_incr (id_now e) key (id_redis s) of
        Inl x \<Rightarrow> (Inl x, s)
      | Inr (current, ks) \<Rightarrow>
          (Inr (), s\<lparr>id_redis := (if current = 1
             then redis_expire (id_now e) key (coalesce (loginBlockDurationSeconds e) 900) ks else ks)\<rparr>))"

definition locked_msg :: string where
  "locked_msg = ''Account temporarily locked due to too many failed login attempts. Try again in 15 minutes.''"

definition validateCredentials :: "id_env \<Rightarrow> string \<Rightarrow> string \<Rightarrow> id_state \<Rightarrow> user option result \<times> id_state" where
  "validateCredentials e email password s =
     (let key = loginAttemptsKey email;
          attempts = redis_get (id_now e) key (id_redis s);
          failed = (case incrementLoginAttempts e key s of (Inl x, s') \<Rightarrow> (Inl x, s') | (Inr _, s') \<Rightarrow> (Inr None, s'))
      in if truthy attempts \<and> parseInt (the attempts) \<noteq> None \<and>
            the (parseInt (the attempts)) \<ge> coalesce (loginMaxAttempts e) 5
         then (Inl (Unauthorized locked_msg), s)
         else case users_findByEmail email s of
           None \<Rightarrow> failed
         | Some u \<Rightarrow>
             if \<not> u_isActive u then failed
             else if \<not> compareSync e password (u_passwordHash u) then failed
             else (Inr (Some u), s\<lparr>id_redis := redis_del [key] (id_redis s)\<rparr>))"

definition LocalStrategy_validate :: "id_env \<Rightarrow> string \<Rightarrow> string \<Rightarrow> id_state \<Rightarrow> user result \<times> id_state" where
  "LocalStrategy_validate e email password s =
     (case validateCredentials e email password s of
        (Inl x, s') \<Rightarrow> (Inl x, s')
      | (Inr None, s') \<Rightarrow> (Inl (Unauthorized ''Invalid email or password''), s')
      | (Inr (Some u), s') \<Rightarrow> (Inr u, s'))"

text \<open>The payload has been verified by the library; the account must still exist and be active.\<close>

definition JwtStrategy_validate :: "jwtPayload \<Rightarrow> id_state \<Rightarrow> jwtPayload result" where
  "JwtStrategy_validate token s =
     (case find (\<lambda>u. u_id u = jp_sub token \<and> u_isActive u) (userRows s) of
        None \<Rightarrow> Inl (Unauthorized ''User not found or has been deactivated'')
      | Some _ \<Rightarrow> Inr token)"

subsection \<open>Tokens\<close>

record tokenResponse =
  tok_accessToken :: string
  tok_refreshToken :: string
  tok_expiresIn :: int
  tok_tokenType :: string

record accessTokenResponse =
  at_accessToken :: string
  at_expiresIn :: int
  at_tokenType :: string

text \<open>Roles and permissions of a membership whose role is loaded with it.\<close>

definition membership_roles :: "membership option \<Rightarrow> id_state \<Rightarrow> string list" where
  "membership_roles m s =
     (case m of None \<Rightarrow> []
      | Some x \<Rightarrow> (case find_role (m_roleId x) s of None \<Rightarrow> [] | Some r \<Rightarrow> [ro_name r]))"

definition membership_permissions :: "membership option \<Rightarrow> id_state \<Rightarrow> string list" where
  "membership_permissions m s =
     (case m of None \<Rightarrow> []
      | Some x \<Rightarrow> (case find_role (m_roleId x) s of None \<Rightarrow> []
          | Some r \<Rightarrow> map (\<lambda>p. permission (pr_resource p) (pr_action p)) (ro_permissions r)))"

definition buildJwtPayload :: "user \<Rightarrow> membership option \<Rightarrow> id_state \<Rightarrow> jwtClaims" where
  "buildJwtPayload u m s = \<lparr>jp_sub = u_id u, jp_email = u_email u, jp_displayName = u_displayName u,
     jp_isPlatformAdmin = u_isPlatformAdmin u, jp_tenantId = map_option m_tenantId m, jp_tenantSlug = None,
     jp_roles = Some (membership_roles m s), jp_permissions = Some (membership_permissions m s),
     jp_isImpersonating = False, jp_realUserId = None\<rparr>"

definition signAccessToken :: "id_env \<Rightarrow> jwtClaims \<Rightarrow> string" where
  "signAccessToken e claims = jwt_sign e claims (coalesce (jwt_expiry e) ''15m'')"

definition accessTokenFor :: "id_env \<Rightarrow> user \<Rightarrow> membership option \<Rightarrow> id_state \<Rightarrow> accessTokenResponse" where
  "accessTokenFor e u m s = \<lparr>at_accessToken = signAccessToken e (buildJwtPayload u m s),
     at_expiresIn = getExpiresInSeconds e, at_tokenType = ''Bearer''\<rparr>"

definition primaryMembership :: "uuid \<Rightarrow> id_state \<Rightarrow> membership option" where
  "primaryMembership i s = find (\<lambda>m. m_status m = MS_active) (memberships_findByUserId i s)"

definition new_token :: "id_env \<Rightarrow> uuid \<Rightarrow> string option \<Rightarrow> string option \<Rightarrow> refreshToken" where
  "new_token e userId ipAddress deviceInfo =
     \<lparr>rt_id = newTokenId e, rt_userId = userId, rt_tokenHash = sha256 e (randomToken e),
      rt_deviceInfo = deviceInfo, rt_ipAddress = ipAddress,
      rt_expiresAt = parseExpiry e (coalesce (jwt_refreshExpiry e) ''7d''),
      rt_revokedAt = None, rt_createdAt = id_now e\<rparr>"

definition loginPayload :: "id_env \<Rightarrow> user \<Rightarrow> string option \<Rightarrow> json" where
  "loginPayload e u ipAddress =
     JObj [(''userId'', JStr (u_id u)), (''action'', JStr ''login''),
           (''meta'', JObj ([(''email'', JStr (u_email u))] @
              (case ipAddress of None \<Rightarrow> [] | Some ip \<Rightarrow> [(''ipAddress'', JStr ip)]))),
           (''timestamp'', JTime (id_now e))]"

declare new_token_def [simp] loginPayload_def [simp]

definition issueTokens ::
  "id_env \<Rightarrow> jwtClaims \<Rightarrow> uuid \<Rightarrow> string option \<Rightarrow> string option \<Rightarrow> id_state \<Rightarrow> (string \<times> string \<times> int) result \<times> id_state" where
  "issueTokens e claims userId ipAddress deviceInfo s =
     (let rt = new_token e userId ipAddress deviceInfo
      in case insert_token e rt s of
           Inl x \<Rightarrow> (Inl x, s)
         | Inr s' \<Rightarrow> (Inr (signAccessToken e claims, randomToken e, getExpiresInSeconds e), s'))"

definition login :: "id_env \<Rightarrow> user \<Rightarrow> string option \<Rightarrow> string option \<Rightarrow> id_state \<Rightarrow> tokenResponse result \<times> id_state" where
  "login e u ipAddress deviceInfo s =
     (let claims = buildJwtPayload u (primaryMembership (u_id u) s) s in
      case issueTokens e claims (u_id u) ipAddress deviceInfo s of
        (Inl x, s1) \<Rightarrow> (Inl x, s1)
      | (Inr (accessToken, refreshToken, expiresIn), s1) \<Rightarrow>
          (let s2 = updateLastLogin e (u_id u) s1;
               s3 = s2\<lparr>id_bus := publish ''chassis.audit'' ''user.login'' (loginPayload e u ipAddress) (id_bus s2)\<rparr>
           in (Inr \<lparr>tok_accessToken = accessToken, tok_refreshToken = refreshToken, tok_expiresIn = expiresIn,
                    tok_tokenType = ''Bearer''\<rparr>, s3)))"

record registerDto =
  rg_email :: string
  rg_password :: string
  rg_displayName :: string
  rg_phone :: "string option"

definition registerUser :: "registerDto \<Rightarrow> createUserDto" where
  "registerUser dto =
     \<lparr>cu_email = rg_email dto, cu_password = rg_password dto, cu_displayName = rg_displayName dto,
      cu_phone = rg_phone dto, cu_isPlatformAdmin = None, cu_emailVerified = None\<rparr>"

declare registerUser_def [simp]

definition register :: "id_env \<Rightarrow> registerDto \<Rightarrow> id_state \<Rightarrow> tokenResponse result \<times> id_state" where
  "register e dto s =
     (case users_create e (registerUser dto) s of
        (Inl x, s1) \<Rightarrow> (Inl x, s1)
      | (Inr u, s1) \<Rightarrow> login e u None None s1)"

definition revokedKey :: "string \<Rightarrow> string" where
  "revokedKey tokenHash = ''revoked:'' @ tokenHash"

definition refreshAccessToken :: "id_env \<Rightarrow> string \<Rightarrow> id_state \<Rightarrow> accessTokenResponse result" where
  "refreshAccessToken e tokenValue s =
     (let h = sha256 e tokenValue in
      if truthy (redis_get (id_now e) (revokedKey h) (id_redis s))
      then Inl (Unauthorized ''Refresh token has been revoked'')
      else case find_token h s of
        None \<Rightarrow> Inl (Unauthorized ''Invalid or expired refresh token'')
      | Some stored \<Rightarrow>
          if \<not> rt_isValid (id_now e) stored then Inl (Unauthorized ''Invalid or expired refresh token'')
          else (case find_user (rt_userId stored) s of
             None \<Rightarrow> Inl (JsError ''Cannot read properties of null'')
           | Some u \<Rightarrow>
               if \<not> u_isActive u then Inl (Unauthorized ''User account is inactive'')
               else Inr (accessTokenFor e u (primaryMembership (u_id u) s) s)))"

text \<open>Blacklist a token hash for the rest of its life.\<close>

definition blacklist :: "id_env \<Rightarrow> string \<Rightarrow> instant \<Rightarrow> id_state \<Rightarrow> id_state" where
  "blacklist e tokenHash expiresAt s =
     (let ttl = max 0 ((expiresAt - id_now e) div 1000)
      in if ttl > 0 then s\<lparr>id_redis := redis_setex (id_now e) (revokedKey tokenHash) ttl ''1'' (id_redis s)\<rparr> else s)"

definition logout :: "id_env \<Rightarrow> string \<Rightarrow> id_state \<Rightarrow> id_state" where
  "logout e tokenValue s =
     (let h = sha256 e tokenValue in
      case find_token h s of
        None \<Rightarrow> s
      | Some stored \<Rightarrow>
          if rt_isRevoked stored then s
          else blacklist e h (rt_expiresAt stored)
                 (s\<lparr>tokenRows := save_row rt_id (stored\<lparr>rt_revokedAt := Some (id_now e)\<rparr>) (tokenRows s)\<rparr>))"

definition switchTenant :: "id_env \<Rightarrow> uuid \<Rightarrow> uuid \<Rightarrow> id_state \<Rightarrow> accessTokenResponse result" where
  "switchTenant e userId tenantId s =
     (case users_findById userId s of
        Inl x \<Rightarrow> Inl x
      | Inr u \<Rightarrow>
          (let m = findByUserAndTenant userId tenantId s in
           if m = None \<and> \<not> u_isPlatformAdmin u
           then Inl (Forbidden (''User does not have access to tenant '' @ tenantId))
           else Inr (accessTokenFor e u m s)))"

definition getMe :: "uuid \<Rightarrow> id_state \<Rightarrow> user result" where
  "getMe i s = users_findById i s"

subsection \<open>Impersonation\<close>

definition impersonationPayload :: "user \<Rightarrow> user \<Rightarrow> uuid \<Rightarrow> membership option \<Rightarrow> id_state \<Rightarrow> jwtClaims" where
  "impersonationPayload admin target tenantId m s =
     \<lparr>jp_sub = u_id target, jp_email = u_email target, jp_displayName = u_displayName target,
      jp_isPlatformAdmin = False, jp_tenantId = Some tenantId, jp_tenantSlug = None,
      jp_roles = Some (membership_roles m s), jp_permissions = Some (membership_permissions m s),
      jp_isImpersonating = True, jp_realUserId = Some (u_id admin)\<rparr>"

declare impersonationPayload_def [simp]

definition impersonationClaims :: "user \<Rightarrow> user \<Rightarrow> uuid \<Rightarrow> id_state \<Rightarrow> jwtClaims" where
  "impersonationClaims admin target tenantId s =
     (let m = (case findByUserAndTenant (u_id target) tenantId s of
                 Some x \<Rightarrow> Some x
               | None \<Rightarrow> find (\<lambda>m. m_tenantId m = tenantId) (memberships_findByUserId (u_id target) s))
      in impersonationPayload admin target tenantId m s)"

definition issueImpersonationToken :: "id_env \<Rightarrow> user \<Rightarrow> user \<Rightarrow> uuid \<Rightarrow> id_state \<Rightarrow> string" where
  "issueImpersonationToken e admin target tenantId s =
     jwt_sign e (impersonationClaims admin target tenantId s) (coalesce (jwt_impersonationExpiry e) ''30m'')"

definition revokeImpersonationToken :: "id_env \<Rightarrow> string \<Rightarrow> instant \<Rightarrow> id_state \<Rightarrow> id_state" where
  "revokeImpersonationToken e tokenHash expiresAt s = blacklist e tokenHash expiresAt s"

definition reissueAdminToken :: "id_env \<Rightarrow> uuid \<Rightarrow> id_state \<Rightarrow> accessTokenResponse result" where
  "reissueAdminToken e i s =
     (case users_findById i s of
        Inl x \<Rightarrow> Inl x
      | Inr u \<Rightarrow> Inr (accessTokenFor e u (primaryMembership (u_id u) s) s))"

record impersonateDto =
  im_targetUserId :: uuid
  im_targetTenantId :: uuid
  im_reason :: string

definition new_session :: "id_env \<Rightarrow> user \<Rightarrow> user \<Rightarrow> impersonateDto \<Rightarrow> impersonationSession" where
  "new_session e admin target dto =
     \<lparr>is_id = newSessionId e, is_adminUserId = u_id admin, is_targetUserId = u_id target,
      is_targetTenantId = im_targetTenantId dto, is_reason = im_reason dto, is_tokenHash = ''pending'',
      is_expiresAt = id_now e + 30 * 60 * 1000, is_endedAt = None, is_createdAt = id_now e\<rparr>"

definition startedPayload :: "id_env \<Rightarrow> user \<Rightarrow> user \<Rightarrow> impersonateDto \<Rightarrow> json" where
  "startedPayload e admin target dto =
     JObj [(''userId'', JStr (u_id admin)), (''action'', JStr ''impersonate''),
           (''meta'', JObj [(''targetUserId'', JStr (u_id target)), (''targetTenantId'', JStr (im_targetTenantId dto)),
              (''reason'', JStr (im_reason dto)), (''sessionId'', JStr (newSessionId e))]),
           (''timestamp'', JTime (id_now e))]"

declare new_session_def [simp] startedPayload_def [simp]

text \<open>
  The session row is stored twice: with a placeholder hash, then with the hash of the token.
\<close>

definition startImpersonation ::
  "id_env \<Rightarrow> jwtPayload \<Rightarrow> impersonateDto \<Rightarrow> id_state \<Rightarrow> (string \<times> uuid) result \<times> id_state" where
  "startImpersonation e adminUser dto s =
     (if \<not> jp_isPlatformAdmin adminUser
      then (Inl (Forbidden ''Only platform administrators can impersonate users''), s)
      else case users_findById (jp_sub adminUser) s of
        Inl x \<Rightarrow> (Inl x, s)
      | Inr admin \<Rightarrow>
          (case users_findById (im_targetUserId dto) s of
             Inl x \<Rightarrow> (Inl x, s)
           | Inr target \<Rightarrow>
               if \<not> u_isActive target then (Inl (Forbidden ''Cannot impersonate an inactive user''), s)
               else if u_isPlatformAdmin target
               then (Inl (Forbidden ''Cannot impersonate another platform administrator''), s)
               else if newSessionId e \<in> is_id ` set (sessionRows s) then (Inl (QueryFailed ''23505''), s)
               else (let session = new_session e admin target dto;
                         s1 = s\<lparr>sessionRows := sessionRows s @ [session]\<rparr>;
                         accessToken = issueImpersonationToken e admin target (im_targetTenantId dto) s1;
                         s2 = s1\<lparr>sessionRows := save_row is_id
                                (session\<lparr>is_tokenHash := sha256 e accessToken\<rparr>) (sessionRows s1)\<rparr>;
                         s3 = s2\<lparr>id_bus := publish ''chassis.audit'' ''user.impersonate''
                                (startedPayload e admin target dto) (id_bus s2)\<rparr>
                     in (Inr (accessToken, is_id session), s3))))"

text \<open>The newest row of a query ordered by creation, descending.\<close>

definition newest :: "('r \<Rightarrow> instant) \<Rightarrow> 'r list \<Rightarrow> 'r option" where
  "newest created rows = (case sort_key (\<lambda>r. - created r) rows of [] \<Rightarrow> None | r # _ \<Rightarrow> Some r)"

definition endImpersonation :: "id_env \<Rightarrow> jwtPayload \<Rightarrow> id_state \<Rightarrow> accessTokenResponse result \<times> id_state" where
  "endImpersonation e caller s =
     (if \<not> jp_isImpersonating caller
      then (Inl (Forbidden ''Current session is not an impersonation session''), s)
      else if \<not> truthy (jp_realUserId caller)
      then (Inl (Unauthorized ''Missing realUserId in impersonation token''), s)
      else (let real = the (jp_realUserId caller);
                s1 = (case newest is_createdAt (filter (\<lambda>x. is_targetUserId x = jp_sub caller \<and>
                             is_adminUserId x = real \<and> is_endedAt x = None) (sessionRows s)) of
                        None \<Rightarrow> s
                      | Some x \<Rightarrow>
                          revokeImpersonationToken e (is_tokenHash x) (is_expiresAt x)
                            (s\<lparr>sessionRows := save_row is_id (x\<lparr>is_endedAt := Some (id_now e)\<rparr>) (sessionRows s)\<rparr>))
            in (reissueAdminToken e real s1, s1)))"

definition findActiveSessions :: "id_env \<Rightarrow> uuid option \<Rightarrow> id_state \<Rightarrow> impersonationSession list" where
  "findActiveSessions e adminUserId s =
     filter (\<lambda>x. is_endedAt x = None \<and> is_expiresAt x > id_now e \<and>
                 (truthy adminUserId \<longrightarrow> Some (is_adminUserId x) = adminUserId)) (sessionRows s)"

subsection \<open>Controllers\<close>

definition AuthController_register :: "id_env \<Rightarrow> registerDto \<Rightarrow> id_state \<Rightarrow> tokenResponse apiResponse result \<times> id_state" where
  "AuthController_register e dto s = answer api_created (register e dto s)"

text \<open>The local strategy runs first; the address is the forwarding header or the socket's.\<close>

definition AuthController_login ::
  "id_env \<Rightarrow> string \<Rightarrow> string \<Rightarrow> headers \<Rightarrow> string option \<Rightarrow> id_state \<Rightarrow> tokenResponse apiResponse result \<times> id_state" where
  "AuthController_login e email password h remoteAddress s =
     (case LocalStrategy_validate e email password s of
        (Inl x, s1) \<Rightarrow> (Inl x, s1)
      | (Inr u, s1) \<Rightarrow>
          (let ipAddress = (case h ''x-forwarded-for'' of Some a \<Rightarrow> Some a | None \<Rightarrow> remoteAddress)
           in answer (\<lambda>r. api_ok r (Some ''Login successful'')) (login e u ipAddress (h ''user-agent'') s1)))"

definition AuthController_refresh :: "id_env \<Rightarrow> string \<Rightarrow> id_state \<Rightarrow> accessTokenResponse apiResponse result" where
  "AuthController_refresh e tokenValue s = map_sum id (\<lambda>r. api_ok r None) (refreshAccessToken e tokenValue s)"

definition AuthController_logout :: "id_env \<Rightarrow> string \<Rightarrow> id_state \<Rightarrow> unit apiResponse \<times> id_state" where
  "AuthController_logout e tokenValue s =
     (api_ok () (Some ''Logged out successfully''), logout e tokenValue s)"

definition AuthController_switchTenant :: "id_env \<Rightarrow> jwtPayload \<Rightarrow> uuid \<Rightarrow> id_state \<Rightarrow> accessTokenResponse apiResponse result" where
  "AuthController_switchTenant e u tenantId s =
     map_sum id (\<lambda>r. api_ok r (Some ''Tenant switched successfully'')) (switchTenant e (jp_sub u) tenantId s)"

definition AuthController_me :: "jwtPayload \<Rightarrow> id_state \<Rightarrow> user apiResponse result" where
  "AuthController_me u s = map_sum id (\<lambda>v. api_ok v None) (getMe (jp_sub u) s)"

definition ImpersonationController_start ::
  "id_env \<Rightarrow> jwtPayload \<Rightarrow> impersonateDto \<Rightarrow> id_state \<Rightarrow> (string \<times> uuid) apiResponse result \<times> id_state" where
  "ImpersonationController_start e u dto s =
     answer (\<lambda>r. api_ok r (Some ''Impersonation session started'')) (startImpersonation e u dto s)"

definition ImpersonationController_end ::
  "id_env \<Rightarrow> jwtPayload \<Rightarrow> id_state \<Rightarrow> accessTokenResponse apiResponse result \<times> id_state" where
  "ImpersonationController_end e u s =
     answer (\<lambda>r. api_ok r (Some ''Impersonation session ended'')) (endImpersonation e u s)"

end
