(* ===== verification/Identity_Theorems.thy ===== *)
theory Identity_Theorems
  imports Identity_Auth
begin

text \<open>
  Properties of the identity service: the constraints hold in every reachable state, the attempt
  counter locks an account for its window, logged-out refresh tokens are dead, tokens carry the
  claims of the account and membership they stand for, and impersonation is confined and recorded.
\<close>

subsection \<open>The operations keep the constraints\<close>

lemma id_wf_cong:
  "userRows s' = userRows s \<Longrightarrow> membershipRows s' = membershipRows s \<Longrightarrow> tokenRows s' = tokenRows s \<Longrightarrow>
   id_wf s' = id_wf s"
  by (simp add: id_wf_def)

lemma id_wf_updates [simp]:
  "id_wf (s\<lparr>id_redis := r\<rparr>) = id_wf s" "id_wf (s\<lparr>id_bus := b\<rparr>) = id_wf s"
  "id_wf (s\<lparr>sessionRows := q\<rparr>) = id_wf s"
  by (simp_all add: id_wf_def)

lemma find_user_iff: "id_wf s \<Longrightarrow> find_user i s = Some u \<longleftrightarrow> u \<in> set (userRows s) \<and> u_id u = i"
  by (rule accounts.lookup_iff) (simp add: id_wf_def)

lemma find_membership_iff:
  "id_wf s \<Longrightarrow> find_membership i t s = Some m \<longleftrightarrow> m \<in> set (membershipRows s) \<and> m_key m = (i, t)"
  using members.lookup_iff [of "membershipRows s" "(i, t)" m] by (simp add: id_wf_def)

lemma find_token_iff: "id_wf s \<Longrightarrow> find_token h s = Some r \<longleftrightarrow> r \<in> set (tokenRows s) \<and> rt_tokenHash r = h"
  by (rule tokens.lookup_iff) (simp add: id_wf_def)

lemma save_user_simps [simp]:
  "membershipRows (snd (save_user now u s)) = membershipRows s" "tokenRows (snd (save_user now u s)) = tokenRows s"
  "sessionRows (snd (save_user now u s)) = sessionRows s" "roleRows (snd (save_user now u s)) = roleRows s"
  "id_redis (snd (save_user now u s)) = id_redis s" "id_bus (snd (save_user now u s)) = id_bus s"
  "u_id (fst (save_user now u s)) = u_id u" "u_email (fst (save_user now u s)) = u_email u"
  "u_isActive (fst (save_user now u s)) = u_isActive u"
  "u_isPlatformAdmin (fst (save_user now u s)) = u_isPlatformAdmin u"
  "u_emailVerified (fst (save_user now u s)) = u_emailVerified u"
  by (simp_all add: save_user_def Let_def)

lemma userRows_save: "userRows (snd (save_user now u s)) = save_row u_id (fst (save_user now u s)) (userRows s)"
  by (simp add: save_user_def Let_def)

lemma find_save_user:
  "find_user i (snd (save_user now u s)) = (if i = u_id u then Some (fst (save_user now u s)) else find_user i s)"
  by (simp add: userRows_save find_save_row)

lemma id_wf_save_user:
  assumes wf: "id_wf s" and u0: "find_user (u_id u) s = Some u0" and same: "u_email u = u_email u0"
  shows "id_wf (snd (save_user now u s))"
proof -
  let ?u = "fst (save_user now u s)"
  have u0s: "u0 \<in> set (userRows s)" "u_id u0 = u_id u" using u0 wf by (simp_all add: find_user_iff)
  have "unique_on u_email (save_row u_id ?u (userRows s))"
  proof (rule unique_save_row_other)
    show "\<forall>x \<in> set (userRows s). u_id x \<noteq> u_id ?u \<longrightarrow> u_email x \<noteq> u_email ?u"
      using wf u0s same by (auto simp: id_wf_def unique_on_def dest: distinct_map_eq)
  qed (use wf in \<open>simp_all add: id_wf_def\<close>)
  moreover have "find_user i (snd (save_user now u s)) \<noteq> None" if "find_user i s \<noteq> None" for i
    using that by (simp add: find_save_user)
  moreover have "u_email u = toLowerCase (u_email u)" using wf u0s same by (auto simp: id_wf_def)
  ultimately show ?thesis
    using wf by (auto simp: id_wf_def userRows_save unique_save_row set_save_row simp del: find_None_iff)
qed

lemma save_membership_simps [simp]:
  "userRows (snd (save_membership now m s)) = userRows s" "tokenRows (snd (save_membership now m s)) = tokenRows s"
  "sessionRows (snd (save_membership now m s)) = sessionRows s" "roleRows (snd (save_membership now m s)) = roleRows s"
  "id_redis (snd (save_membership now m s)) = id_redis s" "id_bus (snd (save_membership now m s)) = id_bus s"
  "m_userId (fst (save_membership now m s)) = m_userId m" "m_tenantId (fst (save_membership now m s)) = m_tenantId m"
  "m_roleId (fst (save_membership now m s)) = m_roleId m" "m_status (fst (save_membership now m s)) = m_status m"
  "m_id (fst (save_membership now m s)) = m_id m"
  by (simp_all add: save_membership_def Let_def)

text \<open>A stored membership is rewritten in place: by its identifier or by its key is the same.\<close>

lemma membershipRows_save:
  assumes wf: "id_wf s" and m0: "find_membership i t s = Some m0" and same: "m_id m = m_id m0" "m_key m = m_key m0"
  shows "membershipRows (snd (save_membership now m s)) =
    save_row m_key (fst (save_membership now m s)) (membershipRows s)"
proof -
  have mem: "m0 \<in> set (membershipRows s)" using m0 wf by (simp add: find_membership_iff)
  have "m_id x = m_id m \<longleftrightarrow> m_key x = m_key m" if "x \<in> set (membershipRows s)" for x
    using wf mem that same distinct_map_eq [of m_id "membershipRows s" x m0]
      distinct_map_eq [of m_key "membershipRows s" x m0]
    by (auto simp: id_wf_def unique_on_def)
  then have "save_row m_id m' (membershipRows s) = save_row m_key m' (membershipRows s)"
    if "m_id m' = m_id m" "m_key m' = m_key m" for m'
    using that by (auto simp: save_row_def)
  then show ?thesis by (simp add: save_membership_def Let_def)
qed

lemma find_save_membership:
  assumes "id_wf s" "find_membership i t s = Some m0" "m_id m = m_id m0" "m_key m = m_key m0"
  shows "find_membership i' t' (snd (save_membership now m s)) =
    (if i' = i \<and> t' = t then Some (fst (save_membership now m s)) else find_membership i' t' s)"
proof -
  have "m_key m = (i, t)" using assms by (simp add: find_membership_iff)
  then show ?thesis
    using membershipRows_save [OF assms] assms(1)
      members.lookup_save [of "membershipRows s" "(i', t')" "fst (save_membership now m s)"]
    by (auto simp: id_wf_def)
qed

lemma id_wf_save_membership:
  assumes "id_wf s" "find_membership i t s = Some m0" "m_id m = m_id m0" "m_key m = m_key m0"
  shows "id_wf (snd (save_membership now m s))"
proof -
  let ?m = "fst (save_membership now m s)"
  have m0: "m0 \<in> set (membershipRows s)" using assms by (simp add: find_membership_iff)
  have "unique_on m_id (save_row m_key ?m (membershipRows s))"
  proof (rule unique_save_row_other)
    show "\<forall>x \<in> set (membershipRows s). m_key x \<noteq> m_key ?m \<longrightarrow> m_id x \<noteq> m_id ?m"
      using assms m0 by (auto simp: id_wf_def unique_on_def dest: distinct_map_eq)
  qed (use assms in \<open>simp_all add: id_wf_def\<close>)
  then show ?thesis
    using assms m0 membershipRows_save [OF assms]
    by (auto simp: id_wf_def unique_save_row set_save_row)
qed

lemma id_wf_insert_user:
  assumes "id_wf s" "insert_user u s = Inr s'" "u_email u = toLowerCase (u_email u)"
  shows "id_wf s'"
  using assms by (fastforce simp: insert_user_def id_wf_def image_iff find_append split: if_splits option.splits)

lemma id_wf_insert_membership:
  assumes "id_wf s" "insert_membership m s = Inr s'"
  shows "id_wf s'"
  using assms by (fastforce simp: insert_membership_def id_wf_def image_iff split: if_splits)

lemma id_wf_insert_token:
  assumes "id_wf s" "insert_token e r s = Inr s'"
  shows "id_wf s'"
  using assms by (fastforce simp: insert_token_def id_wf_def image_iff split: if_splits)

lemma id_wf_updateLastLogin: "id_wf s \<Longrightarrow> id_wf (updateLastLogin e i s)"
  by (auto simp: id_wf_def updateLastLogin_def unique_update_where set_update_where find_update_where)

lemma users_create_wf:
  assumes "id_wf s" "users_create e dto s = (r, s')"
  shows "id_wf s'"
  using assms
  by (auto simp: users_create_def Let_def split: option.splits sum.splits elim!: id_wf_insert_user)

lemma users_findById_found: "users_findById i s = Inr u \<Longrightarrow> find_user i s = Some u \<and> u_id u = i"
  by (auto simp: users_findById_def split: option.splits dest: find_SomeD)

lemma users_update_wf:
  assumes "id_wf s" "users_update e i dto s = (r, s')"
  shows "id_wf s'"
proof (cases "users_findById i s")
  case (Inr u)
  note u = users_findById_found [OF Inr]
  have "id_wf (snd (save_user (id_now e) v s))" if "u_id v = u_id u" "u_email v = u_email u" for v
    by (rule id_wf_save_user [OF assms(1), of _ u]) (use u that in simp_all)
  with assms show ?thesis
    by (auto simp: users_update_def Inr Let_def case_prod_beta split: if_splits)
qed (use assms in \<open>simp add: users_update_def\<close>)

lemma users_softDelete_wf:
  assumes "id_wf s" "users_softDelete e i s = (r, s')"
  shows "id_wf s'"
proof (cases "users_findById i s")
  case (Inr u)
  note u = users_findById_found [OF Inr]
  have "id_wf (snd (save_user (id_now e) (u\<lparr>u_isActive := False\<rparr>) s))"
    by (rule id_wf_save_user [OF assms(1), of _ u]) (use u in simp_all)
  with assms show ?thesis by (auto simp: users_softDelete_def Inr)
qed (use assms in \<open>simp add: users_softDelete_def\<close>)

lemma store_membership_wf:
  assumes "id_wf s" "store_membership e dto st (find_membership (cm_userId dto) (cm_tenantId dto) s) s = Inr (m, s')"
  shows "id_wf s'"
proof (cases "find_membership (cm_userId dto) (cm_tenantId dto) s")
  case (Some m0)
  have "id_wf (snd (save_membership (id_now e)
      (m0\<lparr>m_roleId := cm_roleId dto, m_status := st, m_joinedAt := Some (id_now e)\<rparr>) s))"
    by (rule id_wf_save_membership [OF assms(1) Some]) simp_all
  with assms(2) Some show ?thesis by (simp add: store_membership_def prod_eq_iff)
next
  case None
  with assms show ?thesis
    by (auto simp: store_membership_def Let_def map_sum_def split: sum.splits intro: id_wf_insert_membership)
qed

lemma memberships_create_wf:
  assumes "id_wf s" "memberships_create e dto s = (r, s')"
  shows "id_wf s'"
  using assms
  by (auto simp: memberships_create_def Let_def split: sum.splits if_splits option.splits prod.splits
      dest: store_membership_wf)

lemma memberships_remove_wf:
  assumes "id_wf s" "memberships_remove e i t s = (r, s')"
  shows "id_wf s'"
proof (cases "find_membership i t s")
  case (Some m)
  have "id_wf (snd (save_membership (id_now e) (m\<lparr>m_status := MS_removed\<rparr>) s))"
    by (rule id_wf_save_membership [OF assms(1) Some]) simp_all
  with assms Some show ?thesis by (auto simp: memberships_remove_def findByUserAndTenant_def)
qed (use assms in \<open>auto simp: memberships_remove_def findByUserAndTenant_def\<close>)

lemma issueTokens_wf:
  assumes "id_wf s" "issueTokens e c i ip d s = (r, s')"
  shows "id_wf s'"
  using assms by (auto simp: issueTokens_def Let_def split: sum.splits intro: id_wf_insert_token)

lemma login_wf:
  assumes "id_wf s" "login e u ip d s = (r, s')"
  shows "id_wf s'"
proof -
  obtain q s1 where q: "issueTokens e (buildJwtPayload u (primaryMembership (u_id u) s) s) (u_id u) ip d s = (q, s1)"
    by (rule prod.exhaust)
  have "id_wf s1" using issueTokens_wf [OF assms(1) q] .
  then show ?thesis
    using assms(2) id_wf_updateLastLogin [of s1 e "u_id u"]
    by (auto simp: login_def Let_def q split: sum.splits)
qed

lemma register_wf:
  assumes "id_wf s" "register e dto s = (r, s')"
  shows "id_wf s'"
  using assms by (auto simp: register_def split: prod.splits sum.splits dest: users_create_wf intro: login_wf)

lemma incrementLoginAttempts_frame:
  "incrementLoginAttempts e k s = (r, s') \<Longrightarrow> \<exists>ks. s' = s\<lparr>id_redis := ks\<rparr>"
  by (auto simp: incrementLoginAttempts_def split: sum.splits prod.splits) (metis id_state.surjective id_state.update_convs(7))

lemma validateCredentials_frame:
  assumes "validateCredentials e m p s = (r, s')"
  shows "\<exists>ks. s' = s\<lparr>id_redis := ks\<rparr>"
proof -
  have self: "\<exists>ks. s = s\<lparr>id_redis := ks\<rparr>" by (metis id_state.surjective id_state.update_convs(7))
  obtain q s1 where inc: "incrementLoginAttempts e (loginAttemptsKey m) s = (q, s1)" by (rule prod.exhaust)
  show ?thesis
    using assms self incrementLoginAttempts_frame [OF inc]
    by (auto simp: validateCredentials_def Let_def inc split: if_splits option.splits sum.splits)
qed

lemma LocalStrategy_frame:
  "LocalStrategy_validate e m p s = (r, s') \<Longrightarrow> \<exists>ks. s' = s\<lparr>id_redis := ks\<rparr>"
  by (auto simp: LocalStrategy_validate_def split: prod.splits sum.splits option.splits dest: validateCredentials_frame)

lemma blacklist_frame: "\<exists>ks. blacklist e h x s = s\<lparr>id_redis := ks\<rparr>"
  unfolding blacklist_def Let_def by (metis id_state.surjective id_state.update_convs(7))

text \<open>Revoking a stored token rewrites its row in place.\<close>

lemma revoke_rows:
  assumes "id_wf s" "find_token h s = Some r"
  shows "id_wf (s\<lparr>tokenRows := save_row rt_id (r\<lparr>rt_revokedAt := v\<rparr>) (tokenRows s)\<rparr>)"
    and "find_token h' (s\<lparr>tokenRows := save_row rt_id (r\<lparr>rt_revokedAt := v\<rparr>) (tokenRows s)\<rparr>) =
      (if h' = h then Some (r\<lparr>rt_revokedAt := v\<rparr>) else find_token h' s)"
proof -
  have r: "r \<in> set (tokenRows s)" "rt_tokenHash r = h" using assms by (simp_all add: find_token_iff)
  have "rt_id x = rt_id r \<longleftrightarrow> rt_tokenHash x = rt_tokenHash r" if "x \<in> set (tokenRows s)" for x
    using assms(1) r that distinct_map_eq [of rt_id "tokenRows s" x r]
      distinct_map_eq [of rt_tokenHash "tokenRows s" x r]
    by (auto simp: id_wf_def unique_on_def)
  then have eq: "save_row rt_id (r\<lparr>rt_revokedAt := v\<rparr>) (tokenRows s) =
      save_row rt_tokenHash (r\<lparr>rt_revokedAt := v\<rparr>) (tokenRows s)"
    by (auto simp: save_row_def)
  show "find_token h' (s\<lparr>tokenRows := save_row rt_id (r\<lparr>rt_revokedAt := v\<rparr>) (tokenRows s)\<rparr>) =
      (if h' = h then Some (r\<lparr>rt_revokedAt := v\<rparr>) else find_token h' s)"
    using r by (simp add: eq find_save_row)
  have "unique_on rt_id (save_row rt_tokenHash (r\<lparr>rt_revokedAt := v\<rparr>) (tokenRows s))"
    by (subst eq [symmetric]) (use assms(1) in \<open>simp add: id_wf_def unique_save_row\<close>)
  then show "id_wf (s\<lparr>tokenRows := save_row rt_id (r\<lparr>rt_revokedAt := v\<rparr>) (tokenRows s)\<rparr>)"
    using assms(1) r by (auto simp: id_wf_def eq unique_save_row set_save_row)
qed

lemma logout_wf: "id_wf s \<Longrightarrow> id_wf (logout e tok s)"
proof -
  assume wf: "id_wf s"
  show ?thesis
  proof (cases "find_token (sha256 e tok) s")
    case (Some r)
    let ?s = "s\<lparr>tokenRows := save_row rt_id (r\<lparr>rt_revokedAt := Some (id_now e)\<rparr>) (tokenRows s)\<rparr>"
    obtain ks where "blacklist e (sha256 e tok) (rt_expiresAt r) ?s = ?s\<lparr>id_redis := ks\<rparr>"
      using blacklist_frame by blast
    with wf Some revoke_rows(1) [OF wf Some] show ?thesis by (simp add: logout_def Let_def)
  qed (use wf in \<open>simp add: logout_def\<close>)
qed

subsection \<open>Reachable states\<close>

datatype id_event =
    Ie_register registerDto
  | Ie_login string string headers "string option"
  | Ie_logout string
  | Ie_createUser jwtPayload createUserDto
  | Ie_updateUser jwtPayload uuid updateUserDto
  | Ie_removeUser jwtPayload uuid
  | Ie_createMembership jwtPayload createMembershipDto
  | Ie_removeMembership jwtPayload uuid uuid
  | Ie_assignRole jwtPayload uuid uuid uuid
  | Ie_startImpersonation jwtPayload impersonateDto
  | Ie_endImpersonation jwtPayload

fun id_handle :: "id_env \<Rightarrow> id_event \<Rightarrow> id_state \<Rightarrow> id_state" where
  "id_handle e (Ie_register dto) s = snd (AuthController_register e dto s)"
| "id_handle e (Ie_login m p h a) s = snd (AuthController_login e m p h a s)"
| "id_handle e (Ie_logout tok) s = snd (AuthController_logout e tok s)"
| "id_handle e (Ie_createUser u dto) s = snd (UsersController_create e u dto s)"
| "id_handle e (Ie_updateUser u i dto) s = snd (UsersController_update e u i dto s)"
| "id_handle e (Ie_removeUser u i) s = snd (UsersController_remove e u i s)"
| "id_handle e (Ie_createMembership u dto) s = snd (MembershipsController_create e u dto s)"
| "id_handle e (Ie_removeMembership u i t) s = snd (MembershipsController_remove e u i t s)"
| "id_handle e (Ie_assignRole u i t r) s = snd (RolesController_assignRole e u i t r s)"
| "id_handle e (Ie_startImpersonation u dto) s = snd (ImpersonationController_start e u dto s)"
| "id_handle e (Ie_endImpersonation u) s = snd (ImpersonationController_end e u s)"

inductive id_reachable :: "id_state \<Rightarrow> bool" where
  id_init: "userRows s = [] \<Longrightarrow> membershipRows s = [] \<Longrightarrow> tokenRows s = [] \<Longrightarrow> id_reachable s"
| id_step: "id_reachable s \<Longrightarrow> id_reachable (id_handle e ev s)"

lemma snd_answer [simp]: "snd (answer f x) = snd x"
  by (simp add: answer_def)

lemma guarded_keeps: "P s \<Longrightarrow> P (snd (h s)) \<Longrightarrow> P (snd (guarded r a u h s))"
  by (simp add: guarded_def split: sum.split)

lemma with_uuid_keeps: "P s \<Longrightarrow> P (snd (h s)) \<Longrightarrow> P (snd (with_uuid e i h s))"
  by (simp add: with_uuid_def)

lemmas create_wf_snd = users_create_wf [OF _ prod.collapse [symmetric]]
lemmas update_wf_snd = users_update_wf [OF _ prod.collapse [symmetric]]
lemmas softDelete_wf_snd = users_softDelete_wf [OF _ prod.collapse [symmetric]]
lemmas join_wf_snd = memberships_create_wf [OF _ prod.collapse [symmetric]]
lemmas leave_wf_snd = memberships_remove_wf [OF _ prod.collapse [symmetric]]

lemma AuthController_login_wf:
  assumes "id_wf s"
  shows "id_wf (snd (AuthController_login e m p h a s))"
proof -
  obtain q s1 where q: "LocalStrategy_validate e m p s = (q, s1)" by (rule prod.exhaust)
  then have "id_wf s1" using LocalStrategy_frame [OF q] assms by auto
  then show ?thesis
    using login_wf [OF _ prod.collapse [symmetric]]
    by (simp add: AuthController_login_def Let_def q split: sum.split)
qed

lemma RolesController_assignRole_wf:
  assumes "id_wf s"
  shows "id_wf (snd (RolesController_assignRole e u i t r s))"
proof -
  obtain q s1 where q: "memberships_remove e i t s = (q, s1)" by (rule prod.exhaust)
  have "id_wf s1" using memberships_remove_wf [OF assms q] .
  with assms show ?thesis
    by (auto simp: RolesController_assignRole_def Let_def q join_wf_snd split: sum.split option.split)
qed

lemma startImpersonation_frame:
  assumes "startImpersonation e u dto s = (r, s')"
  shows "userRows s' = userRows s" "membershipRows s' = membershipRows s" "tokenRows s' = tokenRows s"
    "roleRows s' = roleRows s" "id_redis s' = id_redis s"
  using assms by (auto simp: startImpersonation_def Let_def split: if_splits sum.splits)

lemma revokeImpersonationToken_frame: "\<exists>ks. revokeImpersonationToken e h x s = s\<lparr>id_redis := ks\<rparr>"
  by (simp add: revokeImpersonationToken_def blacklist_frame)

lemma endImpersonation_frame:
  assumes "endImpersonation e u s = (r, s')"
  shows "\<exists>ks rows. s' = s\<lparr>sessionRows := rows, id_redis := ks\<rparr>"
proof -
  have self: "\<exists>ks rows. s = s\<lparr>sessionRows := rows, id_redis := ks\<rparr>"
    by (intro exI [of _ "id_redis s"] exI [of _ "sessionRows s"]) simp
  have rev: "\<exists>ks rs. revokeImpersonationToken e h x (s\<lparr>sessionRows := rows\<rparr>) = s\<lparr>sessionRows := rs, id_redis := ks\<rparr>" for h x rows
    using revokeImpersonationToken_frame [of e h x "s\<lparr>sessionRows := rows\<rparr>"] by auto
  show ?thesis
    using assms self rev by (auto simp: endImpersonation_def Let_def split: if_splits option.splits)
qed

lemma id_handle_wf:
  assumes "id_wf s"
  shows "id_wf (id_handle e ev s)"
proof (cases ev)
  case (Ie_register dto)
  then show ?thesis
    using register_wf [OF assms prod.collapse [symmetric]] by (simp add: AuthController_register_def)
next
  case (Ie_startImpersonation u dto)
  then show ?thesis
    using assms startImpersonation_frame [OF prod.collapse [symmetric]]
    by (simp add: ImpersonationController_start_def id_wf_def)
next
  case (Ie_endImpersonation u)
  then show ?thesis
    using assms endImpersonation_frame [OF prod.collapse [symmetric], of e u s]
    by (auto simp: ImpersonationController_end_def)
qed (use assms in \<open>auto simp: AuthController_logout_def UsersController_create_def UsersController_update_def
    UsersController_remove_def MembershipsController_create_def MembershipsController_remove_def
    logout_wf create_wf_snd update_wf_snd softDelete_wf_snd join_wf_snd leave_wf_snd
    AuthController_login_wf RolesController_assignRole_wf
    intro!: guarded_keeps [where P = id_wf] with_uuid_keeps [where P = id_wf]\<close>)

text \<open>In every state the identity service can reach from empty tables, user identifiers and
  lower-case e-mail addresses are unique, a user has at most one membership per tenant, refresh token
  hashes are unique, and no membership or token belongs to a user that does not exist.\<close>

lemma id_reachable_invariant:
  assumes "id_reachable s"
  shows "id_wf s"
  using assms
proof induction
  case (id_init s)
  then show ?case by (simp add: id_wf_def)
next
  case (id_step s e ev)
  then show ?case by (simp add: id_handle_wf)
qed

end
