(* ===== verification/Identity_Security.thy ===== *)
theory Identity_Security
  imports Identity_Theorems
begin

text \<open>
  Security properties of the identity service: lockout after failed logins, life and death of
  refresh tokens, the claims in the tokens it issues, registration, membership changes and
  impersonation, with the places where the code grants more than its checks suggest.
\<close>

subsection \<open>Lockout\<close>

text \<open>Credentials that the service accepts: an active account and the right password.\<close>

definition good_credentials :: "id_env \<Rightarrow> string \<Rightarrow> string \<Rightarrow> id_state \<Rightarrow> bool" where
  "good_credentials e email pw s \<longleftrightarrow>
     (\<exists>u. users_findByEmail email s = Some u \<and> u_isActive u \<and> compareSync e pw (u_passwordHash u))"

text \<open>The attempts of one client, in order, each with its own clock.\<close>

fun try_logins :: "(id_env \<times> string) list \<Rightarrow> string \<Rightarrow> id_state \<Rightarrow> id_state" where
  "try_logins [] email s = s"
| "try_logins ((e, pw) # ps) email s = try_logins ps email (snd (validateCredentials e email pw s))"

abbreviation counter :: "string \<Rightarrow> id_state \<Rightarrow> (string \<times> instant option) option" where
  "counter email s \<equiv> id_redis s (loginAttemptsKey email)"

lemma digits_show_nat: "list_all is_digit (show_nat n)"
  using show_nat_digits [of n] by (simp add: list_all_iff)

text \<open>One failed attempt with a live counter, and the first one of a window.\<close>

lemma failed_attempt_counts:
  assumes "counter email s = Some (show_nat n, Some x)" "id_now e < x" "0 < n"
    and "int n < coalesce (loginMaxAttempts e) 5" "\<not> good_credentials e email pw s"
  shows "validateCredentials e email pw s =
    (Inr None, s\<lparr>id_redis := (id_redis s)(loginAttemptsKey email \<mapsto> (show_nat (Suc n), Some x))\<rparr>)"
proof -
  have get: "redis_get (id_now e) (loginAttemptsKey email) (id_redis s) = Some (show_nat n)"
    using assms by (simp add: redis_get_def)
  have inc: "incrementLoginAttempts e (loginAttemptsKey email) s =
      (Inr (), s\<lparr>id_redis := (id_redis s)(loginAttemptsKey email \<mapsto> (show_nat (Suc n), Some x))\<rparr>)"
    using assms(1,3) by (simp add: incrementLoginAttempts_def redis_incr_def get digits_show_nat)
  show ?thesis
    using assms(4,5)
    by (auto simp: validateCredentials_def Let_def get inc good_credentials_def split: option.split)
qed

lemma first_failure_opens_window:
  assumes "redis_get (id_now e) (loginAttemptsKey email) (id_redis s) = None" "\<not> good_credentials e email pw s"
    and "0 < coalesce (loginBlockDurationSeconds e) 900"
  shows "validateCredentials e email pw s =
    (Inr None, s\<lparr>id_redis := (id_redis s)(loginAttemptsKey email \<mapsto>
       (show_nat 1, Some (id_now e + coalesce (loginBlockDurationSeconds e) 900 * 1000)))\<rparr>)"
proof -
  have inc: "incrementLoginAttempts e (loginAttemptsKey email) s =
      (Inr (), s\<lparr>id_redis := (id_redis s)(loginAttemptsKey email \<mapsto>
       (show_nat 1, Some (id_now e + coalesce (loginBlockDurationSeconds e) 900 * 1000)))\<rparr>)"
    using assms(1) by (simp add: incrementLoginAttempts_def redis_incr_def redis_expire_def) (simp add: redis_get_def)
  show ?thesis
    using assms(1,2)
    by (auto simp: validateCredentials_def Let_def inc good_credentials_def split: option.split)
qed

lemma locked_out:
  assumes "counter email s = Some (show_nat n, Some x)" "id_now e < x" "coalesce (loginMaxAttempts e) 5 \<le> int n"
  shows "validateCredentials e email pw s = (Inl (Unauthorized locked_msg), s)"
proof -
  have "redis_get (id_now e) (loginAttemptsKey email) (id_redis s) = Some (show_nat n)"
    using assms by (simp add: redis_get_def)
  with assms(3) show ?thesis by (simp add: validateCredentials_def Let_def)
qed

lemma unlocked_accepts:
  assumes "redis_get (id_now e) (loginAttemptsKey email) (id_redis s) = None" "good_credentials e email pw s"
  shows "fst (validateCredentials e email pw s) = Inr (users_findByEmail email s)"
  using assms by (auto simp: validateCredentials_def Let_def good_credentials_def)

lemma good_credentials_redis [simp]: "good_credentials e m p (s\<lparr>id_redis := ks\<rparr>) = good_credentials e m p s"
  by (simp add: good_credentials_def users_findByEmail_def)

lemma try_logins_counts:
  assumes "counter email s = Some (show_nat n, Some x)" "0 < n"
    and "\<And>e pw. (e, pw) \<in> set ps \<Longrightarrow> id_now e < x \<and> coalesce (loginMaxAttempts e) 5 = k \<and> \<not> good_credentials e email pw s"
    and "int n + int (length ps) \<le> k"
  shows "\<exists>ks. try_logins ps email s = s\<lparr>id_redis := ks\<rparr> \<and>
    ks (loginAttemptsKey email) = Some (show_nat (n + length ps), Some x)"
  using assms
proof (induction ps arbitrary: s n)
  case Nil
  then show ?case by (intro exI [of _ "id_redis s"]) simp
next
  case (Cons a ps)
  obtain e pw where a: "a = (e, pw)" by (cases a)
  let ?s = "s\<lparr>id_redis := (id_redis s)(loginAttemptsKey email \<mapsto> (show_nat (Suc n), Some x))\<rparr>"
  have step: "validateCredentials e email pw s = (Inr None, ?s)"
    using Cons.prems(1,2,4) Cons.prems(3) [of e pw] by (intro failed_attempt_counts) (auto simp: a)
  have "\<exists>ks. try_logins ps email ?s = ?s\<lparr>id_redis := ks\<rparr> \<and>
      ks (loginAttemptsKey email) = Some (show_nat (Suc n + length ps), Some x)"
    by (rule Cons.IH) (use Cons.prems in auto)
  then show ?case by (simp add: a step)
qed

text \<open>C3: after as many consecutive failed logins as the configuration allows, within one window, every
  further login for that address is refused until the window that the first failure opened has
  passed, even with the right password; once it has passed the right password is accepted again and a
  wrong one opens a new window.\<close>

theorem login_lockout:
  assumes "redis_get (id_now e) (loginAttemptsKey email) (id_redis s) = None"
    and "0 < block" and "coalesce (loginBlockDurationSeconds e) 900 = block"
    and "\<And>f q. (f, q) \<in> set ((e, pw) # ps) \<Longrightarrow> id_now f < id_now e + block * 1000 \<and>
      coalesce (loginMaxAttempts f) 5 = k \<and> \<not> good_credentials f email q s"
    and "int (Suc (length ps)) = k" and "coalesce (loginMaxAttempts g) 5 = k"
  shows "(id_now g < id_now e + block * 1000 \<longrightarrow>
      validateCredentials g email anypw (try_logins ((e, pw) # ps) email s) =
        (Inl (Unauthorized locked_msg), try_logins ((e, pw) # ps) email s)) \<and>
    (id_now e + block * 1000 \<le> id_now g \<longrightarrow>
      redis_get (id_now g) (loginAttemptsKey email) (id_redis (try_logins ((e, pw) # ps) email s)) = None \<and>
      (if good_credentials g email anypw s
       then fst (validateCredentials g email anypw (try_logins ((e, pw) # ps) email s)) = Inr (users_findByEmail email s)
       else fst (validateCredentials g email anypw (try_logins ((e, pw) # ps) email s)) = Inr None \<or>
         coalesce (loginBlockDurationSeconds g) 900 \<le> 0))"
proof -
  let ?x = "id_now e + block * 1000"
  let ?s = "s\<lparr>id_redis := (id_redis s)(loginAttemptsKey email \<mapsto> (show_nat 1, Some ?x))\<rparr>"
  have first: "validateCredentials e email pw s = (Inr None, ?s)"
    using first_failure_opens_window [of e email s pw] assms(1-4) by simp
  have "\<exists>ks. try_logins ps email ?s = ?s\<lparr>id_redis := ks\<rparr> \<and>
      ks (loginAttemptsKey email) = Some (show_nat (1 + length ps), Some ?x)"
    using assms(4,5) by (intro try_logins_counts [where k = k]) auto
  then obtain ks where run: "try_logins ((e, pw) # ps) email s = s\<lparr>id_redis := ks\<rparr>"
    and cnt: "ks (loginAttemptsKey email) = Some (show_nat (Suc (length ps)), Some ?x)"
    by (auto simp: first)
  show ?thesis
    unfolding run
  proof (intro conjI impI)
    show "validateCredentials g email anypw (s\<lparr>id_redis := ks\<rparr>) = (Inl (Unauthorized locked_msg), s\<lparr>id_redis := ks\<rparr>)"
      if "id_now g < ?x"
      by (rule locked_out [of _ _ "Suc (length ps)" ?x]) (use cnt that assms(5,6) in simp_all)
    let ?t = "s\<lparr>id_redis := ks\<rparr>"
    assume "?x \<le> id_now g"
    then show gone: "redis_get (id_now g) (loginAttemptsKey email) (id_redis ?t) = None"
      using cnt by (simp add: redis_get_def)
    have "users_findByEmail email ?t = users_findByEmail email s" by (simp add: users_findByEmail_def)
    then show "if good_credentials g email anypw s
      then fst (validateCredentials g email anypw ?t) = Inr (users_findByEmail email s)
      else fst (validateCredentials g email anypw ?t) = Inr None \<or> coalesce (loginBlockDurationSeconds g) 900 \<le> 0"
      using unlocked_accepts [OF gone] first_failure_opens_window [OF gone] by fastforce
  qed
qed

subsection \<open>Refresh tokens\<close>

text \<open>What every operation keeps of a revoked token.\<close>

definition keeps_revoked :: "id_state \<Rightarrow> id_state \<Rightarrow> bool" where
  "keeps_revoked s s' \<longleftrightarrow> (\<forall>h r. find_token h s = Some r \<longrightarrow> rt_isRevoked r \<longrightarrow> find_token h s' = Some r)"

lemma keeps_revoked_same: "tokenRows s' = tokenRows s \<Longrightarrow> keeps_revoked s s'"
  by (simp add: keeps_revoked_def)

lemma keeps_revoked_insert: "insert_token e r s = Inr s' \<Longrightarrow> keeps_revoked s s'"
  by (auto simp: keeps_revoked_def insert_token_def find_append split: if_splits)

lemma keeps_revoked_trans: "keeps_revoked s s1 \<Longrightarrow> keeps_revoked s1 s2 \<Longrightarrow> keeps_revoked s s2"
  by (simp add: keeps_revoked_def)

lemma login_keeps_revoked:
  assumes "login e u ip d s = (r, s')"
  shows "keeps_revoked s s'"
proof -
  obtain q s1 where q: "issueTokens e (buildJwtPayload u (primaryMembership (u_id u) s) s) (u_id u) ip d s = (q, s1)"
    by (rule prod.exhaust)
  have "keeps_revoked s s1"
    using q by (auto simp: issueTokens_def Let_def split: sum.splits intro: keeps_revoked_insert keeps_revoked_same)
  moreover have "tokenRows s' = tokenRows s1"
    using assms by (auto simp: login_def Let_def q updateLastLogin_def split: sum.splits)
  ultimately show ?thesis by (simp add: keeps_revoked_def)
qed

lemma users_create_tokens [simp]: "tokenRows (snd (users_create e dto s)) = tokenRows s"
  by (auto simp: users_create_def Let_def insert_user_def split: option.split)

lemma users_update_tokens [simp]: "tokenRows (snd (users_update e i dto s)) = tokenRows s"
  by (simp add: users_update_def Let_def case_prod_beta split: sum.split)

lemma users_softDelete_tokens [simp]: "tokenRows (snd (users_softDelete e i s)) = tokenRows s"
  by (simp add: users_softDelete_def split: sum.split)

lemma store_membership_tokens: "store_membership e dto st x s = Inr (m, s') \<Longrightarrow> tokenRows s' = tokenRows s"
  by (auto simp: store_membership_def Let_def insert_membership_def map_sum_def save_membership_def
      split: option.splits sum.splits if_splits)

lemma memberships_create_tokens [simp]: "tokenRows (snd (memberships_create e dto s)) = tokenRows s"
  by (auto simp: memberships_create_def Let_def split: sum.split option.split dest: store_membership_tokens)

lemma memberships_remove_tokens [simp]: "tokenRows (snd (memberships_remove e i t s)) = tokenRows s"
  by (simp add: memberships_remove_def split: option.split)

lemma logout_keeps_revoked:
  assumes "id_wf s"
  shows "keeps_revoked s (logout e tok s)"
proof (cases "find_token (sha256 e tok) s")
  case (Some r)
  let ?s = "s\<lparr>tokenRows := save_row rt_id (r\<lparr>rt_revokedAt := Some (id_now e)\<rparr>) (tokenRows s)\<rparr>"
  obtain ks where "blacklist e (sha256 e tok) (rt_expiresAt r) ?s = ?s\<lparr>id_redis := ks\<rparr>"
    using blacklist_frame by blast
  then show ?thesis
    using revoke_rows(2) [OF assms Some] Some
    by (auto simp: logout_def Let_def keeps_revoked_def)
qed (simp add: logout_def keeps_revoked_def)

lemma AuthController_login_keeps_revoked: "keeps_revoked s (snd (AuthController_login e m p h a s))"
proof -
  obtain q s1 where q: "LocalStrategy_validate e m p s = (q, s1)" by (rule prod.exhaust)
  have 1: "keeps_revoked s s1" using LocalStrategy_frame [OF q] by (auto intro: keeps_revoked_same)
  have "keeps_revoked s1 (snd (login e u ip d s1))" for u ip d
    by (rule login_keeps_revoked [OF prod.collapse [symmetric]])
  with 1 show ?thesis
    by (auto simp: AuthController_login_def Let_def q split: sum.split intro: keeps_revoked_trans)
qed

lemma register_keeps_revoked: "keeps_revoked s (snd (register e dto s))"
proof -
  let ?dto = "\<lparr>cu_email = rg_email dto, cu_password = rg_password dto, cu_displayName = rg_displayName dto,
      cu_phone = rg_phone dto, cu_isPlatformAdmin = None, cu_emailVerified = None\<rparr>"
  obtain q s1 where q: "users_create e ?dto s = (q, s1)" by (rule prod.exhaust)
  have 1: "keeps_revoked s s1" using users_create_tokens [of e ?dto s] q by (simp add: keeps_revoked_same)
  have "keeps_revoked s1 (snd (login e u None None s1))" for u
    by (rule login_keeps_revoked [OF prod.collapse [symmetric]])
  with 1 show ?thesis
    by (auto simp: register_def q split: sum.split intro: keeps_revoked_trans)
qed

lemma assignRole_tokens [simp]: "tokenRows (snd (RolesController_assignRole e u i t r s)) = tokenRows s"
proof -
  obtain q s1 where q: "memberships_remove e i t s = (q, s1)" by (rule prod.exhaust)
  have "tokenRows s1 = tokenRows s" using memberships_remove_tokens [of e i t s] q by simp
  then show ?thesis
    by (simp add: RolesController_assignRole_def Let_def q split: sum.split option.split)
qed

lemma id_handle_keeps_revoked:
  assumes "id_wf s"
  shows "keeps_revoked s (id_handle e ev s)"
proof (cases ev)
  case (Ie_startImpersonation u dto)
  then show ?thesis
    using startImpersonation_frame(3) [OF prod.collapse [symmetric]]
    by (simp add: ImpersonationController_start_def keeps_revoked_same)
next
  case (Ie_endImpersonation u)
  then show ?thesis
    using endImpersonation_frame [OF prod.collapse [symmetric], of e u s]
    by (auto simp: ImpersonationController_end_def intro: keeps_revoked_same)
qed (use assms in \<open>auto simp: AuthController_logout_def AuthController_register_def logout_keeps_revoked
    register_keeps_revoked AuthController_login_keeps_revoked UsersController_create_def UsersController_update_def
    UsersController_remove_def MembershipsController_create_def MembershipsController_remove_def guarded_def
    with_uuid_def intro!: keeps_revoked_same split: sum.split\<close>)

inductive id_run :: "id_state \<Rightarrow> id_state \<Rightarrow> bool" where
  id_run_refl: "id_run s s"
| id_run_step: "id_run s s1 \<Longrightarrow> id_run s (id_handle e ev s1)"

lemma id_run_keeps:
  assumes "id_run s s'" "id_wf s"
  shows "id_wf s' \<and> keeps_revoked s s'"
  using assms
proof induction
  case (id_run_refl s)
  then show ?case by (simp add: keeps_revoked_same)
next
  case (id_run_step s s1 e ev)
  then show ?case
    using id_handle_wf id_handle_keeps_revoked keeps_revoked_trans by blast
qed

text \<open>C22: logout is final. Once a stored refresh token has been used to log out, no later exchange of
  it succeeds: after any further sequence of requests it is refused as unauthorized, whatever the
  clock and whether or not the blacklist entry has expired.\<close>

theorem logout_is_final:
  assumes "id_wf s" and "find_token (sha256 e tok) s = Some r"
    and "id_run (logout e tok s) s'" and "sha256 e' = sha256 e"
  shows "\<exists>m. refreshAccessToken e' tok s' = Inl (Unauthorized m)"
proof -
  let ?h = "sha256 e tok"
  have "\<exists>r'. find_token ?h (logout e tok s) = Some r' \<and> rt_isRevoked r'"
  proof (cases "rt_isRevoked r")
    case True
    then show ?thesis using assms(2) by (simp add: logout_def)
  next
    case False
    let ?s = "s\<lparr>tokenRows := save_row rt_id (r\<lparr>rt_revokedAt := Some (id_now e)\<rparr>) (tokenRows s)\<rparr>"
    obtain ks where "blacklist e ?h (rt_expiresAt r) ?s = ?s\<lparr>id_redis := ks\<rparr>"
      using blacklist_frame by blast
    then show ?thesis
      using revoke_rows(2) [OF assms(1,2), of ?h] False assms(2)
      by (simp add: logout_def Let_def rt_isRevoked_def)
  qed
  then obtain r' where "find_token ?h s' = Some r'" "rt_isRevoked r'"
    using id_run_keeps [OF assms(3) logout_wf [OF assms(1)]] by (auto simp: keeps_revoked_def)
  then show ?thesis
    by (simp add: refreshAccessToken_def Let_def assms(4) rt_isValid_def)
qed

subsection \<open>Claims\<close>

text \<open>Claims that stand for an account and, if they name a tenant, for an active membership in it.\<close>

definition claims_of_active :: "id_state \<Rightarrow> user \<Rightarrow> jwtClaims \<Rightarrow> bool" where
  "claims_of_active s u c \<longleftrightarrow>
     jp_sub c = u_id u \<and> jp_email c = u_email u \<and> jp_isPlatformAdmin c = u_isPlatformAdmin u \<and>
     \<not> jp_isImpersonating c \<and> jp_realUserId c = None \<and>
     (case jp_tenantId c of
        None \<Rightarrow> jp_roles c = Some [] \<and> jp_permissions c = Some []
      | Some t \<Rightarrow> (\<exists>m. find_membership (u_id u) t s = Some m \<and> m_status m = MS_active \<and>
           jp_roles c = Some (membership_roles (Some m) s) \<and>
           jp_permissions c = Some (membership_permissions (Some m) s)))"

lemma primaryMembership_active:
  assumes "id_wf s" "primaryMembership i s = Some m"
  shows "find_membership i (m_tenantId m) s = Some m \<and> m_status m = MS_active"
  using assms(2) by (auto simp: primaryMembership_def memberships_findByUserId_def find_membership_iff [OF assms(1)]
      dest!: find_SomeD)

lemma claims_primary: "id_wf s \<Longrightarrow> claims_of_active s u (buildJwtPayload u (primaryMembership (u_id u) s) s)"
  by (cases "primaryMembership (u_id u) s")
    (auto simp: claims_of_active_def buildJwtPayload_def membership_roles_def membership_permissions_def
      dest: primaryMembership_active)

text \<open>C32: a refresh token is exchanged only while its row is neither revoked nor expired and its
  account is active, and the access token carries the claims of that account with the role and
  permissions of an active membership, or none.\<close>

theorem refresh_claims:
  assumes "id_wf s" and "refreshAccessToken e tok s = Inr r"
  shows "\<exists>row u c. find_token (sha256 e tok) s = Some row \<and> rt_revokedAt row = None \<and>
    id_now e \<le> rt_expiresAt row \<and> find_user (rt_userId row) s = Some u \<and> u_isActive u \<and>
    at_accessToken r = jwt_sign e c (coalesce (jwt_expiry e) ''15m'') \<and> claims_of_active s u c"
proof -
  obtain row u where "find_token (sha256 e tok) s = Some row" "rt_isValid (id_now e) row"
    and "find_user (rt_userId row) s = Some u" "u_isActive u"
    and "r = accessTokenFor e u (primaryMembership (u_id u) s) s"
    using assms(2) by (auto simp: refreshAccessToken_def Let_def split: if_splits option.splits)
  with claims_primary [OF assms(1), of u] show ?thesis
    by (intro exI [of _ row] exI [of _ u] exI [of _ "buildJwtPayload u (primaryMembership (u_id u) s) s"])
      (auto simp: rt_isValid_def rt_isExpired_def rt_isRevoked_def accessTokenFor_def signAccessToken_def)
qed

text \<open>The token row a login stores.\<close>

abbreviation login_row :: "id_env \<Rightarrow> uuid \<Rightarrow> string option \<Rightarrow> string option \<Rightarrow> refreshToken" where
  "login_row e i ip d \<equiv> \<lparr>rt_id = newTokenId e, rt_userId = i, rt_tokenHash = sha256 e (randomToken e),
     rt_deviceInfo = d, rt_ipAddress = ip, rt_expiresAt = parseExpiry e (coalesce (jwt_refreshExpiry e) ''7d''),
     rt_revokedAt = None, rt_createdAt = id_now e\<rparr>"

lemma login_result:
  assumes "login e u ip d s = (Inr r, s')"
  obtains s1 where "insert_token e (login_row e (u_id u) ip d) s = Inr s1"
    "tok_refreshToken r = randomToken e"
    "tok_accessToken r = signAccessToken e (buildJwtPayload u (primaryMembership (u_id u) s) s)"
    "userRows s' = userRows (updateLastLogin e (u_id u) s1)" "tokenRows s' = tokenRows s1"
    "membershipRows s' = membershipRows s1" "roleRows s' = roleRows s1" "id_redis s' = id_redis s1"
proof (cases "insert_token e (login_row e (u_id u) ip d) s")
  case (Inr s1)
  then show thesis
    by (rule that) (use assms in \<open>auto simp: login_def issueTokens_def Let_def updateLastLogin_def Inr\<close>)
qed (use assms in \<open>simp add: login_def issueTokens_def Let_def\<close>)

lemma find_user_lastLogin:
  assumes "find_user i s = Some u"
  shows "find_user i (updateLastLogin e i s) = Some (u\<lparr>u_lastLoginAt := Some (id_now e), u_updatedAt := id_now e\<rparr>)"
proof -
  have "u_id u = i" using assms by (auto dest: find_SomeD)
  then show ?thesis using assms by (simp add: updateLastLogin_def find_update_where)
qed

text \<open>C33: the refresh token a login hands out works: until it expires it is exchanged for an access
  token of the same account, as long as nothing else happened in between and its hash is not
  blacklisted.\<close>

theorem login_then_refresh:
  assumes "login e u ip d s = (Inr r, s')" and "find_user (u_id u) s = Some u" and "u_isActive u"
    and "sha256 e' = sha256 e" and "id_now e' \<le> parseExpiry e (coalesce (jwt_refreshExpiry e) ''7d'')"
    and "redis_get (id_now e') (revokedKey (sha256 e (tok_refreshToken r))) (id_redis s) = None"
  shows "\<exists>a c. refreshAccessToken e' (tok_refreshToken r) s' = Inr a \<and>
    at_accessToken a = jwt_sign e' c (coalesce (jwt_expiry e') ''15m'') \<and>
    jp_sub c = u_id u \<and> jp_isPlatformAdmin c = u_isPlatformAdmin u"
proof -
  let ?row = "login_row e (u_id u) ip d" and ?u = "u\<lparr>u_lastLoginAt := Some (id_now e), u_updatedAt := id_now e\<rparr>"
  obtain s1 where ins: "insert_token e ?row s = Inr s1" and r: "tok_refreshToken r = randomToken e"
    and s': "userRows s' = userRows (updateLastLogin e (u_id u) s1)" "tokenRows s' = tokenRows s1"
      "id_redis s' = id_redis s1"
    using login_result [OF assms(1)] by metis
  have s1: "s1 = s\<lparr>tokenRows := tokenRows s @ [?row]\<rparr>" "\<forall>x \<in> set (tokenRows s). rt_tokenHash x \<noteq> rt_tokenHash ?row"
    using ins by (auto simp: insert_token_def split: if_splits)
  have "find_token (sha256 e (randomToken e)) s = None"
    using s1(2) by (auto simp: find_None_iff)
  then have tok: "find_token (sha256 e (randomToken e)) s' = Some ?row"
    using s1(1) by (simp add: s' find_append)
  have usr: "find_user (u_id u) s' = Some ?u"
    using find_user_lastLogin [of "u_id u" s1 u e] assms(2) by (simp add: s' s1(1))
  have "rt_isValid (id_now e') ?row"
    using assms(5) by (simp add: rt_isValid_def rt_isExpired_def rt_isRevoked_def)
  moreover have "redis_get (id_now e') (revokedKey (sha256 e (randomToken e))) (id_redis s') = None"
    using assms(6) by (simp add: s' s1(1) r)
  ultimately show ?thesis
    using tok usr assms(3,4)
    by (intro exI [of _ "accessTokenFor e' ?u (primaryMembership (u_id u) s') s'"]
        exI [of _ "buildJwtPayload ?u (primaryMembership (u_id u) s') s'"])
      (simp add: refreshAccessToken_def Let_def r accessTokenFor_def signAccessToken_def buildJwtPayload_def)
qed

text \<open>\<^verbatim>\<open>switchTenant\<close> looks at the existence of a membership and not at its status: after a
  membership has been removed its owner still gets an access token for that tenant, with the role's
  permissions.\<close>

lemma removed_member_keeps_access:
  assumes "id_wf s" and "find_membership i t s = Some m" and "find_user i s = Some u"
  shows "\<exists>s1 r c. memberships_remove e i t s = (Inr (), s1) \<and>
    (\<exists>m'. find_membership i t s1 = Some m' \<and> m_status m' = MS_removed) \<and>
    switchTenant e' i t s1 = Inr r \<and> at_accessToken r = signAccessToken e' c \<and>
    jp_tenantId c = Some t \<and> jp_permissions c = Some (membership_permissions (Some m) s)"
proof -
  let ?m = "m\<lparr>m_status := MS_removed\<rparr>"
  let ?s1 = "snd (save_membership (id_now e) ?m s)" and ?m1 = "fst (save_membership (id_now e) ?m s)"
  have rm: "memberships_remove e i t s = (Inr (), ?s1)"
    using assms(2) by (simp add: memberships_remove_def findByUserAndTenant_def)
  have m1: "find_membership i t ?s1 = Some ?m1"
    using find_save_membership [OF assms(1,2), of ?m i t "id_now e"] by simp
  have "u_id u = i" "m_tenantId m = t" using assms by (auto dest: find_SomeD)
  then have "switchTenant e' i t ?s1 = Inr (accessTokenFor e' u (Some ?m1) ?s1)"
    using assms(3) m1 by (simp add: switchTenant_def users_findById_def findByUserAndTenant_def Let_def)
  moreover have "membership_permissions (Some ?m1) ?s1 = membership_permissions (Some m) s"
    by (simp add: membership_permissions_def)
  ultimately show ?thesis
    using rm m1 \<open>m_tenantId m = t\<close>
    by (intro exI [of _ ?s1] exI [of _ "accessTokenFor e' u (Some ?m1) ?s1"]
        exI [of _ "buildJwtPayload u (Some ?m1) ?s1"]) (simp add: accessTokenFor_def buildJwtPayload_def)
qed

end
