(* ===== verification/Identity_Access.thy ===== *)
theory Identity_Access
  imports Identity_Security
begin

text \<open>
  Registration, membership changes and impersonation: what each grants, what it records, and the
  cases in which a request leaves a half-done change or reaches further than the caller's tenant.
\<close>

subsection \<open>Durations\<close>

text \<open>A duration printed as a number of seconds, minutes, hours or days is read back as that many
  seconds, and any other text counts as 15 minutes: in particular the defaults are 900 seconds for
  access tokens and 604800 for refresh tokens.\<close>

lemma parseDuration_roundtrip:
  "parseDurationToSeconds (show_nat n @ ''s'') = int n \<and>
   parseDurationToSeconds (show_nat n @ ''m'') = int n * 60 \<and>
   parseDurationToSeconds (show_nat n @ ''h'') = int n * 3600 \<and>
   parseDurationToSeconds (show_nat n @ ''d'') = int n * 86400 \<and>
   parseDurationToSeconds [] = 900 \<and> parseDurationToSeconds (''x'' @ d) = 900 \<and>
   parseDurationToSeconds ''15m'' = 900 \<and> parseDurationToSeconds ''7d'' = 604800"
proof -
  have eval: "parseDurationToSeconds ''15m'' = 900" "parseDurationToSeconds ''7d'' = 604800" "\<not> is_digit (CHR ''x'')"
    by (simp_all add: parseDurationToSeconds_def unit_seconds_def is_digit_def read_digits_def digit_val_def)
  moreover have "parseDurationToSeconds (''x'' @ d) = 900"
    by (cases "butlast (''x'' @ d)") (auto simp: parseDurationToSeconds_def eval split: if_splits)
  ultimately show ?thesis
    by (simp add: parseDurationToSeconds_def unit_seconds_def digits_show_nat)
qed

subsection \<open>Registration\<close>

lemma users_create_cases:
  assumes "users_create e dto s = (r, s')"
  obtains (refused) x where "r = Inl x" "s' = s"
  | (created) u where "r = Inr u" "insert_user u s = Inr s'" "users_findByEmail (cu_email dto) s = None"
      "u_id u = newUserId e" "u_email u = toLowerCase (cu_email dto)" "u_passwordHash u = hashSync e (cu_password dto)"
      "u_isPlatformAdmin u = coalesce (cu_isPlatformAdmin dto) False"
      "u_emailVerified u = coalesce (cu_emailVerified dto) False" "u_isActive u" "u_displayName u = cu_displayName dto"
  using assms by (auto simp: users_create_def Let_def split: option.splits sum.splits)

lemma insert_user_rows:
  "insert_user u s = Inr s' \<Longrightarrow> s' = s\<lparr>userRows := userRows s @ [u]\<rparr> \<and>
    (\<forall>x \<in> set (userRows s). u_id x \<noteq> u_id u \<and> u_email x \<noteq> u_email u)"
  by (auto simp: insert_user_def split: if_splits)

text \<open>Self-registration never creates a platform admin or a verified address. It refuses an address
  that is taken in any capitalisation without changing anything, and otherwise adds exactly one
  account, stores the hash of the password and not the password, and its access token names no
  tenant and grants no permission.\<close>

lemma register_grants_nothing:
  assumes "id_wf s"
  shows "(users_findByEmail (rg_email dto) s \<noteq> None \<longrightarrow>
      register e dto s = (Inl (Conflict (''A user with email '' @ rg_email dto @ '' already exists'')), s)) \<and>
    (\<forall>r s'. register e dto s = (Inr r, s') \<longrightarrow>
      (\<exists>u c. users_findByEmail (rg_email dto) s' = Some u \<and> \<not> u_isPlatformAdmin u \<and> \<not> u_emailVerified u \<and>
         u_passwordHash u = hashSync e (rg_password dto) \<and> length (userRows s') = Suc (length (userRows s)) \<and>
         tok_accessToken r = signAccessToken e c \<and> jp_sub c = u_id u \<and> jp_tenantId c = None \<and>
         \<not> jp_isPlatformAdmin c \<and> jp_permissions c = Some []))"
proof (intro conjI impI allI)
  let ?dto = "\<lparr>cu_email = rg_email dto, cu_password = rg_password dto, cu_displayName = rg_displayName dto,
      cu_phone = rg_phone dto, cu_isPlatformAdmin = None, cu_emailVerified = None\<rparr>"
  show "register e dto s = (Inl (Conflict (''A user with email '' @ rg_email dto @ '' already exists'')), s)"
    if "users_findByEmail (rg_email dto) s \<noteq> None"
    using that by (auto simp: register_def users_create_def)
  fix r s'
  assume reg: "register e dto s = (Inr r, s')"
  then obtain u s1 where cr: "users_create e ?dto s = (Inr u, s1)" and lg: "login e u None None s1 = (Inr r, s')"
    by (auto simp: register_def split: prod.splits sum.splits)
  from cr show "\<exists>u c. users_findByEmail (rg_email dto) s' = Some u \<and> \<not> u_isPlatformAdmin u \<and> \<not> u_emailVerified u \<and>
         u_passwordHash u = hashSync e (rg_password dto) \<and> length (userRows s') = Suc (length (userRows s)) \<and>
         tok_accessToken r = signAccessToken e c \<and> jp_sub c = u_id u \<and> jp_tenantId c = None \<and>
         \<not> jp_isPlatformAdmin c \<and> jp_permissions c = Some []"
  proof (cases rule: users_create_cases)
    case (created v)
    note rows = insert_user_rows [OF created(2)]
    have v: "v = u" using created(1) by simp
    obtain s2 where ins: "insert_token e (login_row e (u_id u) None None) s1 = Inr s2"
      and acc: "tok_accessToken r = signAccessToken e (buildJwtPayload u (primaryMembership (u_id u) s1) s1)"
      and us: "userRows s' = userRows (updateLastLogin e (u_id u) s2)"
      using login_result [OF lg] by metis
    have s2: "userRows s2 = userRows s @ [u]"
      using ins rows by (auto simp: insert_token_def v split: if_splits)
    have "primaryMembership (u_id u) s1 = None"
    proof -
      have "m_userId m \<noteq> u_id u" if "m \<in> set (membershipRows s)" for m
      proof -
        have "find_user (m_userId m) s \<noteq> None" using assms that unfolding id_wf_def by blast
        then obtain x where "find_user (m_userId m) s = Some x" by blast
        then have "x \<in> set (userRows s)" "u_id x = m_userId m" using assms by (simp_all add: find_user_iff)
        with rows v show ?thesis by auto
      qed
      then show ?thesis
        using rows by (auto simp: primaryMembership_def memberships_findByUserId_def find_None_iff)
    qed
    moreover have "users_findByEmail (rg_email dto) s' = Some (u\<lparr>u_lastLoginAt := Some (id_now e), u_updatedAt := id_now e\<rparr>)"
      using created(3,5) by (simp add: users_findByEmail_def us updateLastLogin_def s2 find_update_where find_append v)
    ultimately show ?thesis
      using acc created
      by (intro exI [of _ "u\<lparr>u_lastLoginAt := Some (id_now e), u_updatedAt := id_now e\<rparr>"]
          exI [of _ "buildJwtPayload u None s1"])
        (simp add: buildJwtPayload_def us updateLastLogin_def s2 update_where_def v membership_permissions_def)
  qed simp
qed

subsection \<open>Memberships\<close>

lemma store_membership_found:
  assumes "id_wf s" "store_membership e dto st (find_membership (cm_userId dto) (cm_tenantId dto) s) s = Inr (m, s')"
  shows "find_membership i t s' = (if i = cm_userId dto \<and> t = cm_tenantId dto then Some m else find_membership i t s)"
    "m_status m = st" "m_roleId m = cm_roleId dto" "m_key m = (cm_userId dto, cm_tenantId dto)"
    "id_bus s' = id_bus s" "userRows s' = userRows s" "roleRows s' = roleRows s"
proof -
  have "(find_membership i t s' = (if i = cm_userId dto \<and> t = cm_tenantId dto then Some m else find_membership i t s)) \<and>
    m_status m = st \<and> m_roleId m = cm_roleId dto \<and> m_key m = (cm_userId dto, cm_tenantId dto) \<and>
    id_bus s' = id_bus s \<and> userRows s' = userRows s \<and> roleRows s' = roleRows s"
  proof (cases "find_membership (cm_userId dto) (cm_tenantId dto) s")
    case (Some m0)
    let ?m = "m0\<lparr>m_roleId := cm_roleId dto, m_status := st, m_joinedAt := Some (id_now e)\<rparr>"
    have ms: "m = fst (save_membership (id_now e) ?m s)" "s' = snd (save_membership (id_now e) ?m s)"
      using assms(2) Some by (simp_all add: store_membership_def prod_eq_iff)
    have "m_key m0 = (cm_userId dto, cm_tenantId dto)"
      using Some assms(1) by (simp add: find_membership_iff)
    then show ?thesis
      using find_save_membership [OF assms(1) Some, of ?m i t "id_now e"] by (simp add: ms)
  next
    case None
    with assms(2) show ?thesis
      by (auto simp: store_membership_def Let_def insert_membership_def map_sum_def find_append
          split: sum.splits if_splits option.splits)
  qed
  then show "find_membership i t s' = (if i = cm_userId dto \<and> t = cm_tenantId dto then Some m else find_membership i t s)"
    "m_status m = st" "m_roleId m = cm_roleId dto" "m_key m = (cm_userId dto, cm_tenantId dto)"
    "id_bus s' = id_bus s" "userRows s' = userRows s" "roleRows s' = roleRows s" by auto
qed

lemma memberships_create_result:
  assumes "memberships_create e dto s = (Inr m, s')"
  obtains role st s1 where "find_role (cm_roleId dto) s = Some role"
    "store_membership e dto st (find_membership (cm_userId dto) (cm_tenantId dto) s) s = Inr (m, s1)"
    "membershipStatus_of (coalesce (cm_status dto) ''active'') = Some st"
    "s' = s1\<lparr>id_bus := publish ''chassis.tenants'' ''tenant.user-added''
        (JObj [(''tenantId'', JStr (cm_tenantId dto)), (''userId'', JStr (cm_userId dto)),
               (''role'', JStr (ro_name role)), (''timestamp'', JTime (id_now e))]) (id_bus s1)\<rparr>"
    "\<forall>m0. find_membership (cm_userId dto) (cm_tenantId dto) s = Some m0 \<longrightarrow> m_status m0 = MS_removed"
proof -
  note defs = memberships_create_def roles_findById_def Let_def
  obtain role where role: "find_role (cm_roleId dto) s = Some role"
    using assms by (auto simp: defs split: option.splits)
  obtain st where st: "membershipStatus_of (coalesce (cm_status dto) ''active'') = Some st"
    using assms role by (auto simp: defs split: option.splits if_splits)
  obtain s1 where s1: "store_membership e dto st (find_membership (cm_userId dto) (cm_tenantId dto) s) s = Inr (m, s1)"
    using assms role st by (auto simp: defs split: sum.splits if_splits)
  show thesis
    by (rule that [OF role s1 st]) (use assms role st s1 in \<open>auto simp: defs split: if_splits\<close>)
qed

lemma memberships_create_found:
  assumes "id_wf s" "memberships_create e dto s = (Inr m, s')"
  shows "membershipStatus_of (coalesce (cm_status dto) ''active'') = Some (m_status m)" "m_roleId m = cm_roleId dto"
    "find_membership (cm_userId dto) (cm_tenantId dto) s' = Some m"
proof -
  obtain role st s1 where st: "store_membership e dto st (find_membership (cm_userId dto) (cm_tenantId dto) s) s = Inr (m, s1)"
    "membershipStatus_of (coalesce (cm_status dto) ''active'') = Some st" "membershipRows s' = membershipRows s1"
    by (rule memberships_create_result [OF assms(2)]) auto
  note found = store_membership_found [OF assms(1) st(1)]
  show "membershipStatus_of (coalesce (cm_status dto) ''active'') = Some (m_status m)" "m_roleId m = cm_roleId dto"
    using st(2) found by simp_all
  show "find_membership (cm_userId dto) (cm_tenantId dto) s' = Some m"
    using found(1) [of "cm_userId dto" "cm_tenantId dto"] by (simp add: st(3))
qed

text \<open>C40: an accepted membership is stored with the requested role and status (active by default),
  whether it is new or restores a removed one; a user who has a membership that was not removed is
  refused; no other membership changes; and, when the channel is up, exactly the
  \<^verbatim>\<open>tenant.user-added\<close> message with the role's name is published.\<close>

theorem memberships_create_exact:
  assumes "id_wf s" and "memberships_create e dto s = (r, s')"
  shows "case r of
      Inl _ \<Rightarrow> s' = s
    | Inr m \<Rightarrow> (\<exists>role st. find_role (cm_roleId dto) s = Some role \<and> m_roleId m = cm_roleId dto \<and>
          membershipStatus_of (coalesce (cm_status dto) ''active'') = Some st \<and> m_status m = st \<and>
          (\<forall>i t. find_membership i t s' =
             (if i = cm_userId dto \<and> t = cm_tenantId dto then Some m else find_membership i t s)) \<and>
          (\<forall>m0. find_membership (cm_userId dto) (cm_tenantId dto) s = Some m0 \<longrightarrow> m_status m0 = MS_removed) \<and>
          (bus_up (id_bus s) \<longrightarrow> published (id_bus s') = published (id_bus s) @
             [\<lparr>exchange = ''chassis.tenants'', routingKey = ''tenant.user-added'',
               payload = JObj [(''tenantId'', JStr (cm_tenantId dto)), (''userId'', JStr (cm_userId dto)),
                 (''role'', JStr (ro_name role)), (''timestamp'', JTime (id_now e))]\<rparr>]))"
proof (cases r)
  case (Inl x)
  then show ?thesis
    using assms(2)
    by (auto simp: memberships_create_def Let_def split: option.splits sum.splits if_splits prod.splits)
next
  case (Inr m)
  obtain role st s1 where res: "find_role (cm_roleId dto) s = Some role"
    "store_membership e dto st (find_membership (cm_userId dto) (cm_tenantId dto) s) s = Inr (m, s1)"
    "membershipStatus_of (coalesce (cm_status dto) ''active'') = Some st"
    "s' = s1\<lparr>id_bus := publish ''chassis.tenants'' ''tenant.user-added''
        (JObj [(''tenantId'', JStr (cm_tenantId dto)), (''userId'', JStr (cm_userId dto)),
               (''role'', JStr (ro_name role)), (''timestamp'', JTime (id_now e))]) (id_bus s1)\<rparr>"
    "\<forall>m0. find_membership (cm_userId dto) (cm_tenantId dto) s = Some m0 \<longrightarrow> m_status m0 = MS_removed"
    using memberships_create_result [OF assms(2) [unfolded Inr]] by blast
  note found = store_membership_found [OF assms(1) res(2)]
  have "find_membership i t s' =
      (if i = cm_userId dto \<and> t = cm_tenantId dto then Some m else find_membership i t s)" for i t
    using found(1) [of i t] by (simp add: res(4))
  moreover have "published (id_bus s') = published (id_bus s) @
     [\<lparr>exchange = ''chassis.tenants'', routingKey = ''tenant.user-added'',
       payload = JObj [(''tenantId'', JStr (cm_tenantId dto)), (''userId'', JStr (cm_userId dto)),
         (''role'', JStr (ro_name role)), (''timestamp'', JTime (id_now e))]\<rparr>]" if "bus_up (id_bus s)"
    using that by (simp add: res(4) found(5) pub.emit_up)
  ultimately show ?thesis
    using res(1,3,5) found(2,3) unfolding Inr sum.case
    by (intro exI [of _ role] exI [of _ st]) blast
qed

text \<open>Assigning a role is not atomic: the old membership is removed before the new role is looked
  up, so naming a role that does not exist answers 404 and leaves the user without access.\<close>

lemma assignRole_unknown_role_removes_member:
  assumes "id_wf s" and "find_membership i t s = Some m" and "find_role roleId s = None"
    and "identity_RolesGuard (Some [''tenant_admin'', ''platform_admin'']) (Some u) = Inr True"
  shows "\<exists>s' m'. RolesController_assignRole e u i t roleId s =
      (Inl (NotFound (''Role with ID '' @ roleId @ '' not found'')), s') \<and>
    find_membership i t s' = Some m' \<and> m_status m' = MS_removed"
proof -
  let ?m = "m\<lparr>m_status := MS_removed\<rparr>"
  let ?s1 = "snd (save_membership (id_now e) ?m s)" and ?m1 = "fst (save_membership (id_now e) ?m s)"
  have rm: "memberships_remove e i t s = (Inr (), ?s1)"
    using assms(2) by (simp add: memberships_remove_def findByUserAndTenant_def)
  have m1: "find_membership i t ?s1 = Some ?m1"
    using find_save_membership [OF assms(1,2), of ?m i t "id_now e"] by simp
  have "RolesController_assignRole e u i t roleId s =
      (Inl (NotFound (''Role with ID '' @ roleId @ '' not found'')), ?s1)"
    using assms(2-4)
    by (simp add: RolesController_assignRole_def Let_def findByUserAndTenant_def rm memberships_create_def
        roles_findById_def answer_def)
  with m1 show ?thesis by (intro exI [of _ ?s1] exI [of _ ?m1]) simp
qed

text \<open>The membership endpoint checks the permission \<^verbatim>\<open>users:manage\<close> but not the tenant it was
  granted in: a caller who holds it in one tenant can give any account, their own included, any
  existing role in any other tenant.\<close>

lemma membership_across_tenants:
  assumes "id_wf s" and "jp_tenantId u = Some home" and "t \<noteq> home"
    and "permission ''users'' ''manage'' \<in> set (coalesce (jp_permissions u) [])"
    and "find_user (jp_sub u) s \<noteq> None" and "find_role roleId s = Some role"
    and "find_membership (jp_sub u) t s = None" and "newMembershipId e \<notin> m_id ` set (membershipRows s)"
  shows "\<exists>resp s' m. MembershipsController_create e u
      \<lparr>cm_userId = jp_sub u, cm_tenantId = t, cm_roleId = roleId, cm_status = None\<rparr> s = (Inr resp, s') \<and>
    find_membership (jp_sub u) t s' = Some m \<and> m_status m = MS_active \<and> m_roleId m = roleId"
proof -
  let ?dto = "\<lparr>cm_userId = jp_sub u, cm_tenantId = t, cm_roleId = roleId, cm_status = None\<rparr>"
  have guard: "identity_PermissionsGuard (Some [permission ''users'' ''manage'']) (Some u) = Inr True"
    using assms(4) by (simp add: identity_guard.admits_iff)
  have fresh: "\<forall>x \<in> set (membershipRows s). m_id x \<noteq> newMembershipId e \<and> m_key x \<noteq> (jp_sub u, t)"
    using assms(7,8) by (fastforce simp: find_None_iff image_iff)
  then obtain m s' where "memberships_create e ?dto s = (Inr m, s')"
    using assms(5-7)
    by (auto simp: memberships_create_def roles_findById_def store_membership_def Let_def insert_membership_def
        membershipStatus_of_def)
  then have cr: "MembershipsController_create e u ?dto s = (Inr (api_created m), s')"
      and "find_membership (jp_sub u) t s' = Some m" "m_status m = MS_active" "m_roleId m = roleId"
    using memberships_create_found [OF assms(1), of e ?dto m s']
    by (simp_all add: MembershipsController_create_def guarded_def guard answer_def membershipStatus_of_def)
  then show ?thesis by blast
qed

subsection \<open>Impersonation\<close>

lemma startImpersonation_cases:
  assumes "startImpersonation e u dto s = (r, s')"
  obtains (refused) x where "r = Inl x" "s' = s"
  | (started) admin target where "jp_isPlatformAdmin u"
      "find_user (jp_sub u) s = Some admin" "find_user (im_targetUserId dto) s = Some target"
      "u_isActive target" "\<not> u_isPlatformAdmin target"
      "r = Inr (jwt_sign e (impersonationClaims admin target (im_targetTenantId dto) s)
             (coalesce (jwt_impersonationExpiry e) ''30m''), newSessionId e)"
      "newSessionId e \<notin> is_id ` set (sessionRows s)"
      "sessionRows s' = sessionRows s @ [\<lparr>is_id = newSessionId e, is_adminUserId = u_id admin,
         is_targetUserId = u_id target, is_targetTenantId = im_targetTenantId dto, is_reason = im_reason dto,
         is_tokenHash = sha256 e (jwt_sign e (impersonationClaims admin target (im_targetTenantId dto) s)
             (coalesce (jwt_impersonationExpiry e) ''30m'')),
         is_expiresAt = id_now e + 1800000, is_endedAt = None, is_createdAt = id_now e\<rparr>]"
      "id_bus s' = publish ''chassis.audit'' ''user.impersonate''
         (JObj [(''userId'', JStr (u_id admin)), (''action'', JStr ''impersonate''),
                (''meta'', JObj [(''targetUserId'', JStr (u_id target)),
                   (''targetTenantId'', JStr (im_targetTenantId dto)),
                   (''reason'', JStr (im_reason dto)), (''sessionId'', JStr (newSessionId e))]),
                (''timestamp'', JTime (id_now e))]) (id_bus s)"
proof (cases "jp_isPlatformAdmin u")
  case False
  then show thesis using assms by (intro refused) (auto simp: startImpersonation_def)
next
  case adm: True
  show thesis
  proof (cases "(\<exists>x. fst (startImpersonation e u dto s) = Inl x)")
    case True
    then show thesis
      using assms by (intro refused [of "projl r"])
        (auto simp: startImpersonation_def Let_def split: if_splits sum.splits)
  next
    case False
    obtain admin target where users: "users_findById (jp_sub u) s = Inr admin"
        "users_findById (im_targetUserId dto) s = Inr target"
      using False adm by (auto simp: startImpersonation_def split: sum.splits)
    have ok: "u_isActive target" "\<not> u_isPlatformAdmin target" "newSessionId e \<notin> is_id ` set (sessionRows s)"
      using False adm users by (auto simp: startImpersonation_def split: if_splits)
    have fresh: "\<forall>x \<in> set (sessionRows s). is_id x \<noteq> newSessionId e" using ok(3) by (metis image_eqI)
    have claims: "impersonationClaims admin target t (s\<lparr>sessionRows := q\<rparr>) = impersonationClaims admin target t s" for t q
      by (simp add: impersonationClaims_def findByUserAndTenant_def memberships_findByUserId_def
          membership_roles_def membership_permissions_def Let_def split: option.split)
    show thesis
      by (rule started [OF adm users_findById_found [OF users(1), THEN conjunct1]
            users_findById_found [OF users(2), THEN conjunct1] ok(1,2) _ ok(3)])
        (use assms adm users ok fresh in \<open>auto simp: startImpersonation_def Let_def issueImpersonationToken_def
          claims save_row_last\<close>)
  qed
qed

text \<open>C31: impersonation is confined and recorded. Only a platform admin starts one, and
  only on an active account that is no platform admin; the token's claims name the
  target and the requested tenant, never grant platform admin, and carry the admin's identity; the
  session is stored with the token's hash and a 30 minute limit; when the channel is up exactly the
  audit message is published; a refusal changes nothing. The claims cannot start another
  impersonation.\<close>

theorem impersonation_confined:
  assumes "startImpersonation e u dto s = (r, s')"
  shows "case r of
      Inl _ \<Rightarrow> s' = s
    | Inr (token, sid) \<Rightarrow> jp_isPlatformAdmin u \<and>
        (\<exists>c target session. find_user (im_targetUserId dto) s = Some target \<and> u_isActive target \<and>
          \<not> u_isPlatformAdmin target \<and> token = jwt_sign e c (coalesce (jwt_impersonationExpiry e) ''30m'') \<and>
          jp_sub c = u_id target \<and> jp_tenantId c = Some (im_targetTenantId dto) \<and> \<not> jp_isPlatformAdmin c \<and>
          jp_isImpersonating c \<and> jp_realUserId c = Some (jp_sub u) \<and>
          sessionRows s' = sessionRows s @ [session] \<and> is_id session = sid \<and>
          is_tokenHash session = sha256 e token \<and> is_adminUserId session = jp_sub u \<and>
          is_expiresAt session = id_now e + 30 * 60 * 1000 \<and> is_endedAt session = None \<and>
          (bus_up (id_bus s) \<longrightarrow> length (published (id_bus s')) = Suc (length (published (id_bus s)))) \<and>
          (\<forall>p dto' e'. jp_isPlatformAdmin p = jp_isPlatformAdmin c \<longrightarrow>
             startImpersonation e' p dto' s' = (Inl (Forbidden ''Only platform administrators can impersonate users''), s')))"
  using assms
proof (cases rule: startImpersonation_cases)
  case (started admin target)
  have "u_id admin = jp_sub u" using started(2) by (auto dest: find_SomeD)
  moreover have "startImpersonation e' p dto' s' = (Inl (Forbidden ''Only platform administrators can impersonate users''), s')"
    if "\<not> jp_isPlatformAdmin p" for p dto' e'
    using that by (simp add: startImpersonation_def)
  ultimately show ?thesis
    using started
    by (auto simp: pub.emit_up impersonationClaims_def Let_def
        intro!: exI [of _ "impersonationClaims admin target (im_targetTenantId dto) s"])
qed simp

text \<open>Ending an impersonation closes the session and blacklists the token's hash for the rest of
  its life, but nothing that verifies access tokens reads the blacklist: the strategy still accepts
  the impersonation token.\<close>

lemma ended_impersonation_token_still_valid:
  assumes "jp_isImpersonating p" and "jp_realUserId p = Some adm" and "adm \<noteq> []"
    and n: "newest is_createdAt (filter (\<lambda>y. is_targetUserId y = jp_sub p \<and> is_adminUserId y = adm \<and>
      is_endedAt y = None) (sessionRows s)) = Some x"
    and "1000 \<le> is_expiresAt x - id_now e" and "find_user (jp_sub p) s = Some u" and "u_isActive u"
  shows "\<exists>s'. snd (endImpersonation e p s) = s' \<and>
    sessionRows s' = save_row is_id (x\<lparr>is_endedAt := Some (id_now e)\<rparr>) (sessionRows s) \<and>
    redis_get (id_now e) (revokedKey (is_tokenHash x)) (id_redis s') = Some ''1'' \<and>
    JwtStrategy_validate p s' = Inr p"
proof -
  let ?s1 = "s\<lparr>sessionRows := save_row is_id (x\<lparr>is_endedAt := Some (id_now e)\<rparr>) (sessionRows s)\<rparr>"
  let ?ttl = "max 0 ((is_expiresAt x - id_now e) div 1000)"
  have ttl: "0 < ?ttl" using assms(5) by (simp add: pos_imp_zdiv_pos_iff)
  have s': "snd (endImpersonation e p s) =
      ?s1\<lparr>id_redis := redis_setex (id_now e) (revokedKey (is_tokenHash x)) ?ttl ''1'' (id_redis s)\<rparr>"
    using assms(1-3) ttl
    by (simp add: endImpersonation_def Let_def n revokeImpersonationToken_def blacklist_def)
  have "find (\<lambda>v. u_id v = jp_sub p \<and> u_isActive v) (userRows s) \<noteq> None"
    using assms(6,7) by (auto simp: find_None_iff dest: find_SomeD)
  then show ?thesis
    using ttl by (auto simp: s' JwtStrategy_validate_def redis.get_setex)
qed

end
