(* ===== verification/Dto_Validation.thy ===== *)
theory Dto_Validation
  imports Tenant_Theorems Identity_Access
begin

text \<open>
  Request bodies. The DTO classes of the tenant manager and the identity service as tables of their
  decorated properties, the reading of an accepted body as the record the handlers work on, and what
  the global \<^verbatim>\<open>ValidationPipe\<close> of \<^verbatim>\<open>main.ts\<close> therefore promises: an accepted body has the declared
  type, and the texts it carries fit the columns they are stored in.

  The pipe, class-transformer and class-validator are third-party code. They are the parameter
  \<open>validation\<close>, and \<open>pipe_documented\<close> collects what their documentation says and the services rely on.
\<close>

subsection \<open>Decorated classes\<close>

datatype tsType = TsString | TsBoolean | TsRecord

datatype decorator =
    IsNotEmpty | IsString | IsEmail | IsUUID | IsUrl | IsBoolean | IsObject | IsOptional
  | MinLength nat | MaxLength nat | Matches "string \<Rightarrow> bool"

text \<open>A class: each property with its declared type and its decorators.\<close>

type_synonym dtoClass = "(string \<times> tsType \<times> decorator list) list"

text \<open>
  The regular expression of the password fields: three look-aheads anchored at the start, where \<open>.\<close>
  matches no line terminator.
\<close>

definition passwordPattern :: "string \<Rightarrow> bool" where
  "passwordPattern t =
     (let line = takeWhile (\<lambda>c. c \<noteq> CHR 0x0A \<and> c \<noteq> CHR 0x0D) t
      in list_ex (\<lambda>c. 97 \<le> (of_char c :: nat) \<and> (of_char c :: nat) \<le> 122) line \<and>
         list_ex (\<lambda>c. 65 \<le> (of_char c :: nat) \<and> (of_char c :: nat) \<le> 90) line \<and>
         list_ex is_digit line)"

subsubsection \<open>Tenant manager\<close>

definition CreateTenantDto :: dtoClass where
  "CreateTenantDto =
    [(''name'', TsString, [IsNotEmpty, IsString, MaxLength 200]),
     (''adminEmail'', TsString, [IsNotEmpty, IsEmail]),
     (''plan'', TsString, [IsOptional, IsString, MaxLength 50]),
     (''phone'', TsString, [IsOptional, IsString, MaxLength 20]),
     (''address'', TsString, [IsOptional, IsString]),
     (''metadata'', TsRecord, [IsOptional, IsObject]),
     (''stripeCustomerId'', TsString, [IsOptional, IsString, MaxLength 100]),
     (''trialEndsAt'', TsString, [IsOptional])]"

definition UpdateTenantDto :: dtoClass where
  "UpdateTenantDto =
    [(''name'', TsString, [IsOptional, IsString, MaxLength 200]),
     (''adminEmail'', TsString, [IsOptional, IsEmail]),
     (''plan'', TsString, [IsOptional, IsString, MaxLength 50]),
     (''phone'', TsString, [IsOptional, IsString, MaxLength 20]),
     (''address'', TsString, [IsOptional, IsString]),
     (''metadata'', TsRecord, [IsOptional, IsObject]),
     (''stripeCustomerId'', TsString, [IsOptional, IsString, MaxLength 100])]"

definition SuspendTenantDto :: dtoClass where
  "SuspendTenantDto = [(''reason'', TsString, [IsOptional, IsString])]"

definition ToggleFeatureDto :: dtoClass where
  "ToggleFeatureDto = [(''enabled'', TsBoolean, [IsNotEmpty, IsBoolean])]"

subsubsection \<open>Identity service\<close>

definition LoginDto :: dtoClass where
  "LoginDto =
    [(''email'', TsString, [IsEmail, IsNotEmpty]),
     (''password'', TsString, [IsString, IsNotEmpty, MinLength 8])]"

definition RegisterDto :: dtoClass where
  "RegisterDto =
    [(''email'', TsString, [IsEmail, IsNotEmpty, MaxLength 320]),
     (''password'', TsString, [IsString, IsNotEmpty, MinLength 8, Matches passwordPattern]),
     (''displayName'', TsString, [IsString, IsNotEmpty, MinLength 2, MaxLength 100]),
     (''phone'', TsString, [IsString, IsOptional, MaxLength 20])]"

definition RefreshTokenDto :: dtoClass where
  "RefreshTokenDto = [(''refreshToken'', TsString, [IsString, IsNotEmpty])]"

definition SwitchTenantDto :: dtoClass where
  "SwitchTenantDto = [(''tenantId'', TsString, [IsUUID, IsNotEmpty])]"

definition ImpersonateDto :: dtoClass where
  "ImpersonateDto =
    [(''targetUserId'', TsString, [IsUUID, IsNotEmpty]),
     (''targetTenantId'', TsString, [IsUUID, IsNotEmpty]),
     (''reason'', TsString, [IsString, IsNotEmpty, MinLength 10])]"

definition CreateMembershipDto :: dtoClass where
  "CreateMembershipDto =
    [(''userId'', TsString, [IsUUID, IsNotEmpty]),
     (''tenantId'', TsString, [IsUUID, IsNotEmpty]),
     (''roleId'', TsString, [IsUUID, IsNotEmpty]),
     (''status'', TsString, [IsString, IsOptional])]"

definition AssignRoleDto :: dtoClass where
  "AssignRoleDto =
    [(''userId'', TsString, [IsUUID, IsNotEmpty]),
     (''tenantId'', TsString, [IsUUID, IsNotEmpty]),
     (''roleId'', TsString, [IsUUID, IsNotEmpty])]"

definition CreateUserDto :: dtoClass where
  "CreateUserDto =
    [(''email'', TsString, [IsEmail, IsNotEmpty, MaxLength 320]),
     (''password'', TsString, [IsString, IsNotEmpty, MinLength 8, Matches passwordPattern]),
     (''displayName'', TsString, [IsString, IsNotEmpty, MinLength 2, MaxLength 100]),
     (''phone'', TsString, [IsString, IsOptional, MaxLength 20])]"

definition UpdateUserDto :: dtoClass where
  "UpdateUserDto =
    [(''displayName'', TsString, [IsString, IsOptional, MinLength 2, MaxLength 100]),
     (''phone'', TsString, [IsString, IsOptional, MaxLength 20]),
     (''avatarUrl'', TsString, [IsUrl, IsOptional, MaxLength 500]),
     (''isActive'', TsBoolean, [IsBoolean, IsOptional]),
     (''emailVerified'', TsBoolean, [IsBoolean, IsOptional])]"

subsection \<open>The validation pipe\<close>

text \<open>The instance class-transformer makes of a body: its own properties after conversion.\<close>

type_synonym body = "(string \<times> json) list"

definition property :: "string \<Rightarrow> body \<Rightarrow> json field" where
  "property k x = (case map_of x k of None \<Rightarrow> Undefined | Some JNull \<Rightarrow> Null | Some j \<Rightarrow> Value j)"

text \<open>
  \<open>vp_validate\<close> is the exception the pipe throws for a body of a class, if any; \<open>vp_check\<close> the outcome
  of a single decorator.
\<close>

record validation =
  vp_validate :: "dtoClass \<Rightarrow> body \<Rightarrow> exn option"
  vp_check :: "decorator \<Rightarrow> json field \<Rightarrow> bool"

abbreviation vp_accepts :: "validation \<Rightarrow> dtoClass \<Rightarrow> body \<Rightarrow> bool" where
  "vp_accepts v cls x \<equiv> vp_validate v cls x = None"

text \<open>\<^verbatim>\<open>enableImplicitConversion\<close>: a value present is converted to the declared primitive type.\<close>

fun has_type :: "tsType \<Rightarrow> json \<Rightarrow> bool" where
  "has_type TsString j = (\<exists>t. j = JStr t)"
| "has_type TsBoolean j = (\<exists>b. j = JBool b)"
| "has_type TsRecord j = True"

text \<open>\<^verbatim>\<open>IsOptional\<close> ignores the other decorators when the property is null or undefined.\<close>

definition property_ok :: "validation \<Rightarrow> tsType \<Rightarrow> decorator list \<Rightarrow> json field \<Rightarrow> bool" where
  "property_ok v ty ds f \<longleftrightarrow>
     (IsOptional \<in> set ds \<and> (f = Undefined \<or> f = Null)) \<or>
     (case f of Value j \<Rightarrow> has_type ty j | _ \<Rightarrow> True) \<and> (\<forall>d \<in> set ds. d \<noteq> IsOptional \<longrightarrow> vp_check v d f)"

text \<open>What an accepted value of each decorator looks like, from the documentation of class-validator;
  an e-mail address has at most 64 characters before the at sign and 254 after it.\<close>

fun check_means :: "decorator \<Rightarrow> json field \<Rightarrow> bool" where
  "check_means IsNotEmpty f = (f \<noteq> Undefined \<and> f \<noteq> Null \<and> f \<noteq> Value (JStr []))"
| "check_means IsString f = (\<exists>t. f = Value (JStr t))"
| "check_means IsEmail f = (\<exists>t. f = Value (JStr t) \<and> length t \<le> 319)"
| "check_means IsUUID f = (\<exists>t. f = Value (JStr t) \<and> length t = 36)"
| "check_means IsUrl f = (\<exists>t. f = Value (JStr t))"
| "check_means IsBoolean f = (\<exists>b. f = Value (JBool b))"
| "check_means IsObject f = (\<exists>ps. f = Value (JObj ps))"
| "check_means IsOptional f = True"
| "check_means (MinLength n) f = (\<exists>t. f = Value (JStr t) \<and> n \<le> length t)"
| "check_means (MaxLength n) f = (\<exists>t. f = Value (JStr t) \<and> length t \<le> n)"
| "check_means (Matches p) f = (\<exists>t. f = Value (JStr t) \<and> p t)"

text \<open>
  The pipe with \<^verbatim>\<open>whitelist\<close> and \<^verbatim>\<open>forbidNonWhitelisted\<close>: an accepted body has no property the class
  does not declare, and each declared property passes its decorators.
\<close>

definition pipe_documented :: "validation \<Rightarrow> bool" where
  "pipe_documented v \<longleftrightarrow>
     (\<forall>cls x. vp_accepts v cls x \<longrightarrow>
        (\<forall>k \<in> fst ` set x. k \<in> fst ` set cls) \<and>
        (\<forall>(k, ty, ds) \<in> set cls. property_ok v ty ds (property k x))) \<and>
     (\<forall>d f. vp_check v d f \<longrightarrow> check_means d f)"

lemma accepted_property:
  assumes "pipe_documented v" "vp_accepts v cls x" "(k, ty, ds) \<in> set cls"
  shows "property_ok v ty ds (property k x)"
  using assms unfolding pipe_documented_def by blast

lemma check_documented: "pipe_documented v \<Longrightarrow> vp_check v d f \<Longrightarrow> check_means d f"
  unfolding pipe_documented_def by blast

lemma accepted_check:
  assumes "pipe_documented v" "vp_accepts v cls x" "(k, ty, ds) \<in> set cls" "d \<in> set ds"
  shows "check_means d (property k x) \<or> IsOptional \<in> set ds \<and> property k x \<in> {Undefined, Null}"
proof (cases "d = IsOptional")
  case False
  with accepted_property [OF assms(1-3)] assms(4) check_documented [OF assms(1), of d "property k x"]
  show ?thesis unfolding property_ok_def by blast
qed simp

lemma accepted_type:
  assumes "pipe_documented v" "vp_accepts v cls x" "(k, ty, ds) \<in> set cls" "property k x = Value j"
  shows "has_type ty j"
  using accepted_property [OF assms(1-3)] assms(4) unfolding property_ok_def by simp

lemma accepted_keys:
  assumes "pipe_documented v" "vp_accepts v cls x" "k \<notin> fst ` set cls"
  shows "property k x = Undefined"
proof -
  have "k \<notin> fst ` set x" using assms unfolding pipe_documented_def by blast
  then have "map_of x k = None" by (simp add: map_of_eq_None_iff)
  then show ?thesis by (simp add: property_def)
qed

text \<open>A text that passed its decorators.\<close>

definition text_ok :: "decorator list \<Rightarrow> string \<Rightarrow> bool" where
  "text_ok ds t \<longleftrightarrow> (\<forall>d \<in> set ds. check_means d (Value (JStr t)))"

lemma text_ok_simps [simp]:
  "text_ok [] t"
  "text_ok (IsNotEmpty # ds) t \<longleftrightarrow> t \<noteq> [] \<and> text_ok ds t"
  "text_ok (IsString # ds) t \<longleftrightarrow> text_ok ds t"
  "text_ok (IsUrl # ds) t \<longleftrightarrow> text_ok ds t"
  "text_ok (IsOptional # ds) t \<longleftrightarrow> text_ok ds t"
  "text_ok (IsEmail # ds) t \<longleftrightarrow> length t \<le> 319 \<and> text_ok ds t"
  "text_ok (IsUUID # ds) t \<longleftrightarrow> length t = 36 \<and> text_ok ds t"
  "text_ok (MinLength n # ds) t \<longleftrightarrow> n \<le> length t \<and> text_ok ds t"
  "text_ok (MaxLength n # ds) t \<longleftrightarrow> length t \<le> n \<and> text_ok ds t"
  "text_ok (Matches p # ds) t \<longleftrightarrow> p t \<and> text_ok ds t"
  by (auto simp: text_ok_def)

lemma optional_text:
  assumes "pipe_documented v" "vp_accepts v cls x" "(k, TsString, ds) \<in> set cls"
  obtains "property k x = Undefined" "IsOptional \<in> set ds \<or> IsNotEmpty \<notin> set ds"
    | "property k x = Null" "IsOptional \<in> set ds \<or> IsNotEmpty \<notin> set ds"
    | t where "property k x = Value (JStr t)" "text_ok ds t"
proof (cases "property k x")
  case (Value j)
  then obtain t where "property k x = Value (JStr t)" using accepted_type [OF assms Value] by auto
  moreover from this have "text_ok ds t" using accepted_check [OF assms] by (auto simp: text_ok_def)
  ultimately show ?thesis using that by blast
qed (use that accepted_check [OF assms, of IsNotEmpty] in auto)

lemma required_text:
  assumes "pipe_documented v" "vp_accepts v cls x" "(k, TsString, ds) \<in> set cls"
    and "IsOptional \<notin> set ds" "IsNotEmpty \<in> set ds"
  obtains t where "property k x = Value (JStr t)" "text_ok ds t"
  using optional_text [OF assms(1-3)] assms(4,5) by metis

subsection \<open>Bodies as the handlers read them\<close>

definition body_text :: "string \<Rightarrow> body \<Rightarrow> string option" where
  "body_text k x = (case property k x of Value (JStr t) \<Rightarrow> Some t | _ \<Rightarrow> None)"

definition body_object :: "string \<Rightarrow> body \<Rightarrow> json option" where
  "body_object k x = (case property k x of Value j \<Rightarrow> Some j | _ \<Rightarrow> None)"

definition body_bool :: "string \<Rightarrow> body \<Rightarrow> bool option" where
  "body_bool k x = (case property k x of Value (JBool b) \<Rightarrow> Some b | _ \<Rightarrow> None)"

text \<open>Three-valued reading, for the handlers that tell null from undefined.\<close>

definition present :: "('a option) \<Rightarrow> json field \<Rightarrow> 'a field" where
  "present r f = (case r of Some a \<Rightarrow> Value a | None \<Rightarrow> (if f = Null then Null else Undefined))"

definition createTenantDto_of :: "body \<Rightarrow> createTenantDto option" where
  "createTenantDto_of x =
     (case (body_text ''name'' x, body_text ''adminEmail'' x) of
        (Some n, Some a) \<Rightarrow>
          Some \<lparr>ct_name = n, ct_adminEmail = a, ct_plan = body_text ''plan'' x, ct_phone = body_text ''phone'' x,
            ct_address = body_text ''address'' x, ct_metadata = body_object ''metadata'' x,
            ct_stripeCustomerId = body_text ''stripeCustomerId'' x, ct_trialEndsAt = body_text ''trialEndsAt'' x\<rparr>
      | _ \<Rightarrow> None)"

definition updateTenantDto_of :: "body \<Rightarrow> updateTenantDto" where
  "updateTenantDto_of x =
     (let text = \<lambda>k. present (body_text k x) (property k x)
      in \<lparr>ut_name = text ''name'', ut_adminEmail = text ''adminEmail'', ut_plan = text ''plan'',
          ut_phone = text ''phone'', ut_address = text ''address'',
          ut_metadata = present (body_object ''metadata'' x) (property ''metadata'' x),
          ut_stripeCustomerId = text ''stripeCustomerId''\<rparr>)"

definition registerDto_of :: "body \<Rightarrow> registerDto option" where
  "registerDto_of x =
     (case (body_text ''email'' x, body_text ''password'' x, body_text ''displayName'' x) of
        (Some a, Some p, Some d) \<Rightarrow>
          Some \<lparr>rg_email = a, rg_password = p, rg_displayName = d, rg_phone = body_text ''phone'' x\<rparr>
      | _ \<Rightarrow> None)"

text \<open>\<^verbatim>\<open>create\<close> reads two properties the class does not declare.\<close>

definition createUserDto_of :: "body \<Rightarrow> createUserDto option" where
  "createUserDto_of x =
     (case (body_text ''email'' x, body_text ''password'' x, body_text ''displayName'' x) of
        (Some a, Some p, Some d) \<Rightarrow>
          Some \<lparr>cu_email = a, cu_password = p, cu_displayName = d, cu_phone = body_text ''phone'' x,
            cu_isPlatformAdmin = body_bool ''isPlatformAdmin'' x, cu_emailVerified = body_bool ''emailVerified'' x\<rparr>
      | _ \<Rightarrow> None)"

definition updateUserDto_of :: "body \<Rightarrow> updateUserDto" where
  "updateUserDto_of x =
     (let text = \<lambda>k. present (body_text k x) (property k x);
          bool' = \<lambda>k. present (body_bool k x) (property k x)
      in \<lparr>uu_displayName = text ''displayName'', uu_phone = text ''phone'', uu_avatarUrl = text ''avatarUrl'',
          uu_isActive = bool' ''isActive'', uu_emailVerified = bool' ''emailVerified''\<rparr>)"

definition createMembershipDto_of :: "body \<Rightarrow> createMembershipDto option" where
  "createMembershipDto_of x =
     (case (body_text ''userId'' x, body_text ''tenantId'' x, body_text ''roleId'' x) of
        (Some u, Some t, Some r) \<Rightarrow>
          Some \<lparr>cm_userId = u, cm_tenantId = t, cm_roleId = r, cm_status = body_text ''status'' x\<rparr>
      | _ \<Rightarrow> None)"

definition impersonateDto_of :: "body \<Rightarrow> impersonateDto option" where
  "impersonateDto_of x =
     (case (body_text ''targetUserId'' x, body_text ''targetTenantId'' x, body_text ''reason'' x) of
        (Some u, Some t, Some r) \<Rightarrow> Some \<lparr>im_targetUserId = u, im_targetTenantId = t, im_reason = r\<rparr>
      | _ \<Rightarrow> None)"

subsection \<open>Accepted bodies\<close>

lemma body_text_simps [simp]:
  "property k x = Value (JStr t) \<Longrightarrow> body_text k x = Some t"
  "property k x = Undefined \<Longrightarrow> body_text k x = None"
  "property k x = Null \<Longrightarrow> body_text k x = None"
  by (simp_all add: body_text_def)

lemma optional_body_text:
  assumes "pipe_documented v" "vp_accepts v cls x" "(k, TsString, ds) \<in> set cls" "body_text k x = Some t"
  shows "text_ok ds t"
  using assms(4) by (cases rule: optional_text [OF assms(1-3)]) auto

lemma optional_fits:
  assumes "pipe_documented v" "vp_accepts v cls x" "(k, TsString, ds) \<in> set cls" "MaxLength n \<in> set ds"
  shows "fits_null n (body_text k x)"
proof (cases "body_text k x")
  case (Some t)
  from optional_body_text [OF assms(1-3) this] assms(4) have "check_means (MaxLength n) (Value (JStr t))"
    unfolding text_ok_def by blast
  then show ?thesis by (simp add: Some fits_def)
qed simp

lemma present_fits:
  assumes "pipe_documented v" "vp_accepts v cls x" "(k, TsString, ds) \<in> set cls" "MaxLength n \<in> set ds"
    and "present (body_text k x) (property k x) = Value t"
  shows "fits n t"
  using optional_fits [OF assms(1-4)] assms(5) by (auto simp: present_def split: option.splits if_splits)

lemma accepted_register:
  assumes "pipe_documented v" "vp_accepts v RegisterDto x"
  obtains dto where "registerDto_of x = Some dto" "fits 320 (rg_email dto)" "fits 100 (rg_displayName dto)"
    "fits_null 20 (rg_phone dto)" "8 \<le> length (rg_password dto)" "passwordPattern (rg_password dto)"
    "2 \<le> length (rg_displayName dto)"
proof -
  obtain a where a: "property ''email'' x = Value (JStr a)" "text_ok [IsEmail, IsNotEmpty, MaxLength 320] a"
    by (rule required_text [OF assms, of "''email''" "[IsEmail, IsNotEmpty, MaxLength 320]"]) (simp_all add: RegisterDto_def)
  obtain p where p: "property ''password'' x = Value (JStr p)"
      "text_ok [IsString, IsNotEmpty, MinLength 8, Matches passwordPattern] p"
    by (rule required_text [OF assms, of "''password''" "[IsString, IsNotEmpty, MinLength 8, Matches passwordPattern]"]) (simp_all add: RegisterDto_def)
  obtain d where d: "property ''displayName'' x = Value (JStr d)"
      "text_ok [IsString, IsNotEmpty, MinLength 2, MaxLength 100] d"
    by (rule required_text [OF assms, of "''displayName''" "[IsString, IsNotEmpty, MinLength 2, MaxLength 100]"]) (simp_all add: RegisterDto_def)
  have ph: "fits_null 20 (body_text ''phone'' x)"
    by (rule optional_fits [OF assms, of _ "[IsString, IsOptional, MaxLength 20]"]) (simp_all add: RegisterDto_def)
  show ?thesis
    by (rule that [of "\<lparr>rg_email = a, rg_password = p, rg_displayName = d, rg_phone = body_text ''phone'' x\<rparr>"])
      (use a p d ph in \<open>simp_all add: registerDto_of_def fits_def\<close>)
qed

lemma CreateUserDto_same: "CreateUserDto = RegisterDto"
  by (simp add: CreateUserDto_def RegisterDto_def)

lemma accepted_createUser:
  assumes "pipe_documented v" "vp_accepts v CreateUserDto x"
  obtains dto where "createUserDto_of x = Some dto" "fits 320 (cu_email dto)" "fits 100 (cu_displayName dto)"
    "fits_null 20 (cu_phone dto)" "8 \<le> length (cu_password dto)" "passwordPattern (cu_password dto)"
    "2 \<le> length (cu_displayName dto)" "cu_isPlatformAdmin dto = None" "cu_emailVerified dto = None"
proof -
  obtain r where r: "registerDto_of x = Some r" "fits 320 (rg_email r)" "fits 100 (rg_displayName r)"
    "fits_null 20 (rg_phone r)" "8 \<le> length (rg_password r)" "passwordPattern (rg_password r)" "2 \<le> length (rg_displayName r)"
    by (rule accepted_register [OF assms [unfolded CreateUserDto_same]])
  have "property ''isPlatformAdmin'' x = Undefined" "property ''emailVerified'' x = Undefined"
    by (rule accepted_keys [OF assms]; simp add: CreateUserDto_def)+
  then have b: "body_bool ''isPlatformAdmin'' x = None" "body_bool ''emailVerified'' x = None"
    by (simp_all add: body_bool_def)
  show ?thesis
    by (rule that [of "\<lparr>cu_email = rg_email r, cu_password = rg_password r, cu_displayName = rg_displayName r,
          cu_phone = rg_phone r, cu_isPlatformAdmin = None, cu_emailVerified = None\<rparr>"])
      (use r b in \<open>auto simp: createUserDto_of_def registerDto_of_def split: option.splits\<close>)
qed

lemma accepted_createTenant:
  assumes "pipe_documented v" "vp_accepts v CreateTenantDto x"
  obtains dto where "createTenantDto_of x = Some dto" "ct_name dto \<noteq> []" "fits 200 (ct_name dto)"
    "fits 320 (ct_adminEmail dto)" "fits_null 50 (ct_plan dto)" "fits_null 20 (ct_phone dto)"
    "fits_null 100 (ct_stripeCustomerId dto)"
proof -
  obtain n where n: "property ''name'' x = Value (JStr n)" "text_ok [IsNotEmpty, IsString, MaxLength 200] n"
    by (rule required_text [OF assms, of "''name''" "[IsNotEmpty, IsString, MaxLength 200]"]) (simp_all add: CreateTenantDto_def)
  obtain a where a: "property ''adminEmail'' x = Value (JStr a)" "text_ok [IsNotEmpty, IsEmail] a"
    by (rule required_text [OF assms, of "''adminEmail''" "[IsNotEmpty, IsEmail]"]) (simp_all add: CreateTenantDto_def)
  have len: "fits_null n (body_text k x)"
    if "(k, TsString, [IsOptional, IsString, MaxLength n]) \<in> set CreateTenantDto" for k n
    by (rule optional_fits [OF assms that]) simp
  have o: "fits_null 50 (body_text ''plan'' x)" "fits_null 20 (body_text ''phone'' x)"
    "fits_null 100 (body_text ''stripeCustomerId'' x)"
    by (rule len; simp add: CreateTenantDto_def)+
  show ?thesis
    by (rule that [of "the (createTenantDto_of x)"])
      (use n a o in \<open>simp_all add: createTenantDto_of_def fits_def\<close>)
qed

lemma accepted_updateTenant:
  assumes "pipe_documented v" "vp_accepts v UpdateTenantDto x"
  shows "ut_name (updateTenantDto_of x) = Value t \<Longrightarrow> fits 200 t"
    and "ut_adminEmail (updateTenantDto_of x) = Value t \<Longrightarrow> fits 320 t"
    and "ut_plan (updateTenantDto_of x) = Value t \<Longrightarrow> fits 50 t"
    and "ut_phone (updateTenantDto_of x) = Value t \<Longrightarrow> fits 20 t"
    and "ut_stripeCustomerId (updateTenantDto_of x) = Value t \<Longrightarrow> fits 100 t"
proof -
  have len: "present (body_text k x) (property k x) = Value t \<Longrightarrow> fits n t"
    if "(k, TsString, [IsOptional, IsString, MaxLength n]) \<in> set UpdateTenantDto" for k n
    by (rule present_fits [OF assms that]) simp_all
  have mail: "(''adminEmail'', TsString, [IsOptional, IsEmail]) \<in> set UpdateTenantDto"
    by (simp add: UpdateTenantDto_def)
  show "ut_adminEmail (updateTenantDto_of x) = Value t \<Longrightarrow> fits 320 t"
    using optional_body_text [OF assms mail, of t]
    by (auto simp: updateTenantDto_of_def present_def fits_def Let_def split: option.splits if_splits)
  show "ut_name (updateTenantDto_of x) = Value t \<Longrightarrow> fits 200 t"
    "ut_plan (updateTenantDto_of x) = Value t \<Longrightarrow> fits 50 t"
    "ut_phone (updateTenantDto_of x) = Value t \<Longrightarrow> fits 20 t"
    "ut_stripeCustomerId (updateTenantDto_of x) = Value t \<Longrightarrow> fits 100 t"
    using len [of "''name''" 200] len [of "''plan''" 50] len [of "''phone''" 20] len [of "''stripeCustomerId''" 100]
    by (simp_all add: updateTenantDto_of_def Let_def UpdateTenantDto_def)
qed

lemma accepted_updateUser:
  assumes "pipe_documented v" "vp_accepts v UpdateUserDto x"
  shows "uu_displayName (updateUserDto_of x) = Value t \<Longrightarrow> fits 100 t \<and> 2 \<le> length t"
    and "uu_phone (updateUserDto_of x) = Value t \<Longrightarrow> fits 20 t"
    and "uu_avatarUrl (updateUserDto_of x) = Value t \<Longrightarrow> fits 500 t"
proof -
  have len: "present (body_text k x) (property k x) = Value t \<Longrightarrow> fits n t"
    if "(k, TsString, ds) \<in> set UpdateUserDto" "MaxLength n \<in> set ds" for k n ds
    by (rule present_fits [OF assms that])
  have name: "(''displayName'', TsString, [IsString, IsOptional, MinLength 2, MaxLength 100]) \<in> set UpdateUserDto"
    by (simp add: UpdateUserDto_def)
  show "uu_displayName (updateUserDto_of x) = Value t \<Longrightarrow> fits 100 t \<and> 2 \<le> length t"
    using optional_body_text [OF assms name, of t]
    by (auto simp: updateUserDto_of_def present_def fits_def Let_def split: option.splits if_splits)
  show "uu_phone (updateUserDto_of x) = Value t \<Longrightarrow> fits 20 t"
    "uu_avatarUrl (updateUserDto_of x) = Value t \<Longrightarrow> fits 500 t"
    using len [of "''phone''" "[IsString, IsOptional, MaxLength 20]" 20]
      len [of "''avatarUrl''" "[IsUrl, IsOptional, MaxLength 500]" 500]
    by (simp_all add: updateUserDto_of_def Let_def UpdateUserDto_def)
qed

lemma accepted_toggle:
  assumes "pipe_documented v" "vp_accepts v ToggleFeatureDto x"
  obtains b where "body_bool ''enabled'' x = Some b"
proof -
  have "(''enabled'', TsBoolean, [IsNotEmpty, IsBoolean]) \<in> set ToggleFeatureDto" by (simp add: ToggleFeatureDto_def)
  from accepted_check [OF assms this, of IsBoolean] show ?thesis using that by (auto simp: body_bool_def)
qed

lemma accepted_membership:
  assumes "pipe_documented v" "vp_accepts v CreateMembershipDto x"
  obtains dto where "createMembershipDto_of x = Some dto"
    "length (cm_userId dto) = 36" "length (cm_tenantId dto) = 36" "length (cm_roleId dto) = 36"
proof -
  have req: "\<exists>t. property k x = Value (JStr t) \<and> length t = 36"
    if "(k, TsString, [IsUUID, IsNotEmpty]) \<in> set CreateMembershipDto" for k
    by (rule required_text [OF assms that]) auto
  obtain u t r where "property ''userId'' x = Value (JStr u)" "length u = 36"
      "property ''tenantId'' x = Value (JStr t)" "length t = 36"
      "property ''roleId'' x = Value (JStr r)" "length r = 36"
    using req [of "''userId''"] req [of "''tenantId''"] req [of "''roleId''"] by (auto simp: CreateMembershipDto_def)
  then show ?thesis by (intro that [of "the (createMembershipDto_of x)"]) (simp_all add: createMembershipDto_of_def)
qed

lemma accepted_impersonation:
  assumes "pipe_documented v" "vp_accepts v ImpersonateDto x"
  obtains dto where "impersonateDto_of x = Some dto" "length (im_targetUserId dto) = 36"
    "length (im_targetTenantId dto) = 36" "10 \<le> length (im_reason dto)"
proof -
  have req: "\<exists>t. property k x = Value (JStr t) \<and> length t = 36"
    if "(k, TsString, [IsUUID, IsNotEmpty]) \<in> set ImpersonateDto" for k
    by (rule required_text [OF assms that]) auto
  obtain r where "property ''reason'' x = Value (JStr r)" "text_ok [IsString, IsNotEmpty, MinLength 10] r"
    by (rule required_text [OF assms, of "''reason''" "[IsString, IsNotEmpty, MinLength 10]"]) (simp_all add: ImpersonateDto_def)
  moreover obtain u t where "property ''targetUserId'' x = Value (JStr u)" "length u = 36"
      "property ''targetTenantId'' x = Value (JStr t)" "length t = 36"
    using req [of "''targetUserId''"] req [of "''targetTenantId''"] by (auto simp: ImpersonateDto_def)
  ultimately show ?thesis by (intro that [of "the (impersonateDto_of x)"]) (simp_all add: impersonateDto_of_def)
qed

lemma accepted_one_text:
  assumes "pipe_documented v" "vp_accepts v cls x" "(k, TsString, ds) \<in> set cls"
    "IsNotEmpty \<in> set ds" "IsOptional \<notin> set ds"
  obtains t where "body_text k x = Some t" "text_ok ds t"
  by (rule required_text [OF assms(1-3,5,4)]) (rule that; simp)

end
