(* ===== verification/Billing_Entities.thy ===== *)
theory Billing_Entities
  imports Data_Store Http_Envelope Access_Control
begin

text \<open>
  The billing engine's data: the three tables of the schema \<^verbatim>\<open>billing\<close> with their entities, the
  Stripe objects the handlers read, the environment (clock, generated identifiers, Stripe client,
  database faults) and the writes with the constraints of the migration
  \<^verbatim>\<open>V1__create_billing_tables.sql\<close>. Statuses are the \<^verbatim>\<open>VARCHAR\<close> texts the code stores: the casts to
  \<^verbatim>\<open>SubscriptionStatus\<close> in the handlers check nothing.
\<close>

subsection \<open>Entities\<close>

record subscription =
  sb_id :: uuid
  sb_tenantId :: uuid
  sb_stripeCustomerId :: string
  sb_stripeSubscriptionId :: "string option"
  sb_planCode :: string
  sb_status :: string
  sb_currentPeriodStart :: "instant option"
  sb_currentPeriodEnd :: "instant option"
  sb_cancelAtPeriodEnd :: bool
  sb_createdAt :: instant
  sb_updatedAt :: instant

record invoice =
  iv_id :: uuid
  iv_tenantId :: uuid
  iv_stripeInvoiceId :: string
  iv_stripeCustomerId :: string
  iv_amountDue :: rat
  iv_amountPaid :: rat
  iv_currency :: string
  iv_status :: string
  iv_invoiceUrl :: "string option"
  iv_invoicePdf :: "string option"
  iv_periodStart :: "instant option"
  iv_periodEnd :: "instant option"
  iv_paidAt :: "instant option"
  iv_createdAt :: instant

subsection \<open>Stripe objects\<close>

text \<open>A reference to a customer is expanded or not; an invoice may have none.\<close>

datatype customerRef = CustomerId string | Customer string

fun customerRef_id :: "customerRef \<Rightarrow> string" where
  "customerRef_id (CustomerId i) = i"
| "customerRef_id (Customer i) = i"

record stripePrice =
  sp_id :: string
  sp_lookup_key :: "string option"

record stripeSubscription =
  ss_id :: string
  ss_customer :: customerRef
  ss_status :: string
  ss_current_period_start :: int
  ss_current_period_end :: int
  ss_cancel_at_period_end :: bool
  ss_items :: "stripePrice option list"

record stripeInvoice =
  si_id :: string
  si_customer :: "customerRef option"
  si_amount_due :: int
  si_amount_paid :: int
  si_currency :: string
  si_hosted_invoice_url :: "string option"
  si_invoice_pdf :: "string option"
  si_period_start :: "int option"
  si_period_end :: "int option"

record stripeCustomer =
  sc_id :: string
  sc_metadata_tenantId :: "string option"

text \<open>\<^verbatim>\<open>Stripe.Event\<close>, discriminated by its type text.\<close>

datatype eventData =
    SubscriptionCreated stripeSubscription
  | SubscriptionUpdated stripeSubscription
  | SubscriptionDeleted stripeSubscription
  | InvoicePaid stripeInvoice
  | InvoicePaymentFailed stripeInvoice
  | CustomerCreated stripeCustomer
  | OtherEvent string

fun event_type :: "eventData \<Rightarrow> string" where
  "event_type (SubscriptionCreated _) = ''customer.subscription.created''"
| "event_type (SubscriptionUpdated _) = ''customer.subscription.updated''"
| "event_type (SubscriptionDeleted _) = ''customer.subscription.deleted''"
| "event_type (InvoicePaid _) = ''invoice.paid''"
| "event_type (InvoicePaymentFailed _) = ''invoice.payment_failed''"
| "event_type (CustomerCreated _) = ''customer.created''"
| "event_type (OtherEvent t) = t"

record stripeEvent =
  ev_id :: string
  ev_data :: eventData

record webhookEvent =
  we_id :: uuid
  we_stripeEventId :: string
  we_eventType :: string
  we_payload :: eventData
  we_processed :: bool
  we_processedAt :: "instant option"
  we_errorMessage :: "string option"
  we_createdAt :: instant

subsection \<open>State and environment\<close>

text \<open>\<open>stripeCustomers\<close> is what the engine has created at Stripe: the customers, each with the tenant of its
  metadata, in order.\<close>

record be_state =
  subRows :: "subscription list"
  invoiceRows :: "invoice list"
  webhookRows :: "webhookEvent list"
  be_bus :: bus
  stripeCustomers :: "(string \<times> uuid) list"

text \<open>The statements the engine sends, to say which of them a database outage hits.\<close>

datatype statement =
  SubFind | SubWrite | InvFind | InvWrite | WhFind | WhUpsert | WhMarkProcessed | WhMarkError

text \<open>
  The environment of one request: the clock, generated identifiers, the UUID syntax of PostgreSQL,
  the driver's text for an SQLSTATE, the outages, the Stripe client (signature check
  \<^verbatim>\<open>constructEvent\<close>, where \<^const>\<open>None\<close> is its exception, and the three calls that create objects at
  Stripe: a customer's id, a checkout session's URL and a portal session's URL), the configuration,
  and PostgreSQL's \<^verbatim>\<open>DATE_TRUNC('month', t)\<close> and \<^verbatim>\<open>TO_CHAR(t, f)\<close>.
\<close>

record checkoutParams =
  cp_customer :: string
  cp_mode :: string
  cp_payment_method_types :: "string list"
  cp_metadata_tenantId :: uuid
  cp_success_url :: string
  cp_cancel_url :: string
  cp_line_items :: "(string \<times> nat) list"

record be_env =
  be_now :: instant
  newSubscriptionId :: uuid
  newInvoiceId :: uuid
  newWebhookId :: uuid
  be_isUUID :: "string \<Rightarrow> bool"
  driver_message :: "string \<Rightarrow> string"
  db_fault :: "statement \<Rightarrow> exn option"
  constructEvent :: "string \<Rightarrow> string option \<Rightarrow> string \<Rightarrow> stripeEvent option"
  webhookSecret :: "string option"
  customers_create :: "string \<Rightarrow> string \<Rightarrow> uuid \<Rightarrow> string result"
  checkout_sessions_create :: "checkoutParams \<Rightarrow> string option result"
  portal_sessions_create :: "string \<Rightarrow> string \<Rightarrow> string result"
  successUrl :: string
  cancelUrl :: string
  portalReturnUrl :: string
  date_trunc_month :: "instant \<Rightarrow> instant"
  to_char :: "string \<Rightarrow> instant \<Rightarrow> string"

text \<open>A statement runs unless the database is out for it.\<close>

definition on_db :: "be_env \<Rightarrow> statement \<Rightarrow> (be_state \<Rightarrow> 'a result \<times> be_state) \<Rightarrow> be_state \<Rightarrow> 'a result \<times> be_state" where
  "on_db e st f s = (case db_fault e st of Some x \<Rightarrow> (Inl x, s) | None \<Rightarrow> f s)"

lemma on_db_up [simp]: "db_fault e st = None \<Longrightarrow> on_db e st f s = f s"
  by (simp add: on_db_def)

lemma on_db_preserves: "Q s \<Longrightarrow> Q (snd (f s)) \<Longrightarrow> Q (snd (on_db e st f s))"
  by (simp add: on_db_def split: option.split)

abbreviation find_sub :: "uuid \<Rightarrow> be_state \<Rightarrow> subscription option" where
  "find_sub t s \<equiv> find (\<lambda>x. sb_tenantId x = t) (subRows s)"

abbreviation find_sub_by_customer :: "string \<Rightarrow> be_state \<Rightarrow> subscription option" where
  "find_sub_by_customer c s \<equiv> find (\<lambda>x. sb_stripeCustomerId x = c) (subRows s)"

abbreviation find_invoice :: "string \<Rightarrow> be_state \<Rightarrow> invoice option" where
  "find_invoice i s \<equiv> find (\<lambda>x. iv_stripeInvoiceId x = i) (invoiceRows s)"

abbreviation find_webhook :: "string \<Rightarrow> be_state \<Rightarrow> webhookEvent option" where
  "find_webhook i s \<equiv> find (\<lambda>x. we_stripeEventId x = i) (webhookRows s)"

subsection \<open>Constraints\<close>

text \<open>Column widths (SQLSTATE 22001) and the range of \<^verbatim>\<open>DECIMAL(12,2)\<close> (22003).\<close>

definition subscription_fits :: "subscription \<Rightarrow> bool" where
  "subscription_fits r \<longleftrightarrow> fits 100 (sb_stripeCustomerId r) \<and>
     (case sb_stripeSubscriptionId r of None \<Rightarrow> True | Some i \<Rightarrow> fits 100 i) \<and>
     fits 50 (sb_planCode r) \<and> fits 30 (sb_status r)"

definition in_decimal_12_2 :: "rat \<Rightarrow> bool" where
  "in_decimal_12_2 x \<longleftrightarrow> \<bar>x\<bar> < 10000000000"

text \<open>Inserting, saving and updating subscriptions: \<^verbatim>\<open>uq_subscription_tenant\<close> and the primary key.\<close>

definition insert_subscription :: "subscription \<Rightarrow> be_state \<Rightarrow> subscription result \<times> be_state" where
  "insert_subscription r s =
     (if \<not> subscription_fits r then (Inl (QueryFailed ''22001''), s)
      else if \<exists>x \<in> set (subRows s). sb_id x = sb_id r \<or> sb_tenantId x = sb_tenantId r
      then (Inl (QueryFailed ''23505''), s)
      else (Inr r, s\<lparr>subRows := subRows s @ [r]\<rparr>))"

text \<open>\<^verbatim>\<open>repo.save\<close> of a loaded row stamps \<^verbatim>\<open>updatedAt\<close> when a column changed; \<^verbatim>\<open>repo.update\<close> always does.\<close>

definition save_subscription :: "instant \<Rightarrow> subscription \<Rightarrow> be_state \<Rightarrow> unit result \<times> be_state" where
  "save_subscription now r s =
     (if \<not> subscription_fits r then (Inl (QueryFailed ''22001''), s)
      else let r' = (if r \<in> set (subRows s) then r else r\<lparr>sb_updatedAt := now\<rparr>)
           in (Inr (), s\<lparr>subRows := save_row sb_id r' (subRows s)\<rparr>))"

definition insert_invoice :: "invoice \<Rightarrow> be_state \<Rightarrow> invoice result \<times> be_state" where
  "insert_invoice r s =
     (if \<not> (fits 100 (iv_stripeInvoiceId r) \<and> fits 100 (iv_stripeCustomerId r) \<and> fits 3 (iv_currency r))
      then (Inl (QueryFailed ''22001''), s)
      else if \<not> (in_decimal_12_2 (iv_amountDue r) \<and> in_decimal_12_2 (iv_amountPaid r))
      then (Inl (QueryFailed ''22003''), s)
      else if \<exists>x \<in> set (invoiceRows s). iv_id x = iv_id r \<or> iv_stripeInvoiceId x = iv_stripeInvoiceId r
      then (Inl (QueryFailed ''23505''), s)
      else (Inr r, s\<lparr>invoiceRows := invoiceRows s @ [r]\<rparr>))"

definition save_invoice :: "invoice \<Rightarrow> be_state \<Rightarrow> invoice result \<times> be_state" where
  "save_invoice r s =
     (if \<not> in_decimal_12_2 (iv_amountPaid r) then (Inl (QueryFailed ''22003''), s)
      else (Inr r, s\<lparr>invoiceRows := save_row iv_id r (invoiceRows s)\<rparr>))"

text \<open>The state invariant: the constraints, every invoice belongs to a tenant with a subscription, and
  only paid invoices are stored, with the instant of the payment.\<close>

definition paid_row :: "invoice \<Rightarrow> bool" where
  "paid_row i \<longleftrightarrow> iv_status i = ''paid'' \<and> iv_paidAt i \<noteq> None"

definition be_wf :: "be_state \<Rightarrow> bool" where
  "be_wf s \<longleftrightarrow> unique_on sb_id (subRows s) \<and> unique_on sb_tenantId (subRows s) \<and>
     unique_on iv_id (invoiceRows s) \<and> unique_on iv_stripeInvoiceId (invoiceRows s) \<and>
     unique_on we_id (webhookRows s) \<and> unique_on we_stripeEventId (webhookRows s) \<and>
     (\<forall>i \<in> set (invoiceRows s). iv_tenantId i \<in> sb_tenantId ` set (subRows s) \<and> paid_row i)"

interpretation subs: keyed_store sb_tenantId "\<lambda>t. find (\<lambda>x. sb_tenantId x = t)" "save_row sb_tenantId" set
    "unique_on sb_tenantId"
  by (rule table_keyed_store)

interpretation invs: keyed_store iv_stripeInvoiceId "\<lambda>i. find (\<lambda>x. iv_stripeInvoiceId x = i)"
    "save_row iv_stripeInvoiceId" set "unique_on iv_stripeInvoiceId"
  by (rule table_keyed_store)

interpretation hooks: keyed_store we_stripeEventId "\<lambda>i. find (\<lambda>x. we_stripeEventId x = i)"
    "save_row we_stripeEventId" set "unique_on we_stripeEventId"
  by (rule table_keyed_store)

end
