(* ===== verification/Billing_Core.thy ===== *)
theory Billing_Core
  imports Billing_Entities
begin

text \<open>
  The services of the billing engine in the order of the sources: \<^verbatim>\<open>SubscriptionsService\<close>,
  \<^verbatim>\<open>InvoicesService\<close> and \<^verbatim>\<open>RevenueService\<close>. A database outage is modelled for every statement the
  first two send; the read-only analytics queries of the third are pure functions of the tables.
\<close>

subsection \<open>Subscriptions\<close>

record createSubscriptionDto =
  cs_tenantId :: uuid
  cs_stripeCustomerId :: string
  cs_planCode :: string
  cs_status :: "string option"
  cs_stripeSubscriptionId :: "string option"

record updateFromStripeDto =
  us_stripeSubscriptionId :: string
  us_planCode :: "string option"
  us_status :: "string option"
  us_currentPeriodStart :: "instant option"
  us_currentPeriodEnd :: "instant option"
  us_cancelAtPeriodEnd :: "bool option"

text \<open>A comparison of the \<^verbatim>\<open>uuid\<close> column with another text is the server's error 22P02.\<close>

definition find_by_tenant :: "be_env \<Rightarrow> uuid \<Rightarrow> be_state \<Rightarrow> subscription option result \<times> be_state" where
  "find_by_tenant e t =
     on_db e SubFind (\<lambda>s. (if be_isUUID e t then Inr (find_sub t s) else Inl (QueryFailed ''22P02''), s))"

definition subs_findByTenantId :: "be_env \<Rightarrow> uuid \<Rightarrow> be_state \<Rightarrow> subscription result \<times> be_state" where
  "subs_findByTenantId e t s =
     and_then (find_by_tenant e t s) (\<lambda>sub s.
       case sub of
         None \<Rightarrow> (Inl (NotFound (''No subscription found for tenant '' @ t)), s)
       | Some r \<Rightarrow> (Inr r, s))"

definition findByStripeCustomerId :: "be_env \<Rightarrow> string \<Rightarrow> be_state \<Rightarrow> subscription option result \<times> be_state" where
  "findByStripeCustomerId e c = on_db e SubFind (\<lambda>s. (Inr (find_sub_by_customer c s), s))"

definition new_subscription :: "be_env \<Rightarrow> createSubscriptionDto \<Rightarrow> subscription" where
  "new_subscription e dto =
     \<lparr>sb_id = newSubscriptionId e, sb_tenantId = cs_tenantId dto,
      sb_stripeCustomerId = cs_stripeCustomerId dto, sb_stripeSubscriptionId = cs_stripeSubscriptionId dto,
      sb_planCode = cs_planCode dto, sb_status = coalesce (cs_status dto) ''trialing'',
      sb_currentPeriodStart = None, sb_currentPeriodEnd = None, sb_cancelAtPeriodEnd = False,
      sb_createdAt = be_now e, sb_updatedAt = be_now e\<rparr>"

definition subs_create :: "be_env \<Rightarrow> createSubscriptionDto \<Rightarrow> be_state \<Rightarrow> subscription result \<times> be_state" where
  "subs_create e dto s =
     and_then (find_by_tenant e (cs_tenantId dto) s) (\<lambda>existing s.
       case existing of
         Some _ \<Rightarrow> (Inl (Conflict (''Subscription already exists for tenant '' @ cs_tenantId dto)), s)
       | None \<Rightarrow>
           on_db e SubWrite (insert_subscription (new_subscription e dto)) s)"

declare new_subscription_def [simp]

text \<open>The columns a patch names replace the row's.\<close>

definition patch_subscription :: "updateFromStripeDto \<Rightarrow> subscription \<Rightarrow> subscription" where
  "patch_subscription dto r =
     r\<lparr>sb_planCode := coalesce (us_planCode dto) (sb_planCode r),
       sb_status := coalesce (us_status dto) (sb_status r),
       sb_currentPeriodStart := (case us_currentPeriodStart dto of None \<Rightarrow> sb_currentPeriodStart r | d \<Rightarrow> d),
       sb_currentPeriodEnd := (case us_currentPeriodEnd dto of None \<Rightarrow> sb_currentPeriodEnd r | d \<Rightarrow> d),
       sb_cancelAtPeriodEnd := coalesce (us_cancelAtPeriodEnd dto) (sb_cancelAtPeriodEnd r)\<rparr>"

definition updateFromStripe :: "be_env \<Rightarrow> updateFromStripeDto \<Rightarrow> be_state \<Rightarrow> unit result \<times> be_state" where
  "updateFromStripe e dto s =
     on_db e SubFind (\<lambda>s.
       case find (\<lambda>r. sb_stripeSubscriptionId r = Some (us_stripeSubscriptionId dto)) (subRows s) of
         None \<Rightarrow> (Inr (), s)
       | Some r \<Rightarrow> on_db e SubWrite (save_subscription (be_now e) (patch_subscription dto r)) s) s"

definition linkStripeSubscription ::
    "be_env \<Rightarrow> string \<Rightarrow> string \<Rightarrow> string \<Rightarrow> instant \<Rightarrow> instant \<Rightarrow> be_state \<Rightarrow> unit result \<times> be_state" where
  "linkStripeSubscription e customerId subscriptionId status periodStart periodEnd s =
     and_then (findByStripeCustomerId e customerId s) (\<lambda>sub s.
       case sub of
         None \<Rightarrow> (Inr (), s)
       | Some r \<Rightarrow> on_db e SubWrite (save_subscription (be_now e)
           (r\<lparr>sb_stripeSubscriptionId := Some subscriptionId, sb_status := status,
              sb_currentPeriodStart := Some periodStart, sb_currentPeriodEnd := Some periodEnd\<rparr>)) s)"

text \<open>\<^verbatim>\<open>repo.update({ tenantId }, patch)\<close>: no row is loaded, and no matching row is no
  error; \<open>ok\<close> says that the new value fits its column.\<close>

definition update_by_tenant ::
    "be_env \<Rightarrow> uuid \<Rightarrow> bool \<Rightarrow> (subscription \<Rightarrow> subscription) \<Rightarrow> be_state \<Rightarrow> unit result \<times> be_state" where
  "update_by_tenant e t ok patch =
     on_db e SubWrite (\<lambda>s.
       if \<not> be_isUUID e t then (Inl (QueryFailed ''22P02''), s)
       else if \<not> ok then (Inl (QueryFailed ''22001''), s)
       else (Inr (), s\<lparr>subRows := update_where (\<lambda>r. sb_tenantId r = t)
               (\<lambda>r. (patch r)\<lparr>sb_updatedAt := be_now e\<rparr>) (subRows s)\<rparr>))"

definition updateStatusByTenantId :: "be_env \<Rightarrow> uuid \<Rightarrow> string \<Rightarrow> be_state \<Rightarrow> unit result \<times> be_state" where
  "updateStatusByTenantId e t status = update_by_tenant e t (fits 30 status) (\<lambda>r. r\<lparr>sb_status := status\<rparr>)"

definition linkStripeCustomerId :: "be_env \<Rightarrow> uuid \<Rightarrow> string \<Rightarrow> be_state \<Rightarrow> unit result \<times> be_state" where
  "linkStripeCustomerId e t c = update_by_tenant e t (fits 100 c) (\<lambda>r. r\<lparr>sb_stripeCustomerId := c\<rparr>)"

subsection \<open>Invoices\<close>

record createInvoiceDto =
  ci_tenantId :: uuid
  ci_stripeInvoiceId :: string
  ci_stripeCustomerId :: string
  ci_amountDue :: rat
  ci_amountPaid :: rat
  ci_currency :: string
  ci_status :: string
  ci_invoiceUrl :: "string option"
  ci_invoicePdf :: "string option"
  ci_periodStart :: "instant option"
  ci_periodEnd :: "instant option"
  ci_paidAt :: "instant option"

text \<open>The tenant's invoices, newest first, and the page and total of \<^verbatim>\<open>findAndCount\<close>.\<close>

definition tenant_invoices :: "uuid \<Rightarrow> be_state \<Rightarrow> invoice list" where
  "tenant_invoices t s = sort_key (\<lambda>i. - iv_createdAt i) (filter (\<lambda>i. iv_tenantId i = t) (invoiceRows s))"

definition invoices_findByTenantId ::
    "be_env \<Rightarrow> uuid \<Rightarrow> int \<Rightarrow> int \<Rightarrow> be_state \<Rightarrow> (invoice list \<times> int) result \<times> be_state" where
  "invoices_findByTenantId e t page limit =
     on_db e InvFind (\<lambda>s.
       (if be_isUUID e t
        then Inr (page_slice page limit (tenant_invoices t s), int (length (tenant_invoices t s)))
        else Inl (QueryFailed ''22P02''), s))"

definition invoice_of :: "be_env \<Rightarrow> createInvoiceDto \<Rightarrow> invoice" where
  "invoice_of e dto =
     \<lparr>iv_id = newInvoiceId e, iv_tenantId = ci_tenantId dto, iv_stripeInvoiceId = ci_stripeInvoiceId dto,
      iv_stripeCustomerId = ci_stripeCustomerId dto, iv_amountDue = ci_amountDue dto,
      iv_amountPaid = ci_amountPaid dto, iv_currency = ci_currency dto, iv_status = ci_status dto,
      iv_invoiceUrl = ci_invoiceUrl dto, iv_invoicePdf = ci_invoicePdf dto,
      iv_periodStart = ci_periodStart dto, iv_periodEnd = ci_periodEnd dto, iv_paidAt = ci_paidAt dto,
      iv_createdAt = be_now e\<rparr>"

definition upsertFromStripe :: "be_env \<Rightarrow> createInvoiceDto \<Rightarrow> be_state \<Rightarrow> invoice result \<times> be_state" where
  "upsertFromStripe e dto =
     on_db e InvFind (\<lambda>s.
       case find_invoice (ci_stripeInvoiceId dto) s of
         Some r \<Rightarrow> on_db e InvWrite (save_invoice
           (r\<lparr>iv_status := ci_status dto, iv_amountPaid := ci_amountPaid dto,
              iv_paidAt := (case ci_paidAt dto of None \<Rightarrow> iv_paidAt r | d \<Rightarrow> d)\<rparr>)) s
       | None \<Rightarrow> on_db e InvWrite (insert_invoice (invoice_of e dto)) s)"

subsection \<open>Revenue\<close>

text \<open>\<^verbatim>\<open>SUM(amount_paid)\<close> over the selected rows; no row sums to null, read as 0.\<close>

definition sum_paid :: "(invoice \<Rightarrow> bool) \<Rightarrow> be_state \<Rightarrow> rat" where
  "sum_paid p s = sum_list (map iv_amountPaid (filter (\<lambda>i. iv_status i = ''paid'' \<and> p i) (invoiceRows s)))"

definition getTotalRevenue :: "be_state \<Rightarrow> rat" where
  "getTotalRevenue s = sum_paid (\<lambda>_. True) s"

definition getActiveSubscriptionCount :: "be_state \<Rightarrow> nat" where
  "getActiveSubscriptionCount s = length (filter (\<lambda>r. sb_status r = ''active'') (subRows s))"

definition in_current_month :: "be_env \<Rightarrow> instant option \<Rightarrow> bool" where
  "in_current_month e d =
     (case d of None \<Rightarrow> False | Some t \<Rightarrow> date_trunc_month e t = date_trunc_month e (be_now e))"

definition getCurrentMonthRevenue :: "be_env \<Rightarrow> be_state \<Rightarrow> rat" where
  "getCurrentMonthRevenue e s = sum_paid (\<lambda>i. in_current_month e (iv_paidAt i)) s"

text \<open>Groups in the order of their first row, where the query gives none.\<close>

definition groups :: "('r \<Rightarrow> 'k) \<Rightarrow> 'r list \<Rightarrow> 'k list" where
  "groups k t = rev (remdups (rev (map k t)))"

datatype period = daily | monthly | yearly

fun period_format :: "period \<Rightarrow> string" where
  "period_format daily = ''YYYY-MM-DD''"
| "period_format monthly = ''YYYY-MM''"
| "period_format yearly = ''YYYY''"

definition getRevenueByPeriod :: "be_env \<Rightarrow> period \<Rightarrow> be_state \<Rightarrow> (string \<times> rat) list" where
  "getRevenueByPeriod e p s =
     (let rows = filter (\<lambda>i. iv_status i = ''paid'' \<and> iv_paidAt i \<noteq> None) (invoiceRows s);
          label = (\<lambda>i. to_char e (period_format p) (the (iv_paidAt i)))
      in map (\<lambda>g. (g, sum_list (map iv_amountPaid (filter (\<lambda>i. label i = g) rows))))
           (take 30 (rev (sort (groups label rows)))))"

definition getSubscriptionsByPlan :: "be_state \<Rightarrow> (string \<times> nat) list" where
  "getSubscriptionsByPlan s =
     (let rows = filter (\<lambda>r. sb_status r = ''active'') (subRows s)
      in map (\<lambda>g. (g, length (filter (\<lambda>r. sb_planCode r = g) rows))) (groups sb_planCode rows))"

definition getChurnRate :: "be_env \<Rightarrow> be_state \<Rightarrow> rat" where
  "getChurnRate e s =
     (let monthStart = date_trunc_month e (be_now e);
          churnedCount = length (filter (\<lambda>r. sb_status r = ''canceled'' \<and> monthStart \<le> sb_updatedAt r) (subRows s));
          totalAtStart = length (filter (\<lambda>r. sb_createdAt r < monthStart) (subRows s))
      in if totalAtStart = 0 then 0 else of_nat churnedCount / of_nat totalAtStart)"

text \<open>The inner join on the customer, grouped by the subscription's plan.\<close>

definition getArrByPlan :: "be_env \<Rightarrow> be_state \<Rightarrow> (string \<times> rat) list" where
  "getArrByPlan e s =
     (let rows = [(i, r) . i \<leftarrow> filter (\<lambda>i. iv_status i = ''paid'' \<and> in_current_month e (iv_paidAt i)) (invoiceRows s),
                   r \<leftarrow> filter (\<lambda>r. sb_stripeCustomerId r = iv_stripeCustomerId i) (subRows s)]
      in map (\<lambda>g. (g, sum_list (map (iv_amountPaid \<circ> fst) (filter (\<lambda>x. sb_planCode (snd x) = g) rows)) * 12))
           (groups (sb_planCode \<circ> snd) rows))"

record revenueSummary =
  rv_totalRevenue :: rat
  rv_activeSubscriptions :: nat
  rv_mrr :: rat
  rv_churnRate :: rat
  rv_arrByPlan :: "(string \<times> rat) list"
  rv_revenueByPeriod :: "(string \<times> rat) list"
  rv_subscriptionsByPlan :: "(string \<times> nat) list"

definition getRevenueSummary :: "be_env \<Rightarrow> period \<Rightarrow> be_state \<Rightarrow> revenueSummary" where
  "getRevenueSummary e p s =
     \<lparr>rv_totalRevenue = getTotalRevenue s, rv_activeSubscriptions = getActiveSubscriptionCount s,
      rv_mrr = getCurrentMonthRevenue e s, rv_churnRate = getChurnRate e s, rv_arrByPlan = getArrByPlan e s,
      rv_revenueByPeriod = getRevenueByPeriod e p s, rv_subscriptionsByPlan = getSubscriptionsByPlan s\<rparr>"

end
