(* ===== verification/Billing_Webhooks.thy ===== *)
theory Billing_Webhooks
  imports Billing_Core
begin

text \<open>
  \<^verbatim>\<open>StripeWebhookController\<close>: the webhook endpoint with its signature check and idempotency record,
  the consumer of \<^verbatim>\<open>tenant.provisioned\<close>, the event router and its handlers; then the endpoints of
  \<^verbatim>\<open>SubscriptionsController\<close>, \<^verbatim>\<open>InvoicesController\<close> and \<^verbatim>\<open>RevenueController\<close>. No handler runs in a
  transaction: what was written before an exception stays.
\<close>

subsection \<open>Stripe client\<close>

text \<open>\<^verbatim>\<open>StripeService\<close>: what it hands to the client library and reads of the answer.\<close>

definition createCustomer :: "be_env \<Rightarrow> string \<Rightarrow> string \<Rightarrow> uuid \<Rightarrow> be_state \<Rightarrow> string result \<times> be_state" where
  "createCustomer e email name tenantId s =
     (case customers_create e email name tenantId of
        Inl x \<Rightarrow> (Inl x, s)
      | Inr customerId \<Rightarrow>
          (Inr customerId, s\<lparr>stripeCustomers := stripeCustomers s @ [(customerId, tenantId)]\<rparr>))"

definition createCheckoutSession :: "be_env \<Rightarrow> string \<Rightarrow> uuid \<Rightarrow> string \<Rightarrow> string result" where
  "createCheckoutSession e customerId tenantId priceId =
     map_sum id (\<lambda>url. coalesce url [])
       (checkout_sessions_create e
          \<lparr>cp_customer = customerId, cp_mode = ''subscription'', cp_payment_method_types = [''card''],
           cp_metadata_tenantId = tenantId,
           cp_success_url = successUrl e @ ''?session_id={CHECKOUT_SESSION_ID}'',
           cp_cancel_url = cancelUrl e, cp_line_items = [(priceId, 1)]\<rparr>)"

definition createCustomerPortalSession :: "be_env \<Rightarrow> string \<Rightarrow> string result" where
  "createCustomerPortalSession e customerId = portal_sessions_create e customerId (portalReturnUrl e)"

definition constructWebhookEvent :: "be_env \<Rightarrow> string \<Rightarrow> string option \<Rightarrow> string \<Rightarrow> stripeEvent option" where
  "constructWebhookEvent e rawBody signature secret = constructEvent e rawBody signature secret"

subsection \<open>Handlers\<close>

definition emit_event :: "string \<Rightarrow> string \<Rightarrow> json \<Rightarrow> be_state \<Rightarrow> unit result \<times> be_state" where
  "emit_event ex rk msg s = (Inr (), s\<lparr>be_bus := publish ex rk msg (be_bus s)\<rparr>)"

text \<open>The payloads of the published messages.\<close>

definition statusPayload :: "uuid \<Rightarrow> string \<Rightarrow> string option \<Rightarrow> json" where
  "statusPayload t status plan =
     JObj ([(''tenantId'', JStr t), (''status'', JStr status)] @
           (if truthy plan then [(''plan'', JStr (the plan))] else []))"

definition createdPayload :: "be_env \<Rightarrow> stripeSubscription \<Rightarrow> json" where
  "createdPayload e sub =
     JObj [(''stripeSubscriptionId'', JStr (ss_id sub)), (''stripeCustomerId'', JStr (customerRef_id (ss_customer sub))),
           (''status'', JStr (ss_status sub)), (''occurredAt'', JTime (be_now e))]"

declare statusPayload_def [simp] createdPayload_def [simp]

definition publishSubscriptionStatus ::
    "be_env \<Rightarrow> string \<Rightarrow> string \<Rightarrow> string option \<Rightarrow> be_state \<Rightarrow> unit result \<times> be_state" where
  "publishSubscriptionStatus e customerId status plan s =
     and_then (findByStripeCustomerId e customerId s) (\<lambda>localSub s.
       case localSub of
         None \<Rightarrow> (Inr (), s)
       | Some r \<Rightarrow> emit_event ''chassis.billing'' ''subscription.status''
           (statusPayload (sb_tenantId r) status plan) s)"

definition handleSubscriptionCreated :: "be_env \<Rightarrow> stripeSubscription \<Rightarrow> be_state \<Rightarrow> unit result \<times> be_state" where
  "handleSubscriptionCreated e sub s =
     (let customerId = customerRef_id (ss_customer sub) in
      and_then (linkStripeSubscription e customerId (ss_id sub) (ss_status sub)
                  (ss_current_period_start sub * 1000) (ss_current_period_end sub * 1000) s) (\<lambda>_ s.
      and_then (publishSubscriptionStatus e customerId (ss_status sub) None s) (\<lambda>_.
      emit_event ''chassis.audit'' ''billing.subscription.created'' (createdPayload e sub))))"

text \<open>\<^verbatim>\<open>sub.items.data[0]?.price?.lookup_key ?? sub.items.data[0]?.price?.id ?? undefined\<close>.\<close>

definition planCode_of :: "stripeSubscription \<Rightarrow> string option" where
  "planCode_of sub =
     (case ss_items sub of
        Some p # _ \<Rightarrow> (case sp_lookup_key p of None \<Rightarrow> Some (sp_id p) | k \<Rightarrow> k)
      | _ \<Rightarrow> None)"

definition updatedDto :: "stripeSubscription \<Rightarrow> updateFromStripeDto" where
  "updatedDto sub =
     \<lparr>us_stripeSubscriptionId = ss_id sub, us_planCode = planCode_of sub, us_status = Some (ss_status sub),
      us_currentPeriodStart = Some (ss_current_period_start sub * 1000),
      us_currentPeriodEnd = Some (ss_current_period_end sub * 1000),
      us_cancelAtPeriodEnd = Some (ss_cancel_at_period_end sub)\<rparr>"

definition deletedDto :: "stripeSubscription \<Rightarrow> updateFromStripeDto" where
  "deletedDto sub =
     \<lparr>us_stripeSubscriptionId = ss_id sub, us_planCode = None, us_status = Some ''canceled'',
      us_currentPeriodStart = None, us_currentPeriodEnd = None, us_cancelAtPeriodEnd = None\<rparr>"

declare updatedDto_def [simp] deletedDto_def [simp]

definition handleSubscriptionUpdated :: "be_env \<Rightarrow> stripeSubscription \<Rightarrow> be_state \<Rightarrow> unit result \<times> be_state" where
  "handleSubscriptionUpdated e sub s =
     and_then (updateFromStripe e (updatedDto sub) s) (\<lambda>_.
     publishSubscriptionStatus e (customerRef_id (ss_customer sub)) (ss_status sub) (planCode_of sub))"

definition handleSubscriptionDeleted :: "be_env \<Rightarrow> stripeSubscription \<Rightarrow> be_state \<Rightarrow> unit result \<times> be_state" where
  "handleSubscriptionDeleted e sub s =
     and_then (updateFromStripe e (deletedDto sub) s) (\<lambda>_.
     publishSubscriptionStatus e (customerRef_id (ss_customer sub)) ''canceled'' None)"

definition invoice_customer :: "stripeInvoice \<Rightarrow> string" where
  "invoice_customer sinv = coalesce (map_option customerRef_id (si_customer sinv)) []"

text \<open>\<^verbatim>\<open>t ? new Date(t * 1000) : null\<close>: 0 is falsy.\<close>

definition stripe_date :: "int option \<Rightarrow> instant option" where
  "stripe_date t = (case t of None \<Rightarrow> None | Some n \<Rightarrow> if n = 0 then None else Some (n * 1000))"

definition paid_invoice_dto :: "be_env \<Rightarrow> stripeInvoice \<Rightarrow> uuid \<Rightarrow> createInvoiceDto" where
  "paid_invoice_dto e sinv tenantId =
     \<lparr>ci_tenantId = tenantId, ci_stripeInvoiceId = si_id sinv, ci_stripeCustomerId = invoice_customer sinv,
      ci_amountDue = of_int (si_amount_due sinv) / 100, ci_amountPaid = of_int (si_amount_paid sinv) / 100,
      ci_currency = si_currency sinv, ci_status = ''paid'', ci_invoiceUrl = si_hosted_invoice_url sinv,
      ci_invoicePdf = si_invoice_pdf sinv, ci_periodStart = stripe_date (si_period_start sinv),
      ci_periodEnd = stripe_date (si_period_end sinv), ci_paidAt = Some (be_now e)\<rparr>"

definition paymentPayload :: "be_env \<Rightarrow> stripeInvoice \<Rightarrow> uuid \<Rightarrow> json" where
  "paymentPayload e sinv tenantId =
     JObj [(''stripeInvoiceId'', JStr (si_id sinv)), (''stripeCustomerId'', JStr (invoice_customer sinv)),
           (''tenantId'', JStr tenantId), (''amountPaid'', JNum (of_int (si_amount_paid sinv) / 100)),
           (''currency'', JStr (si_currency sinv)), (''occurredAt'', JTime (be_now e))]"

declare paymentPayload_def [simp]

definition handleInvoicePaid :: "be_env \<Rightarrow> stripeInvoice \<Rightarrow> be_state \<Rightarrow> unit result \<times> be_state" where
  "handleInvoicePaid e sinv s =
     and_then (findByStripeCustomerId e (invoice_customer sinv) s) (\<lambda>localSub s.
       case localSub of
         None \<Rightarrow> (Inr (), s)
       | Some r \<Rightarrow>
           and_then (upsertFromStripe e (paid_invoice_dto e sinv (sb_tenantId r)) s) (\<lambda>_ s.
           and_then (emit_event ''chassis.audit'' ''billing.payment.succeeded''
             (paymentPayload e sinv (sb_tenantId r)) s) (\<lambda>_ s.
           if sb_status r = ''past_due''
           then and_then (updateStatusByTenantId e (sb_tenantId r) ''active'' s) (\<lambda>_.
                publishSubscriptionStatus e (invoice_customer sinv) ''active'' None)
           else (Inr (), s))))"

definition handleInvoicePaymentFailed :: "be_env \<Rightarrow> stripeInvoice \<Rightarrow> be_state \<Rightarrow> unit result \<times> be_state" where
  "handleInvoicePaymentFailed e sinv s =
     and_then (findByStripeCustomerId e (invoice_customer sinv) s) (\<lambda>localSub s.
       case localSub of
         None \<Rightarrow> (Inr (), s)
       | Some r \<Rightarrow>
           and_then (updateStatusByTenantId e (sb_tenantId r) ''past_due'' s) (\<lambda>_.
           publishSubscriptionStatus e (invoice_customer sinv) ''past_due'' None))"

definition handleCustomerCreated :: "be_env \<Rightarrow> stripeCustomer \<Rightarrow> be_state \<Rightarrow> unit result \<times> be_state" where
  "handleCustomerCreated e customer s =
     (if \<not> truthy (sc_metadata_tenantId customer) then (Inr (), s)
      else linkStripeCustomerId e (the (sc_metadata_tenantId customer)) (sc_id customer) s)"

fun processEvent :: "be_env \<Rightarrow> eventData \<Rightarrow> be_state \<Rightarrow> unit result \<times> be_state" where
  "processEvent e (SubscriptionCreated sub) s = handleSubscriptionCreated e sub s"
| "processEvent e (SubscriptionUpdated sub) s = handleSubscriptionUpdated e sub s"
| "processEvent e (SubscriptionDeleted sub) s = handleSubscriptionDeleted e sub s"
| "processEvent e (InvoicePaid sinv) s = handleInvoicePaid e sinv s"
| "processEvent e (InvoicePaymentFailed sinv) s = handleInvoicePaymentFailed e sinv s"
| "processEvent e (CustomerCreated customer) s = handleCustomerCreated e customer s"
| "processEvent e (OtherEvent _) s = (Inr (), s)"

subsection \<open>The webhook endpoint\<close>

text \<open>\<^verbatim>\<open>(err as Error).message\<close>.\<close>

fun exn_message :: "be_env \<Rightarrow> exn \<Rightarrow> string" where
  "exn_message e (QueryFailed c) = driver_message e c"
| "exn_message e (BadRequest m) = m"
| "exn_message e (Unauthorized m) = m"
| "exn_message e (Forbidden m) = m"
| "exn_message e (NotFound m) = m"
| "exn_message e (Conflict m) = m"
| "exn_message e (JsError m) = m"

text \<open>\<^verbatim>\<open>webhookRepo.upsert\<close>: on a conflict of the event id the given columns are overwritten.\<close>

definition upsert_webhook :: "be_env \<Rightarrow> stripeEvent \<Rightarrow> be_state \<Rightarrow> unit result \<times> be_state" where
  "upsert_webhook e ev =
     on_db e WhUpsert (\<lambda>s.
       if \<not> (fits 100 (ev_id ev) \<and> fits 100 (event_type (ev_data ev))) then (Inl (QueryFailed ''22001''), s)
       else case find_webhook (ev_id ev) s of
         Some w \<Rightarrow> (Inr (), s\<lparr>webhookRows := save_row we_stripeEventId
             (w\<lparr>we_eventType := event_type (ev_data ev), we_payload := ev_data ev, we_processed := False\<rparr>)
             (webhookRows s)\<rparr>)
       | None \<Rightarrow>
           if newWebhookId e \<in> we_id ` set (webhookRows s) then (Inl (QueryFailed ''23505''), s)
           else (Inr (), s\<lparr>webhookRows := webhookRows s @
             [\<lparr>we_id = newWebhookId e, we_stripeEventId = ev_id ev, we_eventType = event_type (ev_data ev),
               we_payload = ev_data ev, we_processed = False, we_processedAt = None,
               we_errorMessage = None, we_createdAt = be_now e\<rparr>]\<rparr>))"

definition update_webhook ::
    "be_env \<Rightarrow> statement \<Rightarrow> string \<Rightarrow> (webhookEvent \<Rightarrow> webhookEvent) \<Rightarrow> be_state \<Rightarrow> unit result \<times> be_state" where
  "update_webhook e st i f =
     on_db e st (\<lambda>s. (Inr (), s\<lparr>webhookRows := update_where (\<lambda>w. we_stripeEventId w = i) f (webhookRows s)\<rparr>))"

definition markProcessed :: "be_env \<Rightarrow> string \<Rightarrow> be_state \<Rightarrow> unit result \<times> be_state" where
  "markProcessed e i =
     update_webhook e WhMarkProcessed i (\<lambda>w. w\<lparr>we_processed := True, we_processedAt := Some (be_now e)\<rparr>)"

definition markError :: "be_env \<Rightarrow> string \<Rightarrow> exn \<Rightarrow> be_state \<Rightarrow> unit result \<times> be_state" where
  "markError e i x = update_webhook e WhMarkError i (\<lambda>w. w\<lparr>we_errorMessage := Some (exn_message e x)\<rparr>)"

text \<open>The reply: a status and what the body says.\<close>

datatype webhookReply = SignatureRefused | Received | ReceivedDuplicate

fun reply_status :: "webhookReply \<Rightarrow> nat" where
  "reply_status SignatureRefused = 400"
| "reply_status Received = 200"
| "reply_status ReceivedDuplicate = 200"

text \<open>The body of the try statement, and its catch clause.\<close>

definition processAndMark :: "be_env \<Rightarrow> stripeEvent \<Rightarrow> be_state \<Rightarrow> unit result \<times> be_state" where
  "processAndMark e ev s = and_then (processEvent e (ev_data ev) s) (\<lambda>_. markProcessed e (ev_id ev))"

definition handleWebhook ::
    "be_env \<Rightarrow> string \<Rightarrow> string option \<Rightarrow> be_state \<Rightarrow> webhookReply result \<times> be_state" where
  "handleWebhook e rawBody sig s =
     (case constructWebhookEvent e rawBody sig (coalesce (webhookSecret e) []) of
        None \<Rightarrow> (Inr SignatureRefused, s)
      | Some ev \<Rightarrow>
          and_then (on_db e WhFind (\<lambda>s. (Inr (find_webhook (ev_id ev) s), s)) s) (\<lambda>existing s.
          if (case existing of None \<Rightarrow> False | Some w \<Rightarrow> we_processed w) then (Inr ReceivedDuplicate, s)
          else
            and_then (upsert_webhook e ev s) (\<lambda>_ s.
            and_then (case processAndMark e ev s of
                        (Inl x, s) \<Rightarrow> markError e (ev_id ev) x s
                      | (Inr _, s) \<Rightarrow> (Inr (), s)) (\<lambda>_ s.
            (Inr Received, s)))))"

subsection \<open>Provisioning\<close>

record tenantProvisioned =
  tp_tenantId :: uuid
  tp_slug :: string
  tp_plan :: string
  tp_adminEmail :: string

definition provisionDto :: "tenantProvisioned \<Rightarrow> string \<Rightarrow> createSubscriptionDto" where
  "provisionDto msg customerId =
     \<lparr>cs_tenantId = tp_tenantId msg, cs_stripeCustomerId = customerId, cs_planCode = tp_plan msg,
      cs_status = Some (if tp_plan msg = ''free'' then ''active'' else ''trialing''),
      cs_stripeSubscriptionId = None\<rparr>"

definition syncedPayload :: "tenantProvisioned \<Rightarrow> string \<Rightarrow> json" where
  "syncedPayload msg customerId = JObj [(''tenantId'', JStr (tp_tenantId msg)), (''stripeCustomerId'', JStr customerId)]"

declare provisionDto_def [simp] syncedPayload_def [simp]

text \<open>The consumer catches and logs every exception.\<close>

definition provisionSubscription :: "be_env \<Rightarrow> tenantProvisioned \<Rightarrow> be_state \<Rightarrow> unit result \<times> be_state" where
  "provisionSubscription e msg s =
     and_then (createCustomer e (tp_adminEmail msg) (tp_slug msg) (tp_tenantId msg) s) (\<lambda>customerId s.
     and_then (subs_create e (provisionDto msg customerId) s) (\<lambda>_.
     emit_event ''chassis.tenants'' ''billing.synced'' (syncedPayload msg customerId)))"

definition onTenantProvisioned :: "be_env \<Rightarrow> tenantProvisioned \<Rightarrow> be_state \<Rightarrow> be_state" where
  "onTenantProvisioned e msg s = snd (provisionSubscription e msg s)"

subsection \<open>Endpoints\<close>

text \<open>\<^verbatim>\<open>PermissionsGuard\<close> before the handler, and the tenant of the token inside it.\<close>

definition with_permission :: "string \<Rightarrow> jwtPayload \<Rightarrow> (be_state \<Rightarrow> 'a result \<times> be_state) \<Rightarrow> be_state \<Rightarrow> 'a result \<times> be_state" where
  "with_permission perm u f s =
     (case billing_PermissionsGuard (Some [perm]) (Some u) of Inl x \<Rightarrow> (Inl x, s) | Inr _ \<Rightarrow> f s)"

definition with_tenant :: "jwtPayload \<Rightarrow> (uuid \<Rightarrow> be_state \<Rightarrow> 'a result \<times> be_state) \<Rightarrow> be_state \<Rightarrow> 'a result \<times> be_state" where
  "with_tenant u f s =
     (if \<not> truthy (jp_tenantId u) then (Inl (Forbidden ''No tenant context in token''), s)
      else f (the (jp_tenantId u)) s)"

definition getSubscription :: "be_env \<Rightarrow> jwtPayload \<Rightarrow> be_state \<Rightarrow> subscription apiResponse result \<times> be_state" where
  "getSubscription e u =
     with_permission ''billing:read'' u (with_tenant u (\<lambda>t s.
       and_then (subs_findByTenantId e t s) (\<lambda>r s. (Inr (api_ok r None), s))))"

definition createCheckout :: "be_env \<Rightarrow> jwtPayload \<Rightarrow> string \<Rightarrow> be_state \<Rightarrow> string apiResponse result \<times> be_state" where
  "createCheckout e u priceId =
     with_permission ''billing:manage'' u (with_tenant u (\<lambda>t s.
       and_then (subs_findByTenantId e t s) (\<lambda>r s.
         case createCheckoutSession e (sb_stripeCustomerId r) t priceId of
           Inl x \<Rightarrow> (Inl x, s)
         | Inr url \<Rightarrow> (Inr (api_ok url None), s))))"

definition createPortal :: "be_env \<Rightarrow> jwtPayload \<Rightarrow> be_state \<Rightarrow> string apiResponse result \<times> be_state" where
  "createPortal e u =
     with_permission ''billing:manage'' u (with_tenant u (\<lambda>t s.
       and_then (subs_findByTenantId e t s) (\<lambda>r s.
         case createCustomerPortalSession e (sb_stripeCustomerId r) of
           Inl x \<Rightarrow> (Inl x, s)
         | Inr url \<Rightarrow> (Inr (api_ok url None), s))))"

definition listInvoices ::
    "be_env \<Rightarrow> jwtPayload \<Rightarrow> string \<Rightarrow> string \<Rightarrow> be_state \<Rightarrow> invoice list apiResponse result \<times> be_state" where
  "listInvoices e u page limit =
     with_tenant u (\<lambda>t s.
       and_then (invoices_findByTenantId e t (pageNum page) (limitNum limit) s) (\<lambda>(items, n) s.
         (Inr (api_paginated items n (pageNum page) (limitNum limit)), s)))"

text \<open>An unknown period text falls back to \<^verbatim>\<open>monthly\<close>.\<close>

definition safePeriod :: "string \<Rightarrow> period" where
  "safePeriod p = (if p = ''daily'' then daily else if p = ''yearly'' then yearly else monthly)"

definition getRevenue :: "be_env \<Rightarrow> jwtPayload \<Rightarrow> string \<Rightarrow> be_state \<Rightarrow> revenueSummary apiResponse result" where
  "getRevenue e u p s =
     (if \<not> jp_isPlatformAdmin u then Inl (Forbidden ''Revenue analytics requires platform admin'')
      else Inr (api_ok (getRevenueSummary e (safePeriod p) s) None))"

end
