(* ===== verification/Billing_Theorems.thy ===== *)
theory Billing_Theorems
  imports Billing_Webhooks
begin

text \<open>
  What every webhook handler keeps (the webhook table, the identity of the subscriptions, the table
  constraints), the step relation of the engine with its invariant, and the life of a webhook event:
  verified, recorded, processed once.
\<close>

subsection \<open>What handlers keep\<close>

definition sb_key :: "subscription \<Rightarrow> uuid \<times> uuid \<times> instant" where
  "sb_key r = (sb_id r, sb_tenantId r, sb_createdAt r)"

lemma sb_keyD: "sb_key r = sb_key r' \<Longrightarrow> sb_id r = sb_id r'" "sb_key r = sb_key r' \<Longrightarrow> sb_tenantId r = sb_tenantId r'"
  by (simp_all add: sb_key_def)

definition be_keeps :: "be_state \<Rightarrow> be_state \<Rightarrow> bool" where
  "be_keeps s0 s \<longleftrightarrow> be_wf s \<and> webhookRows s = webhookRows s0 \<and> map sb_key (subRows s) = map sb_key (subRows s0)"

lemma keeps_refl: "be_wf s \<Longrightarrow> be_keeps s s"
  by (simp add: be_keeps_def)

lemma be_wf_bus [simp]: "be_wf (s\<lparr>be_bus := b\<rparr>) = be_wf s"
  by (simp add: be_wf_def)

lemma keeps_bus: "be_keeps s0 s \<Longrightarrow> be_keeps s0 (s\<lparr>be_bus := b\<rparr>)"
  by (simp add: be_keeps_def)

lemma keeps_on_db: "be_keeps s0 s \<Longrightarrow> be_keeps s0 (snd (f s)) \<Longrightarrow> be_keeps s0 (snd (on_db e st f s))"
  by (rule on_db_preserves [where Q = "be_keeps s0"])

lemma keeps_and_then:
  "be_keeps s0 (snd p) \<Longrightarrow> (\<And>a s. be_keeps s0 s \<Longrightarrow> be_keeps s0 (snd (f a s))) \<Longrightarrow> be_keeps s0 (snd (and_then p f))"
  by (rule and_then_preserves [where Q = "be_keeps s0"])

lemma keys_tenants: "map sb_key xs = map sb_key ys \<Longrightarrow> sb_tenantId ` set xs = sb_tenantId ` set ys"
proof -
  have *: "map sb_tenantId zs = map (fst \<circ> snd) (map sb_key zs)" for zs
    by (simp add: sb_key_def)
  assume "map sb_key xs = map sb_key ys"
  then have "map sb_tenantId xs = map sb_tenantId ys" by (simp only: *)
  then show ?thesis by (metis list.set_map)
qed

lemma keys_unique:
  assumes "map sb_key xs = map sb_key ys"
  shows "unique_on sb_id xs = unique_on sb_id ys" "unique_on sb_tenantId xs = unique_on sb_tenantId ys"
proof -
  have "map sb_id zs = map fst (map sb_key zs)" "map sb_tenantId zs = map (fst \<circ> snd) (map sb_key zs)" for zs
    by (simp_all add: sb_key_def)
  then show "unique_on sb_id xs = unique_on sb_id ys" "unique_on sb_tenantId xs = unique_on sb_tenantId ys"
    using assms by (simp_all only: unique_on_def)
qed

lemma keeps_subs:
  assumes "be_keeps s0 s" "map sb_key rows = map sb_key (subRows s)"
  shows "be_keeps s0 (s\<lparr>subRows := rows\<rparr>)"
  using assms keys_tenants [OF assms(2)] keys_unique [OF assms(2)] by (auto simp: be_keeps_def be_wf_def)

lemma map_key_save_row:
  assumes "unique_on sb_id t" "r \<in> set t" "sb_key r' = sb_key r"
  shows "map sb_key (save_row sb_id r' t) = map sb_key t"
proof -
  have "sb_key (if sb_id x = sb_id r' then r' else x) = sb_key x" if "x \<in> set t" for x
    using assms that distinct_map_eq [of sb_id t x r] by (auto simp: unique_on_def sb_key_def)
  moreover have "\<exists>x \<in> set t. sb_id x = sb_id r'" using assms by (auto simp: sb_key_def)
  ultimately show ?thesis by (simp add: save_row_def)
qed

lemma keeps_save_subscription:
  assumes "be_keeps s0 s" "r \<in> set (subRows s)" "sb_key r' = sb_key r"
  shows "be_keeps s0 (snd (save_subscription now r' s))"
proof -
  have "unique_on sb_id (subRows s)" using assms(1) by (simp add: be_keeps_def be_wf_def)
  moreover have "sb_key (r'\<lparr>sb_updatedAt := now\<rparr>) = sb_key r" using assms(3) by (simp add: sb_key_def)
  ultimately show ?thesis
    using assms map_key_save_row [of "subRows s" r] by (auto simp: save_subscription_def Let_def intro!: keeps_subs)
qed

lemma keeps_update_by_tenant:
  assumes "be_keeps s0 s" "\<And>r. sb_key (patch r) = sb_key r"
  shows "be_keeps s0 (snd (update_by_tenant e t ok patch s))"
proof -
  have "map sb_key (update_where p (\<lambda>r. (patch r)\<lparr>sb_updatedAt := n\<rparr>) (subRows s)) = map sb_key (subRows s)" for p n
    using assms(2) by (auto simp: update_where_def sb_key_def)
  then show ?thesis
    unfolding update_by_tenant_def using assms(1) by (intro keeps_on_db) (auto intro: keeps_subs)
qed

lemma keeps_invoices:
  assumes "be_keeps s0 s" "unique_on iv_id rows" "unique_on iv_stripeInvoiceId rows"
    "iv_tenantId ` set rows \<subseteq> sb_tenantId ` set (subRows s)" "\<forall>i \<in> set rows. paid_row i"
  shows "be_keeps s0 (s\<lparr>invoiceRows := rows\<rparr>)"
  using assms by (auto simp: be_keeps_def be_wf_def)

lemma wf_invoices:
  assumes "be_keeps s0 s"
  shows "unique_on iv_id (invoiceRows s)" "unique_on iv_stripeInvoiceId (invoiceRows s)"
    "iv_tenantId ` set (invoiceRows s) \<subseteq> sb_tenantId ` set (subRows s)" "\<forall>i \<in> set (invoiceRows s). paid_row i"
  using assms by (auto simp: be_keeps_def be_wf_def)

lemma keeps_insert_invoice:
  assumes "be_keeps s0 s" "iv_tenantId r \<in> sb_tenantId ` set (subRows s)" "paid_row r"
  shows "be_keeps s0 (snd (insert_invoice r s))"
proof (cases "\<exists>x \<in> set (invoiceRows s). iv_id x = iv_id r \<or> iv_stripeInvoiceId x = iv_stripeInvoiceId r")
  case True
  with assms(1) show ?thesis by (simp add: insert_invoice_def)
next
  case False
  then have "iv_id r \<notin> iv_id ` set (invoiceRows s)" "iv_stripeInvoiceId r \<notin> iv_stripeInvoiceId ` set (invoiceRows s)"
    by auto
  with assms wf_invoices [OF assms(1)] have "be_keeps s0 (s\<lparr>invoiceRows := invoiceRows s @ [r]\<rparr>)"
    by (intro keeps_invoices) simp_all
  with assms(1) show ?thesis by (simp add: insert_invoice_def)
qed

lemma keeps_save_invoice:
  assumes k: "be_keeps s0 s" and r: "r \<in> set (invoiceRows s)"
    and eq: "iv_id r' = iv_id r" "iv_stripeInvoiceId r' = iv_stripeInvoiceId r" "iv_tenantId r' = iv_tenantId r"
    and p: "paid_row r'"
  shows "be_keeps s0 (snd (save_invoice r' s))"
proof -
  note wf = wf_invoices [OF k]
  have swap: "save_row iv_id r' (invoiceRows s) = save_row iv_stripeInvoiceId r' (invoiceRows s)"
    using save_row_key_swap [OF wf(1,2) r] eq by simp
  have "unique_on iv_id (save_row iv_id r' (invoiceRows s))" by (rule unique_save_row [OF wf(1)])
  moreover have "unique_on iv_stripeInvoiceId (save_row iv_id r' (invoiceRows s))"
    unfolding swap by (rule unique_save_row [OF wf(2)])
  moreover have "iv_tenantId ` set (save_row iv_id r' (invoiceRows s)) \<subseteq> sb_tenantId ` set (subRows s)"
    using wf(3) r eq by (auto simp: set_save_row [OF wf(1)])
  moreover have "\<forall>i \<in> set (save_row iv_id r' (invoiceRows s)). paid_row i"
    using wf(4) p by (auto simp: set_save_row [OF wf(1)])
  ultimately show ?thesis using k by (simp add: save_invoice_def keeps_invoices)
qed

lemma keeps_upsertFromStripe:
  "be_keeps s0 s \<Longrightarrow> ci_tenantId dto \<in> sb_tenantId ` set (subRows s) \<Longrightarrow>
     ci_status dto = ''paid'' \<Longrightarrow> ci_paidAt dto \<noteq> None \<Longrightarrow> be_keeps s0 (snd (upsertFromStripe e dto s))"
  unfolding upsertFromStripe_def
  apply (rule keeps_on_db, assumption)
  apply (cases "find_invoice (ci_stripeInvoiceId dto) s")
   apply (simp add: keeps_on_db keeps_insert_invoice invoice_of_def paid_row_def)
  apply (simp only: option.case)
  apply (rule keeps_on_db, assumption)
  apply (erule keeps_save_invoice, erule find_SomeD [THEN conjunct1])
     apply (auto simp: paid_row_def)
  done

lemma findByStripeCustomerId_cases:
  "findByStripeCustomerId e c s = (r, s') \<Longrightarrow>
     s' = s \<and> (r = Inr (find_sub_by_customer c s) \<or> (\<exists>x. r = Inl x))"
  by (auto simp: findByStripeCustomerId_def on_db_def split: option.splits)

lemma keeps_emit: "be_keeps s0 s \<Longrightarrow> be_keeps s0 (snd (emit_event ex rk p s))"
  by (simp add: emit_event_def keeps_bus)

lemma keeps_by_customer:
  assumes "be_keeps s0 s"
    and "\<And>r. r \<in> set (subRows s) \<Longrightarrow> sb_stripeCustomerId r = c \<Longrightarrow> be_keeps s0 (snd (f (Some r) s))"
    and "be_keeps s0 (snd (f None s))"
  shows "be_keeps s0 (snd (and_then (findByStripeCustomerId e c s) f))"
proof (rule and_then_preserves [where Q = "be_keeps s0"])
  show "be_keeps s0 (snd (findByStripeCustomerId e c s))"
    using assms(1) findByStripeCustomerId_cases [of e c s] by (metis prod.collapse)
  fix r s' assume "findByStripeCustomerId e c s = (Inr r, s')"
  from findByStripeCustomerId_cases [OF this] have "s' = s" "r = find_sub_by_customer c s" by auto
  then show "be_keeps s0 (snd (f r s'))"
    using assms(2,3) find_SomeD [of "\<lambda>x. sb_stripeCustomerId x = c" "subRows s"]
    by (cases "find_sub_by_customer c s") auto
qed

lemma keeps_publishStatus:
  "be_keeps s0 s \<Longrightarrow> be_keeps s0 (snd (publishSubscriptionStatus e c status plan s))"
  unfolding publishSubscriptionStatus_def
  by (rule keeps_by_customer) (simp_all only: option.case keeps_emit snd_conv)

lemma keeps_updateFromStripe: "be_keeps s0 s \<Longrightarrow> be_keeps s0 (snd (updateFromStripe e dto s))"
  unfolding updateFromStripe_def
  apply (rule keeps_on_db, assumption)
  apply (simp split: option.split)
  apply (intro allI impI keeps_on_db, assumption)
  apply (erule keeps_save_subscription)
   apply (erule find_SomeD [THEN conjunct1])
  apply (simp add: sb_key_def patch_subscription_def)
  done

lemma keeps_linkStripeSubscription:
  "be_keeps s0 s \<Longrightarrow> be_keeps s0 (snd (linkStripeSubscription e c i st a b s))"
  unfolding linkStripeSubscription_def
  apply (rule keeps_by_customer, assumption)
   apply (simp only: option.case)
   apply (rule keeps_on_db, assumption)
   apply (erule keeps_save_subscription, assumption)
   apply (simp_all add: sb_key_def)
  done

lemma keeps_updateStatus: "be_keeps s0 s \<Longrightarrow> be_keeps s0 (snd (updateStatusByTenantId e t st s))"
  unfolding updateStatusByTenantId_def by (rule keeps_update_by_tenant) (auto simp: sb_key_def)

lemma keeps_linkCustomer: "be_keeps s0 s \<Longrightarrow> be_keeps s0 (snd (linkStripeCustomerId e t c s))"
  unfolding linkStripeCustomerId_def by (rule keeps_update_by_tenant) (auto simp: sb_key_def)

lemmas keeps_rules = keeps_publishStatus keeps_updateFromStripe keeps_linkStripeSubscription
  keeps_updateStatus keeps_linkCustomer keeps_emit

lemma keeps_handleInvoicePaid: "be_keeps s0 s \<Longrightarrow> be_keeps s0 (snd (handleInvoicePaid e sinv s))"
  unfolding handleInvoicePaid_def
  apply (rule keeps_by_customer, assumption)
   apply (simp only: option.case)
   apply (rule keeps_and_then)
    apply (erule keeps_upsertFromStripe)
      apply (simp_all add: paid_invoice_dto_def)[3]
   apply (rule keeps_and_then, erule keeps_emit)
   apply (simp add: keeps_and_then keeps_rules)
  apply simp
  done

lemma keeps_handlePaymentFailed: "be_keeps s0 s \<Longrightarrow> be_keeps s0 (snd (handleInvoicePaymentFailed e sinv s))"
  unfolding handleInvoicePaymentFailed_def
  by (rule keeps_by_customer) (simp_all only: option.case snd_conv keeps_and_then keeps_rules)

lemma processEvent_keeps: "be_wf s \<Longrightarrow> be_keeps s (snd (processEvent e d s))"
proof -
  assume "be_wf s"
  then have k: "be_keeps s s" by (rule keeps_refl)
  then show ?thesis
    by (cases d) (simp_all add: handleSubscriptionCreated_def handleSubscriptionUpdated_def
      handleSubscriptionDeleted_def handleCustomerCreated_def Let_def
      keeps_and_then keeps_rules keeps_handleInvoicePaid keeps_handlePaymentFailed)
qed

subsection \<open>The webhook table\<close>

lemma find_webhook_update:
  assumes "\<And>w. we_stripeEventId (f w) = we_stripeEventId w"
  shows "find (\<lambda>w. we_stripeEventId w = j) (update_where p f t) =
    map_option (\<lambda>w. if p w then f w else w) (find (\<lambda>w. we_stripeEventId w = j) t)"
  by (simp add: find_update_where [where key = we_stripeEventId, OF assms])

text \<open>Recording an event, spelled out once for the proofs below.\<close>

definition recorded :: "be_env \<Rightarrow> stripeEvent \<Rightarrow> be_state \<Rightarrow> webhookEvent" where
  "recorded e ev s =
     (case find_webhook (ev_id ev) s of
        Some w \<Rightarrow> w\<lparr>we_eventType := event_type (ev_data ev), we_payload := ev_data ev, we_processed := False\<rparr>
      | None \<Rightarrow> \<lparr>we_id = newWebhookId e, we_stripeEventId = ev_id ev, we_eventType = event_type (ev_data ev),
               we_payload = ev_data ev, we_processed = False, we_processedAt = None,
               we_errorMessage = None, we_createdAt = be_now e\<rparr>)"

lemma recorded_id [simp]: "we_stripeEventId (recorded e ev s) = ev_id ev"
  by (auto simp: recorded_def split: option.split dest: find_SomeD)

lemma recorded_unprocessed [simp]: "\<not> we_processed (recorded e ev s)" "we_payload (recorded e ev s) = ev_data ev"
  by (auto simp: recorded_def split: option.split)

lemma save_recorded_new:
  assumes "find_webhook (ev_id ev) s = None"
  shows "save_row we_stripeEventId (recorded e ev s) (webhookRows s) = webhookRows s @ [recorded e ev s]"
  using assms by (auto simp: save_row_def find_None_iff)

lemma upsert_webhook_eq:
  "upsert_webhook e ev s =
     (case db_fault e WhUpsert of
        Some x \<Rightarrow> (Inl x, s)
      | None \<Rightarrow>
          if \<not> (fits 100 (ev_id ev) \<and> fits 100 (event_type (ev_data ev))) then (Inl (QueryFailed ''22001''), s)
          else if find_webhook (ev_id ev) s = None \<and> newWebhookId e \<in> we_id ` set (webhookRows s)
          then (Inl (QueryFailed ''23505''), s)
          else (Inr (), s\<lparr>webhookRows := save_row we_stripeEventId (recorded e ev s) (webhookRows s)\<rparr>))"
proof (cases "find_webhook (ev_id ev) s")
  case None
  from save_recorded_new [OF None] None show ?thesis
    by (simp add: upsert_webhook_def on_db_def recorded_def split: option.split)
next
  case (Some w)
  then show ?thesis by (simp add: upsert_webhook_def on_db_def recorded_def split: option.split)
qed

lemma upsert_webhook_cases:
  obtains (failed) x where "upsert_webhook e ev s = (Inl x, s)"
  | (stored) "upsert_webhook e ev s = (Inr (), s\<lparr>webhookRows := save_row we_stripeEventId (recorded e ev s) (webhookRows s)\<rparr>)"
    and "find_webhook (ev_id ev) s = None \<Longrightarrow> newWebhookId e \<notin> we_id ` set (webhookRows s)"
proof -
  have "(\<exists>x. upsert_webhook e ev s = (Inl x, s)) \<or>
      upsert_webhook e ev s = (Inr (), s\<lparr>webhookRows := save_row we_stripeEventId (recorded e ev s) (webhookRows s)\<rparr>) \<and>
      (find_webhook (ev_id ev) s = None \<longrightarrow> newWebhookId e \<notin> we_id ` set (webhookRows s))"
    unfolding upsert_webhook_eq by (auto split: option.split)
  then show thesis by (elim disjE exE conjE) (auto intro: failed stored)
qed

lemma wf_upsert_webhook:
  assumes "be_wf s"
  shows "be_wf (snd (upsert_webhook e ev s))"
proof (cases rule: upsert_webhook_cases [of e ev s])
  case failed
  then show ?thesis using assms by simp
next
  case stored
  have u: "unique_on we_id (webhookRows s)" "unique_on we_stripeEventId (webhookRows s)"
    using assms by (auto simp: be_wf_def)
  have "unique_on we_id (save_row we_stripeEventId (recorded e ev s) (webhookRows s))"
  proof (rule unique_save_row_other [OF u(1) _ u(2)], intro ballI impI)
    fix x assume x: "x \<in> set (webhookRows s)" "we_stripeEventId x \<noteq> we_stripeEventId (recorded e ev s)"
    show "we_id x \<noteq> we_id (recorded e ev s)"
    proof (cases "find_webhook (ev_id ev) s")
      case None
      with stored(2) x(1) show ?thesis by (force simp: recorded_def)
    next
      case (Some w)
      then have "w \<in> set (webhookRows s)" "we_stripeEventId w = ev_id ev" by (auto dest: find_SomeD)
      with x Some u(1) show ?thesis using distinct_map_eq [of we_id "webhookRows s" x w]
        by (auto simp: recorded_def unique_on_def)
    qed
  qed
  then show ?thesis using assms stored(1) by (simp add: be_wf_def unique_save_row)
qed

lemma wf_update_webhook:
  "(\<And>w. we_id (f w) = we_id w) \<Longrightarrow> (\<And>w. we_stripeEventId (f w) = we_stripeEventId w) \<Longrightarrow>
     be_wf s \<Longrightarrow> be_wf (snd (update_webhook e st i f s))"
  by (auto simp: update_webhook_def on_db_def be_wf_def unique_update_where split: option.split)

lemma wf_marks:
  "be_wf s \<Longrightarrow> be_wf (snd (markProcessed e i s))" "be_wf s \<Longrightarrow> be_wf (snd (markError e i x s))"
  unfolding markProcessed_def markError_def by (rule wf_update_webhook; simp)+

lemma wf_processEvent: "be_wf s \<Longrightarrow> be_wf (snd (processEvent e d s))"
  using processEvent_keeps [of s e d] by (simp add: be_keeps_def)

lemma webhooks_processEvent: "be_wf s \<Longrightarrow> webhookRows (snd (processEvent e d s)) = webhookRows s"
  using processEvent_keeps [of s e d] by (simp add: be_keeps_def)

lemma wf_processAndMark: "be_wf s \<Longrightarrow> be_wf (snd (processAndMark e ev s))"
  unfolding processAndMark_def
  by (rule and_then_preserves [where Q = be_wf]) (simp_all add: wf_processEvent wf_marks)

text \<open>The try statement with its catch clause.\<close>

definition guardedProcessing :: "be_env \<Rightarrow> stripeEvent \<Rightarrow> be_state \<Rightarrow> unit result \<times> be_state" where
  "guardedProcessing e ev s =
     (case processAndMark e ev s of (Inl x, s) \<Rightarrow> markError e (ev_id ev) x s | (Inr _, s) \<Rightarrow> (Inr (), s))"

lemma wf_guardedProcessing: "be_wf s \<Longrightarrow> be_wf (snd (guardedProcessing e ev s))"
  using wf_processAndMark [of s e ev]
  by (auto simp: guardedProcessing_def wf_marks split: prod.split sum.split)

text \<open>Every way through the endpoint.\<close>

lemma handleWebhook_cases:
  obtains (refused) "handleWebhook e body sig s = (Inr SignatureRefused, s)"
  | (outage) x where "handleWebhook e body sig s = (Inl x, s)"
  | (duplicate) ev w where "constructEvent e body sig (coalesce (webhookSecret e) []) = Some ev"
      "find_webhook (ev_id ev) s = Some w" "we_processed w" "handleWebhook e body sig s = (Inr ReceivedDuplicate, s)"
  | (handled) ev s1 where "constructEvent e body sig (coalesce (webhookSecret e) []) = Some ev"
      "\<And>w. find_webhook (ev_id ev) s = Some w \<Longrightarrow> \<not> we_processed w"
      "upsert_webhook e ev s = (Inr (), s1)"
      "handleWebhook e body sig s = and_then (guardedProcessing e ev s1) (\<lambda>_ s. (Inr Received, s))"
proof (cases "constructEvent e body sig (coalesce (webhookSecret e) [])")
  case None
  then show ?thesis using refused by (simp add: handleWebhook_def constructWebhookEvent_def)
next
  case (Some ev)
  note ev = this
  show ?thesis
  proof (cases "db_fault e WhFind")
    case (Some x)
    then show ?thesis using outage ev by (simp add: handleWebhook_def constructWebhookEvent_def on_db_def)
  next
    case None
    show ?thesis
    proof (cases "\<exists>w. find_webhook (ev_id ev) s = Some w \<and> we_processed w")
      case True
      then show ?thesis using duplicate ev None by (auto simp: handleWebhook_def constructWebhookEvent_def)
    next
      case False
      then have h: "handleWebhook e body sig s =
          and_then (upsert_webhook e ev s) (\<lambda>_ s. and_then (guardedProcessing e ev s) (\<lambda>_ s. (Inr Received, s)))"
        using ev None
        by (auto simp: handleWebhook_def constructWebhookEvent_def guardedProcessing_def split: option.split)
      show ?thesis
        by (cases rule: upsert_webhook_cases [of e ev s]) (use h outage handled ev False in auto)
    qed
  qed
qed

subsection \<open>The engine as a state machine\<close>

text \<open>The two kinds of input that write: a webhook request and a provisioning message.\<close>

datatype be_event = Deliver string "string option" | Provisioned tenantProvisioned

fun be_handle :: "be_env \<Rightarrow> be_event \<Rightarrow> be_state \<Rightarrow> be_state" where
  "be_handle e (Deliver body sig) s = snd (handleWebhook e body sig s)"
| "be_handle e (Provisioned msg) s = onTenantProvisioned e msg s"

inductive be_run :: "be_state \<Rightarrow> be_state \<Rightarrow> bool" where
  run_refl: "be_run s s"
| run_step: "be_run s s' \<Longrightarrow> be_run s (be_handle e ev s')"

inductive_cases be_run_elim: "be_run s s'"

definition be_empty :: "bus \<Rightarrow> be_state" where
  "be_empty b = \<lparr>subRows = [], invoiceRows = [], webhookRows = [], be_bus = b, stripeCustomers = []\<rparr>"

definition be_reachable :: "be_state \<Rightarrow> bool" where
  "be_reachable s \<longleftrightarrow> (\<exists>b. be_run (be_empty b) s)"

lemma wf_handleWebhook: "be_wf s \<Longrightarrow> be_wf (snd (handleWebhook e body sig s))"
proof (cases rule: handleWebhook_cases [of e body sig s])
  case (handled ev s1)
  assume "be_wf s"
  then have "be_wf s1" using wf_upsert_webhook [of s e ev] handled(3) by simp
  then show ?thesis
    unfolding handled(4) by (intro and_then_preserves [where Q = be_wf]) (simp_all add: wf_guardedProcessing)
qed simp_all

text \<open>Provisioning either changes nothing or appends one subscription and publishes one message.\<close>

lemma find_by_tenant_cases:
  "find_by_tenant e t s = (r, s') \<Longrightarrow> s' = s \<and> (\<exists>x. r = Inl x) \<or> s' = s \<and> r = Inr (find_sub t s)"
  by (auto simp: find_by_tenant_def on_db_def split: option.splits if_splits)

lemma provisionSubscription_cases:
  obtains (refused) x where "customers_create e (tp_adminEmail msg) (tp_slug msg) (tp_tenantId msg) = Inl x"
      "provisionSubscription e msg s = (Inl x, s)"
  | (failed) x customerId where
      "customers_create e (tp_adminEmail msg) (tp_slug msg) (tp_tenantId msg) = Inr customerId"
      "provisionSubscription e msg s = (Inl x, s\<lparr>stripeCustomers := stripeCustomers s @ [(customerId, tp_tenantId msg)]\<rparr>)"
  | (created) customerId r where
      "customers_create e (tp_adminEmail msg) (tp_slug msg) (tp_tenantId msg) = Inr customerId"
      "sb_tenantId r = tp_tenantId msg" "sb_stripeCustomerId r = customerId" "sb_planCode r = tp_plan msg"
      "sb_status r = (if tp_plan msg = ''free'' then ''active'' else ''trialing'')"
      "\<forall>x \<in> set (subRows s). sb_id x \<noteq> sb_id r \<and> sb_tenantId x \<noteq> sb_tenantId r"
      "provisionSubscription e msg s = (Inr (), s\<lparr>subRows := subRows s @ [r],
         be_bus := publish ''chassis.tenants'' ''billing.synced''
           (JObj [(''tenantId'', JStr (tp_tenantId msg)), (''stripeCustomerId'', JStr customerId)]) (be_bus s),
         stripeCustomers := stripeCustomers s @ [(customerId, tp_tenantId msg)]\<rparr>)"
proof (cases "customers_create e (tp_adminEmail msg) (tp_slug msg) (tp_tenantId msg)")
  case (Inl x)
  then show ?thesis using refused by (simp add: provisionSubscription_def createCustomer_def and_then_def)
next
  case (Inr customerId)
  let ?dto = "\<lparr>cs_tenantId = tp_tenantId msg, cs_stripeCustomerId = customerId, cs_planCode = tp_plan msg,
               cs_status = Some (if tp_plan msg = ''free'' then ''active'' else ''trialing''),
               cs_stripeSubscriptionId = None\<rparr>"
  let ?s = "s\<lparr>stripeCustomers := stripeCustomers s @ [(customerId, tp_tenantId msg)]\<rparr>"
  have "(\<exists>x. subs_create e ?dto ?s = (Inl x, ?s)) \<or>
      (\<exists>r. subs_create e ?dto ?s = (Inr r, ?s\<lparr>subRows := subRows s @ [r]\<rparr>) \<and>
        sb_tenantId r = tp_tenantId msg \<and> sb_stripeCustomerId r = customerId \<and> sb_planCode r = tp_plan msg \<and>
        sb_status r = (if tp_plan msg = ''free'' then ''active'' else ''trialing'') \<and>
        (\<forall>x \<in> set (subRows s). sb_id x \<noteq> sb_id r \<and> sb_tenantId x \<noteq> sb_tenantId r))"
    using find_by_tenant_cases [of e "tp_tenantId msg" ?s]
    by (cases "find_by_tenant e (tp_tenantId msg) ?s")
      (auto simp: subs_create_def on_db_def insert_subscription_def split: option.splits if_splits)
  then show ?thesis
    using Inr failed [OF Inr] created [OF Inr] by (auto simp: provisionSubscription_def createCustomer_def emit_event_def and_then_def)
qed

lemma wf_onTenantProvisioned: "be_wf s \<Longrightarrow> be_wf (onTenantProvisioned e msg s)"
proof (cases rule: provisionSubscription_cases [of e msg s])
  case (created customerId r)
  assume "be_wf s"
  then show ?thesis using created(6,7) by (auto simp: onTenantProvisioned_def be_wf_def image_iff)
qed (simp_all add: onTenantProvisioned_def be_wf_def)

lemma wf_be_handle: "be_wf s \<Longrightarrow> be_wf (be_handle e ev s)"
  by (cases ev) (simp_all add: wf_handleWebhook wf_onTenantProvisioned)

lemma wf_be_run: "be_run s s' \<Longrightarrow> be_wf s \<Longrightarrow> be_wf s'"
  by (induction rule: be_run.induct) (simp_all add: wf_be_handle)

lemma wf_be_empty: "be_wf (be_empty b)"
  by (simp add: be_empty_def be_wf_def)

lemma wf_reachable: "be_reachable s \<Longrightarrow> be_wf s"
  using wf_be_run wf_be_empty by (auto simp: be_reachable_def)

text \<open>A row of the webhook table says it is processed exactly when it has the instant.\<close>

definition hooks_stamped :: "be_state \<Rightarrow> bool" where
  "hooks_stamped s \<longleftrightarrow> (\<forall>w \<in> set (webhookRows s). we_processed w \<longleftrightarrow> we_processedAt w \<noteq> None)"

lemma stamped_update:
  "(\<And>w. (we_processed w \<longleftrightarrow> we_processedAt w \<noteq> None) \<Longrightarrow> we_processed (f w) \<longleftrightarrow> we_processedAt (f w) \<noteq> None) \<Longrightarrow>
     hooks_stamped s \<Longrightarrow> hooks_stamped (snd (update_webhook e st i f s))"
  by (auto simp: hooks_stamped_def update_webhook_def on_db_def set_update_where split: option.split)

lemma stamped_marks:
  "hooks_stamped s \<Longrightarrow> hooks_stamped (snd (markProcessed e i s))"
  "hooks_stamped s \<Longrightarrow> hooks_stamped (snd (markError e i x s))"
  unfolding markProcessed_def markError_def by (rule stamped_update; simp)+

lemma stamped_guardedProcessing:
  assumes "be_wf s" "hooks_stamped s"
  shows "hooks_stamped (snd (guardedProcessing e ev s))"
proof -
  have "hooks_stamped (snd (processEvent e (ev_data ev) s))"
    using assms webhooks_processEvent [OF assms(1)] by (simp add: hooks_stamped_def)
  then have "hooks_stamped (snd (processAndMark e ev s))"
    unfolding processAndMark_def by (intro and_then_preserves [where Q = hooks_stamped]) (simp_all add: stamped_marks)
  then show ?thesis by (auto simp: guardedProcessing_def stamped_marks split: prod.split sum.split)
qed

lemma stamped_handleWebhook:
  assumes "be_wf s" "hooks_stamped s"
  shows "hooks_stamped (snd (handleWebhook e body sig s))"
proof (cases rule: handleWebhook_cases [of e body sig s])
  case (handled ev s1)
  have wf1: "be_wf s1" using wf_upsert_webhook [OF assms(1), of e ev] handled(3) by simp
  have "we_processed (recorded e ev s) \<longleftrightarrow> we_processedAt (recorded e ev s) \<noteq> None"
  proof (cases "find_webhook (ev_id ev) s")
    case (Some w)
    with handled(2) assms(2) show ?thesis
      using find_SomeD [OF Some] by (auto simp: recorded_def hooks_stamped_def)
  qed (simp add: recorded_def)
  moreover have "s1 = s\<lparr>webhookRows := save_row we_stripeEventId (recorded e ev s) (webhookRows s)\<rparr>"
    using handled(3) by (cases rule: upsert_webhook_cases [of e ev s]) auto
  moreover have "unique_on we_stripeEventId (webhookRows s)" using assms(1) by (simp add: be_wf_def)
  ultimately have "hooks_stamped s1" using assms(2) by (auto simp: hooks_stamped_def set_save_row)
  with wf1 show ?thesis
    unfolding handled(4)
    by (intro and_then_preserves [where Q = hooks_stamped]) (simp_all add: stamped_guardedProcessing)
qed (use assms in simp_all)

lemma stamped_be_handle: "be_wf s \<Longrightarrow> hooks_stamped s \<Longrightarrow> hooks_stamped (be_handle e ev s)"
proof (cases ev)
  case (Provisioned msg)
  assume "hooks_stamped s"
  then show ?thesis
    by (cases rule: provisionSubscription_cases [of e msg s])
      (simp_all add: Provisioned onTenantProvisioned_def hooks_stamped_def)
qed (simp add: stamped_handleWebhook)

lemma run_invariant: "be_run s s' \<Longrightarrow> be_wf s \<Longrightarrow> hooks_stamped s \<Longrightarrow> be_wf s' \<and> hooks_stamped s'"
  by (induction rule: be_run.induct) (simp_all add: wf_be_handle stamped_be_handle)

text \<open>In every state the billing engine can reach from empty tables, through any sequence of
  webhook requests (signed or not, repeated, failing half-way through a database outage) and
  provisioning messages, a tenant has at most one subscription, a Stripe invoice and a Stripe event
  have at most one row, every invoice belongs to a tenant with a subscription and is paid with its
  instant, and an event is marked processed exactly when it carries the instant of its processing.\<close>

lemma be_reachable_invariant:
  assumes "be_reachable s"
  shows "be_wf s \<and> hooks_stamped s"
proof -
  obtain b where "be_run (be_empty b) s" using assms by (auto simp: be_reachable_def)
  then show ?thesis
    by (rule run_invariant) (simp_all only: wf_be_empty, simp add: hooks_stamped_def be_empty_def)
qed

end
