(* ===== verification/Billing_Payments.thy ===== *)
theory Billing_Payments
  imports Billing_Theorems
begin

text \<open>
  The properties of the billing engine: an event is applied once, a failed event is recorded and
  applied again on its next delivery, the status of a subscription follows the payments, revenue
  counts an invoice once, a tenant is provisioned once, and the invoice pages are the tenant's
  invoices.
\<close>

subsection \<open>An event is applied once\<close>

definition is_processed :: "string \<Rightarrow> be_state \<Rightarrow> bool" where
  "is_processed i s \<longleftrightarrow> (\<exists>w. find_webhook i s = Some w \<and> we_processed w)"

lemma is_processed_rows: "webhookRows s' = webhookRows s \<Longrightarrow> is_processed i s' = is_processed i s"
  by (simp add: is_processed_def)

lemma is_processed_update:
  assumes "\<And>w. we_stripeEventId (f w) = we_stripeEventId w" "\<And>w. we_processed w \<Longrightarrow> we_processed (f w)"
    and "is_processed i s"
  shows "is_processed i (snd (update_webhook e st j f s))"
  using assms(2,3)
  by (auto simp: is_processed_def update_webhook_def on_db_def find_webhook_update [OF assms(1)] split: option.split)

lemma is_processed_marks:
  "is_processed i s \<Longrightarrow> is_processed i (snd (markProcessed e j s))"
  "is_processed i s \<Longrightarrow> is_processed i (snd (markError e j x s))"
  unfolding markProcessed_def markError_def by (rule is_processed_update; simp)+

lemma is_processed_guardedProcessing:
  assumes "be_wf s" "is_processed i s"
  shows "is_processed i (snd (guardedProcessing e ev s))"
proof -
  have "is_processed i (snd (processEvent e (ev_data ev) s))"
    using assms is_processed_rows [OF webhooks_processEvent [OF assms(1)]] by simp
  then have "is_processed i (snd (processAndMark e ev s))"
    unfolding processAndMark_def
    by (intro and_then_preserves [where Q = "is_processed i"]) (simp_all add: is_processed_marks)
  then show ?thesis by (auto simp: guardedProcessing_def is_processed_marks split: prod.split sum.split)
qed

lemma is_processed_handleWebhook:
  assumes "be_wf s" "is_processed i s"
  shows "is_processed i (snd (handleWebhook e body sig s))"
proof (cases rule: handleWebhook_cases [of e body sig s])
  case (handled ev s1)
  have s1: "s1 = s\<lparr>webhookRows := save_row we_stripeEventId (recorded e ev s) (webhookRows s)\<rparr>"
    using handled(3) by (cases rule: upsert_webhook_cases [of e ev s]) auto
  have "i \<noteq> ev_id ev" using assms(2) handled(2) by (auto simp: is_processed_def)
  then have "is_processed i s1" using assms(2) by (simp add: is_processed_def s1 find_save_row)
  moreover have "be_wf s1" using wf_upsert_webhook [OF assms(1), of e ev] handled(3) by simp
  ultimately show ?thesis
    unfolding handled(4)
    by (intro and_then_preserves [where Q = "is_processed i"]) (simp_all add: is_processed_guardedProcessing)
qed (use assms in simp_all)

lemma is_processed_be_handle: "be_wf s \<Longrightarrow> is_processed i s \<Longrightarrow> is_processed i (be_handle e ev s)"
proof (cases ev)
  case (Provisioned msg)
  assume "is_processed i s"
  then show ?thesis
    by (cases rule: provisionSubscription_cases [of e msg s])
      (simp_all add: Provisioned onTenantProvisioned_def is_processed_def)
qed (simp add: is_processed_handleWebhook)

lemma is_processed_run: "be_run s s' \<Longrightarrow> be_wf s \<Longrightarrow> is_processed i s \<Longrightarrow> be_wf s' \<and> is_processed i s'"
  by (induction rule: be_run.induct) (simp_all add: wf_be_handle is_processed_be_handle)

text \<open>C13: an event that was processed is never applied again. After any further requests and
  messages, every later delivery of an event with that identifier, with whatever content, is answered
  as a duplicate and changes neither the tables nor the message log.\<close>

theorem processed_webhook_never_reapplied:
  assumes "be_wf s" "find_webhook (ev_id ev) s = Some w" "we_processed w" "be_run s s'"
    and "constructEvent e body sig (coalesce (webhookSecret e) []) = Some ev" "db_fault e WhFind = None"
  shows "handleWebhook e body sig s' = (Inr ReceivedDuplicate, s')"
proof -
  have "is_processed (ev_id ev) s" using assms(2,3) by (auto simp: is_processed_def)
  with is_processed_run [OF assms(4,1)] obtain w' where "find_webhook (ev_id ev) s' = Some w'" "we_processed w'"
    by (auto simp: is_processed_def)
  with assms(5,6) show ?thesis by (simp add: handleWebhook_def constructWebhookEvent_def)
qed

subsection \<open>The outcome of a delivery\<close>

text \<open>The webhook table serves the event: no outage, the texts fit, the generated id is new.\<close>

definition hook_served :: "be_env \<Rightarrow> stripeEvent \<Rightarrow> be_state \<Rightarrow> bool" where
  "hook_served e ev s \<longleftrightarrow> db_fault e WhFind = None \<and> db_fault e WhUpsert = None \<and>
     db_fault e WhMarkProcessed = None \<and> db_fault e WhMarkError = None \<and>
     fits 100 (ev_id ev) \<and> fits 100 (event_type (ev_data ev)) \<and>
     newWebhookId e \<notin> we_id ` set (webhookRows s)"

text \<open>The state in which the event is processed: recorded as unprocessed.\<close>

definition with_record :: "be_env \<Rightarrow> stripeEvent \<Rightarrow> be_state \<Rightarrow> be_state" where
  "with_record e ev s = s\<lparr>webhookRows := save_row we_stripeEventId (recorded e ev s) (webhookRows s)\<rparr>"

lemma upsert_served: "hook_served e ev s \<Longrightarrow> upsert_webhook e ev s = (Inr (), with_record e ev s)"
  by (simp add: hook_served_def upsert_webhook_eq with_record_def)

lemma wf_with_record: "be_wf s \<Longrightarrow> hook_served e ev s \<Longrightarrow> be_wf (with_record e ev s)"
  using wf_upsert_webhook [of s e ev] by (simp add: upsert_served)

lemma find_with_record [simp]: "find_webhook (ev_id ev) (with_record e ev s) = Some (recorded e ev s)"
  by (simp add: with_record_def find_save_row)

lemma served_handleWebhook:
  assumes "hook_served e ev s" "constructEvent e body sig (coalesce (webhookSecret e) []) = Some ev"
    and "\<not> is_processed (ev_id ev) s"
  shows "handleWebhook e body sig s =
    and_then (guardedProcessing e ev (with_record e ev s)) (\<lambda>_ s. (Inr Received, s))"
proof -
  have "db_fault e WhFind = None" using assms(1) by (simp add: hook_served_def)
  with assms(2,3) upsert_served [OF assms(1)] show ?thesis
    by (auto simp: handleWebhook_def constructWebhookEvent_def guardedProcessing_def is_processed_def
        split: option.split)
qed

lemma delivery_outcome:
  assumes wf: "be_wf s" and served: "hook_served e ev s"
    and sig: "constructEvent e body sig (coalesce (webhookSecret e) []) = Some ev"
    and new: "\<not> is_processed (ev_id ev) s"
    and run: "processEvent e (ev_data ev) (with_record e ev s) = (r, s2)"
  shows "\<exists>w s'. handleWebhook e body sig s = (Inr Received, s') \<and>
    subRows s' = subRows s2 \<and> invoiceRows s' = invoiceRows s2 \<and> be_bus s' = be_bus s2 \<and>
    find_webhook (ev_id ev) s' = Some w \<and> we_payload w = ev_data ev \<and>
    (we_processed w \<longleftrightarrow> isl r = False) \<and>
    (case r of Inl x \<Rightarrow> we_errorMessage w = Some (exn_message e x) \<and> we_processedAt w = we_processedAt (recorded e ev s)
     | Inr _ \<Rightarrow> we_processedAt w = Some (be_now e))"
proof -
  have rows: "webhookRows s2 = webhookRows (with_record e ev s)"
    using webhooks_processEvent [OF wf_with_record [OF wf served], of e "ev_data ev"] run by simp
  then have f: "find_webhook (ev_id ev) s2 = Some (recorded e ev s)" by simp
  have up: "db_fault e WhMarkProcessed = None" "db_fault e WhMarkError = None"
    using served by (simp_all add: hook_served_def)
  show ?thesis
  proof (cases r)
    case (Inl x)
    with run up f show ?thesis
      unfolding served_handleWebhook [OF served sig new]
      by (simp add: guardedProcessing_def processAndMark_def markError_def update_webhook_def find_webhook_update)
  next
    case (Inr u)
    with run up f show ?thesis
      unfolding served_handleWebhook [OF served sig new]
      by (simp add: guardedProcessing_def processAndMark_def markProcessed_def update_webhook_def find_webhook_update)
  qed
qed

text \<open>C25: a delivery of a verified, not yet processed event is answered 200, whether its processing
  succeeds or throws. The subscriptions, the invoices and the messages are those the handler left;
  the event's row is marked processed exactly when the handler succeeded, and otherwise carries the
  text of the exception, so that a further delivery processes the event again.\<close>

theorem webhook_outcome:
  assumes wf: "be_wf s" and served: "hook_served e ev s"
    and sig: "constructEvent e body sig (coalesce (webhookSecret e) []) = Some ev"
    and new: "\<not> is_processed (ev_id ev) s"
    and run: "processEvent e (ev_data ev) (with_record e ev s) = (r, s2)"
  shows "\<exists>w s'. handleWebhook e body sig s = (Inr Received, s') \<and>
    subRows s' = subRows s2 \<and> invoiceRows s' = invoiceRows s2 \<and> be_bus s' = be_bus s2 \<and>
    find_webhook (ev_id ev) s' = Some w \<and> we_payload w = ev_data ev \<and>
    (we_processed w \<longleftrightarrow> isl r = False) \<and>
    (case r of Inl x \<Rightarrow> we_errorMessage w = Some (exn_message e x) \<and> we_processedAt w = we_processedAt (recorded e ev s)
     | Inr _ \<Rightarrow> we_processedAt w = Some (be_now e))"
  using delivery_outcome [OF assms] .

text \<open>C24: a failed event recovers on redelivery. When the processing of a delivery throws and a later
  delivery of the event is processed without an exception, the first is answered and leaves the event
  unprocessed, the second applies it and marks it processed, and every delivery after that is answered
  as a duplicate.\<close>

theorem redelivery_recovers:
  assumes wf: "be_wf s" and first: "hook_served e1 ev s"
    and sig: "\<And>e. e \<in> {e1, e2, e3} \<Longrightarrow> constructEvent e body sig (coalesce (webhookSecret e) []) = Some ev"
    and new: "\<not> is_processed (ev_id ev) s"
    and fails: "processEvent e1 (ev_data ev) (with_record e1 ev s) = (Inl x, s2)"
    and s1: "s1 = snd (handleWebhook e1 body sig s)"
    and second: "hook_served e2 ev s1"
    and succeeds: "processEvent e2 (ev_data ev) (with_record e2 ev s1) = (Inr (), s3)"
    and third: "db_fault e3 WhFind = None"
  shows "fst (handleWebhook e1 body sig s) = Inr Received \<and> \<not> is_processed (ev_id ev) s1 \<and>
    (\<exists>s4. handleWebhook e2 body sig s1 = (Inr Received, s4) \<and>
      subRows s4 = subRows s3 \<and> invoiceRows s4 = invoiceRows s3 \<and> be_bus s4 = be_bus s3 \<and>
      is_processed (ev_id ev) s4 \<and> handleWebhook e3 body sig s4 = (Inr ReceivedDuplicate, s4))"
proof -
  have sigs: "constructEvent e1 body sig (coalesce (webhookSecret e1) []) = Some ev"
    "constructEvent e2 body sig (coalesce (webhookSecret e2) []) = Some ev"
    "constructEvent e3 body sig (coalesce (webhookSecret e3) []) = Some ev"
    by (rule sig; simp)+
  obtain w where w: "handleWebhook e1 body sig s = (Inr Received, s1)" "find_webhook (ev_id ev) s1 = Some w" "\<not> we_processed w"
    using delivery_outcome [OF wf first sigs(1) new fails] s1 by auto
  then have un: "\<not> is_processed (ev_id ev) s1" by (simp add: is_processed_def)
  have "be_wf s1" using wf_be_handle [OF wf, of e1 "Deliver body sig"] s1 by simp
  from delivery_outcome [OF this second sigs(2) un succeeds] obtain w' s4 where s4:
      "handleWebhook e2 body sig s1 = (Inr Received, s4)" "subRows s4 = subRows s3" "invoiceRows s4 = invoiceRows s3"
      "be_bus s4 = be_bus s3" "find_webhook (ev_id ev) s4 = Some w'" "we_processed w'"
    by auto
  then have "handleWebhook e3 body sig s4 = (Inr ReceivedDuplicate, s4)"
    using sigs(3) third by (simp add: handleWebhook_def constructWebhookEvent_def)
  with w(1) un s4 show ?thesis by (auto simp: is_processed_def)
qed

subsection \<open>Payments and the status of a subscription\<close>

text \<open>No outage, every text is a UUID, the message channel works.\<close>

definition be_healthy :: "be_env \<Rightarrow> be_state \<Rightarrow> bool" where
  "be_healthy e s \<longleftrightarrow> (\<forall>st. db_fault e st = None) \<and> (\<forall>t \<in> sb_tenantId ` set (subRows s). be_isUUID e t) \<and>
     bus_up (be_bus s)"

lemma healthy_up [simp]: "be_healthy e s \<Longrightarrow> db_fault e st = None"
  by (simp add: be_healthy_def)

text \<open>The message a change of status publishes.\<close>

definition status_msg :: "uuid \<Rightarrow> string \<Rightarrow> bus_msg" where
  "status_msg t status =
     \<lparr>exchange = ''chassis.billing'', routingKey = ''subscription.status'',
      payload = JObj [(''tenantId'', JStr t), (''status'', JStr status)]\<rparr>"

definition payment_msg :: "be_env \<Rightarrow> stripeInvoice \<Rightarrow> uuid \<Rightarrow> bus_msg" where
  "payment_msg e i t =
     \<lparr>exchange = ''chassis.audit'', routingKey = ''billing.payment.succeeded'',
      payload = JObj [(''stripeInvoiceId'', JStr (si_id i)), (''stripeCustomerId'', JStr (invoice_customer i)),
        (''tenantId'', JStr t), (''amountPaid'', JNum (of_int (si_amount_paid i) / 100)),
        (''currency'', JStr (si_currency i)), (''occurredAt'', JTime (be_now e))]\<rparr>"

text \<open>The row and the table after a status was set by tenant.\<close>

definition with_status :: "be_env \<Rightarrow> uuid \<Rightarrow> string \<Rightarrow> be_state \<Rightarrow> be_state" where
  "with_status e t status s = s\<lparr>subRows := update_where (\<lambda>r. sb_tenantId r = t)
     (\<lambda>r. r\<lparr>sb_status := status, sb_updatedAt := be_now e\<rparr>) (subRows s)\<rparr>"

lemma updateStatus_up:
  assumes "db_fault e SubWrite = None" "be_isUUID e t" "fits 30 status"
  shows "updateStatusByTenantId e t status s = (Inr (), with_status e t status s)"
  using assms by (simp add: updateStatusByTenantId_def update_by_tenant_def with_status_def)

lemma tenants_with_status: "sb_tenantId ` set (subRows (with_status e t status s)) = sb_tenantId ` set (subRows s)"
proof -
  have "map sb_tenantId (subRows (with_status e t status s)) = map sb_tenantId (subRows s)"
    by (simp add: with_status_def update_where_def)
  then show ?thesis by (metis list.set_map)
qed

lemma with_status_simps [simp]:
  "be_bus (with_status e t status s) = be_bus s" "invoiceRows (with_status e t status s) = invoiceRows s"
  by (simp_all add: with_status_def)

lemma healthy_with_status [simp]:
  "be_healthy e' ((with_status e t status s)\<lparr>be_bus := publish ex rk p b\<rparr>) =
     (be_healthy e' (s\<lparr>be_bus := b\<rparr>))"
  using tenants_with_status [of e t status s] by (simp add: be_healthy_def pub.up_emit)

lemma customer_with_status:
  "find_sub_by_customer c s = Some r \<Longrightarrow> sb_tenantId r = t \<Longrightarrow>
     find_sub_by_customer c (with_status e t status s) = Some (r\<lparr>sb_status := status, sb_updatedAt := be_now e\<rparr>)"
  by (simp add: with_status_def find_update_where [where key = sb_stripeCustomerId])

lemma tenant_with_status:
  "find_sub t s = Some r \<Longrightarrow>
     find_sub t (with_status e t status s) = Some (r\<lparr>sb_status := status, sb_updatedAt := be_now e\<rparr>)"
  using find_SomeD [of "\<lambda>x. sb_tenantId x = t" "subRows s" r]
  by (simp add: with_status_def find_update_where [where key = sb_tenantId])

lemma publishStatus_up:
  assumes "db_fault e SubFind = None" "find_sub_by_customer c s = Some r" "bus_up (be_bus s)"
  shows "publishSubscriptionStatus e c status None s =
    (Inr (), s\<lparr>be_bus := publish ''chassis.billing'' ''subscription.status''
       (JObj [(''tenantId'', JStr (sb_tenantId r)), (''status'', JStr status)]) (be_bus s)\<rparr>)"
  using assms by (simp add: publishSubscriptionStatus_def findByStripeCustomerId_def emit_event_def)

lemma find_sub_of_customer:
  assumes "be_wf s" "find_sub_by_customer c s = Some r"
  shows "find_sub (sb_tenantId r) s = Some r"
proof -
  have "unique_on sb_tenantId (subRows s)" using assms(1) by (simp add: be_wf_def)
  moreover have "r \<in> set (subRows s)" using find_SomeD [OF assms(2)] by simp
  ultimately show ?thesis by (simp add: subs.lookup_iff)
qed

text \<open>A failed payment.\<close>

lemma payment_failed_step:
  assumes "be_wf s" "be_healthy e s" "find_sub_by_customer (invoice_customer i) s = Some r"
  obtains s' where "processEvent e (InvoicePaymentFailed i) s = (Inr (), s')"
    "find_sub_by_customer (invoice_customer i) s' = Some (r\<lparr>sb_status := ''past_due'', sb_updatedAt := be_now e\<rparr>)"
    "find_sub (sb_tenantId r) s' = Some (r\<lparr>sb_status := ''past_due'', sb_updatedAt := be_now e\<rparr>)"
    "published (be_bus s') = published (be_bus s) @ [status_msg (sb_tenantId r) ''past_due'']"
    "be_healthy e' s' = be_healthy e' s" "invoiceRows s' = invoiceRows s"
proof -
  let ?s1 = "with_status e (sb_tenantId r) ''past_due'' s"
  let ?s2 = "?s1\<lparr>be_bus := publish ''chassis.billing'' ''subscription.status''
       (JObj [(''tenantId'', JStr (sb_tenantId r)), (''status'', JStr ''past_due'')]) (be_bus ?s1)\<rparr>"
  have r: "r \<in> set (subRows s)" using find_SomeD [OF assms(3)] by simp
  then have uuid: "be_isUUID e (sb_tenantId r)" using assms(2) by (simp add: be_healthy_def)
  have up: "bus_up (be_bus ?s1)" using assms(2) by (simp add: be_healthy_def)
  have f1: "find_sub_by_customer (invoice_customer i) ?s1 = Some (r\<lparr>sb_status := ''past_due'', sb_updatedAt := be_now e\<rparr>)"
    using customer_with_status [OF assms(3) refl] .
  have "fits 30 ''past_due''" by (simp add: fits_def)
  then have "updateStatusByTenantId e (sb_tenantId r) ''past_due'' s = (Inr (), ?s1)"
    using updateStatus_up uuid assms(2) by simp
  then have "processEvent e (InvoicePaymentFailed i) s = (Inr (), ?s2)"
    using assms(2,3) publishStatus_up [OF _ f1 up] by (simp add: handleInvoicePaymentFailed_def findByStripeCustomerId_def)
  moreover have "find_sub (sb_tenantId r) ?s1 = Some (r\<lparr>sb_status := ''past_due'', sb_updatedAt := be_now e\<rparr>)"
    using tenant_with_status [OF find_sub_of_customer [OF assms(1,3)]] .
  moreover have "be_healthy e' ?s2 = be_healthy e' s" by simp
  ultimately show ?thesis
    using that [of ?s2] f1 pub.emit_up [OF up] by (simp add: status_msg_def)
qed

text \<open>The database accepts the invoice as a new row.\<close>

definition invoice_accepted :: "be_env \<Rightarrow> stripeInvoice \<Rightarrow> be_state \<Rightarrow> bool" where
  "invoice_accepted e i s \<longleftrightarrow> fits 100 (si_id i) \<and> fits 100 (invoice_customer i) \<and> fits 3 (si_currency i) \<and>
     in_decimal_12_2 (of_int (si_amount_due i) / 100) \<and> in_decimal_12_2 (of_int (si_amount_paid i) / 100) \<and>
     newInvoiceId e \<notin> iv_id ` set (invoiceRows s)"

lemma upsert_new:
  assumes "db_fault e InvFind = None" "db_fault e InvWrite = None" "find_invoice (si_id i) s = None"
    and "invoice_accepted e i s"
  shows "upsertFromStripe e (paid_invoice_dto e i t) s =
    (let row = invoice_of e (paid_invoice_dto e i t) in (Inr row, s\<lparr>invoiceRows := invoiceRows s @ [row]\<rparr>))"
proof -
  have "\<forall>x \<in> set (invoiceRows s). iv_stripeInvoiceId x \<noteq> si_id i" using assms(3) by (simp add: find_None_iff)
  moreover have "\<forall>x \<in> set (invoiceRows s). iv_id x \<noteq> newInvoiceId e"
    using assms(4) by (force simp: invoice_accepted_def)
  ultimately show ?thesis
    using assms
    by (simp add: upsertFromStripe_def insert_invoice_def invoice_of_def paid_invoice_dto_def invoice_accepted_def Let_def)
qed

text \<open>A payment of a subscription that is past due.\<close>

lemma payment_recovers_step:
  assumes wf: "be_wf s" and up: "be_healthy e s" and f: "find_sub_by_customer (invoice_customer i) s = Some r"
    and due: "sb_status r = ''past_due''"
    and new: "find_invoice (si_id i) s = None" "invoice_accepted e i s"
  obtains s' where "processEvent e (InvoicePaid i) s = (Inr (), s')"
    "find_sub (sb_tenantId r) s' = Some (r\<lparr>sb_status := ''active'', sb_updatedAt := be_now e\<rparr>)"
    "published (be_bus s') = published (be_bus s) @ [payment_msg e i (sb_tenantId r), status_msg (sb_tenantId r) ''active'']"
    "invoiceRows s' = invoiceRows s @ [invoice_of e (paid_invoice_dto e i (sb_tenantId r))]"
proof -
  let ?row = "invoice_of e (paid_invoice_dto e i (sb_tenantId r))"
  let ?b = "publish (exchange (payment_msg e i (sb_tenantId r))) (routingKey (payment_msg e i (sb_tenantId r)))
     (payload (payment_msg e i (sb_tenantId r))) (be_bus s)"
  let ?s1 = "s\<lparr>invoiceRows := invoiceRows s @ [?row], be_bus := ?b\<rparr>"
  let ?s2 = "with_status e (sb_tenantId r) ''active'' ?s1"
  let ?s3 = "?s2\<lparr>be_bus := publish ''chassis.billing'' ''subscription.status''
       (JObj [(''tenantId'', JStr (sb_tenantId r)), (''status'', JStr ''active'')]) (be_bus ?s2)\<rparr>"
  have r: "r \<in> set (subRows s)" using find_SomeD [OF f] by simp
  have uuid: "be_isUUID e (sb_tenantId r)" using up r by (simp add: be_healthy_def)
  have bus: "bus_up (be_bus s)" "bus_up ?b" using up by (simp_all add: be_healthy_def pub.up_emit)
  have f1: "find_sub_by_customer (invoice_customer i) ?s1 = Some r" using f by simp
  note f2 = customer_with_status [OF f1 refl, of e "''active''"]
  have "fits 30 ''active''" by (simp add: fits_def)
  then have st: "updateStatusByTenantId e (sb_tenantId r) ''active'' ?s1 = (Inr (), ?s2)"
    using updateStatus_up [OF healthy_up [OF up] uuid] by simp
  have pb: "publishSubscriptionStatus e (invoice_customer i) ''active'' None ?s2 = (Inr (), ?s3)"
    using publishStatus_up [OF healthy_up [OF up] f2] bus by simp
  have em: "emit_event ''chassis.audit'' ''billing.payment.succeeded''
             (JObj [(''stripeInvoiceId'', JStr (si_id i)), (''stripeCustomerId'', JStr (invoice_customer i)),
                    (''tenantId'', JStr (sb_tenantId r)), (''amountPaid'', JNum (of_int (si_amount_paid i) / 100)),
                    (''currency'', JStr (si_currency i)), (''occurredAt'', JTime (be_now e))])
             (s\<lparr>invoiceRows := invoiceRows s @ [?row]\<rparr>) = (Inr (), ?s1)"
    by (simp add: emit_event_def payment_msg_def)
  have "processEvent e (InvoicePaid i) s = (Inr (), ?s3)"
    using upsert_new [OF healthy_up [OF up] healthy_up [OF up] new] st pb em f due up
    by (simp add: handleInvoicePaid_def findByStripeCustomerId_def Let_def)
  moreover have "find_sub (sb_tenantId r) ?s2 = Some (r\<lparr>sb_status := ''active'', sb_updatedAt := be_now e\<rparr>)"
    using tenant_with_status [of "sb_tenantId r" ?s1 r] find_sub_of_customer [OF wf f] by simp
  moreover have "published (be_bus ?s3) = published (be_bus s) @ [payment_msg e i (sb_tenantId r), status_msg (sb_tenantId r) ''active'']"
    using pub.emit_twice_up [OF bus(1)] by (simp add: status_msg_def)
  ultimately show ?thesis using that [of ?s3] by simp
qed

text \<open>C14: the status follows the payments. On a healthy database a failed payment sets the customer's
  subscription past due and announces it; the next paid invoice is stored with its amount in the
  currency unit, the subscription is active again, and exactly the three messages are published in
  the order past due, payment, active.\<close>

theorem payment_failure_and_recovery:
  assumes wf: "be_wf s" and up: "be_healthy e1 s" "be_healthy e2 s"
    and f: "find_sub_by_customer (invoice_customer i1) s = Some r"
    and same: "invoice_customer i2 = invoice_customer i1"
    and new: "find_invoice (si_id i2) s = None" "invoice_accepted e2 i2 s"
  shows "\<exists>s1 s2 due paid. processEvent e1 (InvoicePaymentFailed i1) s = (Inr (), s1) \<and>
    processEvent e2 (InvoicePaid i2) s1 = (Inr (), s2) \<and>
    find_sub (sb_tenantId r) s1 = Some due \<and> sb_status due = ''past_due'' \<and>
    find_sub (sb_tenantId r) s2 = Some paid \<and> sb_status paid = ''active'' \<and> sb_planCode paid = sb_planCode r \<and>
    map_option iv_amountPaid (find_invoice (si_id i2) s2) = Some (of_int (si_amount_paid i2) / 100) \<and>
    published (be_bus s2) = published (be_bus s) @ [status_msg (sb_tenantId r) ''past_due'',
      payment_msg e2 i2 (sb_tenantId r), status_msg (sb_tenantId r) ''active'']"
proof -
  obtain s1 where s1: "processEvent e1 (InvoicePaymentFailed i1) s = (Inr (), s1)"
    "find_sub_by_customer (invoice_customer i1) s1 = Some (r\<lparr>sb_status := ''past_due'', sb_updatedAt := be_now e1\<rparr>)"
    "find_sub (sb_tenantId r) s1 = Some (r\<lparr>sb_status := ''past_due'', sb_updatedAt := be_now e1\<rparr>)"
    "published (be_bus s1) = published (be_bus s) @ [status_msg (sb_tenantId r) ''past_due'']"
    "be_healthy e2 s1 = be_healthy e2 s" "invoiceRows s1 = invoiceRows s"
    by (rule payment_failed_step [OF wf up(1) f, of e2])
  have wf1: "be_wf s1" using wf_processEvent [OF wf, of e1 "InvoicePaymentFailed i1"] s1(1) by simp
  obtain s2 where s2: "processEvent e2 (InvoicePaid i2) s1 = (Inr (), s2)"
    "find_sub (sb_tenantId r) s2 = Some (r\<lparr>sb_status := ''active'', sb_updatedAt := be_now e2\<rparr>)"
    "published (be_bus s2) = published (be_bus s1) @
       [payment_msg e2 i2 (sb_tenantId r), status_msg (sb_tenantId r) ''active'']"
    "invoiceRows s2 = invoiceRows s1 @ [invoice_of e2 (paid_invoice_dto e2 i2 (sb_tenantId r))]"
    by (rule payment_recovers_step [OF wf1, of e2 i2 "r\<lparr>sb_status := ''past_due'', sb_updatedAt := be_now e1\<rparr>"])
      (use s1 up new same in \<open>simp_all add: invoice_accepted_def\<close>)
  have "find_invoice (si_id i2) s2 = Some (invoice_of e2 (paid_invoice_dto e2 i2 (sb_tenantId r)))"
    using s2(4) s1(6) new(1) by (simp add: find_append invoice_of_def paid_invoice_dto_def)
  with s1 s2 show ?thesis by (auto simp: invoice_of_def paid_invoice_dto_def)
qed

subsection \<open>Revenue\<close>

lemma revenue_all:
  assumes "be_wf s"
  shows "getTotalRevenue s = sum_list (map iv_amountPaid (invoiceRows s))"
proof -
  have "filter (\<lambda>i. iv_status i = ''paid'' \<and> True) (invoiceRows s) = invoiceRows s"
    using assms by (auto simp: be_wf_def paid_row_def intro!: filter_True)
  then show ?thesis by (simp add: getTotalRevenue_def sum_paid_def)
qed

lemma sum_save_row:
  fixes f :: "'r \<Rightarrow> rat"
  assumes "unique_on key t" "r0 \<in> set t" "key r0 = key r"
  shows "sum_list (map f (save_row key r t)) = sum_list (map f t) - f r0 + f r"
proof -
  obtain a b where t: "t = a @ r0 # b" using assms(2) by (auto dest: split_list)
  have "key x \<noteq> key r" if "x \<in> set a \<union> set b" for x
    using assms(1,3) that by (auto simp: t unique_on_def image_iff)
  then have "map (\<lambda>x. if key x = key r then r else x) a = a" "map (\<lambda>x. if key x = key r then r else x) b = b"
    by (auto intro: map_idI)
  then have "save_row key r t = a @ r # b" using assms(3) by (auto simp: save_row_def t)
  then show ?thesis by (simp add: t)
qed

lemma length_save_row: "r0 \<in> set t \<Longrightarrow> key r0 = key r \<Longrightarrow> length (save_row key r t) = length t"
  by (auto simp: save_row_def)

text \<open>What was paid on an invoice so far.\<close>

definition paid_on :: "string \<Rightarrow> be_state \<Rightarrow> rat" where
  "paid_on i s = (case find_invoice i s of None \<Rightarrow> 0 | Some r \<Rightarrow> iv_amountPaid r)"

lemma upsert_revenue:
  assumes wf: "be_wf s" and ok: "upsertFromStripe e dto s = (Inr row, s')"
  shows "sum_list (map iv_amountPaid (invoiceRows s')) =
      sum_list (map iv_amountPaid (invoiceRows s)) - paid_on (ci_stripeInvoiceId dto) s + ci_amountPaid dto"
    and "paid_on (ci_stripeInvoiceId dto) s' = ci_amountPaid dto"
    and "length (invoiceRows s') = length (invoiceRows s) + (if find_invoice (ci_stripeInvoiceId dto) s = None then 1 else 0)"
    and "find_invoice (ci_stripeInvoiceId dto) s' \<noteq> None"
proof -
  have up: "db_fault e InvFind = None" "db_fault e InvWrite = None"
    using ok by (auto simp: upsertFromStripe_def on_db_def split: option.splits)
  have u: "unique_on iv_id (invoiceRows s)" "unique_on iv_stripeInvoiceId (invoiceRows s)"
    using wf by (auto simp: be_wf_def)
  have "sum_list (map iv_amountPaid (invoiceRows s')) =
      sum_list (map iv_amountPaid (invoiceRows s)) - paid_on (ci_stripeInvoiceId dto) s + ci_amountPaid dto \<and>
    paid_on (ci_stripeInvoiceId dto) s' = ci_amountPaid dto \<and>
    length (invoiceRows s') = length (invoiceRows s) + (if find_invoice (ci_stripeInvoiceId dto) s = None then 1 else 0) \<and>
    find_invoice (ci_stripeInvoiceId dto) s' \<noteq> None"
  proof (cases "find_invoice (ci_stripeInvoiceId dto) s")
    case None
    then have "s' = s\<lparr>invoiceRows := invoiceRows s @ [invoice_of e dto]\<rparr>"
      using ok up by (auto simp: upsertFromStripe_def insert_invoice_def split: if_splits)
    with None show ?thesis by (simp add: paid_on_def invoice_of_def find_append)
  next
    case (Some r)
    define r' where "r' = r\<lparr>iv_status := ci_status dto, iv_amountPaid := ci_amountPaid dto,
      iv_paidAt := (case ci_paidAt dto of None \<Rightarrow> iv_paidAt r | d \<Rightarrow> d)\<rparr>"
    have r: "r \<in> set (invoiceRows s)" "iv_stripeInvoiceId r = ci_stripeInvoiceId dto" using find_SomeD [OF Some] by auto
    have s': "s' = s\<lparr>invoiceRows := save_row iv_id r' (invoiceRows s)\<rparr>"
      using ok up Some by (auto simp: upsertFromStripe_def save_invoice_def r'_def split: if_splits)
    have eq: "iv_id r = iv_id r'" "iv_stripeInvoiceId r = iv_stripeInvoiceId r'" "iv_amountPaid r' = ci_amountPaid dto"
      by (simp_all add: r'_def)
    have f: "find_invoice (ci_stripeInvoiceId dto) s' = Some r'"
      using save_row_key_swap [OF u r(1) eq(1,2)] r(2) eq(2) by (simp add: s' find_save_row)
    show ?thesis
      using sum_save_row [OF u(1) r(1) eq(1), of iv_amountPaid] length_save_row [OF r(1), of iv_id r'] eq Some f
      by (simp add: s' paid_on_def)
  qed
  then show "sum_list (map iv_amountPaid (invoiceRows s')) =
      sum_list (map iv_amountPaid (invoiceRows s)) - paid_on (ci_stripeInvoiceId dto) s + ci_amountPaid dto"
    and "paid_on (ci_stripeInvoiceId dto) s' = ci_amountPaid dto"
    and "length (invoiceRows s') = length (invoiceRows s) + (if find_invoice (ci_stripeInvoiceId dto) s = None then 1 else 0)"
    and "find_invoice (ci_stripeInvoiceId dto) s' \<noteq> None"
    by blast+
qed

lemma invoices_unchanged:
  "invoiceRows (snd (emit_event ex rk p s)) = invoiceRows s"
  "invoiceRows (snd (updateStatusByTenantId e t st s)) = invoiceRows s"
  "invoiceRows (snd (publishSubscriptionStatus e c st plan s)) = invoiceRows s"
  by (auto simp: emit_event_def updateStatusByTenantId_def update_by_tenant_def publishSubscriptionStatus_def
      findByStripeCustomerId_def on_db_def and_then_def split: option.split sum.split)

lemma invoicePaid_upserts:
  assumes f: "find_sub_by_customer (invoice_customer i) s = Some r"
    and ok: "processEvent e (InvoicePaid i) s = (Inr (), s')"
  obtains row su where "upsertFromStripe e (paid_invoice_dto e i (sb_tenantId r)) s = (Inr row, su)"
    "invoiceRows s' = invoiceRows su"
proof -
  have up: "db_fault e SubFind = None"
    using ok by (auto simp: handleInvoicePaid_def findByStripeCustomerId_def on_db_def split: option.splits)
  obtain res su where u: "upsertFromStripe e (paid_invoice_dto e i (sb_tenantId r)) s = (res, su)" by fastforce
  show thesis
  proof (cases res)
    case (Inl x)
    then show thesis using ok f up u by (simp add: handleInvoicePaid_def findByStripeCustomerId_def)
  next
    case (Inr row)
    have "invoiceRows (snd (processEvent e (InvoicePaid i) s)) = invoiceRows su"
      using f up u Inr
      by (simp add: handleInvoicePaid_def findByStripeCustomerId_def)
        (intro and_then_preserves [where Q = "\<lambda>s. invoiceRows s = invoiceRows su"];
         simp add: invoices_unchanged and_then_preserves [where Q = "\<lambda>s. invoiceRows s = invoiceRows su"])
    then show thesis using that u Inr ok by simp
  qed
qed

lemma invoicePaid_unknown_customer:
  "find_sub_by_customer (invoice_customer i) s = None \<Longrightarrow> snd (processEvent e (InvoicePaid i) s) = s"
  by (simp add: handleInvoicePaid_def findByStripeCustomerId_def on_db_def split: option.split)

text \<open>C26: revenue counts a Stripe invoice once. Handling a payment of a known customer moves the total
  revenue by the paid amount less what the invoice was counted with before, and handling the same
  invoice again, in a later event, adds neither revenue nor a row.\<close>

theorem invoice_counted_once:
  assumes wf: "be_wf s" and known: "find_sub_by_customer (invoice_customer i) s = Some r"
    and first: "processEvent e1 (InvoicePaid i) s = (Inr (), s1)"
    and again: "processEvent e2 (InvoicePaid i) s1 = (Inr (), s2)"
  shows "getTotalRevenue s1 = getTotalRevenue s - paid_on (si_id i) s + of_int (si_amount_paid i) / 100 \<and>
    getTotalRevenue s2 = getTotalRevenue s1 \<and> length (invoiceRows s2) = length (invoiceRows s1)"
proof -
  have wf1: "be_wf s1" using wf_processEvent [OF wf, of e1 "InvoicePaid i"] first by simp
  have wf2: "be_wf s2" using wf_processEvent [OF wf1, of e2 "InvoicePaid i"] again by simp
  have dto: "ci_stripeInvoiceId (paid_invoice_dto e i t) = si_id i"
    "ci_amountPaid (paid_invoice_dto e i t) = of_int (si_amount_paid i) / 100" for e t
    by (simp_all add: paid_invoice_dto_def)
  obtain row su where u: "upsertFromStripe e1 (paid_invoice_dto e1 i (sb_tenantId r)) s = (Inr row, su)"
    "invoiceRows s1 = invoiceRows su" using invoicePaid_upserts [OF known first] .
  note a = upsert_revenue [OF wf u(1), unfolded dto]
  have one: "getTotalRevenue s1 = getTotalRevenue s - paid_on (si_id i) s + of_int (si_amount_paid i) / 100"
    "paid_on (si_id i) s1 = of_int (si_amount_paid i) / 100" "find_invoice (si_id i) s1 \<noteq> None"
    using a u(2) by (simp_all add: revenue_all [OF wf] revenue_all [OF wf1] paid_on_def)
  show ?thesis
  proof (cases "find_sub_by_customer (invoice_customer i) s1")
    case None
    from invoicePaid_unknown_customer [OF this, of e2] again one show ?thesis by simp
  next
    case (Some r1)
    obtain row su2 where u2: "upsertFromStripe e2 (paid_invoice_dto e2 i (sb_tenantId r1)) s1 = (Inr row, su2)"
      "invoiceRows s2 = invoiceRows su2" using invoicePaid_upserts [OF Some again] .
    note b = upsert_revenue [OF wf1 u2(1), unfolded dto]
    show ?thesis using one b(1,3) u2(2) by (simp add: revenue_all [OF wf1] revenue_all [OF wf2])
  qed
qed

subsection \<open>Provisioning\<close>

text \<open>Stripe answers and the database accepts the new subscription.\<close>

definition provision_accepted :: "be_env \<Rightarrow> tenantProvisioned \<Rightarrow> string \<Rightarrow> be_state \<Rightarrow> bool" where
  "provision_accepted e msg c s \<longleftrightarrow>
     customers_create e (tp_adminEmail msg) (tp_slug msg) (tp_tenantId msg) = Inr c \<and>
     be_isUUID e (tp_tenantId msg) \<and> db_fault e SubFind = None \<and> db_fault e SubWrite = None \<and>
     fits 100 c \<and> fits 50 (tp_plan msg) \<and> newSubscriptionId e \<notin> sb_id ` set (subRows s)"

definition synced_msg :: "uuid \<Rightarrow> string \<Rightarrow> bus_msg" where
  "synced_msg t c = \<lparr>exchange = ''chassis.tenants'', routingKey = ''billing.synced'',
     payload = JObj [(''tenantId'', JStr t), (''stripeCustomerId'', JStr c)]\<rparr>"

lemma provision_again:
  assumes "find_sub (tp_tenantId msg) s \<noteq> None"
  shows "onTenantProvisioned e msg s =
    (case customers_create e (tp_adminEmail msg) (tp_slug msg) (tp_tenantId msg) of
       Inl x \<Rightarrow> s
     | Inr c \<Rightarrow> s\<lparr>stripeCustomers := stripeCustomers s @ [(c, tp_tenantId msg)]\<rparr>)"
proof (cases rule: provisionSubscription_cases [of e msg s])
  case (created c r)
  then show ?thesis using assms by (auto simp: find_None_iff)
qed (simp_all add: onTenantProvisioned_def)

lemma provision_first:
  assumes none: "find_sub (tp_tenantId msg) s = None" and acc: "provision_accepted e msg c s"
  obtains r where "onTenantProvisioned e msg s = s\<lparr>subRows := subRows s @ [r],
      be_bus := publish ''chassis.tenants'' ''billing.synced''
        (JObj [(''tenantId'', JStr (tp_tenantId msg)), (''stripeCustomerId'', JStr c)]) (be_bus s),
      stripeCustomers := stripeCustomers s @ [(c, tp_tenantId msg)]\<rparr>"
    "sb_tenantId r = tp_tenantId msg" "sb_stripeCustomerId r = c" "sb_planCode r = tp_plan msg"
    "sb_status r = (if tp_plan msg = ''free'' then ''active'' else ''trialing'')"
proof (cases rule: provisionSubscription_cases [of e msg s])
  case (failed x c')
  have "fits 30 (if tp_plan msg = ''free'' then ''active'' else ''trialing'')" by (simp add: fits_def)
  moreover have "\<forall>x \<in> set (subRows s). sb_id x \<noteq> newSubscriptionId e \<and> sb_tenantId x \<noteq> tp_tenantId msg"
    using none acc by (force simp: provision_accepted_def find_None_iff)
  ultimately have "\<not> isl (fst (provisionSubscription e msg s))"
    using none acc
    by (simp add: provisionSubscription_def createCustomer_def provision_accepted_def subs_create_def find_by_tenant_def
        insert_subscription_def subscription_fits_def emit_event_def)
  with failed show ?thesis by simp
next
  case (refused x)
  with acc show ?thesis by (simp add: provision_accepted_def)
next
  case (created c' r)
  moreover from this acc have "c' = c" by (simp add: provision_accepted_def)
  ultimately show ?thesis using that by (simp add: onTenantProvisioned_def)
qed

text \<open>C27: a provisioned tenant gets one subscription. When Stripe and the database accept it, the first
  message creates a customer at Stripe, stores a subscription of the tenant's plan, active on the free
  plan and trialing on any other, and announces the customer. A repeated message for the tenant stores,
  changes and announces nothing, whatever else it says; but it creates one more customer for the tenant
  at Stripe each time Stripe accepts it, since the customer is created before the subscription is
  looked up.\<close>

theorem tenant_provisioned_once:
  assumes "find_sub (tp_tenantId msg) s = None" "provision_accepted e msg c s" "bus_up (be_bus s)"
    and "tp_tenantId msg' = tp_tenantId msg"
  shows "\<exists>r s'. onTenantProvisioned e msg s = s' \<and> subRows s' = subRows s @ [r] \<and>
    sb_tenantId r = tp_tenantId msg \<and> sb_stripeCustomerId r = c \<and> sb_planCode r = tp_plan msg \<and>
    sb_status r = (if tp_plan msg = ''free'' then ''active'' else ''trialing'') \<and>
    published (be_bus s') = published (be_bus s) @ [synced_msg (tp_tenantId msg) c] \<and>
    invoiceRows s' = invoiceRows s \<and> webhookRows s' = webhookRows s \<and>
    stripeCustomers s' = stripeCustomers s @ [(c, tp_tenantId msg)] \<and>
    onTenantProvisioned e' msg' s' =
      (case customers_create e' (tp_adminEmail msg') (tp_slug msg') (tp_tenantId msg) of
         Inl x \<Rightarrow> s'
       | Inr c' \<Rightarrow> s'\<lparr>stripeCustomers := stripeCustomers s' @ [(c', tp_tenantId msg)]\<rparr>)"
proof -
  obtain r where r: "onTenantProvisioned e msg s = s\<lparr>subRows := subRows s @ [r],
      be_bus := publish ''chassis.tenants'' ''billing.synced''
        (JObj [(''tenantId'', JStr (tp_tenantId msg)), (''stripeCustomerId'', JStr c)]) (be_bus s),
      stripeCustomers := stripeCustomers s @ [(c, tp_tenantId msg)]\<rparr>"
    "sb_tenantId r = tp_tenantId msg" "sb_stripeCustomerId r = c" "sb_planCode r = tp_plan msg"
    "sb_status r = (if tp_plan msg = ''free'' then ''active'' else ''trialing'')"
    by (rule provision_first [OF assms(1,2)])
  let ?s' = "onTenantProvisioned e msg s"
  have "find_sub (tp_tenantId msg') ?s' \<noteq> None"
    using r(2) assms(1,4) by (simp add: r(1) find_append)
  note again = provision_again [OF this, of e', unfolded assms(4)]
  show ?thesis
    by (intro exI [of _ r] exI [of _ ?s'] conjI again)
      (simp_all add: r pub.emit_up [OF assms(3)] synced_msg_def)
qed

text \<open>A repeated provisioning message still creates a second customer at Stripe, since the customer
  is created before the subscription is looked up. The \<^verbatim>\<open>customer.created\<close> event of that customer
  then binds the tenant's subscription to it, and from there on the payments of the first customer
  are no longer recognised: they store no invoice and change no status.\<close>

lemma second_customer_takes_over:
  assumes sub: "find_sub t s = Some r" and up: "\<forall>st. db_fault e st = None" "be_isUUID e t"
    and tenant: "t \<noteq> []" "sc_metadata_tenantId cust = Some t" "fits 100 (sc_id cust)"
    and only: "filter (\<lambda>x. sb_stripeCustomerId x = c) (subRows s) = [r]" "sc_id cust \<noteq> c"
    and inv: "invoice_customer i = c"
  shows "\<exists>s'. processEvent e (CustomerCreated cust) s = (Inr (), s') \<and>
    map_option sb_stripeCustomerId (find_sub t s') = Some (sc_id cust) \<and>
    processEvent e (InvoicePaid i) s' = (Inr (), s')"
proof -
  let ?s' = "s\<lparr>subRows := update_where (\<lambda>r. sb_tenantId r = t)
      (\<lambda>r. r\<lparr>sb_stripeCustomerId := sc_id cust, sb_updatedAt := be_now e\<rparr>) (subRows s)\<rparr>"
  have r: "sb_tenantId r = t" using find_SomeD [OF sub] by simp
  have step: "processEvent e (CustomerCreated cust) s = (Inr (), ?s')"
    using up tenant by (simp add: handleCustomerCreated_def linkStripeCustomerId_def update_by_tenant_def)
  have bound: "find_sub t ?s' = Some (r\<lparr>sb_stripeCustomerId := sc_id cust, sb_updatedAt := be_now e\<rparr>)"
    using sub r by (simp add: find_update_where [where key = sb_tenantId])
  have "x = r" if "x \<in> set (subRows s)" "sb_stripeCustomerId x = c" for x
  proof -
    from that have "x \<in> set (filter (\<lambda>x. sb_stripeCustomerId x = c) (subRows s))" by simp
    then show ?thesis unfolding only(1) by simp
  qed
  then have "find_sub_by_customer c ?s' = None"
    using r only(2) by (auto simp: find_None_iff set_update_where)
  then have "processEvent e (InvoicePaid i) ?s' = (Inr (), ?s')"
    using up inv by (simp add: handleInvoicePaid_def findByStripeCustomerId_def)
  with step bound show ?thesis by simp
qed

subsection \<open>Endpoints\<close>

lemma pageNum_show: "1 \<le> p \<Longrightarrow> pageNum (show_nat p) = int p"
  by (simp add: pageNum_def parseInt_or_def)

lemma limitNum_show: "1 \<le> k \<Longrightarrow> k \<le> 100 \<Longrightarrow> limitNum (show_nat k) = int k"
  by (simp add: limitNum_def parseInt_or_def)

text \<open>The rows of one page, and the number of pages, as the endpoint answers them.\<close>

definition page_rows :: "be_env \<Rightarrow> jwtPayload \<Rightarrow> nat \<Rightarrow> be_state \<Rightarrow> nat \<Rightarrow> invoice list" where
  "page_rows e u k s p =
     (case fst (listInvoices e u (show_nat p) (show_nat k) s) of
        Inl _ \<Rightarrow> [] | Inr a \<Rightarrow> coalesce (ar_data a) [])"

definition page_count :: "be_env \<Rightarrow> jwtPayload \<Rightarrow> nat \<Rightarrow> be_state \<Rightarrow> nat" where
  "page_count e u k s =
     (case fst (listInvoices e u (show_nat 1) (show_nat k) s) of
        Inl _ \<Rightarrow> 0 | Inr a \<Rightarrow> (case ar_meta a of None \<Rightarrow> 0 | Some m \<Rightarrow> nat (pm_totalPages m)))"

text \<open>C28: the invoice pages of a token's tenant, from the first to the last the answer announces, list
  every invoice of that tenant exactly once, newest first, and no invoice of another tenant.\<close>

theorem invoice_pages_partition:
  assumes "jp_tenantId u = Some t" "t \<noteq> []" "be_isUUID e t" "db_fault e InvFind = None" "1 \<le> k" "k \<le> 100"
  shows "concat (map (page_rows e u k s) [1..<Suc (page_count e u k s)]) = tenant_invoices t s"
proof -
  have rows: "page_rows e u k s p = page_slice (int p) (int k) (tenant_invoices t s)" if "1 \<le> p" for p
    using assms that
    by (simp add: page_rows_def listInvoices_def with_tenant_def invoices_findByTenantId_def pageNum_show
        limitNum_show api_paginated_def)
  have count: "page_count e u k s =
      nat \<lceil>rat_of_int (int (length (tenant_invoices t s))) / rat_of_int (int k)\<rceil>"
    using assms
    by (simp add: page_count_def listInvoices_def with_tenant_def invoices_findByTenantId_def pageNum_show
        limitNum_show api_paginated_def)
  have eq: "map (page_rows e u k s) [1..<Suc n] = map (\<lambda>p. page_slice (int p) (int k) (tenant_invoices t s)) [1..<Suc n]" for n
    by (rule map_cong [OF refl]) (auto simp: rows)
  have "0 < k" using assms(5) by simp
  from pages_partition [OF this, of "tenant_invoices t s"] show ?thesis unfolding count eq .
qed

end
