(* ===== verification/Http_Routes.thy ===== *)
theory Http_Routes
  imports Dto_Validation Billing_Payments
begin

text \<open>
  The HTTP surface of the three services: each route with its guards, the validation of its body and
  its handler, in the order NestJS runs them (guards, pipes, handler). Passport's extraction and
  verification of the bearer token is third-party code and a parameter; what the services do with its
  outcome (\<^verbatim>\<open>JwtAuthGuard.handleRequest\<close>, \<^verbatim>\<open>JwtStrategy.validate\<close>) is not.

  Route parameters that go through \<^verbatim>\<open>ParseUUIDPipe\<close> and the body are converted before the handler
  runs; when both are refused the model reports the body.
\<close>

subsection \<open>Guards and pipes\<close>

text \<open>The outcome of passport-jwt for the headers of a request: an error or a verified payload.\<close>

type_synonym passport = "headers \<Rightarrow> exn option \<times> jwtPayload option"

definition tm_JwtStrategy_validate :: "jwtPayload \<Rightarrow> jwtPayload" where
  "tm_JwtStrategy_validate token = token"

definition be_JwtStrategy_validate :: "jwtPayload \<Rightarrow> jwtPayload" where
  "be_JwtStrategy_validate token = token"

definition tm_JwtAuthGuard :: "passport \<Rightarrow> headers \<Rightarrow> jwtPayload result" where
  "tm_JwtAuthGuard verify h =
     (case verify h of (err, user) \<Rightarrow> handleRequest err (map_option tm_JwtStrategy_validate user))"

definition be_JwtAuthGuard :: "passport \<Rightarrow> headers \<Rightarrow> jwtPayload result" where
  "be_JwtAuthGuard verify h =
     (case verify h of (err, user) \<Rightarrow> handleRequest err (map_option be_JwtStrategy_validate user))"

text \<open>The identity service also looks the account up; an exception of \<^verbatim>\<open>validate\<close> is the error.\<close>

definition id_JwtAuthGuard :: "passport \<Rightarrow> headers \<Rightarrow> id_state \<Rightarrow> jwtPayload result" where
  "id_JwtAuthGuard verify h s =
     (case verify h of
        (None, Some token) \<Rightarrow>
          (case JwtStrategy_validate token s of
             Inl x \<Rightarrow> handleRequest (Some x) None
           | Inr u \<Rightarrow> handleRequest None (Some u))
      | (err, _) \<Rightarrow> handleRequest err None)"

definition behind :: "'u result \<Rightarrow> ('u \<Rightarrow> 's \<Rightarrow> 'a result \<times> 's) \<Rightarrow> 's \<Rightarrow> 'a result \<times> 's" where
  "behind guard f s = (case guard of Inl x \<Rightarrow> (Inl x, s) | Inr u \<Rightarrow> f u s)"

text \<open>
  The pipe, then the handler on the body read as its record. A body the pipe accepts always reads; if
  it did not, the handler would fail on an undefined property.
\<close>

definition validated ::
  "validation \<Rightarrow> dtoClass \<Rightarrow> body \<Rightarrow> 'd option \<Rightarrow> ('d \<Rightarrow> 's \<Rightarrow> 'a result \<times> 's) \<Rightarrow> 's \<Rightarrow> 'a result \<times> 's" where
  "validated v cls x dto f s =
     (case vp_validate v cls x of
        Some err \<Rightarrow> (Inl err, s)
      | None \<Rightarrow>
          (case dto of
             None \<Rightarrow> (Inl (JsError ''Cannot read properties of undefined''), s)
           | Some d \<Rightarrow> f d s))"

subsection \<open>Tenant manager\<close>

datatype tenants_route =
    PostTenants body
  | GetTenants string string
  | GetTenant string
  | PatchTenant string body
  | PostSuspend string body
  | PostActivate string
  | DeleteTenant string

datatype features_route =
    GetFeatures
  | GetTenantFeatures string
  | PutTenantFeature string string body

datatype plans_route = GetPlans | GetPlan string

datatype tm_reply =
    Tenant_reply "tenantResponse apiResponse"
  | Tenants_reply "tenantResponse list apiResponse"
  | Features_reply "featureDefinition list apiResponse"
  | Statuses_reply "featureWithStatus list apiResponse"
  | Toggle_reply "tenantFeature apiResponse"
  | Check_reply "json apiResponse"
  | Plans_reply "plan list apiResponse"
  | Plan_reply "plan apiResponse"
  | No_content

text \<open>A handler that only reads.\<close>

definition reads :: "'a result \<Rightarrow> 's \<Rightarrow> 'a result \<times> 's" where
  "reads r s = (r, s)"

definition updateRoute ::
  "validation \<Rightarrow> tm_env \<Rightarrow> jwtPayload \<Rightarrow> string \<Rightarrow> body \<Rightarrow> tm_state \<Rightarrow> (tm_reply result \<times> tm_state) option" where
  "updateRoute v e u i x s =
     (case vp_validate v UpdateTenantDto x of
        Some err \<Rightarrow> Some (Inl err, s)
      | None \<Rightarrow> map_option (respond Tenant_reply) (TenantsController_update e u i (updateTenantDto_of x) s))"

fun TenantsController_routes ::
  "validation \<Rightarrow> tm_env \<Rightarrow> jwtPayload \<Rightarrow> tenants_route \<Rightarrow> tm_state \<Rightarrow> (tm_reply result \<times> tm_state) option" where
  "TenantsController_routes v e u (PostTenants x) s =
     Some (validated v CreateTenantDto x (createTenantDto_of x)
       (\<lambda>dto s. respond Tenant_reply (TenantsController_create e u dto s)) s)"
| "TenantsController_routes v e u (GetTenants page limit) s =
     Some (reads (map_sum id Tenants_reply (TenantsController_findAll u page limit s)) s)"
| "TenantsController_routes v e u (GetTenant i) s =
     Some (reads (map_sum id Tenant_reply (TenantsController_findOne e u i s)) s)"
| "TenantsController_routes v e u (PatchTenant i x) s = updateRoute v e u i x s"
| "TenantsController_routes v e u (PostSuspend i x) s =
     Some (validated v SuspendTenantDto x (Some (present (body_text ''reason'' x) (property ''reason'' x)))
       (\<lambda>reason s. respond Tenant_reply (TenantsController_suspend e u i reason s)) s)"
| "TenantsController_routes v e u (PostActivate i) s = Some (respond Tenant_reply (TenantsController_activate e u i s))"
| "TenantsController_routes v e u (DeleteTenant i) s =
     map_option (respond (\<lambda>_. No_content)) (TenantsController_remove e u i s)"

fun FeaturesController_routes ::
  "validation \<Rightarrow> tm_env \<Rightarrow> jwtPayload \<Rightarrow> features_route \<Rightarrow> tm_state \<Rightarrow> (tm_reply result \<times> tm_state) option" where
  "FeaturesController_routes v e u GetFeatures s = Some (reads (Inr (Features_reply (FeaturesController_findAllDefinitions s))) s)"
| "FeaturesController_routes v e u (GetTenantFeatures i) s =
     Some (reads (map_sum id Statuses_reply (FeaturesController_findTenantFeatures e u i s)) s)"
| "FeaturesController_routes v e u (PutTenantFeature i code x) s =
     Some (validated v ToggleFeatureDto x (body_bool ''enabled'' x)
       (\<lambda>enabled s. respond Toggle_reply (FeaturesController_toggleFeature e u i code enabled s)) s)"

fun PlansController_routes ::
  "validation \<Rightarrow> tm_env \<Rightarrow> jwtPayload \<Rightarrow> plans_route \<Rightarrow> tm_state \<Rightarrow> (tm_reply result \<times> tm_state) option" where
  "PlansController_routes v e u GetPlans s = Some (reads (Inr (Plans_reply (PlansController_findAll s))) s)"
| "PlansController_routes v e u (GetPlan i) s = Some (reads (map_sum id Plan_reply (PlansController_findOne e i s)) s)"

text \<open>
  The routes for users are behind \<^verbatim>\<open>JwtAuthGuard\<close>, the check for services behind the service token.
\<close>

datatype tm_call =
    TenantsCall tenants_route
  | FeaturesCall features_route
  | PlansCall plans_route
  | FeatureCheck string string

definition for_user ::
  "jwtPayload result \<Rightarrow> (jwtPayload \<Rightarrow> (tm_reply result \<times> tm_state) option) \<Rightarrow> tm_state \<Rightarrow>
    (tm_reply result \<times> tm_state) option" where
  "for_user guard f s = (case guard of Inl x \<Rightarrow> Some (Inl x, s) | Inr u \<Rightarrow> f u)"

fun tm_serve ::
  "validation \<Rightarrow> passport \<Rightarrow> tm_env \<Rightarrow> headers \<Rightarrow> tm_call \<Rightarrow> tm_state \<Rightarrow> (tm_reply result \<times> tm_state) option" where
  "tm_serve v verify e h (TenantsCall rq) s =
     for_user (tm_JwtAuthGuard verify h) (\<lambda>u. TenantsController_routes v e u rq s) s"
| "tm_serve v verify e h (FeaturesCall rq) s =
     for_user (tm_JwtAuthGuard verify h) (\<lambda>u. FeaturesController_routes v e u rq s) s"
| "tm_serve v verify e h (PlansCall rq) s =
     for_user (tm_JwtAuthGuard verify h) (\<lambda>u. PlansController_routes v e u rq s) s"
| "tm_serve v verify e h (FeatureCheck i code) s =
     Some (respond Check_reply (FeaturesController_checkFeature e (h ''x-service-token'') i code s))"

subsection \<open>Identity service\<close>

text \<open>\<open>PostLogin\<close> carries the credentials passport-local finds in the body, if any.\<close>

datatype id_public =
    PostRegister body
  | PostLogin "(string \<times> string) option" body
  | PostRefresh body

datatype auth_route = PostLogout body | PostSwitchTenant body | GetMe

datatype users_route =
    GetUsers
  | GetUser string
  | PostUser body
  | PatchUser string body
  | DeleteUser string

datatype memberships_route =
    GetUserMemberships string
  | GetTenantMemberships string
  | PostMembership body
  | DeleteMembership string string

datatype roles_route =
    GetRoles "string option"
  | GetPermissions
  | GetRole string
  | PostAssignRole body

datatype impersonation_route = PostImpersonate body | DeleteImpersonate

datatype id_reply =
    Tokens_reply "tokenResponse apiResponse"
  | Access_reply "accessTokenResponse apiResponse"
  | User_reply "user apiResponse"
  | Users_reply "user list apiResponse"
  | Membership_reply "membership apiResponse"
  | Memberships_reply "membership list apiResponse"
  | Role_reply "role apiResponse"
  | Roles_reply "role list apiResponse"
  | Permissions_reply "permission_row list apiResponse"
  | Impersonation_reply "(string \<times> uuid) apiResponse"
  | Done_reply "unit apiResponse"

text \<open>The local guard runs ahead of the pipe, so a wrong password counts also for a body the pipe refuses.\<close>

definition loginRoute ::
  "validation \<Rightarrow> id_env \<Rightarrow> headers \<Rightarrow> string option \<Rightarrow> (string \<times> string) option \<Rightarrow> body \<Rightarrow> id_state \<Rightarrow>
    id_reply result \<times> id_state" where
  "loginRoute v e h addr credentials x s =
     (case credentials of
        None \<Rightarrow> (Inl (Unauthorized ''Unauthorized''), s)
      | Some (email, password) \<Rightarrow>
          (case vp_validate v LoginDto x of
             None \<Rightarrow> answer Tokens_reply (AuthController_login e email password h addr s)
           | Some err \<Rightarrow>
               (case LocalStrategy_validate e email password s of
                  (Inl y, s1) \<Rightarrow> (Inl y, s1)
                | (Inr _, s1) \<Rightarrow> (Inl err, s1))))"

text \<open>\<^verbatim>\<open>assignRole\<close> is behind the roles guard and its body behind the pipe.\<close>

definition assignRoute :: "validation \<Rightarrow> id_env \<Rightarrow> jwtPayload \<Rightarrow> body \<Rightarrow> id_state \<Rightarrow> id_reply result \<times> id_state" where
  "assignRoute v e u x s =
     behind (identity_RolesGuard (Some [''tenant_admin'', ''platform_admin'']) (Some u))
       (\<lambda>_. validated v AssignRoleDto x (createMembershipDto_of x)
         (\<lambda>dto s. answer Membership_reply
           (RolesController_assignRole e u (cm_userId dto) (cm_tenantId dto) (cm_roleId dto) s))) s"

fun AuthController_routes ::
  "validation \<Rightarrow> id_env \<Rightarrow> jwtPayload \<Rightarrow> auth_route \<Rightarrow> id_state \<Rightarrow> id_reply result \<times> id_state" where
  "AuthController_routes v e u (PostLogout x) s =
     validated v RefreshTokenDto x (body_text ''refreshToken'' x)
       (\<lambda>tok s. answer Done_reply (case AuthController_logout e tok s of (r, s') \<Rightarrow> (Inr r, s'))) s"
| "AuthController_routes v e u (PostSwitchTenant x) s =
     validated v SwitchTenantDto x (body_text ''tenantId'' x)
       (\<lambda>t s. reads (map_sum id Access_reply (AuthController_switchTenant e u t s)) s) s"
| "AuthController_routes v e u GetMe s = reads (map_sum id User_reply (AuthController_me u s)) s"

fun UsersController_routes ::
  "validation \<Rightarrow> id_env \<Rightarrow> jwtPayload \<Rightarrow> users_route \<Rightarrow> id_state \<Rightarrow> id_reply result \<times> id_state" where
  "UsersController_routes v e u GetUsers s = answer Users_reply (UsersController_findAll u s)"
| "UsersController_routes v e u (GetUser i) s = answer User_reply (UsersController_findOne e u i s)"
| "UsersController_routes v e u (PostUser x) s =
     guarded ''users'' ''write'' u (validated v CreateUserDto x (createUserDto_of x)
       (\<lambda>dto s. answer User_reply (UsersController_create e u dto s))) s"
| "UsersController_routes v e u (PatchUser i x) s =
     validated v UpdateUserDto x (Some (updateUserDto_of x))
       (\<lambda>dto s. answer User_reply (UsersController_update e u i dto s)) s"
| "UsersController_routes v e u (DeleteUser i) s = answer Done_reply (UsersController_remove e u i s)"

fun MembershipsController_routes ::
  "validation \<Rightarrow> id_env \<Rightarrow> jwtPayload \<Rightarrow> memberships_route \<Rightarrow> id_state \<Rightarrow> id_reply result \<times> id_state" where
  "MembershipsController_routes v e u (GetUserMemberships i) s = answer Memberships_reply (MembershipsController_findByUser e u i s)"
| "MembershipsController_routes v e u (GetTenantMemberships t) s = answer Memberships_reply (MembershipsController_findByTenant e u t s)"
| "MembershipsController_routes v e u (PostMembership x) s =
     guarded ''users'' ''manage'' u (validated v CreateMembershipDto x (createMembershipDto_of x)
       (\<lambda>dto s. answer Membership_reply (MembershipsController_create e u dto s))) s"
| "MembershipsController_routes v e u (DeleteMembership i t) s = answer Done_reply (MembershipsController_remove e u i t s)"

fun RolesController_routes ::
  "validation \<Rightarrow> id_env \<Rightarrow> jwtPayload \<Rightarrow> roles_route \<Rightarrow> id_state \<Rightarrow> id_reply result \<times> id_state" where
  "RolesController_routes v e u (GetRoles t) s = answer Roles_reply (RolesController_findAll e u t s)"
| "RolesController_routes v e u GetPermissions s = answer Permissions_reply (RolesController_findAllPermissions u s)"
| "RolesController_routes v e u (GetRole i) s = answer Role_reply (RolesController_findOne e u i s)"
| "RolesController_routes v e u (PostAssignRole x) s = assignRoute v e u x s"

fun ImpersonationController_routes ::
  "validation \<Rightarrow> id_env \<Rightarrow> jwtPayload \<Rightarrow> impersonation_route \<Rightarrow> id_state \<Rightarrow> id_reply result \<times> id_state" where
  "ImpersonationController_routes v e u (PostImpersonate x) s =
     validated v ImpersonateDto x (impersonateDto_of x)
       (\<lambda>dto s. answer Impersonation_reply (ImpersonationController_start e u dto s)) s"
| "ImpersonationController_routes v e u DeleteImpersonate s = answer Access_reply (ImpersonationController_end e u s)"

datatype id_request =
    AuthRoute auth_route
  | UsersRoute users_route
  | MembershipsRoute memberships_route
  | RolesRoute roles_route
  | ImpersonationRoute impersonation_route

fun id_serve_user ::
  "validation \<Rightarrow> id_env \<Rightarrow> jwtPayload \<Rightarrow> id_request \<Rightarrow> id_state \<Rightarrow> id_reply result \<times> id_state" where
  "id_serve_user v e u (AuthRoute rq) s = AuthController_routes v e u rq s"
| "id_serve_user v e u (UsersRoute rq) s = UsersController_routes v e u rq s"
| "id_serve_user v e u (MembershipsRoute rq) s = MembershipsController_routes v e u rq s"
| "id_serve_user v e u (RolesRoute rq) s = RolesController_routes v e u rq s"
| "id_serve_user v e u (ImpersonationRoute rq) s = ImpersonationController_routes v e u rq s"

fun AuthController_public_routes ::
  "validation \<Rightarrow> id_env \<Rightarrow> headers \<Rightarrow> string option \<Rightarrow> id_public \<Rightarrow> id_state \<Rightarrow> id_reply result \<times> id_state" where
  "AuthController_public_routes v e h addr (PostRegister x) s =
     validated v RegisterDto x (registerDto_of x) (\<lambda>dto s. answer Tokens_reply (AuthController_register e dto s)) s"
| "AuthController_public_routes v e h addr (PostLogin credentials x) s = loginRoute v e h addr credentials x s"
| "AuthController_public_routes v e h addr (PostRefresh x) s =
     validated v RefreshTokenDto x (body_text ''refreshToken'' x)
       (\<lambda>tok s. reads (map_sum id Access_reply (AuthController_refresh e tok s)) s) s"

text \<open>Registration, login and refresh are public; every other route is behind \<^verbatim>\<open>JwtAuthGuard\<close>.\<close>

datatype id_call = PublicCall id_public | PrivateCall id_request

fun id_serve ::
  "validation \<Rightarrow> passport \<Rightarrow> id_env \<Rightarrow> headers \<Rightarrow> string option \<Rightarrow> id_call \<Rightarrow> id_state \<Rightarrow>
    id_reply result \<times> id_state" where
  "id_serve v verify e h addr (PublicCall rq) s = AuthController_public_routes v e h addr rq s"
| "id_serve v verify e h addr (PrivateCall rq) s =
     behind (id_JwtAuthGuard verify h s) (\<lambda>u. id_serve_user v e u rq) s"

subsection \<open>Billing engine\<close>

text \<open>The bodies of this service are interfaces, which the pipe does not validate.\<close>

datatype subscriptions_route = GetSubscription | PostCheckout string | PostPortal

datatype be_request =
    SubscriptionsRoute subscriptions_route
  | GetInvoices string string
  | GetRevenue string

datatype be_reply =
    Subscription_reply "subscription apiResponse"
  | Url_reply "string apiResponse"
  | Invoices_reply "invoice list apiResponse"
  | Revenue_reply "revenueSummary apiResponse"
  | Webhook_reply webhookReply

fun SubscriptionsController_routes ::
  "be_env \<Rightarrow> jwtPayload \<Rightarrow> subscriptions_route \<Rightarrow> be_state \<Rightarrow> be_reply result \<times> be_state" where
  "SubscriptionsController_routes e u GetSubscription s = respond Subscription_reply (getSubscription e u s)"
| "SubscriptionsController_routes e u (PostCheckout priceId) s = respond Url_reply (createCheckout e u priceId s)"
| "SubscriptionsController_routes e u PostPortal s = respond Url_reply (createPortal e u s)"

fun be_serve_user :: "be_env \<Rightarrow> jwtPayload \<Rightarrow> be_request \<Rightarrow> be_state \<Rightarrow> be_reply result \<times> be_state" where
  "be_serve_user e u (SubscriptionsRoute rq) s = SubscriptionsController_routes e u rq s"
| "be_serve_user e u (GetInvoices page limit) s = respond Invoices_reply (listInvoices e u page limit s)"
| "be_serve_user e u (GetRevenue p) s = reads (map_sum id Revenue_reply (getRevenue e u p s)) s"

text \<open>The webhook has no guard; it is authenticated by its signature.\<close>

datatype be_call = BillingCall be_request | StripeWebhook string

fun be_serve :: "passport \<Rightarrow> be_env \<Rightarrow> headers \<Rightarrow> be_call \<Rightarrow> be_state \<Rightarrow> be_reply result \<times> be_state" where
  "be_serve verify e h (BillingCall rq) s = behind (be_JwtAuthGuard verify h) (\<lambda>u. be_serve_user e u rq) s"
| "be_serve verify e h (StripeWebhook rawBody) s =
     respond Webhook_reply (handleWebhook e rawBody (h ''stripe-signature'') s)"

end
