(* ===== verification/Http_Theorems.thy ===== *)
theory Http_Theorems
  imports Http_Routes
begin

text \<open>
  What the HTTP surface guarantees: a caller without a valid token or signature changes nothing; no
  request makes anybody a platform admin; the texts of accepted bodies fit the columns they are
  stored in.
\<close>

subsection \<open>Authentication\<close>

lemma behind_keeps: "P s \<Longrightarrow> (\<And>u. g = Inr u \<Longrightarrow> P (snd (f u s))) \<Longrightarrow> P (snd (behind g f s))"
  by (simp add: behind_def split: sum.split)

lemma validated_keeps:
  "P s \<Longrightarrow> (\<And>d. vp_accepts v cls x \<Longrightarrow> dto = Some d \<Longrightarrow> P (snd (f d s))) \<Longrightarrow> P (snd (validated v cls x dto f s))"
  by (simp add: validated_def split: option.split)

lemma snd_reads [simp]: "snd (reads r s) = s"
  by (simp add: reads_def)

text \<open>Passport hands over no user: there is no token, or it is expired or not signed by the service.\<close>

definition anonymous :: "passport \<Rightarrow> headers \<Rightarrow> bool" where
  "anonymous verify h \<longleftrightarrow> fst (verify h) \<noteq> None \<or> snd (verify h) = None"

lemma anonymous_refused:
  assumes "anonymous verify h"
  shows "\<exists>x. tm_JwtAuthGuard verify h = Inl x" "\<exists>x. be_JwtAuthGuard verify h = Inl x"
    "\<exists>x. id_JwtAuthGuard verify h s = Inl x"
  using assms
  by (auto simp: anonymous_def tm_JwtAuthGuard_def be_JwtAuthGuard_def id_JwtAuthGuard_def handleRequest_def
      split: prod.split option.split)

text \<open>C19: without a verified token, without the service token and without a valid Stripe signature a
  request changes the state of no service: the routes of the tenant manager and every route of the
  identity service behind the guard answer an error, and the billing engine refuses the webhook.\<close>

theorem anonymous_changes_nothing:
  assumes "anonymous verify h"
    and "\<exists>x. internalServiceGuard te (h ''x-service-token'') = Inl x"
    and "\<And>b. constructWebhookEvent be b (h ''stripe-signature'') (coalesce (webhookSecret be) []) = None"
  shows "(\<exists>x. tm_serve v verify te h tc ts = Some (Inl x, ts)) \<and>
    (\<exists>x. id_serve v verify ie h addr (PrivateCall rq) s = (Inl x, s)) \<and>
    snd (be_serve verify be h bc bs) = bs \<and>
    (\<forall>q. bc = BillingCall q \<longrightarrow> (\<exists>x. fst (be_serve verify be h bc bs) = Inl x)) \<and>
    (\<forall>b. bc = StripeWebhook b \<longrightarrow> fst (be_serve verify be h bc bs) = Inr (Webhook_reply SignatureRefused))"
proof -
  obtain x y z where g: "tm_JwtAuthGuard verify h = Inl x" "be_JwtAuthGuard verify h = Inl y"
      "id_JwtAuthGuard verify h s = Inl z"
    using anonymous_refused [OF assms(1)] by metis
  have "\<exists>x. tm_serve v verify te h tc ts = Some (Inl x, ts)"
    by (cases tc) (use g assms(2) in \<open>auto simp: FeaturesController_checkFeature_def respond_def for_user_def\<close>)
  moreover have "\<exists>x. id_serve v verify ie h addr (PrivateCall rq) s = (Inl x, s)"
    by (simp add: g behind_def)
  ultimately show ?thesis
    by (cases bc) (use g assms(3) in \<open>auto simp: behind_def handleWebhook_def\<close>)
qed

text \<open>A deactivated account is refused on every guarded route of the identity service, whatever
  its token still says.\<close>

lemma deactivated_refused:
  assumes "verify h = (None, Some token)" "\<And>u. u \<in> set (userRows s) \<Longrightarrow> u_id u = jp_sub token \<Longrightarrow> \<not> u_isActive u"
  shows "id_serve v verify e h addr (PrivateCall rq) s =
    (Inl (Unauthorized ''User not found or has been deactivated''), s)"
proof -
  have "find (\<lambda>u. u_id u = jp_sub token \<and> u_isActive u) (userRows s) = None"
    using assms(2) by (auto simp: find_None_iff)
  then show ?thesis
    by (simp add: assms(1) behind_def id_JwtAuthGuard_def JwtStrategy_validate_def handleRequest_def)
qed

subsection \<open>Operations that keep the account rows\<close>

lemma memberships_create_users: "userRows (snd (memberships_create e dto s)) = userRows s"
proof -
  have "userRows s1 = userRows s" if "store_membership e dto st m s = Inr (saved, s1)" for st m saved s1
    using that by (auto simp: store_membership_def Let_def insert_membership_def map_sum_def save_membership_def
        split: option.splits sum.splits if_splits)
  then show ?thesis
    by (auto simp: memberships_create_def Let_def split: sum.split option.split prod.split)
qed

lemma memberships_remove_users: "userRows (snd (memberships_remove e i t s)) = userRows s"
  by (auto simp: memberships_remove_def split: option.split)

lemma assignRole_users: "userRows (snd (RolesController_assignRole e u i t r s)) = userRows s"
  using memberships_create_users memberships_remove_users [of e i t s]
  by (auto simp: RolesController_assignRole_def Let_def split: sum.split option.split prod.split)

lemma blacklist_users: "userRows (blacklist e h x s) = userRows s"
  by (simp add: blacklist_def Let_def)

lemma logout_users: "userRows (logout e tok s) = userRows s"
  by (simp add: logout_def Let_def blacklist_users split: option.split)

lemma LocalStrategy_users: "userRows (snd (LocalStrategy_validate e m p s)) = userRows s"
  using LocalStrategy_frame [OF prod.collapse [symmetric], of e m p s] by auto

lemma impersonation_users:
  "userRows (snd (startImpersonation e u dto s)) = userRows s"
  "userRows (snd (endImpersonation e u s)) = userRows s"
  using startImpersonation_frame(1) [OF prod.collapse [symmetric]]
    endImpersonation_frame [OF prod.collapse [symmetric], of e u s] by auto

lemmas account_frames = memberships_create_users memberships_remove_users assignRole_users logout_users
  LocalStrategy_users impersonation_users

subsection \<open>Account rows\<close>

text \<open>
  A property of single account rows that the stamps of the login and of \<^verbatim>\<open>@UpdateDateColumn\<close>, a
  deactivation, an accepted change of the profile and an accepted new account all respect.
\<close>

locale account_rows =
  fixes bcrypt :: "string \<Rightarrow> string" and P :: "user \<Rightarrow> bool"
  assumes new_row: "user_fits u \<Longrightarrow> \<not> u_isPlatformAdmin u \<Longrightarrow> 2 \<le> length (u_displayName u) \<Longrightarrow>
      u_passwordHash u = bcrypt pw \<Longrightarrow> 8 \<le> length pw \<Longrightarrow> passwordPattern pw \<Longrightarrow> P u"
    and stamped: "P u \<Longrightarrow> P (u\<lparr>u_updatedAt := n\<rparr>)"
    and logged_in: "P u \<Longrightarrow> P (u\<lparr>u_lastLoginAt := l, u_updatedAt := n\<rparr>)"
    and deactivated: "P u \<Longrightarrow> P (u\<lparr>u_isActive := False\<rparr>)"
    and patched: "P u \<Longrightarrow> d = u_displayName u \<or> fits 100 d \<and> 2 \<le> length d \<Longrightarrow> p = u_phone u \<or> fits_null 20 p \<Longrightarrow>
      a = u_avatarUrl u \<or> fits_null 500 a \<Longrightarrow>
      P (u\<lparr>u_displayName := d, u_phone := p, u_avatarUrl := a, u_isActive := x, u_emailVerified := y\<rparr>)"
begin

definition holds :: "id_state \<Rightarrow> bool" where
  "holds s \<longleftrightarrow> (\<forall>u \<in> set (userRows s). P u)"

lemma holds_same: "userRows s' = userRows s \<Longrightarrow> holds s' = holds s"
  by (simp add: holds_def)

lemmas frames = account_frames [THEN holds_same]

lemma holds_save: "holds s \<Longrightarrow> P u \<Longrightarrow> holds (snd (save_user n u s))"
  using stamped [of u n] by (auto simp: holds_def save_user_def Let_def dest!: in_save_row)

lemma holds_found: "holds s \<Longrightarrow> users_findById i s = Inr u \<Longrightarrow> P u"
  by (auto simp: holds_def users_findById_def split: option.splits dest: find_SomeD)

lemma holds_create:
  assumes "holds s" "hashSync e = bcrypt" "coalesce (cu_isPlatformAdmin dto) False = False"
    "8 \<le> length (cu_password dto)" "passwordPattern (cu_password dto)" "2 \<le> length (cu_displayName dto)"
  shows "holds (snd (users_create e dto s))"
proof (cases "users_create e dto s" rule: prod.exhaust)
  case (Pair r s')
  then show ?thesis
  proof (cases rule: users_create_cases)
    case (created u)
    have "s' = s\<lparr>userRows := userRows s @ [u]\<rparr>" "user_fits u"
      using created(2) by (auto simp: insert_user_def split: if_splits)
    moreover have "P u"
      by (rule new_row [of u "cu_password dto"]) (use calculation created assms(2-6) in auto)
    ultimately show ?thesis using assms(1) by (auto simp: Pair holds_def)
  qed (use assms Pair in simp)
qed

lemma holds_lastLogin: "holds s \<Longrightarrow> holds (updateLastLogin e i s)"
  using logged_in by (auto simp: holds_def updateLastLogin_def update_where_def)

lemma holds_login:
  assumes "holds s"
  shows "holds (snd (login e u ip d s))"
proof (cases "login e u ip d s")
  case (Pair r s')
  show ?thesis
  proof (cases r)
    case (Inl x)
    then have "s' = s"
      using Pair by (auto simp: login_def issueTokens_def Let_def split: sum.splits)
    then show ?thesis using assms Pair by simp
  next
    case (Inr a)
    then obtain s1 where s1: "insert_token e (login_row e (u_id u) ip d) s = Inr s1"
        "userRows s' = userRows (updateLastLogin e (u_id u) s1)"
      using login_result Pair by metis
    have "holds s1" using s1(1) assms by (auto simp: insert_token_def holds_def split: if_splits)
    then show ?thesis using holds_same [OF s1(2)] holds_lastLogin Pair by simp
  qed
qed

lemma holds_softDelete: "holds s \<Longrightarrow> holds (snd (users_softDelete e i s))"
  by (cases "users_findById i s")
    (auto simp: users_softDelete_def intro!: holds_save deactivated intro: holds_found)

lemma holds_update:
  assumes "holds s" "\<And>t. uu_displayName dto = Value t \<Longrightarrow> fits 100 t \<and> 2 \<le> length t"
    "\<And>t. uu_phone dto = Value t \<Longrightarrow> fits 20 t" "\<And>t. uu_avatarUrl dto = Value t \<Longrightarrow> fits 500 t"
  shows "holds (snd (users_update e i dto s))"
proof (cases "users_findById i s")
  case (Inr u)
  have "P (u\<lparr>u_displayName := (case uu_displayName dto of Value v \<Rightarrow> v | _ \<Rightarrow> u_displayName u),
       u_phone := (case uu_phone dto of Undefined \<Rightarrow> u_phone u | f \<Rightarrow> field_or_null f),
       u_avatarUrl := (case uu_avatarUrl dto of Undefined \<Rightarrow> u_avatarUrl u | f \<Rightarrow> field_or_null f),
       u_isActive := x, u_emailVerified := y\<rparr>)" for x y
    by (rule patched [OF holds_found [OF assms(1) Inr]]) (use assms(2-4) in \<open>auto split: field.splits\<close>)
  then show ?thesis
    using assms(1) by (auto simp: users_update_def Inr case_prod_beta Let_def intro!: holds_save)
qed (use assms in \<open>simp add: users_update_def\<close>)

lemma holds_register:
  assumes "holds s" "hashSync e = bcrypt" "8 \<le> length (rg_password dto)" "passwordPattern (rg_password dto)"
    "2 \<le> length (rg_displayName dto)"
  shows "holds (snd (register e dto s))"
  using holds_create [of s e "\<lparr>cu_email = rg_email dto, cu_password = rg_password dto, cu_displayName = rg_displayName dto,
      cu_phone = rg_phone dto, cu_isPlatformAdmin = None, cu_emailVerified = None\<rparr>"] holds_login assms
  by (auto simp: register_def split: prod.split sum.split)

lemma holds_loginRoute:
  assumes "holds s"
  shows "holds (snd (loginRoute v e h addr c x s))"
proof -
  have *: "holds (snd (LocalStrategy_validate e m p s))" for m p
    using assms holds_same [OF LocalStrategy_users] by blast
  have "holds (snd (AuthController_login e m p h addr s))" for m p
    using * [of m p] holds_login by (auto simp: AuthController_login_def Let_def split: prod.split sum.split)
  then show ?thesis
    using assms * by (auto simp: loginRoute_def split: option.split prod.split sum.split) (metis snd_conv)+
qed

lemma holds_public:
  assumes "pipe_documented v" "hashSync e = bcrypt" "holds s"
  shows "holds (snd (AuthController_public_routes v e h addr rq s))"
proof (cases rq)
  case (PostRegister x)
  have "holds (snd (register e dto s))" if "vp_accepts v RegisterDto x" "registerDto_of x = Some dto" for dto
    by (rule accepted_register [OF assms(1) that(1)]) (use that assms(2,3) in \<open>auto intro: holds_register\<close>)
  then show ?thesis
    using assms(3) by (auto simp: PostRegister AuthController_register_def intro!: validated_keeps [where P = holds])
qed (use assms(3) in \<open>auto intro!: validated_keeps [where P = holds] holds_loginRoute\<close>)

lemma holds_users:
  assumes "pipe_documented v" "hashSync e = bcrypt" "holds s"
  shows "holds (snd (UsersController_routes v e u rq s))"
proof (cases rq)
  case (PostUser x)
  have "holds (snd (users_create e dto s))" if "vp_accepts v CreateUserDto x" "createUserDto_of x = Some dto" for dto
    by (rule accepted_createUser [OF assms(1) that(1)]) (use that assms(2,3) in \<open>auto intro: holds_create\<close>)
  then show ?thesis
    using assms(3)
    by (auto simp: PostUser UsersController_create_def intro!: guarded_keeps [where P = holds] validated_keeps [where P = holds])
next
  case (PatchUser i x)
  have "holds (snd (users_update e i (updateUserDto_of x) s))" if "vp_accepts v UpdateUserDto x"
    by (rule holds_update [OF assms(3)]; erule accepted_updateUser [OF assms(1) that])
  then show ?thesis
    using assms(3)
    by (auto simp: PatchUser UsersController_update_def intro!: validated_keeps [where P = holds] with_uuid_keeps [where P = holds])
next
  case (DeleteUser i)
  then show ?thesis
    using assms(3) holds_softDelete
    by (auto simp: UsersController_remove_def intro!: guarded_keeps [where P = holds] with_uuid_keeps [where P = holds])
qed (use assms(3) in \<open>auto simp: UsersController_findAll_def UsersController_findOne_def
    intro!: guarded_keeps [where P = holds] with_uuid_keeps [where P = holds]\<close>)

lemmas keep_rules = guarded_keeps [where P = holds] with_uuid_keeps [where P = holds] validated_keeps [where P = holds]
  behind_keeps [where P = holds]

lemma holds_others:
  assumes "holds s"
  shows "holds (snd (AuthController_routes v e u ra s))" "holds (snd (MembershipsController_routes v e u rm s))"
    "holds (snd (RolesController_routes v e u rr s))" "holds (snd (ImpersonationController_routes v e u ri s))"
  subgoal by (cases ra) (use assms in \<open>auto simp: frames AuthController_logout_def intro!: keep_rules\<close>)
  subgoal by (cases rm) (use assms in \<open>auto simp: frames MembershipsController_findByUser_def
      MembershipsController_findByTenant_def MembershipsController_create_def MembershipsController_remove_def
      intro!: keep_rules\<close>)
  subgoal by (cases rr) (use assms in \<open>auto simp: frames assignRoute_def RolesController_findAll_def
      RolesController_findAllPermissions_def RolesController_findOne_def intro!: keep_rules\<close>)
  subgoal by (cases ri) (use assms in \<open>auto simp: frames ImpersonationController_start_def
      ImpersonationController_end_def intro!: keep_rules\<close>)
  done

lemma holds_user: "pipe_documented v \<Longrightarrow> hashSync e = bcrypt \<Longrightarrow> holds s \<Longrightarrow> holds (snd (id_serve_user v e u rq s))"
  by (cases rq) (simp_all add: holds_users holds_others)

lemma holds_serve:
  assumes "pipe_documented v" "hashSync e = bcrypt" "holds s"
  shows "holds (snd (id_serve v verify e h addr c s))"
  by (cases c) (use assms in \<open>auto intro!: behind_keeps [where P = holds] holds_public holds_user\<close>)

end

interpretation fitting: account_rows bcrypt user_fits for bcrypt
  by unfold_locales (auto simp: user_fits_def)

interpretation admins: account_rows bcrypt "\<lambda>u. u_isPlatformAdmin u \<longrightarrow> u_id u \<in> A" for bcrypt A
  by unfold_locales auto

text \<open>C20: no request to the identity service makes anybody a platform admin, whoever sends it: an account
  that is a platform admin afterwards was one before.\<close>

theorem no_privilege_escalation:
  assumes "pipe_documented v" and "id_serve v verify e h addr c s = (r, s')"
    and "u \<in> set (userRows s')" and "u_isPlatformAdmin u"
  shows "\<exists>u0 \<in> set (userRows s). u_id u0 = u_id u \<and> u_isPlatformAdmin u0"
proof -
  let ?A = "u_id ` {u \<in> set (userRows s). u_isPlatformAdmin u}"
  have "admins.holds ?A s" by (auto simp: admins.holds_def)
  from admins.holds_serve [OF assms(1) refl this, of verify e h addr c] assms(2-4)
  have "u_id u \<in> ?A" by (auto simp: admins.holds_def)
  then show ?thesis by auto
qed

text \<open>The account rows a request may leave behind, given the rows before it.\<close>

definition account_from :: "(string \<Rightarrow> string) \<Rightarrow> user set \<Rightarrow> user \<Rightarrow> bool" where
  "account_from bcrypt old u \<longleftrightarrow>
     (\<exists>u0 \<in> old. u_id u0 = u_id u \<and> u_email u0 = u_email u \<and> u_passwordHash u0 = u_passwordHash u \<and>
        u_isPlatformAdmin u0 = u_isPlatformAdmin u \<and> u_createdAt u0 = u_createdAt u \<and>
        (u_displayName u0 = u_displayName u \<or> 2 \<le> length (u_displayName u) \<and> length (u_displayName u) \<le> 100)) \<or>
     \<not> u_isPlatformAdmin u \<and> 2 \<le> length (u_displayName u) \<and> length (u_displayName u) \<le> 100 \<and>
     (\<exists>pw. u_passwordHash u = bcrypt pw \<and> 8 \<le> length pw \<and> passwordPattern pw)"

interpretation accounts: account_rows bcrypt "account_from bcrypt old" for bcrypt old
  by unfold_locales (auto simp: account_from_def user_fits_def fits_def)


subsection \<open>Tenant rows\<close>

definition tenants_fit :: "tm_state \<Rightarrow> bool" where
  "tenants_fit s \<longleftrightarrow> (\<forall>t \<in> set (tenants s). tenant_fits t)"

lemma tenants_fit_same: "tenants s' = tenants s \<Longrightarrow> tenants_fit s' = tenants_fit s"
  by (simp add: tenants_fit_def)

lemma tenants_fit_save: "tenants_fit s \<Longrightarrow> tenant_fits t \<Longrightarrow> tenants_fit (snd (save_tenant n t s))"
  by (auto simp: tenants_fit_def save_tenant_def Let_def tenant_fits_def dest!: in_save_row)

lemma tenants_fit_found: "tenants_fit s \<Longrightarrow> tenants_findById i s = Inr t \<Longrightarrow> tenant_fits t"
  by (auto simp: tenants_fit_def tenants_findById_def split: option.splits dest: find_SomeD)

lemma createTenant_fits:
  assumes "tenants_fit s"
  shows "tenants_fit (snd (createTenant e dto u s))"
proof (cases "createTenant e dto u s")
  case (Pair r s')
  then show ?thesis
  proof (cases rule: createTenant_cases)
    case (created t s1)
    from created(2) have "tenant_fits t"
      by (rule provision_cases) (auto simp: insert_tenant_def save_tenant_def Let_def tenant_fits_def split: if_splits)
    moreover have "tenants s' = tenants s @ [t]"
      by (simp add: created(3) provision_result(1) [OF created(2)])
    ultimately show ?thesis using assms Pair by (simp add: tenants_fit_def)
  qed (use assms Pair in simp)
qed

lemma changePlan_tenants:
  assumes "changePlan e i p t s = Some (r, s')"
  shows "tenants s' = tenants (snd (repriced e p t s))"
proof -
  obtain q s2 where rep: "replaceTenantFeatures e i (sync_codes e p s) i (snd (repriced e p t s)) = (q, s2)"
    by (rule prod.exhaust)
  have "tenants s' = tenants s2"
  proof (cases q)
    case (Inr u)
    with assms obtain s3 where "invalidateTenantFeatureCache e i s2 = Some s3" "tenants s' = tenants s3"
      by (auto simp: changePlan_replaced [OF rep])
    with invalidate_frame [OF this(1)] show ?thesis by auto
  qed (use assms in \<open>simp add: changePlan_replaced [OF rep]\<close>)
  then show ?thesis by (simp add: replaceTenantFeatures_frame(1) [OF rep])
qed

lemma patch_fits:
  assumes "tenant_fits t0" "patch_tenant dto t0 = Inr t"
    and "\<And>x. ut_name dto = Value x \<Longrightarrow> fits 200 x" "\<And>x. ut_adminEmail dto = Value x \<Longrightarrow> fits 320 x"
    "\<And>x. ut_phone dto = Value x \<Longrightarrow> fits 20 x" "\<And>x. ut_stripeCustomerId dto = Value x \<Longrightarrow> fits 100 x"
  shows "tenant_fits t"
proof -
  have val: "fits n (patch_val f old)" if "\<And>x. f = Value x \<Longrightarrow> fits n x" "fits n old" for n f old
    using that by (cases f) (simp_all add: patch_val_def)
  have opt: "fits_null n (patch_opt f old)" if "\<And>x. f = Value x \<Longrightarrow> fits n x" "fits_null n old" for n f old
    using that by (cases f) (simp_all add: patch_opt_def)
  have low: "fits 320 (toLowerCase x) = fits 320 x" for x by (simp add: fits_def toLowerCase_def)
  have "fits 320 (case ut_adminEmail dto of Value v \<Rightarrow> toLowerCase v | _ \<Rightarrow> t_adminEmail t0)"
    using assms(1,4) by (cases "ut_adminEmail dto") (simp_all add: tenant_fits_def low)
  then show ?thesis
    using assms(1,2) val [OF assms(3)] opt [OF assms(5)] opt [OF assms(6)]
    by (simp add: patch_tenant_def tenant_fits_def split: if_splits) auto
qed

lemma updateTenant_fits:
  assumes "tenants_fit s" "pipe_documented v" "vp_accepts v UpdateTenantDto x"
    and up: "updateTenant e i (updateTenantDto_of x) s = Some (r, s')"
  shows "tenants_fit s'"
proof (cases "tenants_findById i s")
  case (Inr t0)
  note texts = accepted_updateTenant [OF assms(2,3)]
  show ?thesis
  proof (cases "patch_tenant (updateTenantDto_of x) t0")
    case (Inr t)
    have t: "tenant_fits t"
      by (rule patch_fits [OF tenants_fit_found [OF assms(1) \<open>tenants_findById i s = Inr t0\<close>] Inr]) (use texts in auto)
    have plan: "tenants_fit s'" if "changePlan e i p t s = Some (r, s')" "fits 50 p" for p
    proof -
      have "tenants_fit (snd (repriced e p t s))"
        using t that(2) by (intro tenants_fit_save [OF assms(1)]) (simp add: tenant_fits_def)
      then show ?thesis using tenants_fit_same [OF changePlan_tenants [OF that(1)]] by simp
    qed
    have "tenants_fit (snd (save_tenant (tm_now e) t s))" by (rule tenants_fit_save [OF assms(1) t])
    with up plan texts(3) \<open>tenants_findById i s = Inr t0\<close> Inr show ?thesis
      by (auto simp: updateTenant_def Let_def case_prod_beta split: field.splits if_splits)
  qed (use up assms(1) Inr in \<open>simp add: updateTenant_def\<close>)
qed (use up assms(1) in \<open>simp add: updateTenant_def\<close>)

lemma lifecycle_fits:
  assumes "tenants_fit s"
  shows "tenants_fit (snd (suspendTenant e i why s))" "tenants_fit (snd (activateTenant e i s))"
    and "archiveTenant e i s = Some (r, s') \<Longrightarrow> tenants_fit s'"
proof -
  have save: "tenants_fit (snd (save_tenant n (t\<lparr>t_status := a, t_suspendedAt := b\<rparr>) s))"
      "tenants_fit (snd (save_tenant n (t\<lparr>t_status := a, t_cancelledAt := b\<rparr>) s))"
    if "tenants_findById i s = Inr t" for n t a b
    using tenants_fit_found [OF assms that] by (intro tenants_fit_save [OF assms]; simp add: tenant_fits_def)+
  show "tenants_fit (snd (suspendTenant e i why s))" "tenants_fit (snd (activateTenant e i s))"
    using assms save
    by (auto simp: suspendTenant_def activateTenant_def Let_def case_prod_beta tenants_fit_def split: sum.split)
  show "tenants_fit s'" if "archiveTenant e i s = Some (r, s')"
    using that assms save invalidate_frame
    by (fastforce simp: archiveTenant_def Let_def case_prod_beta tenants_fit_def split: sum.splits if_splits)
qed

lemma tenants_routes_fit:
  assumes "pipe_documented v" "tenants_fit s" "TenantsController_routes v e u rq s = Some (r, s')"
  shows "tenants_fit s'"
proof (cases rq)
  case (PostTenants x)
  have "tenants_fit (snd (TenantsController_create e u dto s))" for dto
    using assms(2) createTenant_fits by (simp add: TenantsController_create_def)
  then have "tenants_fit (snd (validated v CreateTenantDto x (createTenantDto_of x)
       (\<lambda>dto s. respond Tenant_reply (TenantsController_create e u dto s)) s))"
    using assms(2) by (intro validated_keeps [where P = tenants_fit]) simp_all
  then show ?thesis using assms(3) by (simp add: PostTenants)
next
  case (PatchTenant i x)
  have "tenants_fit s1" if "vp_accepts v UpdateTenantDto x"
      "TenantsController_update e u i (updateTenantDto_of x) s = Some (q, s1)" for q s1
    using that assms(1,2) updateTenant_fits [OF assms(2,1) that(1), of e i]
    by (auto simp: TenantsController_update_def respond_def split: if_splits)
  then show ?thesis
    using assms(2,3) by (auto simp: PatchTenant updateRoute_def respond_def split: option.splits)
next
  case (PostSuspend i x)
  have "tenants_fit (snd (TenantsController_suspend e u i why s))" for why
    using assms(2) lifecycle_fits(1) by (simp add: TenantsController_suspend_def)
  then have "tenants_fit (snd (validated v SuspendTenantDto x d
       (\<lambda>reason s. respond Tenant_reply (TenantsController_suspend e u i reason s)) s))" for d
    using assms(2) by (intro validated_keeps [where P = tenants_fit]) simp_all
  then show ?thesis using assms(3) by (simp add: PostSuspend) (metis snd_conv)
next
  case (PostActivate i)
  then show ?thesis
    using assms(2,3) lifecycle_fits(2) by (auto simp: TenantsController_activate_def respond_def split: if_splits)
next
  case (DeleteTenant i)
  then show ?thesis
    using assms(2,3) lifecycle_fits(3) [OF assms(2), of e i]
    by (auto simp: TenantsController_remove_def respond_def split: if_splits)
qed (use assms in \<open>auto simp: reads_def\<close>)

lemma features_routes_fit:
  assumes "tenants_fit s" "FeaturesController_routes v e u rq s = Some (r, s')"
  shows "tenants_fit s'"
proof (cases rq)
  case (PutTenantFeature i code x)
  have "tenants_fit (snd (FeaturesController_toggleFeature e u i code b s))" for b
    using assms(1) toggleFeature_frame(1) [OF prod.collapse [symmetric]]
    by (simp add: FeaturesController_toggleFeature_def tenants_fit_def)
  then have "tenants_fit (snd (validated v ToggleFeatureDto x (body_bool ''enabled'' x)
       (\<lambda>b s. respond Toggle_reply (FeaturesController_toggleFeature e u i code b s)) s))"
    using assms(1) by (intro validated_keeps [where P = tenants_fit]) simp_all
  then show ?thesis using assms(2) by (simp add: PutTenantFeature)
qed (use assms in \<open>auto simp: reads_def\<close>)

lemma plans_routes_fit: "tenants_fit s \<Longrightarrow> PlansController_routes v e u rq s = Some (r, s') \<Longrightarrow> tenants_fit s'"
  by (cases rq) (auto simp: reads_def)

text \<open>C37: whatever requests are served, the texts stored for accounts and tenants keep fitting their
  columns, so that no update of an accepted body is refused for its length.\<close>

theorem stored_texts_fit:
  assumes "pipe_documented v"
  shows "((\<forall>u \<in> set (userRows s). user_fits u) \<longrightarrow>
      (\<forall>u \<in> set (userRows (snd (id_serve v verify e h addr c s))). user_fits u)) \<and>
    ((\<forall>t \<in> set (tenants ts). tenant_fits t) \<longrightarrow> tm_serve v verify' te h' tc ts = Some (r, ts') \<longrightarrow>
      (\<forall>t \<in> set (tenants ts'). tenant_fits t))"
proof (rule conjI; intro impI)
  assume "\<forall>u \<in> set (userRows s). user_fits u"
  then show "\<forall>u \<in> set (userRows (snd (id_serve v verify e h addr c s))). user_fits u"
    using fitting.holds_serve [OF assms refl] by (simp add: fitting.holds_def)
next
  assume fit: "\<forall>t \<in> set (tenants ts). tenant_fits t" and sv: "tm_serve v verify' te h' tc ts = Some (r, ts')"
  have fit: "tenants_fit ts" using fit by (simp add: tenants_fit_def)
  have "tenants_fit ts'"
  proof (cases tc)
    case (FeatureCheck i code)
    with fit sv isFeatureEnabled_frame(1) [of te i code ts] show ?thesis
      by (auto simp: tenants_fit_def FeaturesController_checkFeature_def respond_def split: sum.splits if_splits prod.splits)
  qed (use fit sv tenants_routes_fit [OF assms fit] features_routes_fit [OF fit] plans_routes_fit [OF fit] in
      \<open>auto simp: for_user_def split: sum.splits\<close>)
  then show "\<forall>t \<in> set (tenants ts'). tenant_fits t" by (simp add: tenants_fit_def)
qed

text \<open>A body the pipe accepts has the type its handler reads it with: the required properties
  are texts, no property is undeclared, a password has the demanded shape, identifiers have the length
  of a UUID, and every text is at most as long as the column it goes to.\<close>

lemma accepted_bodies_typed:
  assumes "pipe_documented v"
  shows "(vp_accepts v RegisterDto x \<longrightarrow> (\<exists>dto. registerDto_of x = Some dto \<and> fits 320 (rg_email dto) \<and>
      fits 100 (rg_displayName dto) \<and> fits_null 20 (rg_phone dto) \<and> 8 \<le> length (rg_password dto) \<and>
      passwordPattern (rg_password dto))) \<and>
    (vp_accepts v CreateUserDto x \<longrightarrow> (\<exists>dto. createUserDto_of x = Some dto \<and> fits 320 (cu_email dto) \<and>
      fits 100 (cu_displayName dto) \<and> cu_isPlatformAdmin dto = None \<and> cu_emailVerified dto = None)) \<and>
    (vp_accepts v CreateTenantDto x \<longrightarrow> (\<exists>dto. createTenantDto_of x = Some dto \<and> ct_name dto \<noteq> [] \<and>
      fits 200 (ct_name dto) \<and> fits 320 (ct_adminEmail dto) \<and> fits_null 50 (ct_plan dto) \<and>
      fits_null 20 (ct_phone dto) \<and> fits_null 100 (ct_stripeCustomerId dto))) \<and>
    (vp_accepts v CreateMembershipDto x \<longrightarrow> (\<exists>dto. createMembershipDto_of x = Some dto \<and>
      length (cm_userId dto) = 36 \<and> length (cm_tenantId dto) = 36 \<and> length (cm_roleId dto) = 36)) \<and>
    (vp_accepts v ImpersonateDto x \<longrightarrow> (\<exists>dto. impersonateDto_of x = Some dto \<and>
      length (im_targetUserId dto) = 36 \<and> length (im_targetTenantId dto) = 36 \<and> 10 \<le> length (im_reason dto))) \<and>
    (vp_accepts v ToggleFeatureDto x \<longrightarrow> (\<exists>b. body_bool ''enabled'' x = Some b)) \<and>
    (vp_accepts v cls x \<longrightarrow> k \<notin> fst ` set cls \<longrightarrow> property k x = Undefined)"
  apply (intro conjI impI)
  subgoal by (rule accepted_register [OF assms]) auto
  subgoal by (rule accepted_createUser [OF assms]) auto
  subgoal by (rule accepted_createTenant [OF assms]) auto
  subgoal by (rule accepted_membership [OF assms]) auto
  subgoal by (rule accepted_impersonation [OF assms]) auto
  subgoal by (rule accepted_toggle [OF assms]) auto
  subgoal by (rule accepted_keys [OF assms])
  done

text \<open>The class admits names of 200 characters, but the slug is the slugified name and five more
  characters in a column of 100: a longer name is accepted, and provisioning then fails in the
  database without changing anything.\<close>

lemma long_name_refused_by_database:
  assumes "createTenantDto_of x = Some dto" and "vp_accepts v CreateTenantDto x" and "jp_isPlatformAdmin u"
    and "length (slugify e (ct_name dto)) > 95" and "length (uuidv4 e) \<ge> 4"
  shows "TenantsController_routes v e u (PostTenants x) s = Some (Inl (QueryFailed ''22001''), s)"
proof -
  have "\<not> tenant_fits (provisioningRow e dto p)" for p
    using assms(4,5) by (simp add: tenant_fits_def fits_def provisioningRow_def finalSlug_def)
  then have "provision e dto p plan i s = Inl (QueryFailed ''22001'')" for p plan i
    by (simp add: provision_def Let_def insert_tenant_def)
  then have "createTenant e dto i s = (Inl (QueryFailed ''22001''), s)" for i
    by (simp add: createTenant_def Let_def)
  then show ?thesis
    using assms(1-3) by (simp add: validated_def TenantsController_create_def respond_def)
qed

text \<open>A \<^verbatim>\<open>User-Agent\<close> header longer than its column makes the login of a correct password fail in the
  database, after the counter of failed attempts has been reset.\<close>

lemma long_user_agent_blocks_login:
  assumes "LocalStrategy_validate e m p s = (Inr u, s1)" "h ''user-agent'' = Some agent" "255 < length agent"
  shows "AuthController_login e m p h addr s = (Inl (QueryFailed ''22001''), s1)"
  using assms
  by (simp add: AuthController_login_def Let_def login_def issueTokens_def insert_token_def token_fits_def fits_def
      answer_def)

subsection \<open>Billing routes\<close>

lemma subs_findByTenantId_found:
  assumes "subs_findByTenantId e t s = (Inr r, s')"
  shows "s' = s" "r \<in> set (subRows s)" "sb_tenantId r = t"
  using assms
  by (auto simp: subs_findByTenantId_def find_by_tenant_def on_db_def and_then_def
      split: option.splits if_splits prod.splits sum.splits dest: find_SomeD)

lemma with_tenant_granted:
  assumes "with_tenant u f s = (Inr a, s')"
  obtains t where "jp_tenantId u = Some t" "t \<noteq> []" "f t s = (Inr a, s')"
  using assms by (cases "jp_tenantId u") (auto simp: with_tenant_def split: if_splits)

lemma with_permission_granted:
  assumes "with_permission p u f s = (Inr a, s')"
  shows "f s = (Inr a, s')" "jp_isPlatformAdmin u \<or> p \<in> set (coalesce (jp_permissions u) [])"
  using assms
  by (auto simp: with_permission_def billing_PermissionsGuard_def split: sum.splits if_splits)

lemma own_subscription:
  assumes "with_permission p u (with_tenant u (\<lambda>t s. and_then (subs_findByTenantId e t s) (k t))) s = (Inr a, s')"
  obtains r where "r \<in> set (subRows s)" "jp_tenantId u = Some (sb_tenantId r)" "k (sb_tenantId r) r s = (Inr a, s')"
    "jp_isPlatformAdmin u \<or> p \<in> set (coalesce (jp_permissions u) [])"
proof -
  note g = with_permission_granted [OF assms]
  obtain t where t: "jp_tenantId u = Some t" "and_then (subs_findByTenantId e t s) (k t) = (Inr a, s')"
    using with_tenant_granted [OF g(1)] by metis
  then obtain r s1 where r: "subs_findByTenantId e t s = (Inr r, s1)" "k t r s1 = (Inr a, s')"
    by (auto simp: and_then_def split: prod.splits sum.splits)
  from subs_findByTenantId_found [OF r(1)] show ?thesis using that t(1) r(2) g(2) by simp
qed

lemma own_invoices:
  assumes "listInvoices e u page limit s = (Inr x, s')"
  obtains t items where "jp_tenantId u = Some t" "s' = s" "ar_data x = Some items" "set items \<subseteq> set (tenant_invoices t s)"
proof -
  obtain t where t: "jp_tenantId u = Some t"
    "and_then (invoices_findByTenantId e t (pageNum page) (limitNum limit) s) (\<lambda>(items, n) s.
       (Inr (api_paginated items n (pageNum page) (limitNum limit)), s)) = (Inr x, s')"
    using with_tenant_granted [OF assms [unfolded listInvoices_def]] by metis
  then have "s' = s" "ar_data x = Some (page_slice (pageNum page) (limitNum limit) (tenant_invoices t s))"
    by (auto simp: and_then_def invoices_findByTenantId_def on_db_def api_paginated_def
        split: prod.splits sum.splits option.splits if_splits)
  then show ?thesis by (rule that [OF t(1)]) (rule set_page_slice)
qed

lemma respond_Inr: "respond f x = (Inr a, s') \<Longrightarrow> \<exists>y. x = (Inr y, s') \<and> a = f y"
  by (auto simp: respond_def map_sum_def prod_eq_iff split: sum.splits)

text \<open>C21: the user routes of the billing engine read and never write, and answer a caller only about
  the tenant of the caller's token: the subscription and every invoice returned belong to it, checkout
  and portal sessions are opened for the Stripe customer of its subscription and demand the permission,
  and the platform-wide revenue is answered to platform admins alone.\<close>

theorem billing_routes_confined:
  assumes "be_serve verify e h (BillingCall q) s = (Inr a, s')"
  shows "s' = s \<and> (\<exists>u. be_JwtAuthGuard verify h = Inr u \<and>
    (case a of
       Subscription_reply x \<Rightarrow> (\<exists>r. ar_data x = Some r \<and> r \<in> set (subRows s) \<and> jp_tenantId u = Some (sb_tenantId r)) \<and>
         (jp_isPlatformAdmin u \<or> ''billing:read'' \<in> set (coalesce (jp_permissions u) []))
     | Invoices_reply x \<Rightarrow> \<exists>items. ar_data x = Some items \<and>
         set items \<subseteq> {i \<in> set (invoiceRows s). jp_tenantId u = Some (iv_tenantId i)}
     | Url_reply x \<Rightarrow> (\<exists>url. ar_data x = Some url \<and> (\<exists>r \<in> set (subRows s). jp_tenantId u = Some (sb_tenantId r) \<and>
           ((\<exists>price. createCheckoutSession e (sb_stripeCustomerId r) (sb_tenantId r) price = Inr url) \<or>
            createCustomerPortalSession e (sb_stripeCustomerId r) = Inr url))) \<and>
         (jp_isPlatformAdmin u \<or> ''billing:manage'' \<in> set (coalesce (jp_permissions u) []))
     | Revenue_reply x \<Rightarrow> jp_isPlatformAdmin u
     | Webhook_reply x \<Rightarrow> False))"
proof -
  obtain u where u: "be_JwtAuthGuard verify h = Inr u" and sv: "be_serve_user e u q s = (Inr a, s')"
    using assms by (auto simp: behind_def split: sum.splits)
  show ?thesis
  proof (cases q)
    case (SubscriptionsRoute rq)
    show ?thesis
    proof (cases rq)
      case GetSubscription
      with sv SubscriptionsRoute obtain x where x: "getSubscription e u s = (Inr x, s')" "a = Subscription_reply x"
        by (auto dest!: respond_Inr)
      from x(1) [unfolded getSubscription_def] show ?thesis
        by (rule own_subscription) (use u in \<open>auto simp: x(2) api_ok_def\<close>)
    next
      case (PostCheckout price)
      with sv SubscriptionsRoute obtain x where x: "createCheckout e u price s = (Inr x, s')" "a = Url_reply x"
        by (auto dest!: respond_Inr)
      from x(1) [unfolded createCheckout_def] show ?thesis
        by (rule own_subscription) (use u in \<open>auto simp: x(2) api_ok_def split: sum.splits intro!: bexI\<close>)
    next
      case PostPortal
      with sv SubscriptionsRoute obtain x where x: "createPortal e u s = (Inr x, s')" "a = Url_reply x"
        by (auto dest!: respond_Inr)
      from x(1) [unfolded createPortal_def] show ?thesis
        by (rule own_subscription) (use u in \<open>auto simp: x(2) api_ok_def split: sum.splits intro!: bexI\<close>)
    qed
  next
    case (GetInvoices page limit)
    with sv obtain x where x: "listInvoices e u page limit s = (Inr x, s')" "a = Invoices_reply x"
      by (auto dest!: respond_Inr)
    obtain t items where t: "jp_tenantId u = Some t" "s' = s" "ar_data x = Some items" "set items \<subseteq> set (tenant_invoices t s)"
      by (rule own_invoices [OF x(1)])
    then show ?thesis using u by (auto simp: x(2) tenant_invoices_def)
  next
    case (GetRevenue p)
    then show ?thesis
      using sv u by (auto simp: reads_def getRevenue_def split: if_splits)
  qed
qed

end
