(* ===== verification/Token_Authority.thy ===== *)
theory Token_Authority
  imports Http_Theorems
begin

text \<open>
  The identity service as the authority of the other services. Every access token in a reply of the
  identity service is signed for claims it can answer for; the tenant manager and the billing engine
  never ask it again and act on the claims of a token passport accepts. The theorem of this theory is about the three services
  together: a user who is answered about a tenant got the token from the identity service, at a moment when its
  tables recorded a membership, an administrator, or an impersonation by one; a service shows the shared secret.
\<close>

subsection \<open>Tokens in replies\<close>

definition reply_data :: "('a \<Rightarrow> string) \<Rightarrow> 'a apiResponse \<Rightarrow> string list" where
  "reply_data f x = (case ar_data x of None \<Rightarrow> [] | Some d \<Rightarrow> [f d])"

text \<open>The access tokens of a reply; the other replies of the identity service hold none.\<close>

fun reply_tokens :: "id_reply result \<Rightarrow> string list" where
  "reply_tokens (Inr (Tokens_reply x)) = reply_data tok_accessToken x"
| "reply_tokens (Inr (Access_reply x)) = reply_data at_accessToken x"
| "reply_tokens (Inr (Impersonation_reply x)) = reply_data fst x"
| "reply_tokens _ = []"

lemma reply_data_simps [simp]:
  "reply_data f (api_ok d m) = [f d]" "reply_data f (api_created d) = [f d]"
  by (simp_all add: reply_data_def api_ok_def api_created_def)

subsection \<open>What the identity service answers for\<close>

text \<open>The claims of a token are warranted by the tables: a platform admin is one of \<open>A\<close>, and a tenant is
  named because the account has a membership in it or because one of \<open>A\<close> impersonates the account there.\<close>

definition warranted :: "uuid set \<Rightarrow> id_state \<Rightarrow> jwtClaims \<Rightarrow> bool" where
  "warranted A s c \<longleftrightarrow> (jp_isPlatformAdmin c \<longrightarrow> jp_sub c \<in> A) \<and>
     (\<forall>i. jp_tenantId c = Some i \<longrightarrow>
        (\<exists>m \<in> set (membershipRows s). m_userId m = jp_sub c \<and> m_tenantId m = i) \<or>
        (\<exists>x \<in> set (sessionRows s). is_targetUserId x = jp_sub c \<and> is_targetTenantId x = i \<and> is_adminUserId x \<in> A))"

definition sessions_by :: "uuid set \<Rightarrow> id_state \<Rightarrow> bool" where
  "sessions_by A s \<longleftrightarrow> (\<forall>x \<in> set (sessionRows s). is_adminUserId x \<in> A)"

definition signs :: "id_env \<Rightarrow> uuid set \<Rightarrow> id_state \<Rightarrow> string \<Rightarrow> bool" where
  "signs e A s tok \<longleftrightarrow> (\<exists>c exp. tok = jwt_sign e c exp \<and> warranted A s c)"

lemma warranted_rows:
  "membershipRows s' = membershipRows s \<Longrightarrow> sessionRows s' = sessionRows s \<Longrightarrow> warranted A s' c = warranted A s c"
  by (simp add: warranted_def)

lemma signs_rows:
  "membershipRows s' = membershipRows s \<Longrightarrow> sessionRows s' = sessionRows s \<Longrightarrow> signs e A s' tok = signs e A s tok"
  by (simp add: signs_def warranted_def)

text \<open>Every token for an account and one of its memberships is signed by the same two functions.\<close>

lemma warranted_account:
  assumes "u_isPlatformAdmin u \<longrightarrow> u_id u \<in> A"
    and "\<And>m. mo = Some m \<Longrightarrow> m \<in> set (membershipRows s) \<and> m_userId m = u_id u"
  shows "warranted A s (buildJwtPayload u mo s0)"
  using assms by (cases mo) (auto simp: warranted_def buildJwtPayload_def)

lemma signs_account:
  assumes "u_isPlatformAdmin u \<longrightarrow> u_id u \<in> A"
    and "\<And>m. mo = Some m \<Longrightarrow> m \<in> set (membershipRows s) \<and> m_userId m = u_id u"
  shows "signs e A s (signAccessToken e (buildJwtPayload u mo s0))"
  using warranted_account [OF assms] by (auto simp: signs_def signAccessToken_def)

lemma primary_row: "primaryMembership i s = Some m \<Longrightarrow> m \<in> set (membershipRows s) \<and> m_userId m = i"
  by (auto simp: primaryMembership_def memberships_findByUserId_def dest!: find_SomeD)

lemma signs_primary:
  assumes "u_isPlatformAdmin u \<longrightarrow> u_id u \<in> A"
  shows "signs e A s (signAccessToken e (buildJwtPayload u (primaryMembership (u_id u) s) s))"
  using assms by (rule signs_account) (rule primary_row)

subsection \<open>Tokens of the operations\<close>

text \<open>Registration and login.\<close>

lemma login_signs:
  assumes "login e u ip d s = (Inr r, s')" "u_isPlatformAdmin u \<longrightarrow> u_id u \<in> A"
  shows "signs e A s' (tok_accessToken r)" "sessionRows s' = sessionRows s" "membershipRows s' = membershipRows s"
proof -
  have rows: "sessionRows s' = sessionRows s" "membershipRows s' = membershipRows s"
    and tok: "tok_accessToken r = signAccessToken e (buildJwtPayload u (primaryMembership (u_id u) s) s)"
    using assms(1) by (auto simp: login_def issueTokens_def insert_token_def updateLastLogin_def Let_def
        split: sum.splits if_splits)
  show "sessionRows s' = sessionRows s" "membershipRows s' = membershipRows s" by (rule rows)+
  show "signs e A s' (tok_accessToken r)"
    using signs_primary [OF assms(2), of e s] by (simp add: tok signs_rows [OF rows(2,1)])
qed

text \<open>Registration: the new account is no platform admin.\<close>

lemma users_create_sessions [simp]: "sessionRows (snd (users_create e dto s)) = sessionRows s"
  by (auto simp: users_create_def insert_user_def Let_def split: option.splits sum.splits)

lemma register_signs:
  assumes "register e dto s = (Inr r, s')"
  shows "signs e A s' (tok_accessToken r)" "sessionRows s' = sessionRows s"
proof -
  obtain u s1 where cr: "users_create e (registerUser dto) s = (Inr u, s1)" and lg: "login e u None None s1 = (Inr r, s')"
    using assms by (auto simp: register_def split: prod.splits sum.splits)
  from cr have "\<not> u_isPlatformAdmin u" by (cases rule: users_create_cases) auto
  with login_signs [OF lg] show "signs e A s' (tok_accessToken r)" by blast
  have "sessionRows s1 = sessionRows s" using users_create_sessions [of e "registerUser dto" s] unfolding cr by simp
  with login_signs(2) [OF lg] \<open>\<not> u_isPlatformAdmin u\<close> show "sessionRows s' = sessionRows s" by simp
qed

text \<open>Refreshing, switching the tenant and the token an administrator gets back.\<close>

abbreviation admins_in :: "uuid set \<Rightarrow> id_state \<Rightarrow> bool" where
  "admins_in A s \<equiv> admins.holds A s"

lemma admins_in_found: "admins_in A s \<Longrightarrow> find_user i s = Some u \<Longrightarrow> u_isPlatformAdmin u \<longrightarrow> u_id u \<in> A"
  by (auto simp: admins.holds_def dest: find_SomeD)

lemma users_findById_find: "users_findById i s = Inr u \<Longrightarrow> find_user i s = Some u"
  by (auto simp: users_findById_def split: option.splits)

lemma refresh_signs:
  assumes "admins_in A s" "refreshAccessToken e tok s = Inr r"
  shows "signs e A s (at_accessToken r)"
proof -
  obtain i u where "find_user i s = Some u" "r = accessTokenFor e u (primaryMembership (u_id u) s) s"
    using assms(2) by (auto simp: refreshAccessToken_def Let_def split: if_splits option.splits)
  with signs_primary [OF admins_in_found [OF assms(1)]] show ?thesis by (simp add: accessTokenFor_def)
qed

lemma switchTenant_signs:
  assumes "admins_in A s" "switchTenant e i t s = Inr r"
  shows "signs e A s (at_accessToken r)"
proof -
  obtain u where u: "find_user i s = Some u" "r = accessTokenFor e u (findByUserAndTenant i t s) s"
    using assms(2) by (auto simp: switchTenant_def Let_def split: if_splits sum.splits dest: users_findById_find)
  have "signs e A s (signAccessToken e (buildJwtPayload u (findByUserAndTenant i t s) s))"
    by (rule signs_account) (use admins_in_found [OF assms(1) u(1)] u(1) in \<open>auto simp: findByUserAndTenant_def dest!: find_SomeD\<close>)
  then show ?thesis by (simp add: u(2) accessTokenFor_def)
qed

lemma reissue_signs:
  assumes "admins_in A s" "reissueAdminToken e i s = Inr r"
  shows "signs e A s (at_accessToken r)"
proof -
  obtain u where "find_user i s = Some u" "r = accessTokenFor e u (primaryMembership (u_id u) s) s"
    using assms(2) by (auto simp: reissueAdminToken_def split: sum.splits dest: users_findById_find)
  with signs_primary [OF admins_in_found [OF assms(1)]] show ?thesis by (simp add: accessTokenFor_def)
qed

text \<open>Impersonation: the session is stored before the token is handed out.\<close>

lemma startImpersonation_signs:
  assumes "startImpersonation e u dto s = (Inr r, s')" "jp_isPlatformAdmin u \<longrightarrow> jp_sub u \<in> A"
  shows "signs e A s' (fst r)"
  using assms(1)
proof (cases rule: startImpersonation_cases)
  case (started admin target)
  let ?c = "impersonationClaims admin target (im_targetTenantId dto) s"
  have "u_id admin \<in> A" using started(1,2) assms(2) by (auto dest: find_SomeD)
  then have "warranted A s' ?c" by (simp add: warranted_def impersonationClaims_def Let_def started(8))
  then show ?thesis using started(6) by (auto simp: signs_def)
qed simp

lemma startImpersonation_sessions:
  assumes "startImpersonation e u dto s = (r, s')" "jp_isPlatformAdmin u \<longrightarrow> jp_sub u \<in> A" "sessions_by A s"
  shows "sessions_by A s'"
  using assms(1)
proof (cases rule: startImpersonation_cases)
  case (started admin target)
  have "u_id admin = jp_sub u" using started(2) by (auto dest: find_SomeD)
  with started(1) assms(2,3) show ?thesis by (simp add: sessions_by_def started(8))
qed (use assms in simp)

lemma blacklist_sessions [simp]: "sessionRows (blacklist e h x s) = sessionRows s"
  by (simp add: blacklist_def Let_def)

lemma endImpersonation_sessions:
  assumes "sessions_by A s"
  shows "sessions_by A (snd (endImpersonation e u s))"
proof -
  have "sessions_by A (s\<lparr>sessionRows := save_row is_id (x\<lparr>is_endedAt := Some n\<rparr>) (sessionRows s)\<rparr>)"
    if n: "newest is_createdAt (filter Q (sessionRows s)) = Some x" for Q x n
  proof -
    obtain rest where "sort_key (\<lambda>r. - is_createdAt r) (filter Q (sessionRows s)) = x # rest"
      using n by (auto simp: newest_def split: list.splits)
    then have "x \<in> set (filter Q (sessionRows s))" by (metis list.set_intros(1) set_sort)
    then have "x \<in> set (sessionRows s)" by simp
    then show ?thesis using assms by (auto simp: sessions_by_def dest!: in_save_row)
  qed
  then show ?thesis
    using assms by (auto simp: endImpersonation_def Let_def revokeImpersonationToken_def sessions_by_def split: option.splits)
qed

subsection \<open>Tokens of the routes\<close>

text \<open>An outcome keeps the sessions and hands out warranted tokens only.\<close>

definition warrants :: "id_env \<Rightarrow> uuid set \<Rightarrow> id_reply result \<times> id_state \<Rightarrow> bool" where
  "warrants e A out \<longleftrightarrow> sessions_by A (snd out) \<and> (\<forall>tok \<in> set (reply_tokens (fst out)). signs e A (snd out) tok)"

lemma warrants_error [simp]: "warrants e A (Inl x, s) = sessions_by A s"
  by (simp add: warrants_def)

lemma warrants_behind:
  "sessions_by A s \<Longrightarrow> (\<And>u. g = Inr u \<Longrightarrow> warrants e A (f u s)) \<Longrightarrow> warrants e A (behind g f s)"
  by (simp add: behind_def split: sum.split)

lemma warrants_validated:
  "sessions_by A s \<Longrightarrow> (\<And>d. dto = Some d \<Longrightarrow> warrants e A (f d s)) \<Longrightarrow> warrants e A (validated v cls x dto f s)"
  by (simp add: validated_def split: option.split)

lemma warrants_guarded:
  "sessions_by A s \<Longrightarrow> warrants e A (h s) \<Longrightarrow> warrants e A (guarded r a u h s)"
  by (auto simp: guarded_def split: sum.split)

text \<open>A reply of a kind that holds no token.\<close>

lemma warrants_plain:
  "sessions_by A (snd out) \<Longrightarrow> (\<And>y. reply_tokens (Inr (f y)) = []) \<Longrightarrow> warrants e A (answer f out)"
  by (cases "fst out") (auto simp: warrants_def answer_def)

text \<open>A reply with the token of an operation that only reads.\<close>

lemma warrants_access:
  assumes "sessions_by A s" "\<And>r. x = Inr r \<Longrightarrow> signs e A s (at_accessToken r)"
  shows "warrants e A (reads (map_sum id Access_reply (map_sum id (\<lambda>r. api_ok r m) x)) s)"
  using assms by (cases x) (simp_all add: warrants_def reads_def)

subsection \<open>Frames\<close>

lemma store_membership_sessions: "store_membership e dto st m s = Inr (x, s') \<Longrightarrow> sessionRows s' = sessionRows s"
  by (auto simp: store_membership_def Let_def insert_membership_def map_sum_def save_membership_def
      split: option.splits sum.splits if_splits)

lemma memberships_sessions:
  "sessionRows (snd (memberships_create e dto s)) = sessionRows s"
  "sessionRows (snd (memberships_remove e i t s)) = sessionRows s"
  by (auto simp: memberships_create_def memberships_remove_def Let_def save_membership_def
      split: sum.split option.split prod.split dest: store_membership_sessions)

lemma assignRole_sessions [simp]: "sessionRows (snd (RolesController_assignRole e u i t r s)) = sessionRows s"
  using memberships_sessions(1) memberships_sessions(2) [of e i t s]
  by (auto simp: RolesController_assignRole_def Let_def split: sum.split option.split prod.split)

lemma users_sessions [simp]:
  "sessionRows (snd (users_update e i udto s)) = sessionRows s"
  "sessionRows (snd (users_softDelete e i s)) = sessionRows s"
  by (auto simp: users_update_def users_softDelete_def save_user_def Let_def case_prod_beta split: sum.split)

lemma logout_sessions [simp]: "sessionRows (logout e tok s) = sessionRows s"
  by (simp add: logout_def Let_def split: option.split)

lemma LocalStrategy_rows:
  "LocalStrategy_validate e m p s = (r, s1) \<Longrightarrow> sessionRows s1 = sessionRows s \<and> userRows s1 = userRows s"
  using LocalStrategy_frame [of e m p s r s1] by auto

lemma LocalStrategy_user: "LocalStrategy_validate e m p s = (Inr u, s1) \<Longrightarrow> u \<in> set (userRows s)"
  by (auto simp: LocalStrategy_validate_def validateCredentials_def users_findByEmail_def Let_def
      split: option.splits sum.splits prod.splits if_splits dest: find_SomeD)

declare memberships_sessions [simp]

lemmas session_frames = memberships_sessions assignRole_sessions users_sessions users_create_sessions logout_sessions

subsection \<open>What every route hands out\<close>

text \<open>Login and registration answer with a token pair.\<close>

lemma warrants_pair:
  assumes "\<And>r s'. out = (Inr r, s') \<Longrightarrow> signs e A s' (tok_accessToken r)" "sessions_by A (snd out)"
    and "\<And>r. ar_data (f r) = Some r"
  shows "warrants e A (answer Tokens_reply (answer f out))"
  using assms by (cases out; cases "fst out") (auto simp: warrants_def answer_def reply_data_def)

lemma login_sessions: "sessionRows (snd (login e u ip d s)) = sessionRows s"
  by (auto simp: login_def issueTokens_def insert_token_def updateLastLogin_def Let_def split: sum.splits prod.splits if_splits)

lemma register_sessions: "sessionRows (snd (register e dto s)) = sessionRows s"
  using users_create_sessions [of e "registerUser dto" s] login_sessions
  unfolding register_def by (cases "users_create e (registerUser dto) s") (auto simp del: registerUser_def split: sum.split)

lemma warrants_register:
  "sessions_by A s \<Longrightarrow> warrants e A (answer Tokens_reply (AuthController_register e dto s))"
  unfolding AuthController_register_def
  by (rule warrants_pair) (auto simp: sessions_by_def register_sessions api_created_def intro: register_signs)

lemma warrants_login:
  assumes "admins_in A s" "sessions_by A s"
  shows "warrants e A (answer Tokens_reply (AuthController_login e m p h addr s))"
proof (cases "LocalStrategy_validate e m p s")
  case (Pair r s1)
  have s1: "sessions_by A s1" using LocalStrategy_rows [OF Pair] assms(2) by (simp add: sessions_by_def)
  show ?thesis
  proof (cases r)
    case (Inr u)
    have u: "u_isPlatformAdmin u \<longrightarrow> u_id u \<in> A"
      using LocalStrategy_user [of e m p s u s1] Pair Inr assms(1) by (simp add: admins.holds_def)
    have "warrants e A (answer Tokens_reply (answer (\<lambda>r. api_ok r msg) (login e u ip d s1)))" for msg ip d
      by (rule warrants_pair) (use s1 u in \<open>auto simp: sessions_by_def login_sessions api_ok_def dest: login_signs(1)\<close>)
    then show ?thesis by (simp add: AuthController_login_def Pair Inr Let_def)
  qed (use s1 in \<open>simp add: AuthController_login_def Pair answer_def\<close>)
qed

lemma warrants_loginRoute:
  assumes "admins_in A s" "sessions_by A s"
  shows "warrants e A (loginRoute v e h addr c x s)"
proof -
  have "sessions_by A s1" if "LocalStrategy_validate e m p s = (r, s1)" for m p r s1
    using LocalStrategy_rows [OF that] assms(2) by (simp add: sessions_by_def)
  then show ?thesis
    using warrants_login [OF assms] assms(2)
    by (auto simp: loginRoute_def split: option.split prod.split sum.split)
qed

lemma warrants_public:
  assumes "admins_in A s" "sessions_by A s"
  shows "warrants e A (AuthController_public_routes v e h addr rq s)"
proof (cases rq)
  case (PostRefresh x)
  have "warrants e A (reads (map_sum id Access_reply (AuthController_refresh e tok s)) s)" for tok
    unfolding AuthController_refresh_def
    by (rule warrants_access [OF assms(2)]) (rule refresh_signs [OF assms(1)])
  then show ?thesis using assms(2) by (auto simp: PostRefresh intro!: warrants_validated)
qed (use assms in \<open>auto intro!: warrants_validated warrants_register warrants_loginRoute\<close>)

lemma warrants_auth:
  assumes "admins_in A s" "sessions_by A s"
  shows "warrants e A (AuthController_routes v e u rq s)"
proof (cases rq)
  case (PostSwitchTenant x)
  have "warrants e A (reads (map_sum id Access_reply (AuthController_switchTenant e u t s)) s)" for t
    unfolding AuthController_switchTenant_def
    by (rule warrants_access [OF assms(2)]) (rule switchTenant_signs [OF assms(1)])
  then show ?thesis using assms(2) by (auto simp: PostSwitchTenant intro!: warrants_validated)
next
  case (PostLogout x)
  have "warrants e A (answer Done_reply (case AuthController_logout e tok s of (r, s') \<Rightarrow> (Inr r, s')))" for tok
    by (rule warrants_plain) (use assms(2) in \<open>simp_all add: AuthController_logout_def sessions_by_def\<close>)
  then show ?thesis using assms(2) by (auto simp: PostLogout intro!: warrants_validated)
next
  case GetMe
  then show ?thesis using assms(2) by (cases "AuthController_me u s") (simp_all add: warrants_def reads_def)
qed

text \<open>The routes of accounts, memberships and roles touch no session and hand out no token.\<close>

lemma guarded_sessions: "sessionRows (snd (h s)) = sessionRows s \<Longrightarrow> sessionRows (snd (guarded r a u h s)) = sessionRows s"
  by (simp add: guarded_def split: sum.split)

lemma with_uuid_sessions: "sessionRows (snd (h s)) = sessionRows s \<Longrightarrow> sessionRows (snd (with_uuid e i h s)) = sessionRows s"
  by (simp add: with_uuid_def)

lemmas handler_sessions = guarded_sessions with_uuid_sessions

lemma controllers_sessions [simp]:
  "sessionRows (snd (UsersController_findAll u s)) = sessionRows s"
  "sessionRows (snd (UsersController_findOne e u i s)) = sessionRows s"
  "sessionRows (snd (UsersController_create e u cdto s)) = sessionRows s"
  "sessionRows (snd (UsersController_update e u i udto s)) = sessionRows s"
  "sessionRows (snd (UsersController_remove e u i s)) = sessionRows s"
  "sessionRows (snd (MembershipsController_findByUser e u i s)) = sessionRows s"
  "sessionRows (snd (MembershipsController_findByTenant e u i s)) = sessionRows s"
  "sessionRows (snd (MembershipsController_create e u mdto s)) = sessionRows s"
  "sessionRows (snd (MembershipsController_remove e u i t s)) = sessionRows s"
  "sessionRows (snd (RolesController_findAll e u t' s)) = sessionRows s"
  "sessionRows (snd (RolesController_findAllPermissions u s)) = sessionRows s"
  "sessionRows (snd (RolesController_findOne e u i s)) = sessionRows s"
  by (simp_all add: UsersController_findAll_def UsersController_findOne_def UsersController_create_def UsersController_update_def
      UsersController_remove_def MembershipsController_findByUser_def MembershipsController_findByTenant_def
      MembershipsController_create_def MembershipsController_remove_def RolesController_findAll_def
      RolesController_findAllPermissions_def RolesController_findOne_def handler_sessions)

lemmas plain_rules = warrants_guarded warrants_validated warrants_behind warrants_plain

lemma warrants_tables:
  assumes "sessions_by A s"
  shows "warrants e A (UsersController_routes v e u ru s)" "warrants e A (MembershipsController_routes v e u rm s)"
    "warrants e A (RolesController_routes v e u rr s)"
  subgoal by (cases ru) (use assms in \<open>auto simp: sessions_by_def intro!: plain_rules\<close>)
  subgoal by (cases rm) (use assms in \<open>auto simp: sessions_by_def intro!: plain_rules\<close>)
  subgoal by (cases rr) (use assms in \<open>auto simp: assignRoute_def sessions_by_def intro!: plain_rules\<close>)
  done

lemma endImpersonation_reissues:
  assumes "endImpersonation e u s = (Inr t, s')"
  shows "\<exists>i. reissueAdminToken e i s' = Inr t"
  using assms unfolding endImpersonation_def Let_def by (simp only: prod.inject split: if_splits) auto

lemma warrants_impersonation:
  assumes "admins_in A s" "sessions_by A s" "jp_isPlatformAdmin u \<longrightarrow> jp_sub u \<in> A"
  shows "warrants e A (ImpersonationController_routes v e u rq s)"
proof (cases rq)
  case (PostImpersonate x)
  have "warrants e A (answer Impersonation_reply (ImpersonationController_start e u dto s))" for dto
  proof (cases "startImpersonation e u dto s")
    case (Pair r s')
    then show ?thesis
      using startImpersonation_sessions [OF Pair assms(3,2)] startImpersonation_signs [OF _ assms(3), of e dto s _ s']
      by (cases r) (simp_all add: ImpersonationController_start_def answer_def warrants_def)
  qed
  then show ?thesis using assms(2) by (auto simp: PostImpersonate intro!: warrants_validated)
next
  case DeleteImpersonate
  show ?thesis
  proof (cases "endImpersonation e u s")
    case (Pair r s')
    have s': "sessions_by A s'" using endImpersonation_sessions [OF assms(2), of e u] by (simp add: Pair)
    have rows: "userRows s' = userRows s" using impersonation_users(2) [of e u s] by (simp add: Pair)
    have "admins_in A s'" by (rule iffD2 [OF admins.holds_same [OF rows] assms(1)])
    then have "signs e A s' (at_accessToken t)" if "r = Inr t" for t
      using endImpersonation_reissues [OF Pair [unfolded that]] reissue_signs by blast
    then show ?thesis
      using s' by (cases r) (simp_all add: DeleteImpersonate ImpersonationController_end_def Pair answer_def warrants_def)
  qed
qed

text \<open>Every reply of the identity service: the caller of a guarded route has shown a token whose claims
  name a platform admin only if there is such an account.\<close>

lemma id_guard_passed: "id_JwtAuthGuard verify h s = Inr u \<Longrightarrow> verify h = (None, Some u)"
  by (auto simp: id_JwtAuthGuard_def handleRequest_def JwtStrategy_validate_def split: prod.splits option.splits sum.splits)

lemma id_serve_warrants:
  assumes "admins_in A s" "sessions_by A s"
    and "\<And>u. verify h = (None, Some u) \<Longrightarrow> jp_isPlatformAdmin u \<longrightarrow> jp_sub u \<in> A"
  shows "warrants e A (id_serve v verify e h addr call s)"
proof (cases call)
  case (PrivateCall rq)
  have "warrants e A (id_serve_user v e u rq s)" if "id_JwtAuthGuard verify h s = Inr u" for u
    using assms(1,2) assms(3) [OF id_guard_passed [OF that]]
    by (cases rq) (simp_all add: warrants_auth warrants_tables warrants_impersonation)
  then show ?thesis using assms(2) by (auto simp: PrivateCall intro!: warrants_behind)
qed (use assms in \<open>simp add: warrants_public\<close>)

subsection \<open>Histories\<close>

text \<open>The tokens handed out so far, each with the state of the identity service it was handed out in.\<close>

type_synonym token_history = "(string \<times> id_state) list"

text \<open>What the services rely on in passport: a token it accepts from the authorization header was handed
  out before (nobody else holds the secret), and its payload is the one that was signed.\<close>

definition trusts :: "(jwtClaims \<Rightarrow> string \<Rightarrow> string) \<Rightarrow> token_history \<Rightarrow> passport \<Rightarrow> bool" where
  "trusts sign hist verify \<longleftrightarrow> (\<forall>h p. verify h = (None, Some p) \<longrightarrow>
     (\<exists>tok s. (tok, s) \<in> set hist \<and> h ''authorization'' = Some (''Bearer '' @ tok) \<and>
        (\<forall>c exp. tok = sign c exp \<longrightarrow> jwtClaims.truncate p = c)))"

text \<open>The identity service serving requests of any callers, each with its own clock, random values and
  verification.\<close>

inductive served ::
  "validation \<Rightarrow> (jwtClaims \<Rightarrow> string \<Rightarrow> string) \<Rightarrow> id_state \<Rightarrow> token_history \<Rightarrow> id_state \<Rightarrow> bool"
  for v sign s0 where
  start: "served v sign s0 [] s0"
| serve: "served v sign s0 hist s \<Longrightarrow> jwt_sign e = sign \<Longrightarrow> trusts sign hist verify \<Longrightarrow>
    id_serve v verify e h addr call s = (r, s') \<Longrightarrow>
    served v sign s0 (hist @ map (\<lambda>tok. (tok, s')) (reply_tokens r)) s'"

subsection \<open>The interface of a token authority\<close>

text \<open>An authority vouches for the claims it signs. A verifier that trusts its history gets only
  claims it vouched for; the guards of the services are such verifiers.\<close>

locale token_authority =
  fixes sign :: "jwtClaims \<Rightarrow> string \<Rightarrow> string"
    and history :: "token_history \<Rightarrow> bool"
    and vouched :: "id_state \<Rightarrow> jwtClaims \<Rightarrow> bool"
  assumes vouches: "history hist \<Longrightarrow> (tok, s) \<in> set hist \<Longrightarrow> \<exists>c exp. tok = sign c exp \<and> vouched s c"
begin

lemma accepted:
  assumes "history hist" "trusts sign hist verify" "verify h = (None, Some p)"
  shows "\<exists>tok s. (tok, s) \<in> set hist \<and> h ''authorization'' = Some (''Bearer '' @ tok) \<and>
    (\<exists>exp. tok = sign (jwtClaims.truncate p) exp) \<and> vouched s (jwtClaims.truncate p)"
proof -
  obtain tok s where t: "(tok, s) \<in> set hist" "h ''authorization'' = Some (''Bearer '' @ tok)"
    "\<forall>c exp. tok = sign c exp \<longrightarrow> jwtClaims.truncate p = c"
    using assms(2,3) unfolding trusts_def by blast
  moreover obtain c exp where "tok = sign c exp" "vouched s c" using vouches [OF assms(1) t(1)] by blast
  ultimately show ?thesis by (intro exI [of _ tok] exI [of _ s]) auto
qed

lemma tenant_manager_caller:
  assumes "tm_JwtAuthGuard verify h = Inr u"
  shows "verify h = (None, Some u)"
  using assms by (auto simp: tm_JwtAuthGuard_def handleRequest_def tm_JwtStrategy_validate_def split: prod.splits option.splits)

lemma billing_engine_caller:
  assumes "be_JwtAuthGuard verify h = Inr u"
  shows "verify h = (None, Some u)"
  using assms by (auto simp: be_JwtAuthGuard_def handleRequest_def be_JwtStrategy_validate_def split: prod.splits option.splits)

lemmas accepted_by_tenant_manager = accepted [OF _ _ tenant_manager_caller]
lemmas accepted_by_billing_engine = accepted [OF _ _ billing_engine_caller]

end

text \<open>The identity service is one: every token of its history was signed for claims that its tables
  warranted when it was handed out. Its own guarded routes are clients of the interface.\<close>

definition admin_ids :: "id_state \<Rightarrow> uuid set" where
  "admin_ids s = {u_id u | u. u \<in> set (userRows s) \<and> u_isPlatformAdmin u}"

definition history_from :: "validation \<Rightarrow> (jwtClaims \<Rightarrow> string \<Rightarrow> string) \<Rightarrow> id_state \<Rightarrow> token_history \<Rightarrow> bool" where
  "history_from v sign s0 hist \<longleftrightarrow>
     pipe_documented v \<and> sessions_by (admin_ids s0) s0 \<and> (\<exists>s. served v sign s0 hist s)"

lemma served_warranted:
  assumes "served v sign s0 hist s" "pipe_documented v" "sessions_by (admin_ids s0) s0"
  shows "admins_in (admin_ids s0) s \<and> sessions_by (admin_ids s0) s \<and>
    (\<forall>(tok, si) \<in> set hist. \<exists>c exp. tok = sign c exp \<and> warranted (admin_ids s0) si c)"
  using assms(1)
proof induction
  case start
  have "admins_in (admin_ids s0) s0" unfolding admins.holds_def admin_ids_def by blast
  then show ?case using assms(3) by simp
next
  case (serve hist s e verify h addr call r s')
  let ?A = "admin_ids s0"
  have auth: "token_authority sign ((=) hist) (warranted ?A)"
    by unfold_locales (use serve.IH in auto)
  have caller: "jp_isPlatformAdmin u \<longrightarrow> jp_sub u \<in> ?A" if "verify h = (None, Some u)" for u
    using token_authority.accepted [OF auth refl serve.hyps(3) that]
    by (auto simp: warranted_def jwtClaims.defs)
  have w: "warrants e ?A (r, s')"
    using id_serve_warrants [of ?A s verify h e v addr call] serve.IH caller by (simp add: serve.hyps(4))
  have "admins_in ?A s'"
    using admins.holds_serve [OF assms(2) refl, of ?A s verify e h addr call] serve.IH by (simp add: serve.hyps(4))
  then show ?case
    using w serve.IH by (auto simp: warrants_def signs_def serve.hyps(2))
qed

interpretation identity: token_authority sign "history_from v sign s0" "warranted (admin_ids s0)" for v sign s0
  by unfold_locales (auto simp: history_from_def dest!: served_warranted)

subsection \<open>Who is answered about a tenant\<close>

text \<open>
  Routes for users, behind \<^verbatim>\<open>JwtAuthGuard\<close>, and the feature check for services, behind \<^verbatim>\<open>InternalServiceGuard\<close>;
  the tenant a request of the tenant manager names, and the tenants its reply shows.
\<close>

datatype audience = Users | Services

fun audience_of :: "tm_call \<Rightarrow> audience" where
  "audience_of (FeatureCheck i code) = Services"
| "audience_of _ = Users"

fun tenant_named :: "tm_call \<Rightarrow> uuid option" where
  "tenant_named (TenantsCall (GetTenant i)) = Some i"
| "tenant_named (TenantsCall (PatchTenant i _)) = Some i"
| "tenant_named (TenantsCall (PostSuspend i _)) = Some i"
| "tenant_named (TenantsCall (PostActivate i)) = Some i"
| "tenant_named (TenantsCall (DeleteTenant i)) = Some i"
| "tenant_named (FeaturesCall (GetTenantFeatures i)) = Some i"
| "tenant_named (FeaturesCall (PutTenantFeature i _ _)) = Some i"
| "tenant_named (FeatureCheck i _) = Some i"
| "tenant_named _ = None"

fun tenant_shown :: "tm_reply \<Rightarrow> uuid \<Rightarrow> bool" where
  "tenant_shown (Tenant_reply x) i \<longleftrightarrow> (\<exists>t. ar_data x = Some t \<and> tr_id t = i)"
| "tenant_shown (Tenants_reply x) i \<longleftrightarrow> (\<exists>ts. ar_data x = Some ts \<and> i \<in> tr_id ` set ts)"
| "tenant_shown (Toggle_reply x) i \<longleftrightarrow> (\<exists>f. ar_data x = Some f \<and> tf_tenantId f = i)"
| "tenant_shown _ i \<longleftrightarrow> False"

text \<open>
  The tenants a reply of the billing engine concerns: the one of the subscription or of the invoices; of a
  URL the one for whose subscription, and no other, Stripe opens this checkout or portal session; of the
  revenue report all of them.
\<close>

definition opens_for :: "be_env \<Rightarrow> be_state \<Rightarrow> string \<Rightarrow> uuid \<Rightarrow> bool" where
  "opens_for e s url i \<longleftrightarrow> (\<exists>r \<in> set (subRows s). sb_tenantId r = i \<and>
     ((\<exists>price. createCheckoutSession e (sb_stripeCustomerId r) i price = Inr url) \<or>
      createCustomerPortalSession e (sb_stripeCustomerId r) = Inr url))"

fun concerns :: "be_env \<Rightarrow> be_state \<Rightarrow> be_reply \<Rightarrow> uuid \<Rightarrow> bool" where
  "concerns e s (Subscription_reply x) i \<longleftrightarrow> (\<exists>r. ar_data x = Some r \<and> sb_tenantId r = i)"
| "concerns e s (Invoices_reply x) i \<longleftrightarrow> (\<exists>items. ar_data x = Some items \<and> i \<in> iv_tenantId ` set items)"
| "concerns e s (Url_reply x) i \<longleftrightarrow> (\<exists>url. ar_data x = Some url \<and> (\<forall>j. opens_for e s url j \<longleftrightarrow> j = i))"
| "concerns e s (Revenue_reply x) i \<longleftrightarrow> True"
| "concerns e s (Webhook_reply x) i \<longleftrightarrow> False"

text \<open>A request with these headers, for users or for services, succeeds at one of the two services and
  is about the tenant.\<close>

inductive answered_about :: "tm_env \<Rightarrow> passport \<Rightarrow> headers \<Rightarrow> audience \<Rightarrow> uuid \<Rightarrow> bool" for te verify h where
  tenant_request: "tm_serve v verify te h rq s = Some (Inr r, s') \<Longrightarrow> tenant_named rq = Some i \<or> tenant_shown r i \<Longrightarrow>
    answered_about te verify h (audience_of rq) i"
| billing_request: "be_serve verify e h (BillingCall q) s = (Inr a, s') \<Longrightarrow> concerns e s a i \<Longrightarrow>
    answered_about te verify h Users i"

lemma findById_id: "tenants_findById i s = Inr t \<Longrightarrow> t_id t = i"
  by (simp add: find_tenant_id)

lemma changePlan_id: "changePlan e i p t s = Some (Inr t', s') \<Longrightarrow> t_id t' = t_id t"
  by (auto simp: changePlan_def Let_def save_tenant_def split: prod.splits sum.splits option.splits if_splits)

lemma updateTenant_id:
  assumes "updateTenant e i dto s = Some (Inr t', s')"
  shows "t_id t' = i"
proof -
  obtain t0 t where t: "tenants_findById i s = Inr t0" "patch_tenant dto t0 = Inr t"
    using assms by (auto simp: updateTenant_def split: sum.splits)
  have id: "t_id t = i" using findById_id [OF t(1)] patch_tenant_keeps [OF t(2)] by simp
  have "t_id t' = t_id t"
    using assms t changePlan_id
    by (auto simp: updateTenant_def save_tenant_def Let_def split: field.splits if_splits)
  with id show ?thesis by simp
qed

lemma tenant_request_allowed:
  assumes sv: "tm_serve v verify e h rq s = Some (Inr r, s')" and about: "tenant_named rq = Some i \<or> tenant_shown r i"
    and au: "audience_of rq = Users"
  obtains u where "tm_JwtAuthGuard verify h = Inr u" "jp_isPlatformAdmin u \<or> jp_tenantId u = Some i"
proof (cases "tm_JwtAuthGuard verify h")
  case (Inl x)
  then show thesis using assms by (cases rq) (auto simp: for_user_def)
next
  case (Inr u)
  have "jp_tenantId u = Some i" if no: "\<not> jp_isPlatformAdmin u"
  proof (cases rq)
    case (TenantsCall t)
    show ?thesis
    proof (cases "\<exists>j x. t = PatchTenant j x")
      case True
      then obtain j x where "updateRoute v e u j x s = Some (Inr r, s')" "tenant_named rq = Some j"
        using TenantsCall sv Inr by (auto simp: for_user_def)
      with no have "jp_tenantId u = Some j" "\<exists>x. r = Tenant_reply x \<and> (\<exists>t. ar_data x = Some t \<and> tr_id t = j)"
        by (auto simp: updateRoute_def TenantsController_update_def api_ok_def fromEntity_def updateTenant_id
            dest!: respond_Inr split: option.splits if_splits)
      with about \<open>tenant_named rq = Some j\<close> show ?thesis by auto
    next
      case False
      then show ?thesis
        using TenantsCall assms Inr no
        by (cases t) (auto simp: for_user_def reads_def respond_def validated_def TenantsController_create_def
            TenantsController_findAll_def TenantsController_findOne_def TenantsController_suspend_def
            TenantsController_activate_def TenantsController_remove_def api_ok_def fromEntity_def map_sum_def
            split: if_splits option.splits sum.splits dest: findById_id)
    qed
  next
    case (FeaturesCall f)
    then show ?thesis
      using assms Inr no
      by (cases f) (auto simp: for_user_def reads_def respond_def validated_def FeaturesController_findTenantFeatures_def
          FeaturesController_toggleFeature_def map_sum_def split: if_splits option.splits sum.splits)
  next
    case (PlansCall p)
    then show ?thesis
      using assms Inr by (cases p) (auto simp: for_user_def reads_def map_sum_def split: sum.splits)
  qed (use au in simp)
  with Inr show thesis by (intro that) auto
qed

text \<open>The check for services does not look at the bearer token.\<close>

lemma feature_check_allowed:
  assumes "tm_serve v verify e h rq s = Some (Inr r, s')" "audience_of rq = Services"
  obtains secret where "internalServiceToken e = Some secret" "secret \<noteq> []" "h ''x-service-token'' = Some secret"
proof -
  obtain i code where "rq = FeatureCheck i code" using assms(2) by (cases rq) auto
  then have "internalServiceGuard e (h ''x-service-token'') = Inr True"
    using assms(1) by (auto simp: respond_def FeaturesController_checkFeature_def internalServiceGuard_def split: sum.splits if_splits)
  then show thesis
    by (cases "internalServiceToken e") (auto simp: internalServiceGuard_def split: if_splits intro: that)
qed

lemma billing_request_allowed:
  assumes "be_serve verify e h (BillingCall q) s = (Inr a, s')" "concerns e s a i"
  obtains u where "be_JwtAuthGuard verify h = Inr u" "jp_isPlatformAdmin u \<or> jp_tenantId u = Some i"
proof -
  obtain u where u: "be_JwtAuthGuard verify h = Inr u" and sv: "be_serve_user e u q s = (Inr a, s')"
    using assms(1) by (auto simp: behind_def split: sum.splits)
  have "jp_isPlatformAdmin u \<or> jp_tenantId u = Some i"
  proof (cases q)
    case (SubscriptionsRoute rq)
    show ?thesis
    proof (cases rq)
      case GetSubscription
      then obtain x where x: "getSubscription e u s = (Inr x, s')" "a = Subscription_reply x"
        using sv SubscriptionsRoute by (auto dest!: respond_Inr)
      from x(1) [unfolded getSubscription_def] show ?thesis
        by (rule own_subscription) (use assms(2) in \<open>auto simp: x(2) api_ok_def\<close>)
    next
      case (PostCheckout price)
      then obtain x where x: "createCheckout e u price s = (Inr x, s')" "a = Url_reply x"
        using sv SubscriptionsRoute by (auto dest!: respond_Inr)
      from x(1) [unfolded createCheckout_def] show ?thesis
        by (rule own_subscription) (use assms(2) in \<open>auto simp: x(2) api_ok_def opens_for_def split: sum.splits\<close>)
    next
      case PostPortal
      then obtain x where x: "createPortal e u s = (Inr x, s')" "a = Url_reply x"
        using sv SubscriptionsRoute by (auto dest!: respond_Inr)
      from x(1) [unfolded createPortal_def] show ?thesis
        by (rule own_subscription) (use assms(2) in \<open>auto simp: x(2) api_ok_def opens_for_def split: sum.splits\<close>)
    qed
  next
    case (GetInvoices page limit)
    with sv obtain x where x: "listInvoices e u page limit s = (Inr x, s')" "a = Invoices_reply x"
      by (auto dest!: respond_Inr)
    obtain t items where "jp_tenantId u = Some t" "ar_data x = Some items" "set items \<subseteq> set (tenant_invoices t s)"
      by (rule own_invoices [OF x(1)])
    then show ?thesis using assms(2) by (auto simp: x(2) tenant_invoices_def)
  next
    case (GetRevenue p)
    then show ?thesis using sv by (auto simp: reads_def getRevenue_def split: if_splits)
  qed
  with u show thesis by (rule that)
qed

text \<open>C9: authority over a tenant comes from the identity service, or from the secret the services share.
  A successful answer of the tenant manager or the billing engine about a tenant (one the request names, the
  reply shows, the billing data belong to, or whose Stripe session alone a returned URL opens; the list of tenants
  and the revenue report are about all of theirs) on a route for users goes to a request with a token
  the identity service handed out, and at that moment the account of the token had a membership in the tenant,
  or an administrator's impersonation of it in that tenant was on record, or the account is a platform
  admin; and every administrator involved was one before the first request was served. The one route for
  services, the feature check, answers only a request that carries the configured service token.\<close>

theorem access_traces_to_grant:
  assumes "served v sign s0 hist s" and "pipe_documented v" and "sessionRows s0 = []"
    and "trusts sign hist verify" and "answered_about te verify h who i"
  shows "case who of
      Services \<Rightarrow> \<exists>secret. internalServiceToken te = Some secret \<and> secret \<noteq> [] \<and> h ''x-service-token'' = Some secret
    | Users \<Rightarrow> \<exists>tok c exp si. (tok, si) \<in> set hist \<and> h ''authorization'' = Some (''Bearer '' @ tok) \<and> tok = sign c exp \<and>
        ((\<exists>m \<in> set (membershipRows si). m_userId m = jp_sub c \<and> m_tenantId m = i) \<or>
         (\<exists>x \<in> set (sessionRows si). is_targetUserId x = jp_sub c \<and> is_targetTenantId x = i \<and>
            is_adminUserId x \<in> admin_ids s0) \<or>
         (jp_isPlatformAdmin c \<and> jp_sub c \<in> admin_ids s0))"
proof (cases who)
  case Services
  from assms(5) have "\<exists>secret. internalServiceToken te = Some secret \<and> secret \<noteq> [] \<and> h ''x-service-token'' = Some secret"
  proof cases
    case tenant_request
    then show ?thesis using Services by (elim feature_check_allowed) auto
  qed (use Services in simp)
  with Services show ?thesis by simp
next
  case Users
  have hist: "history_from v sign s0 hist"
    using assms(1-3) by (auto simp: history_from_def sessions_by_def)
  obtain u where u: "verify h = (None, Some u)" "jp_isPlatformAdmin u \<or> jp_tenantId u = Some i"
    using assms(5)
  proof cases
    case (tenant_request v rq s r s')
    from tenant_request_allowed [OF tenant_request(2,3)] Users tenant_request(1) show thesis
      by (metis identity.tenant_manager_caller that)
  next
    case (billing_request e q s a s')
    then show thesis by (elim billing_request_allowed) (auto dest: identity.billing_engine_caller intro: that)
  qed
  obtain tok si exp where t: "(tok, si) \<in> set hist" "h ''authorization'' = Some (''Bearer '' @ tok)"
    "tok = sign (jwtClaims.truncate u) exp" "warranted (admin_ids s0) si (jwtClaims.truncate u)"
    using identity.accepted [OF hist assms(4) u(1)] by blast
  show ?thesis
    unfolding Users audience.case
    using t u(2) by (intro exI [of _ tok] exI [of _ "jwtClaims.truncate u"] exI [of _ exp] exI [of _ si])
      (auto simp: warranted_def jwtClaims.defs)
qed

end
