(* ===== verification/Identity_Witnesses.thy ===== *)
theory Identity_Witnesses
  imports Identity_Access
begin

text \<open>
  A small concrete identity service (an admin and a member, two roles, one membership) on which the
  hypotheses of the identity theorems hold, and each theorem applied there. Hashing and signing are
  instantiated by simple functions.
\<close>

definition iw_user :: "string \<Rightarrow> bool \<Rightarrow> user" where
  "iw_user i a = \<lparr>u_id = i, u_email = i @ ''@x.io'', u_emailVerified = False, u_passwordHash = ''#pw'', u_displayName = i,
     u_avatarUrl = None, u_phone = None, u_isPlatformAdmin = a, u_isActive = True, u_lastLoginAt = None,
     u_createdAt = 0, u_updatedAt = 0\<rparr>"

definition iw_role :: "string \<Rightarrow> role" where
  "iw_role i = \<lparr>ro_id = i, ro_tenantId = None, ro_name = i, ro_displayName = i, ro_description = None,
     ro_isSystemRole = True, ro_createdAt = 0, ro_updatedAt = 0,
     ro_permissions = [\<lparr>pr_id = ''p1'', pr_resource = ''users'', pr_action = ''manage'', pr_description = None, pr_createdAt = 0\<rparr>]\<rparr>"

definition iw_member :: membership where
  "iw_member = \<lparr>m_id = ''m1'', m_userId = ''bob'', m_tenantId = ''t1'', m_roleId = ''tenant_admin'', m_status = MS_active,
     m_invitedBy = None, m_invitedAt = None, m_joinedAt = None, m_createdAt = 0, m_updatedAt = 0\<rparr>"

definition iw_state :: id_state where
  "iw_state = \<lparr>userRows = [iw_user ''adm'' True, iw_user ''bob'' False], membershipRows = [iw_member],
     roleRows = [iw_role ''tenant_admin''], permissionRows = [], tokenRows = [], sessionRows = [],
     id_redis = Map.empty, id_bus = \<lparr>channel = True, rejects = \<lambda>_. False, published = []\<rparr>\<rparr>"

definition iw_env :: "instant \<Rightarrow> id_env" where
  "iw_env now = \<lparr>id_now = now, newUserId = ''new'', newMembershipId = ''m2'', newTokenId = ''k1'', newSessionId = ''s1'',
     hashSync = Cons CHR ''#'', compareSync = \<lambda>p h. h = CHR ''#'' # p, sha256 = \<lambda>t. ''h-'' @ t, randomToken = ''rnd'',
     jwt_sign = \<lambda>c d. jp_sub c, id_isUUID = \<lambda>_. True, id_pgUuid = \<lambda>_. True, isInet = \<lambda>_. True, loginMaxAttempts = Some 2,
     loginBlockDurationSeconds = Some 900, jwt_expiry = Some ''15m'', jwt_refreshExpiry = Some ''7d'',
     jwt_impersonationExpiry = Some ''30m''\<rparr>"

definition iw_caller :: "string \<Rightarrow> bool \<Rightarrow> jwtPayload" where
  "iw_caller i a = \<lparr>jp_sub = i, jp_email = i @ ''@x.io'', jp_displayName = i, jp_isPlatformAdmin = a, jp_tenantId = Some ''t1'',
     jp_tenantSlug = None, jp_roles = Some [''tenant_admin''], jp_permissions = Some [''users:manage''],
     jp_isImpersonating = False, jp_realUserId = None, jp_iat = 0, jp_exp = 900\<rparr>"

lemmas iw_defs = iw_user_def iw_role_def iw_member_def iw_state_def iw_env_def iw_caller_def

lemma iw_wf: "id_wf iw_state"
proof -
  have "toLowerCase ''adm@x.io'' = ''adm@x.io''" "toLowerCase ''bob@x.io'' = ''bob@x.io''"
    by (simp_all add: toLowerCase_def lower_char_def)
  then show ?thesis by (simp add: id_wf_def iw_defs unique_on_def)
qed

lemma iw_found: "find_user ''adm'' iw_state = Some (iw_user ''adm'' True)" "find_user ''bob'' iw_state = Some (iw_user ''bob'' False)"
    "find_membership ''bob'' ''t1'' iw_state = Some iw_member" "find_role ''tenant_admin'' iw_state = Some (iw_role ''tenant_admin'')"
  by (simp_all add: iw_defs)

text \<open>A registration from empty tables.\<close>

definition iw_empty :: id_state where
  "iw_empty = iw_state\<lparr>userRows := [], membershipRows := []\<rparr>"

definition iw_register :: registerDto where
  "iw_register = \<lparr>rg_email = ''eve@x.io'', rg_password = ''Secret12'', rg_displayName = ''Eve'', rg_phone = None\<rparr>"

lemma iw_registered: "\<exists>r. fst (register (iw_env 0) iw_register iw_empty) = Inr r \<and> tok_accessToken r = ''new''"
  by (simp add: register_def users_create_def users_findByEmail_def insert_user_def toLowerCase_def login_def issueTokens_def
      insert_token_def token_fits_def user_fits_def fits_def signAccessToken_def buildJwtPayload_def updateLastLogin_def Let_def iw_empty_def iw_register_def
      iw_state_def iw_env_def)

lemma id_reachable_invariant_witness: "id_wf (id_handle (iw_env 0) (Ie_register iw_register) iw_empty)"
  by (rule id_reachable_invariant [OF id_step [OF id_init]]) (simp_all add: iw_empty_def iw_state_def)

lemma register_grants_nothing_witness:
  "\<exists>u. users_findByEmail ''eve@x.io'' (snd (register (iw_env 0) iw_register iw_empty)) = Some u \<and>
     \<not> u_isPlatformAdmin u \<and> u_passwordHash u = ''#Secret12''"
proof -
  have wf: "id_wf iw_empty" by (simp add: id_wf_def iw_empty_def iw_state_def)
  obtain r where "register (iw_env 0) iw_register iw_empty = (Inr r, snd (register (iw_env 0) iw_register iw_empty))"
    using iw_registered by (metis prod.collapse)
  with register_grants_nothing [OF wf, of iw_register "iw_env 0"] show ?thesis
    by (fastforce simp: iw_register_def iw_env_def)
qed

theorem login_lockout_witness:
  "validateCredentials (iw_env 5000) ''bob@x.io'' ''pw'' iw_state = (Inr (Some (iw_user ''bob'' False)), iw_state) \<and>
   fst (validateCredentials (iw_env 5000) ''bob@x.io'' ''pw''
     (try_logins [(iw_env 1000, ''a''), (iw_env 2000, ''b'')] ''bob@x.io'' iw_state)) = Inl (Unauthorized locked_msg)"
proof
  have low: "toLowerCase ''bob@x.io'' = ''bob@x.io''" by (simp add: toLowerCase_def lower_char_def)
  show "validateCredentials (iw_env 5000) ''bob@x.io'' ''pw'' iw_state = (Inr (Some (iw_user ''bob'' False)), iw_state)"
    by (simp add: validateCredentials_def users_findByEmail_def low iw_defs redis_get_def redis_del_def Let_def)
  have bad: "\<not> good_credentials (iw_env n) ''bob@x.io'' q iw_state" if "q \<noteq> ''pw''" for n q
    using that by (simp add: good_credentials_def users_findByEmail_def low iw_defs)
  have none: "redis_get (id_now (iw_env 1000)) (loginAttemptsKey ''bob@x.io'') (id_redis iw_state) = None"
    by (simp add: iw_defs redis_get_def)
  have "(id_now (iw_env 5000) < id_now (iw_env 1000) + 900 * 1000 \<longrightarrow>
      validateCredentials (iw_env 5000) ''bob@x.io'' ''pw'' (try_logins ((iw_env 1000, ''a'') # [(iw_env 2000, ''b'')]) ''bob@x.io'' iw_state) =
        (Inl (Unauthorized locked_msg), try_logins ((iw_env 1000, ''a'') # [(iw_env 2000, ''b'')]) ''bob@x.io'' iw_state))"
    by (rule login_lockout [OF none, of 900 "''a''" "[(iw_env 2000, ''b'')]" 2, THEN conjunct1])
      (auto simp: bad, auto simp: iw_env_def)
  then show "fst (validateCredentials (iw_env 5000) ''bob@x.io'' ''pw''
     (try_logins [(iw_env 1000, ''a''), (iw_env 2000, ''b'')] ''bob@x.io'' iw_state)) = Inl (Unauthorized locked_msg)"
    by (simp add: iw_env_def)
qed

text \<open>A login of the member, and what follows from it.\<close>

definition iw_login :: "tokenResponse result \<times> id_state" where
  "iw_login = login (iw_env 0) (iw_user ''bob'' False) None None iw_state"

lemma iw_logged_in: "\<exists>r. iw_login = (Inr r, snd iw_login) \<and> tok_refreshToken r = ''rnd''"
  by (simp add: iw_login_def login_def issueTokens_def insert_token_def token_fits_def user_fits_def fits_def Let_def iw_defs)

lemma iw_login_wf: "id_wf (snd iw_login)"
  using login_wf [OF iw_wf prod.collapse [symmetric]] by (simp add: iw_login_def)

theorem login_then_refresh_witness:
  "\<exists>a. refreshAccessToken (iw_env 1000) ''rnd'' (snd iw_login) = Inr a \<and> at_accessToken a = ''bob''"
proof -
  obtain r where r: "iw_login = (Inr r, snd iw_login)" "tok_refreshToken r = ''rnd''" using iw_logged_in by blast
  have exp: "id_now (iw_env 1000) \<le> parseExpiry (iw_env 0) (coalesce (jwt_refreshExpiry (iw_env 0)) ''7d'')"
    by (simp add: parseExpiry_def parseDurationToSeconds_def unit_seconds_def is_digit_def iw_env_def
        read_digits_def digit_val_def)
  from login_then_refresh [OF r(1) [unfolded iw_login_def], of "iw_env 1000"] exp r(2) iw_found(2)
  show ?thesis
    by (auto simp: iw_user_def iw_env_def iw_state_def redis_get_def iw_login_def)
qed

lemma iw_token: "\<exists>row. find_token ''h-rnd'' (snd iw_login) = Some row \<and> \<not> rt_isRevoked row \<and> rt_userId row = ''bob'' \<and>
    rt_expiresAt row = 604800000"
  by (simp add: iw_login_def login_def issueTokens_def insert_token_def token_fits_def user_fits_def fits_def updateLastLogin_def Let_def iw_defs
      rt_isRevoked_def parseExpiry_def parseDurationToSeconds_def unit_seconds_def is_digit_def
      read_digits_def digit_val_def)

theorem refresh_claims_witness:
  "\<exists>row u. find_token ''h-rnd'' (snd iw_login) = Some row \<and> find_user (rt_userId row) (snd iw_login) = Some u \<and> u_isActive u"
proof -
  obtain row where row: "find_token ''h-rnd'' (snd iw_login) = Some row" "\<not> rt_isRevoked row" "rt_userId row = ''bob''"
      "rt_expiresAt row = 604800000"
    using iw_token by blast
  have "id_redis (snd iw_login) = Map.empty" "\<exists>u. find_user ''bob'' (snd iw_login) = Some u \<and> u_isActive u"
    by (simp_all add: iw_login_def login_def issueTokens_def insert_token_def token_fits_def user_fits_def fits_def updateLastLogin_def Let_def iw_defs
        update_where_def)
  then obtain r where "refreshAccessToken (iw_env 1000) ''rnd'' (snd iw_login) = Inr r"
    using row by (auto simp: refreshAccessToken_def Let_def iw_env_def redis_get_def rt_isValid_def rt_isExpired_def)
  from refresh_claims [OF iw_login_wf this] show ?thesis by (auto simp: iw_env_def)
qed

theorem logout_is_final_witness:
  "\<exists>m. refreshAccessToken (iw_env 2000) ''rnd''
     (id_handle (iw_env 1500) (Ie_register iw_register) (logout (iw_env 1000) ''rnd'' (snd iw_login))) = Inl (Unauthorized m)"
proof -
  obtain row where row: "find_token (sha256 (iw_env 1000) ''rnd'') (snd iw_login) = Some row"
    using iw_token by (auto simp: iw_env_def)
  show ?thesis
    by (rule logout_is_final [OF iw_login_wf row id_run_step [OF id_run_refl]]) (simp add: iw_env_def)
qed

lemma removed_member_keeps_access_witness:
  "\<exists>s1 r. memberships_remove (iw_env 0) ''bob'' ''t1'' iw_state = (Inr (), s1) \<and> switchTenant (iw_env 1) ''bob'' ''t1'' s1 = Inr r"
  using removed_member_keeps_access [OF iw_wf iw_found(3,2), of "iw_env 0" "iw_env 1"] by blast

definition iw_join :: createMembershipDto where
  "iw_join = \<lparr>cm_userId = ''adm'', cm_tenantId = ''t1'', cm_roleId = ''tenant_admin'', cm_status = None\<rparr>"

lemma iw_joined: "\<exists>m. fst (memberships_create (iw_env 0) iw_join iw_state) = Inr m"
  by (simp add: memberships_create_def roles_findById_def store_membership_def insert_membership_def
      membershipStatus_of_def Let_def iw_defs iw_join_def)

theorem memberships_create_exact_witness:
  "\<exists>m. find_membership ''adm'' ''t1'' (snd (memberships_create (iw_env 0) iw_join iw_state)) = Some m \<and>
     m_status m = MS_active"
proof -
  obtain m where m: "memberships_create (iw_env 0) iw_join iw_state = (Inr m, snd (memberships_create (iw_env 0) iw_join iw_state))"
    using iw_joined by (metis prod.collapse)
  from memberships_create_exact [OF iw_wf m] show ?thesis
    by (auto simp: iw_join_def membershipStatus_of_def)
qed

lemma assignRole_unknown_role_removes_member_witness:
  "\<exists>s' m'. RolesController_assignRole (iw_env 0) (iw_caller ''adm'' True) ''bob'' ''t1'' ''nope'' iw_state =
      (Inl (NotFound ''Role with ID nope not found''), s') \<and>
    find_membership ''bob'' ''t1'' s' = Some m' \<and> m_status m' = MS_removed"
proof -
  have "find_role ''nope'' iw_state = None"
    "identity_RolesGuard (Some [''tenant_admin'', ''platform_admin'']) (Some (iw_caller ''adm'' True)) = Inr True"
    by (simp_all add: iw_defs identity_RolesGuard_def)
  from assignRole_unknown_role_removes_member [OF iw_wf iw_found(3) this] show ?thesis by simp
qed

theorem membership_across_tenants_witness:
  "\<exists>resp s' m. MembershipsController_create (iw_env 0) (iw_caller ''bob'' False)
      \<lparr>cm_userId = ''bob'', cm_tenantId = ''t2'', cm_roleId = ''tenant_admin'', cm_status = None\<rparr> iw_state = (Inr resp, s') \<and>
    find_membership ''bob'' ''t2'' s' = Some m \<and> m_status m = MS_active"
  using membership_across_tenants [OF iw_wf, of "iw_caller ''bob'' False" "''t1''" "''t2''" "''tenant_admin''"
      "iw_role ''tenant_admin''" "iw_env 0"] iw_found
  by (auto simp: iw_caller_def permission_def iw_state_def iw_member_def iw_env_def)

definition iw_impersonate :: impersonateDto where
  "iw_impersonate = \<lparr>im_targetUserId = ''bob'', im_targetTenantId = ''t1'', im_reason = ''support case''\<rparr>"

definition iw_start :: "(string \<times> uuid) result \<times> id_state" where
  "iw_start = startImpersonation (iw_env 0) (iw_caller ''adm'' True) iw_impersonate iw_state"

lemma iw_started: "fst iw_start = Inr (''bob'', ''s1'')"
  by (simp add: iw_start_def startImpersonation_def users_findById_def iw_defs iw_impersonate_def Let_def
      issueImpersonationToken_def impersonationClaims_def)

theorem impersonation_confined_witness:
  "\<exists>session. sessionRows (snd iw_start) = [session] \<and> is_tokenHash session = ''h-bob'' \<and> is_adminUserId session = ''adm''"
proof -
  have st: "startImpersonation (iw_env 0) (iw_caller ''adm'' True) iw_impersonate iw_state = (Inr (''bob'', ''s1''), snd iw_start)"
    using iw_started by (simp add: iw_start_def prod_eq_iff)
  from impersonation_confined [OF st] show ?thesis
    by (auto simp: iw_caller_def iw_env_def iw_state_def)
qed

theorem ended_impersonation_token_still_valid_witness:
  "\<exists>s'. JwtStrategy_validate ((iw_caller ''bob'' False)\<lparr>jp_isImpersonating := True, jp_realUserId := Some ''adm''\<rparr>) s' =
     Inr ((iw_caller ''bob'' False)\<lparr>jp_isImpersonating := True, jp_realUserId := Some ''adm''\<rparr>) \<and>
     redis_get 1000 (revokedKey ''h-bob'') (id_redis s') = Some ''1''"
proof -
  let ?p = "(iw_caller ''bob'' False)\<lparr>jp_isImpersonating := True, jp_realUserId := Some ''adm''\<rparr>"
  let ?x = "\<lparr>is_id = ''s1'', is_adminUserId = ''adm'', is_targetUserId = ''bob'', is_targetTenantId = ''t1'',
      is_reason = ''support case'', is_tokenHash = ''h-bob'', is_expiresAt = 1800000, is_endedAt = None, is_createdAt = 0\<rparr>"
  have n: "newest is_createdAt (filter (\<lambda>y. is_targetUserId y = jp_sub ?p \<and> is_adminUserId y = ''adm'' \<and>
      is_endedAt y = None) (sessionRows (iw_state\<lparr>sessionRows := [?x]\<rparr>))) = Some ?x"
    by (simp add: newest_def iw_caller_def)
  show ?thesis
    using ended_impersonation_token_still_valid [OF _ _ _ n, of "iw_env 1000" "iw_user ''bob'' False"]
    by (auto simp: iw_caller_def iw_env_def iw_state_def iw_user_def)
qed

end
