(* ===== verification/Tenant_Witnesses.thy ===== *)
theory Tenant_Witnesses
  imports Tenant_Theorems
begin

text \<open>
  A small concrete deployment of the tenant manager (two features, two plans, one tenant with one
  cached answer) on which the hypotheses of the tenant manager's theorems hold, and each theorem
  applied there.
\<close>

definition ex_feature :: "string \<Rightarrow> featureDefinition" where
  "ex_feature c = \<lparr>fd_id = ''f-'' @ c, fd_code = c, fd_name = c, fd_description = None, fd_category = FC_core,
     fd_defaultEnabled = False, fd_requiresPlan = None, fd_createdAt = 0\<rparr>"

definition ex_plan :: "string \<Rightarrow> string list \<Rightarrow> plan" where
  "ex_plan c fs = \<lparr>p_id = ''p-'' @ c, p_code = c, p_name = c, p_description = None, p_priceMonthly = Some 0,
     p_priceYearly = None, p_stripePriceIdMonthly = None, p_stripePriceIdYearly = None, p_maxUsers = None,
     p_maxUnits = None, p_includedFeatures = fs, p_isActive = True, p_sortOrder = 0,
     p_createdAt = 0, p_updatedAt = 0\<rparr>"

definition ex_tenant :: tenant where
  "ex_tenant = \<lparr>t_id = ''t1'', t_name = ''Acme'', t_slug = ''acme-abcd'', t_status = TS_active,
     t_stripeCustomerId = None, t_currentPlan = ''free'', t_metadata = JObj [], t_enabledFeatures = [''reports''],
     t_adminEmail = ''a@acme.io'', t_phone = None, t_address = None, t_trialEndsAt = None,
     t_suspendedAt = None, t_cancelledAt = None, t_createdAt = 0, t_updatedAt = 0\<rparr>"

definition ex_key :: string where
  "ex_key = ''feature:t1:reports''"

definition ex_state :: tm_state where
  "ex_state = \<lparr>tenants = [ex_tenant],
     tenantFeatures = [\<lparr>tf_id = ''r1'', tf_tenantId = ''t1'', tf_featureCode = ''reports'', tf_isEnabled = True,
       tf_enabledBy = None, tf_enabledAt = 0\<rparr>],
     featureDefs = [ex_feature ''reports'', ex_feature ''api''],
     plans = [ex_plan ''free'' [''reports''], ex_plan ''pro'' [''reports'', ''api''], ex_plan ''beta'' [''sso'']],
     tm_redis = [ex_key \<mapsto> (''1'', Some 9000)],
     tm_bus = \<lparr>channel = True, rejects = \<lambda>_. False, published = []\<rparr>, tm_requests = []\<rparr>"

definition ex_env :: tm_env where
  "ex_env = \<lparr>tm_now = 1000, tm_cacheNow = 1000, newTenantId = ''t2'', newFeatureId = \<lambda>t c. t @ ''/'' @ c, uuidv4 = ''abcd0123'',
     slugify = toLowerCase, parseDate = \<lambda>_. 0, scan = \<lambda>ks pattern. batch_reply [ex_key],
     identityServiceUrl = Some ''http://identity'', internalServiceToken = Some ''secret'', isUUID = \<lambda>_. True,
     tm_pgUuid = \<lambda>_. True\<rparr>"

definition ex_user :: "bool \<Rightarrow> jwtPayload" where
  "ex_user a = \<lparr>jp_sub = ''u1'', jp_email = ''u@acme.io'', jp_displayName = ''U'', jp_isPlatformAdmin = a,
     jp_tenantId = Some ''t1'', jp_tenantSlug = None, jp_roles = Some [''owner''],
     jp_permissions = Some [''billing:read''], jp_isImpersonating = False, jp_realUserId = None,
     jp_iat = 0, jp_exp = 900\<rparr>"

definition ex_update :: "string field \<Rightarrow> updateTenantDto" where
  "ex_update p = \<lparr>ut_name = Undefined, ut_adminEmail = Undefined, ut_plan = p, ut_phone = Value ''123'',
     ut_address = Undefined, ut_metadata = Undefined, ut_stripeCustomerId = Null\<rparr>"

definition ex_create :: "string \<Rightarrow> createTenantDto" where
  "ex_create n = \<lparr>ct_name = n, ct_adminEmail = ''A@New.io'', ct_plan = Some ''pro'', ct_phone = None, ct_address = None,
     ct_metadata = None, ct_stripeCustomerId = None, ct_trialEndsAt = None\<rparr>"

lemmas ex_defs = ex_state_def ex_env_def ex_tenant_def ex_feature_def ex_plan_def ex_key_def
  ex_user_def ex_update_def ex_create_def

lemma ex_wf: "tm_wf ex_state"
  by (simp add: tm_wf_def ex_defs unique_on_def)

lemma ex_inv: "tm_inv ex_state"
  by (simp add: tm_inv_def ex_wf) (simp add: ex_defs)

lemma ex_cacheKey: "cacheKey ''t1'' ''reports'' = ex_key"
  by (simp add: cacheKey_def ex_key_def)

lemma ex_coherent: "coherent 1000 ex_state"
proof -
  have "v = flag (feature_state ex_state t c)"
    if t: "CHR '':'' \<notin> set t" "redis_get 1000 (cacheKey t c) (tm_redis ex_state) = Some v" for t c v
  proof -
    have "cacheKey t c = ex_key" "v = ''1''"
      using t(2) by (auto simp: ex_state_def redis_get_def split: if_splits)
    then have "t = ''t1'' \<and> c = ''reports''"
      using cacheKey_inject [OF t(1), of "''t1''" c "''reports''"] by (simp add: ex_cacheKey)
    with \<open>v = ''1''\<close> show ?thesis by (simp add: feature_state_def ex_defs flag_def)
  qed
  then show ?thesis by (simp add: coherent_def)
qed

lemma ex_scan:
  "scan_complete (scan ex_env (tm_redis ex_state) (tenant_prefix ''t1'' @ ''*'')) 1000 (tm_redis ex_state) (tenant_prefix ''t1'')"
proof -
  have "scan_server (batch_reply [ex_key]) 1"
    using batch.scan_server_axioms [of "[ex_key]"] by (simp add: batch_steps_def)
  moreover have "k = ex_key" if "redis_get 1000 k (tm_redis ex_state) \<noteq> None" for k
    using that by (auto simp: ex_state_def redis_get_def split: if_splits)
  moreover have "prefix (tenant_prefix ''t1'') ex_key" "scan ex_env ks pat = batch_reply [ex_key]" for ks pat
    by (simp_all add: ex_key_def tenant_prefix_def ex_env_def)
  ultimately show ?thesis
    unfolding scan_complete_def by (intro exI [of _ "1::nat"]) (auto simp: batch_reply_def)
qed

theorem isFeatureEnabled_correct_witness:
  "fst (isFeatureEnabled ex_env ''t1'' ''reports'' ex_state) = True \<and>
   fst (isFeatureEnabled ex_env ''t1'' ''api'' ex_state) = False"
proof -
  have "feature_state ex_state ''t1'' ''reports''" "\<not> feature_state ex_state ''t1'' ''api''"
    by (simp_all add: feature_state_def ex_defs)
  then show ?thesis
    using isFeatureEnabled_correct [of ex_env ex_state "''t1''" "''reports''"]
      isFeatureEnabled_correct [of ex_env ex_state "''t1''" "''api''"] ex_coherent
    by (simp add: ex_env_def)
qed

lemma ex_toggle: "fst (toggleFeature ex_env ''t1'' ''api'' True ''u1'' ex_state) =
    Inr \<lparr>tf_id = ''t1/api'', tf_tenantId = ''t1'', tf_featureCode = ''api'', tf_isEnabled = True,
         tf_enabledBy = Some ''u1'', tf_enabledAt = 1000\<rparr>"
  by (simp add: toggleFeature_def ex_defs insert_feature_def Let_def)

theorem toggleFeature_visible_witness:
  "fst (isFeatureEnabled ex_env ''t1'' ''api'' (snd (toggleFeature ex_env ''t1'' ''api'' True ''u1'' ex_state)))"
  using toggleFeature_visible [OF ex_wf surjective_pairing [of "toggleFeature ex_env ''t1'' ''api'' True ''u1'' ex_state", unfolded ex_toggle]]
  by blast

theorem toggleFeature_coherent_witness:
  "coherent 1000 (snd (toggleFeature ex_env ''t1'' ''api'' True ''u1'' ex_state))"
  using toggleFeature_coherent [OF ex_wf ex_coherent _ prod.collapse [symmetric],
      of "''t1''" ex_env "''api''" True "''u1''"] by simp

lemma ex_insertable: "insertable ex_env ''t1'' [''reports'', ''api''] ex_state"
  by (auto simp: insertable_def ex_defs inj_on_def)

theorem invalidateTenantFeatureCache_complete_witness:
  "\<exists>r. invalidateTenantFeatureCache ex_env ''t1'' ex_state = Some (ex_state\<lparr>tm_redis := r\<rparr>) \<and>
     redis_get 1000 ex_key (tm_redis ex_state) = Some ''1'' \<and> redis_get 1000 ex_key r = None"
proof -
  obtain r where r: "invalidateTenantFeatureCache ex_env ''t1'' ex_state = Some (ex_state\<lparr>tm_redis := r\<rparr>)"
    "\<And>c. redis_get 1000 (cacheKey ''t1'' c) r = None"
    using invalidateTenantFeatureCache_complete [OF ex_scan] by auto
  have "redis_get 1000 ex_key (tm_redis ex_state) = Some ''1''"
    by (simp add: ex_state_def redis_get_def)
  with r(1) r(2) [of "''reports''", unfolded ex_cacheKey] show ?thesis by blast
qed

lemma findTenantFeatures_agrees_witness:
  "mset (map fs_code (findTenantFeatures ''t1'' ex_state)) = {#''reports'', ''api''#}"
  using findTenantFeatures_agrees [OF ex_wf, of "''t1''"]
  by (simp add: ex_state_def ex_feature_def)


lemma ex_step: "tm_step ex_env (Ev_suspend (ex_user True) ''t1'' Undefined) ex_state
    (snd (TenantsController_suspend ex_env (ex_user True) ''t1'' Undefined ex_state))"
  by (rule tm_step.suspend)

lemma ex_found: "find_tenant ''t1'' ex_state = Some ex_tenant" "tenants_findById ''t1'' ex_state = Inr ex_tenant"
  by (simp_all add: ex_state_def ex_tenant_def tenants_findById_def)

theorem tenant_status_refinement_witness:
  "\<exists>t'. find_tenant ''t1'' (snd (TenantsController_suspend ex_env (ex_user True) ''t1'' Undefined ex_state)) = Some t' \<and>
     t_slug t' = ''acme-abcd'' \<and> t_status t' = TS_suspended"
  using tenant_status_refinement [OF ex_step ex_found(1)]
  by (auto simp: ex_user_def ex_env_def ex_tenant_def)

text \<open>A fresh deployment, and a tenant created in it.\<close>

definition ex_fresh :: tm_state where
  "ex_fresh = ex_state\<lparr>tenants := [], tenantFeatures := []\<rparr>"

lemma ex_fresh_wf: "tm_wf ex_fresh"
  by (simp add: tm_wf_def ex_fresh_def ex_defs unique_on_def)

definition ex_created :: tm_state where
  "ex_created = snd (TenantsController_create ex_env (ex_user True) (ex_create ''New'') ex_fresh)"

lemma ex_reachable: "tm_reachable ex_created"
  unfolding ex_created_def
  by (rule tm_reachable.step [OF tm_reachable.init tm_step.create])
    (simp add: tm_init_def ex_fresh_def ex_defs unique_on_def)

lemma tm_reachable_invariant_witness: "tm_wf ex_created"
  using tm_reachable_invariant [OF ex_reachable] by blast

lemma ex_createTenant:
  "\<exists>t. fst (createTenant ex_env (ex_create ''New'') ''u1'' ex_fresh) = Inr t \<and> t_id t = ''t2'' \<and>
     t_enabledFeatures t = [''reports'', ''api'']"
  by (simp add: createTenant_def provision_def provisioningRow_def insert_tenant_def tenant_fits_def fits_def toLowerCase_def
      insert_feature_def ex_fresh_def ex_defs plans_findByCode_def save_tenant_def save_row_def finalSlug_def Let_def)

theorem createTenant_all_or_nothing_witness:
  "\<exists>t. fst (createTenant ex_env (ex_create ''New'') ''u1'' ex_fresh) = Inr t \<and>
     tenants (snd (createTenant ex_env (ex_create ''New'') ''u1'' ex_fresh)) = [t] \<and> t_status t = TS_active \<and>
     feature_state (snd (createTenant ex_env (ex_create ''New'') ''u1'' ex_fresh)) ''t2'' ''api''"
proof -
  obtain t where t: "fst (createTenant ex_env (ex_create ''New'') ''u1'' ex_fresh) = Inr t" "t_id t = ''t2''"
      "t_enabledFeatures t = [''reports'', ''api'']"
    using ex_createTenant by blast
  from createTenant_all_or_nothing [OF ex_fresh_wf prod.collapse [symmetric],
      of ex_env "ex_create ''New''" "''u1''"] t
  show ?thesis by (simp add: ex_fresh_def)
qed

definition ex_cancelled :: tm_state where
  "ex_cancelled = ex_state\<lparr>tenants := [ex_tenant\<lparr>t_status := TS_cancelled, t_cancelledAt := Some 500\<rparr>]\<rparr>"

lemma ex_cancelled_tenant: "find_tenant ''t1'' ex_cancelled =
    Some (ex_tenant\<lparr>t_status := TS_cancelled, t_cancelledAt := Some 500\<rparr>)"
  by (simp add: ex_cancelled_def ex_tenant_def)

lemma cancelled_is_final_witness:
  "\<exists>t'. find_tenant ''t1'' (snd (TenantsController_activate ex_env (ex_user True) ''t1'' ex_cancelled)) = Some t' \<and>
     t_status t' = TS_cancelled"
proof -
  have "http_run ex_cancelled (snd (TenantsController_activate ex_env (ex_user True) ''t1'' ex_cancelled))"
    by (rule http_more [OF http_refl tm_step.activate]) simp
  from cancelled_is_final [OF this ex_cancelled_tenant] show ?thesis by auto
qed

theorem billing_reactivates_cancelled_witness:
  "\<exists>t'. find_tenant ''t1'' (handleSubscriptionStatus ex_env (Value ''t1'') (Some ''active'') None ex_cancelled) = Some t' \<and>
     t_status t' = TS_active \<and> t_cancelledAt t' = Some 500"
proof -
  have "tm_inv ex_cancelled"
    using ex_wf by (simp add: tm_inv_def tm_wf_def ex_cancelled_def unique_on_def) (simp add: ex_defs)
  from billing_reactivates_cancelled [OF this ex_cancelled_tenant, of ex_env] show ?thesis by auto
qed

lemma ex_patch: "\<exists>t. patch_tenant (ex_update (Value p)) ex_tenant = Inr t"
  by (simp add: patch_tenant_def ex_update_def)

lemma ex_sync: "sync_codes ex_env ''pro'' ex_state = [''reports'', ''api'']" "sync_codes ex_env [] ex_state = [''reports'']"
    "sync_codes ex_env ''beta'' ex_state = [''sso'']"
  by (simp_all add: plans_findByCode_def ex_defs)

lemma ex_now: "tm_now ex_env = 1000"
  by (simp add: ex_env_def)

lemmas ex_ready = ex_coherent [folded ex_now] ex_scan [folded ex_now]

theorem updateTenant_plan_change_witness:
  "\<exists>saved s'. updateTenant ex_env ''t1'' (ex_update (Value ''pro'')) ex_state = Some (Inr saved, s') \<and>
     t_currentPlan saved = ''pro'' \<and> feature_state s' ''t1'' ''api'' \<and> coherent 1000 s'"
proof -
  obtain t where t: "patch_tenant (ex_update (Value ''pro'')) ex_tenant = Inr t" using ex_patch by blast
  have p: "ut_plan (ex_update (Value ''pro'')) = Value ''pro''" "''pro'' \<noteq> t_currentPlan ex_tenant"
    by (simp_all add: ex_update_def ex_tenant_def)
  from updateTenant_plan_change [OF ex_found(2) t p ex_ready(1) _ _ ex_ready(2), unfolded ex_sync, OF _ ex_insertable]
  show ?thesis by (auto simp: ex_now)
qed

theorem updateTenant_plan_change_partial_witness:
  "\<exists>s'. updateTenant ex_env ''t1'' (ex_update (Value ''beta'')) ex_state = Some (Inl (QueryFailed ''23503''), s') \<and>
     find_override ''t1'' ''reports'' s' = None \<and> tm_redis s' ex_key = Some (''1'', Some 9000)"
proof -
  obtain t where t: "patch_tenant (ex_update (Value ''beta'')) ex_tenant = Inr t" using ex_patch by blast
  have "find_definition ''sso'' ex_state = None" "ut_plan (ex_update (Value ''beta'')) = Value ''beta''"
      "''beta'' \<noteq> t_currentPlan ex_tenant"
      "newFeatureId ex_env ''t1'' ''sso'' \<notin> tf_id ` set (tenantFeatures ex_state)"
      "tm_redis ex_state ex_key = Some (''1'', Some 9000)"
    by (simp_all add: ex_defs)
  with updateTenant_plan_change_partial [OF ex_found(2) t, of "''beta''" ex_env "''sso''" "[]"] ex_sync(3)
  show ?thesis by auto
qed

theorem tenant_isolation_witness:
  "find_tenant ''t1'' (snd (TenantsController_suspend ex_env ((ex_user False)\<lparr>jp_tenantId := None\<rparr>) ''t1'' Undefined ex_state)) =
     Some ex_tenant"
proof -
  let ?u = "(ex_user False)\<lparr>jp_tenantId := None\<rparr>"
  have u: "ev_user (Ev_suspend ?u ''t1'' Undefined) = Some ?u" "\<not> jp_isPlatformAdmin ?u" "jp_tenantId ?u \<noteq> Some ''t1''"
    by (simp_all add: ex_user_def)
  have "find_tenant ''t1'' (snd (TenantsController_suspend ex_env ?u ''t1'' Undefined ex_state)) = find_tenant ''t1'' ex_state"
    using tenant_isolation [OF tm_step.suspend u(1,2), of ex_env ex_state] u(3) by blast
  then show ?thesis by (simp only: ex_found)
qed

theorem empty_plan_bypasses_admin_check_witness:
  "\<exists>resp s' t'. TenantsController_update ex_env (ex_user False) ''t1'' (ex_update (Value [])) ex_state = Some (Inr resp, s') \<and>
     find_tenant ''t1'' s' = Some t' \<and> t_currentPlan t' = []"
proof -
  obtain t where t: "patch_tenant (ex_update (Value [])) ex_tenant = Inr t" using ex_patch by blast
  have ins: "insertable ex_env ''t1'' [''reports''] ex_state"
    by (auto simp: insertable_def ex_defs inj_on_def)
  have u: "\<not> jp_isPlatformAdmin (ex_user False)" "jp_tenantId (ex_user False) = Some ''t1''" "isUUID ex_env ''t1''"
    by (simp_all add: ex_user_def ex_env_def)
  have p: "ut_plan (ex_update (Value [])) = Value []" "t_currentPlan ex_tenant \<noteq> []"
    by (simp_all add: ex_update_def ex_tenant_def)
  from empty_plan_bypasses_admin_check [OF u ex_found(2) t p ex_ready(1) _ _ ex_ready(2), unfolded ex_sync, OF _ ins]
  show ?thesis by auto
qed

end
