(* ===== verification/Billing_Witnesses.thy ===== *)
theory Billing_Witnesses
  imports Billing_Payments
begin

text \<open>
  Concrete runs of the billing engine: each property with hypotheses is applied to a small state
  where they hold.
\<close>

definition xb_bus :: bus where
  "xb_bus = \<lparr>channel = True, rejects = (\<lambda>_. False), published = []\<rparr>"

definition xb_sub :: subscription where
  "xb_sub = \<lparr>sb_id = ''s1'', sb_tenantId = ''t1'', sb_stripeCustomerId = ''cus1'', sb_stripeSubscriptionId = None,
     sb_planCode = ''pro'', sb_status = ''trialing'', sb_currentPeriodStart = None, sb_currentPeriodEnd = None,
     sb_cancelAtPeriodEnd = False, sb_createdAt = 5, sb_updatedAt = 5\<rparr>"

definition xb_inv :: stripeInvoice where
  "xb_inv = \<lparr>si_id = ''in1'', si_customer = Some (CustomerId ''cus1''), si_amount_due = 1999, si_amount_paid = 1999,
     si_currency = ''usd'', si_hosted_invoice_url = None, si_invoice_pdf = None, si_period_start = None,
     si_period_end = None\<rparr>"

definition xb_hook :: webhookEvent where
  "xb_hook = \<lparr>we_id = ''w1'', we_stripeEventId = ''ev1'', we_eventType = ''invoice.paid'',
     we_payload = InvoicePaid xb_inv, we_processed = True, we_processedAt = Some 6, we_errorMessage = None,
     we_createdAt = 6\<rparr>"

definition xb_state :: be_state where
  "xb_state = \<lparr>subRows = [xb_sub], invoiceRows = [], webhookRows = [xb_hook], be_bus = xb_bus,
     stripeCustomers = []\<rparr>"

text \<open>The signature check accepts the body \<open>b1\<close> as the event \<open>ev1\<close> and \<open>b2\<close> as \<open>ev2\<close>.\<close>

definition xb_long :: stripeSubscription where
  "xb_long = \<lparr>ss_id = ''sub1'', ss_customer = Customer ''cus1'', ss_status = ''active'', ss_current_period_start = 1,
     ss_current_period_end = 2, ss_cancel_at_period_end = False, ss_items = []\<rparr>"

definition xb_events :: "string \<Rightarrow> string option \<Rightarrow> string \<Rightarrow> stripeEvent option" where
  "xb_events body sig secret =
     (if sig \<noteq> Some ''ok'' then None
      else if body = ''b1'' then Some \<lparr>ev_id = ''ev1'', ev_data = InvoicePaid xb_inv\<rparr>
      else Some \<lparr>ev_id = ''ev2'', ev_data = SubscriptionCreated xb_long\<rparr>)"

definition xb_env :: be_env where
  "xb_env = \<lparr>be_now = 10, newSubscriptionId = ''s2'', newInvoiceId = ''i1'', newWebhookId = ''w2'',
     be_isUUID = (\<lambda>_. True), driver_message = (\<lambda>c. c), db_fault = (\<lambda>_. None), constructEvent = xb_events,
     webhookSecret = None, customers_create = (\<lambda>_ _ _. Inr ''cus2''), checkout_sessions_create = (\<lambda>_. Inr None),
     portal_sessions_create = (\<lambda>_ _. Inr []), successUrl = [], cancelUrl = [], portalReturnUrl = [],
     date_trunc_month = (\<lambda>t. (t div 100) * 100), to_char = (\<lambda>f t. f)\<rparr>"

text \<open>The same request while writes to the subscriptions fail.\<close>

definition xb_outage :: be_env where
  "xb_outage = xb_env\<lparr>db_fault := (\<lambda>st. if st = SubWrite then Some (JsError ''connection terminated'') else None)\<rparr>"

definition xb_user :: jwtPayload where
  "xb_user = \<lparr>jp_sub = ''u1'', jp_email = ''a'', jp_displayName = ''A'', jp_isPlatformAdmin = False,
     jp_tenantId = Some ''t1'', jp_tenantSlug = None, jp_roles = Some [], jp_permissions = Some [],
     jp_isImpersonating = False, jp_realUserId = None, jp_iat = 0, jp_exp = 100\<rparr>"

lemmas xb_defs = xb_bus_def xb_sub_def xb_inv_def xb_hook_def xb_state_def xb_long_def xb_events_def xb_env_def
  xb_outage_def xb_user_def

lemma xb_wf: "be_wf xb_state"
  by (simp add: be_wf_def xb_defs unique_on_def)

lemma xb_up: "bus_up (be_bus xb_state)" "be_healthy xb_env xb_state"
  by (simp_all add: be_healthy_def bus_up_def xb_defs)

lemma xb_fits: "length t \<le> n \<Longrightarrow> fits n t"
  by (simp add: fits_def)

lemma xb_accepted: "invoice_accepted xb_env xb_inv xb_state"
  by (simp add: invoice_accepted_def xb_defs fits_def invoice_customer_def in_decimal_12_2_def)

lemma xb_customer: "find_sub_by_customer (invoice_customer xb_inv) xb_state = Some xb_sub"
  by (simp add: xb_defs invoice_customer_def)

lemma be_reachable_invariant_witness:
  "be_wf (be_handle xb_env (Provisioned \<lparr>tp_tenantId = ''t9'', tp_slug = ''a'', tp_plan = ''free'', tp_adminEmail = ''x''\<rparr>) (be_empty xb_bus))"
proof -
  have "be_reachable (be_handle xb_env (Provisioned \<lparr>tp_tenantId = ''t9'', tp_slug = ''a'', tp_plan = ''free'', tp_adminEmail = ''x''\<rparr>) (be_empty xb_bus))"
    unfolding be_reachable_def by (blast intro: run_refl run_step)
  from be_reachable_invariant [OF this] show ?thesis by simp
qed

theorem processed_webhook_never_reapplied_witness:
  "handleWebhook xb_env ''b1'' (Some ''ok'') (be_handle xb_env (Deliver ''b2'' (Some ''ok'')) xb_state) =
     (Inr ReceivedDuplicate, be_handle xb_env (Deliver ''b2'' (Some ''ok'')) xb_state)"
proof (rule processed_webhook_never_reapplied [OF xb_wf])
  show "find_webhook (ev_id \<lparr>ev_id = ''ev1'', ev_data = InvoicePaid xb_inv\<rparr>) xb_state = Some xb_hook"
    by (simp add: xb_state_def xb_hook_def)
  show "be_run xb_state (be_handle xb_env (Deliver ''b2'' (Some ''ok'')) xb_state)" by (blast intro: run_refl run_step)
qed (simp_all add: xb_hook_def xb_env_def xb_events_def)

lemma xb_served: "hook_served xb_outage \<lparr>ev_id = ''ev2'', ev_data = SubscriptionCreated xb_long\<rparr> xb_state"
  by (simp add: hook_served_def xb_defs fits_def)

lemma xb_fails:
  "fst (processEvent xb_outage (SubscriptionCreated xb_long) s) = Inl (JsError ''connection terminated'')"
  if "find_sub_by_customer ''cus1'' s = Some xb_sub"
  using that by (simp add: handleSubscriptionCreated_def linkStripeSubscription_def findByStripeCustomerId_def
      xb_outage_def xb_env_def xb_long_def on_db_def)

theorem webhook_outcome_witness:
  "\<exists>w s'. handleWebhook xb_outage ''b2'' (Some ''ok'') xb_state = (Inr Received, s') \<and>
     find_webhook ''ev2'' s' = Some w \<and> \<not> we_processed w \<and> we_errorMessage w = Some ''connection terminated''"
proof -
  let ?ev = "\<lparr>ev_id = ''ev2'', ev_data = SubscriptionCreated xb_long\<rparr>"
  let ?s = "with_record xb_outage ?ev xb_state"
  have "find_sub_by_customer ''cus1'' ?s = Some xb_sub" by (simp add: with_record_def xb_state_def xb_sub_def)
  from xb_fails [OF this] obtain s2 where run:
    "processEvent xb_outage (ev_data ?ev) ?s = (Inl (JsError ''connection terminated''), s2)"
    by (cases "processEvent xb_outage (ev_data ?ev) ?s") simp
  have "constructEvent xb_outage ''b2'' (Some ''ok'') (coalesce (webhookSecret xb_outage) []) = Some ?ev"
    by (simp add: xb_outage_def xb_env_def xb_events_def)
  moreover have "\<not> is_processed (ev_id ?ev) xb_state" by (simp add: is_processed_def xb_state_def xb_hook_def)
  ultimately have "\<exists>w s'. handleWebhook xb_outage ''b2'' (Some ''ok'') xb_state = (Inr Received, s') \<and>
      find_webhook (ev_id ?ev) s' = Some w \<and> \<not> we_processed w \<and>
      we_errorMessage w = Some (exn_message xb_outage (JsError ''connection terminated''))"
    using webhook_outcome [OF xb_wf xb_served _ _ run, of "''b2''" "Some ''ok''"] by fastforce
  then show ?thesis by simp
qed

theorem payment_failure_and_recovery_witness:
  "\<exists>s1 s2. processEvent xb_env (InvoicePaymentFailed xb_inv) xb_state = (Inr (), s1) \<and>
     processEvent xb_env (InvoicePaid xb_inv) s1 = (Inr (), s2) \<and>
     map_option iv_amountPaid (find_invoice ''in1'' s2) = Some (1999 / 100) \<and> length (published (be_bus s2)) = 3"
proof -
  have "find_invoice (si_id xb_inv) xb_state = None" by (simp add: xb_state_def)
  from payment_failure_and_recovery [OF xb_wf xb_up(2) xb_up(2) xb_customer refl this xb_accepted]
  obtain s1 s2 where "processEvent xb_env (InvoicePaymentFailed xb_inv) xb_state = (Inr (), s1)"
    "processEvent xb_env (InvoicePaid xb_inv) s1 = (Inr (), s2)"
    "map_option iv_amountPaid (find_invoice (si_id xb_inv) s2) = Some (of_int (si_amount_paid xb_inv) / 100)"
    "published (be_bus s2) = published (be_bus xb_state) @ [status_msg (sb_tenantId xb_sub) ''past_due'',
      payment_msg xb_env xb_inv (sb_tenantId xb_sub), status_msg (sb_tenantId xb_sub) ''active'']" by blast
  then show ?thesis by (simp add: xb_state_def xb_bus_def xb_inv_def)
qed

lemma xb_paid: "\<exists>s1. processEvent xb_env (InvoicePaid xb_inv) xb_state = (Inr (), s1) \<and>
    (\<exists>s2. processEvent xb_env (InvoicePaid xb_inv) s1 = (Inr (), s2))"
  by (simp add: handleInvoicePaid_def findByStripeCustomerId_def upsertFromStripe_def insert_invoice_def
      save_invoice_def emit_event_def invoice_of_def paid_invoice_dto_def invoice_customer_def xb_defs
      fits_def in_decimal_12_2_def)

theorem invoice_counted_once_witness:
  "\<exists>s1 s2. processEvent xb_env (InvoicePaid xb_inv) xb_state = (Inr (), s1) \<and>
     processEvent xb_env (InvoicePaid xb_inv) s1 = (Inr (), s2) \<and>
     getTotalRevenue s1 = 1999 / 100 \<and> getTotalRevenue s2 = 1999 / 100"
proof -
  obtain s1 s2 where s: "processEvent xb_env (InvoicePaid xb_inv) xb_state = (Inr (), s1)"
    "processEvent xb_env (InvoicePaid xb_inv) s1 = (Inr (), s2)" using xb_paid by blast
  from invoice_counted_once [OF xb_wf xb_customer s] s show ?thesis
    by (simp add: getTotalRevenue_def sum_paid_def paid_on_def xb_state_def xb_inv_def)
qed

theorem tenant_provisioned_once_witness:
  "\<exists>r s'. onTenantProvisioned xb_env \<lparr>tp_tenantId = ''t9'', tp_slug = ''a'', tp_plan = ''free'', tp_adminEmail = ''x''\<rparr> xb_state = s' \<and>
     subRows s' = [xb_sub, r] \<and> sb_status r = ''active'' \<and>
     onTenantProvisioned xb_env \<lparr>tp_tenantId = ''t9'', tp_slug = ''a'', tp_plan = ''free'', tp_adminEmail = ''x''\<rparr> s' =
       s'\<lparr>stripeCustomers := [(''cus2'', ''t9''), (''cus2'', ''t9'')]\<rparr>"
proof -
  let ?m = "\<lparr>tp_tenantId = ''t9'', tp_slug = ''a'', tp_plan = ''free'', tp_adminEmail = ''x''\<rparr>"
  have "find_sub (tp_tenantId ?m) xb_state = None" "provision_accepted xb_env ?m ''cus2'' xb_state"
    by (simp_all add: provision_accepted_def xb_defs fits_def)
  from tenant_provisioned_once [OF this xb_up(1), of ?m xb_env] show ?thesis by (auto simp: xb_state_def xb_env_def)
qed

theorem second_customer_takes_over_witness:
  "\<exists>s'. processEvent xb_env (CustomerCreated \<lparr>sc_id = ''cus2'', sc_metadata_tenantId = Some ''t1''\<rparr>) xb_state = (Inr (), s') \<and>
     processEvent xb_env (InvoicePaid xb_inv) s' = (Inr (), s')"
proof -
  let ?c = "\<lparr>sc_id = ''cus2'', sc_metadata_tenantId = Some ''t1''\<rparr>"
  have "find_sub ''t1'' xb_state = Some xb_sub" "\<forall>st. db_fault xb_env st = None" "be_isUUID xb_env ''t1''"
    "''t1'' \<noteq> []" "sc_metadata_tenantId ?c = Some ''t1''" "fits 100 (sc_id ?c)"
    "filter (\<lambda>x. sb_stripeCustomerId x = ''cus1'') (subRows xb_state) = [xb_sub]" "sc_id ?c \<noteq> ''cus1''"
    "invoice_customer xb_inv = ''cus1''"
    by (simp_all add: xb_defs fits_def invoice_customer_def)
  from second_customer_takes_over [OF this] show ?thesis by blast
qed

definition xb_row :: "string \<Rightarrow> instant \<Rightarrow> invoice" where
  "xb_row i c = (invoice_of xb_env (paid_invoice_dto xb_env xb_inv ''t1''))\<lparr>iv_stripeInvoiceId := i, iv_createdAt := c\<rparr>"

theorem invoice_pages_partition_witness:
  "concat (map (page_rows xb_env xb_user 2 (xb_state\<lparr>invoiceRows := [xb_row ''a'' 1, xb_row ''b'' 3, xb_row ''c'' 2]\<rparr>))
     [1..<Suc (page_count xb_env xb_user 2 (xb_state\<lparr>invoiceRows := [xb_row ''a'' 1, xb_row ''b'' 3, xb_row ''c'' 2]\<rparr>))]) =
   [xb_row ''b'' 3, xb_row ''c'' 2, xb_row ''a'' 1]"
proof -
  let ?s = "xb_state\<lparr>invoiceRows := [xb_row ''a'' 1, xb_row ''b'' 3, xb_row ''c'' 2]\<rparr>"
  have "tenant_invoices ''t1'' ?s = [xb_row ''b'' 3, xb_row ''c'' 2, xb_row ''a'' 1]"
    by (simp add: tenant_invoices_def xb_row_def invoice_of_def paid_invoice_dto_def)
  moreover have "concat (map (page_rows xb_env xb_user 2 ?s) [1..<Suc (page_count xb_env xb_user 2 ?s)]) =
      tenant_invoices ''t1'' ?s"
    by (rule invoice_pages_partition) (simp_all add: xb_user_def xb_env_def)
  ultimately show ?thesis by simp
qed

text \<open>The outage is over when the event is delivered again.\<close>

definition xb_retry :: be_env where
  "xb_retry = xb_env\<lparr>newWebhookId := ''w3''\<rparr>"

definition xb_failed :: be_state where
  "xb_failed = snd (handleWebhook xb_outage ''b2'' (Some ''ok'') xb_state)"

lemma xb_failed_rows: "subRows xb_failed = [xb_sub]" "we_id ` set (webhookRows xb_failed) = {''w1'', ''w2''}"
  by (simp_all add: xb_failed_def handleWebhook_def constructWebhookEvent_def upsert_webhook_def processAndMark_def
      handleSubscriptionCreated_def linkStripeSubscription_def findByStripeCustomerId_def markError_def update_webhook_def
      on_db_def save_row_def update_where_def fits_def Let_def xb_defs)

lemma xb_retry_succeeds: "\<exists>s3. processEvent xb_retry (SubscriptionCreated xb_long) s = (Inr (), s3)"
  if "subRows s = [xb_sub]"
  using that by (simp add: handleSubscriptionCreated_def linkStripeSubscription_def findByStripeCustomerId_def
      save_subscription_def subscription_fits_def fits_def save_row_def publishSubscriptionStatus_def emit_event_def
      Let_def xb_retry_def xb_env_def xb_long_def xb_sub_def on_db_def)

theorem redelivery_recovers_witness:
  "\<exists>s4. handleWebhook xb_retry ''b2'' (Some ''ok'') xb_failed = (Inr Received, s4) \<and> is_processed ''ev2'' s4 \<and>
     handleWebhook xb_env ''b2'' (Some ''ok'') s4 = (Inr ReceivedDuplicate, s4)"
proof -
  let ?ev = "\<lparr>ev_id = ''ev2'', ev_data = SubscriptionCreated xb_long\<rparr>"
  have "find_sub_by_customer ''cus1'' (with_record xb_outage ?ev xb_state) = Some xb_sub"
    by (simp add: with_record_def xb_state_def xb_sub_def)
  from xb_fails [OF this] obtain s2 where run:
    "processEvent xb_outage (ev_data ?ev) (with_record xb_outage ?ev xb_state) = (Inl (JsError ''connection terminated''), s2)"
    by (cases "processEvent xb_outage (ev_data ?ev) (with_record xb_outage ?ev xb_state)") simp
  have sig: "constructEvent e ''b2'' (Some ''ok'') (coalesce (webhookSecret e) []) = Some ?ev"
    if "e \<in> {xb_outage, xb_retry, xb_env}" for e
    using that by (auto simp: xb_outage_def xb_retry_def xb_env_def xb_events_def)
  have new: "\<not> is_processed (ev_id ?ev) xb_state" by (simp add: is_processed_def xb_state_def xb_hook_def)
  have served: "hook_served xb_retry ?ev xb_failed"
    by (simp add: hook_served_def xb_failed_rows xb_retry_def xb_env_def fits_def)
  have "subRows (with_record xb_retry ?ev xb_failed) = [xb_sub]" by (simp add: with_record_def xb_failed_rows)
  then obtain s3 where ok: "processEvent xb_retry (ev_data ?ev) (with_record xb_retry ?ev xb_failed) = (Inr (), s3)"
    using xb_retry_succeeds by auto
  have up: "db_fault xb_env WhFind = None" by (simp add: xb_env_def)
  from redelivery_recovers [OF xb_wf xb_served sig new run xb_failed_def served ok up] show ?thesis by auto
qed

end
