(* ===== verification/Sdk_Features.thy ===== *)
theory Sdk_Features
  imports Access_Control "HOL-Library.AList"
begin

text \<open>
  The SDK's feature gate: \<^verbatim>\<open>FeatureFlagService\<close> with its bounded in-process cache, behind
  \<^verbatim>\<open>FeatureGateGuard\<close>. The cache is a JavaScript \<^verbatim>\<open>Map\<close>, an association list in insertion order:
  \<^verbatim>\<open>set\<close> on a present key keeps its place. The HTTP call is a parameter.
\<close>

subsection \<open>Model\<close>

record chassisOptions =
  co_serviceName :: string
  co_tenantManagerUrl :: "string option"
  co_rabbitmqUrl :: "string option"
  co_redisUrl :: "string option"
  co_jwtSecret :: "string option"
  co_serviceToken :: "string option"
  co_enableAuditLogging :: "bool option"
  co_enableFeatureGating :: "bool option"
  co_requestTimeoutMs :: "int option"

text \<open>A fetch throws (network error, timeout) or answers a status and a body, parsed when it is JSON.\<close>

datatype fetchReply = FetchThrows | FetchReply nat "json option"

definition response_ok :: "nat \<Rightarrow> bool" where
  "response_ok status \<longleftrightarrow> 200 \<le> status \<and> status \<le> 299"

text \<open>A property of a parsed body; the last one of a name counts. A missing one is undefined.\<close>

fun json_get :: "string \<Rightarrow> json \<Rightarrow> json option" where
  "json_get k (JObj fs) = map_of (rev fs) k"
| "json_get k _ = None"

fun json_truthy :: "json \<Rightarrow> bool" where
  "json_truthy JNull = False"
| "json_truthy (JBool b) = b"
| "json_truthy (JNum n) = (n \<noteq> 0)"
| "json_truthy (JStr s) = (s \<noteq> [])"
| "json_truthy _ = True"

text \<open>\<^verbatim>\<open>body?.data?.isEnabled ?? false\<close>, as the truth value its readers take it for.\<close>

definition flag_of :: "json \<Rightarrow> bool" where
  "flag_of body =
     (case json_get ''data'' body of None \<Rightarrow> False
      | Some d \<Rightarrow> (case json_get ''isEnabled'' d of None \<Rightarrow> False | Some v \<Rightarrow> json_truthy v))"

record cacheEntry =
  ce_value :: bool
  ce_expiresAt :: instant

type_synonym flagCache = "(string \<times> cacheEntry) list"

definition cacheTtlMs :: int where
  "cacheTtlMs = 60000"

definition MAX_CACHE_SIZE :: nat where
  "MAX_CACHE_SIZE = 1000"

definition setCacheEntry :: "string \<Rightarrow> cacheEntry \<Rightarrow> flagCache \<Rightarrow> flagCache" where
  "setCacheEntry key v cache =
     AList.update key v
       (if MAX_CACHE_SIZE \<le> length cache then AList.delete (fst (hd cache)) cache else cache)"

text \<open>A template literal prints an absent header as \<open>undefined\<close>.\<close>

definition show_opt :: "string option \<Rightarrow> string" where
  "show_opt v = coalesce v ''undefined''"

definition flagKey :: "string option \<Rightarrow> string \<Rightarrow> string" where
  "flagKey tenantId featureCode = show_opt tenantId @ '':'' @ featureCode"

definition featureUrl :: "string \<Rightarrow> string option \<Rightarrow> string \<Rightarrow> string" where
  "featureUrl base tenantId featureCode =
     base @ ''/api/v1/tenants/'' @ show_opt tenantId @ ''/features/'' @ featureCode"

text \<open>
  The call behind a miss; \<open>fetch\<close> is given the URL and the \<^verbatim>\<open>X-Service-Token\<close> header. Only an
  answer is cached, a failure is not. The expiry counts from the clock when the answer has been
  \<open>received\<close>, the test of the cached entry is against the clock when the request was \<open>sent\<close>.
\<close>

definition fetchFlag ::
    "chassisOptions \<Rightarrow> (string \<Rightarrow> string \<Rightarrow> fetchReply) \<Rightarrow> instant \<Rightarrow> string option \<Rightarrow> string \<Rightarrow>
       flagCache \<Rightarrow> bool \<times> flagCache" where
  "fetchFlag opts fetch received tenantId featureCode cache =
     (case fetch (featureUrl (the (co_tenantManagerUrl opts)) tenantId featureCode)
             (coalesce (co_serviceToken opts) []) of
        FetchThrows \<Rightarrow> (False, cache)
      | FetchReply status body \<Rightarrow>
          if \<not> response_ok status then (False, cache)
          else (case body of
             None \<Rightarrow> (False, cache)
           | Some b \<Rightarrow>
               (flag_of b, setCacheEntry (flagKey tenantId featureCode)
                  \<lparr>ce_value = flag_of b, ce_expiresAt = received + cacheTtlMs\<rparr> cache)))"

definition gating_on :: "chassisOptions option \<Rightarrow> bool" where
  "gating_on options =
     (case options of None \<Rightarrow> False
      | Some opts \<Rightarrow> truthy (co_tenantManagerUrl opts) \<and> co_enableFeatureGating opts = Some True)"

definition isEnabled ::
    "chassisOptions option \<Rightarrow> (string \<Rightarrow> string \<Rightarrow> fetchReply) \<Rightarrow> instant \<Rightarrow> instant \<Rightarrow> string option \<Rightarrow> string \<Rightarrow>
       flagCache \<Rightarrow> bool \<times> flagCache" where
  "isEnabled options fetch sent received tenantId featureCode cache =
     (if \<not> gating_on options then (True, cache)
      else case map_of cache (flagKey tenantId featureCode) of
        None \<Rightarrow> fetchFlag (the options) fetch received tenantId featureCode cache
      | Some cached \<Rightarrow>
          if sent < ce_expiresAt cached then (ce_value cached, cache)
          else fetchFlag (the options) fetch received tenantId featureCode cache)"

subsection \<open>The cache is bounded\<close>

lemma length_delete_hd: "xs \<noteq> [] \<Longrightarrow> length (AList.delete (fst (hd xs)) xs) < length xs"
  by (cases xs) (auto simp: AList.delete_eq intro: le_imp_less_Suc)

lemma length_update_le: "length (AList.update k v xs) \<le> Suc (length xs)"
  by (induction xs) auto

lemma setCacheEntry_bounded:
  assumes "length cache \<le> MAX_CACHE_SIZE"
  shows "length (setCacheEntry key v cache) \<le> MAX_CACHE_SIZE"
proof -
  let ?c = "if MAX_CACHE_SIZE \<le> length cache then AList.delete (fst (hd cache)) cache else cache"
  have "length ?c < MAX_CACHE_SIZE"
  proof (cases "MAX_CACHE_SIZE \<le> length cache")
    case True
    then have "cache \<noteq> []" by (auto simp: MAX_CACHE_SIZE_def)
    from length_delete_hd [OF this] True assms show ?thesis by simp
  qed simp
  moreover have "length (AList.update key v ?c) \<le> Suc (length ?c)" by (rule length_update_le)
  ultimately show ?thesis unfolding setCacheEntry_def by linarith
qed

lemma setCacheEntry_distinct:
  "distinct (map fst cache) \<Longrightarrow> distinct (map fst (setCacheEntry key v cache))"
  by (simp add: setCacheEntry_def AList.distinct_update AList.distinct_delete)

lemma set_update_sub: "set (AList.update k v xs) \<subseteq> insert (k, v) (set xs)"
  by (induction xs) auto

lemma set_setCacheEntry: "set (setCacheEntry key v cache) \<subseteq> insert (key, v) (set cache)"
proof -
  have "set (AList.delete k cache) \<subseteq> set cache" for k by (auto simp: AList.delete_eq)
  then have "set (if MAX_CACHE_SIZE \<le> length cache then AList.delete (fst (hd cache)) cache else cache) \<subseteq> set cache"
    by simp
  from order_trans [OF set_update_sub insert_mono [OF this]] show ?thesis
    unfolding setCacheEntry_def .
qed

subsection \<open>Runs\<close>

text \<open>
  The caches a process can hold at an instant, when the tenant manager answers \<open>world t\<close> at the
  instant \<open>t\<close>. Checks may be in flight at the same time: a hit leaves the cache alone, and a miss changes it
  when its answer is received, whatever has been cached since it was sent. An answer is received at most
  five seconds after it was given (\<^verbatim>\<open>AbortSignal.timeout\<close> ends the request otherwise), the clock does not go
  back, and the tenant identifiers the gateway forwards contain no colon.
\<close>

inductive flag_run :: "chassisOptions option \<Rightarrow> (instant \<Rightarrow> string \<Rightarrow> string \<Rightarrow> fetchReply) \<Rightarrow> instant \<Rightarrow> flagCache \<Rightarrow> bool"
  for options world where
  flag_start: "flag_run options world now []"
| flag_received: "flag_run options world now cache \<Longrightarrow> now \<le> received \<Longrightarrow>
    answered \<le> received \<Longrightarrow> received \<le> answered + 5000 \<Longrightarrow> CHR '':'' \<notin> set (show_opt tenantId) \<Longrightarrow>
    flag_run options world received (snd (fetchFlag (the options) (world answered) received tenantId code cache))"

inductive_cases flag_run_elim: "flag_run options world now cache"

text \<open>What the tenant manager said about a feature.\<close>

definition said :: "chassisOptions option \<Rightarrow> (string \<Rightarrow> string \<Rightarrow> fetchReply) \<Rightarrow> string option \<Rightarrow> string \<Rightarrow> bool option" where
  "said options fetch tenantId code =
     (case fetch (featureUrl (the (co_tenantManagerUrl (the options))) tenantId code)
             (coalesce (co_serviceToken (the options)) []) of
        FetchThrows \<Rightarrow> None
      | FetchReply status body \<Rightarrow> if response_ok status then map_option flag_of body else None)"

lemma fetchFlag_said:
  "fetchFlag (the options) fetch received tenantId code cache =
     (case said options fetch tenantId code of
        None \<Rightarrow> (False, cache)
      | Some b \<Rightarrow> (b, setCacheEntry (flagKey tenantId code) \<lparr>ce_value = b, ce_expiresAt = received + cacheTtlMs\<rparr> cache))"
  by (auto simp: fetchFlag_def said_def split: fetchReply.split option.split)

lemma isEnabled_cases:
  obtains (off) "\<not> gating_on options" "isEnabled options fetch sent received tenantId code cache = (True, cache)"
  | (hit) ce where "map_of cache (flagKey tenantId code) = Some ce" "sent < ce_expiresAt ce"
      "isEnabled options fetch sent received tenantId code cache = (ce_value ce, cache)"
  | (fetched) "isEnabled options fetch sent received tenantId code cache =
      fetchFlag (the options) fetch received tenantId code cache"
proof (cases "\<not> gating_on options")
  case True
  then show ?thesis using off by (simp add: isEnabled_def)
next
  case False
  show ?thesis
  proof (cases "\<exists>ce. map_of cache (flagKey tenantId code) = Some ce \<and> sent < ce_expiresAt ce")
    case True
    then show ?thesis using hit False by (auto simp: isEnabled_def)
  next
    case miss: False
    then show ?thesis using False by (intro fetched) (auto simp: isEnabled_def split: option.split)
  qed
qed

text \<open>A whole check, from a cache of the run, ends in one.\<close>

lemma isEnabled_runs:
  assumes "flag_run options world now cache" "now \<le> sent" "sent \<le> answered" "answered \<le> received" "received \<le> sent + 5000"
    and "CHR '':'' \<notin> set (show_opt tenantId)"
  shows "\<exists>now'. flag_run options world now' (snd (isEnabled options (world answered) sent received tenantId code cache))"
proof (cases rule: isEnabled_cases [of options "world answered" sent received tenantId code cache])
  case fetched
  with flag_received [OF assms(1) _ assms(4) _ assms(6), of code] assms(2,3,4,5) show ?thesis by auto
qed (use assms(1) in auto)

lemma flagKey_inject:
  "CHR '':'' \<notin> set (show_opt t) \<Longrightarrow> CHR '':'' \<notin> set (show_opt t') \<Longrightarrow>
     flagKey t c = flagKey t' c' \<Longrightarrow> show_opt t = show_opt t' \<and> c = c'"
  using sep_append_inject [of "CHR '':''" "show_opt t" "show_opt t'" c c'] by (simp add: flagKey_def)

lemma said_cong: "show_opt t = show_opt t' \<Longrightarrow> said options fetch t c = said options fetch t' c"
  by (simp add: said_def featureUrl_def)

text \<open>Every entry repeats an answer of the tenant manager that was received a minute before it expires.\<close>

definition grounded_entry ::
    "chassisOptions option \<Rightarrow> (instant \<Rightarrow> string \<Rightarrow> string \<Rightarrow> fetchReply) \<Rightarrow> instant \<Rightarrow> string \<times> cacheEntry \<Rightarrow> bool" where
  "grounded_entry options world now p \<longleftrightarrow>
     (\<exists>t tid c. fst p = flagKey tid c \<and> CHR '':'' \<notin> set (show_opt tid) \<and> t \<le> now \<and>
        ce_expiresAt (snd p) \<le> t + 5000 + cacheTtlMs \<and> said options (world t) tid c = Some (ce_value (snd p)))"

abbreviation grounded ::
    "chassisOptions option \<Rightarrow> (instant \<Rightarrow> string \<Rightarrow> string \<Rightarrow> fetchReply) \<Rightarrow> instant \<Rightarrow> flagCache \<Rightarrow> bool" where
  "grounded options world now cache \<equiv> \<forall>p \<in> set cache. grounded_entry options world now p"

lemma grounded_entry_later:
  "grounded_entry options world now p \<Longrightarrow> now \<le> now' \<Longrightarrow> grounded_entry options world now' p"
  unfolding grounded_entry_def by (meson order_trans)

lemma grounded_later: "grounded options world now cache \<Longrightarrow> now \<le> now' \<Longrightarrow> grounded options world now' cache"
  using grounded_entry_later by blast

lemma grounded_set:
  assumes "grounded options world now cache" "said options (world answered) tid c = Some b" "CHR '':'' \<notin> set (show_opt tid)"
    and "answered \<le> now" "now \<le> answered + 5000"
  shows "grounded options world now
    (setCacheEntry (flagKey tid c) \<lparr>ce_value = b, ce_expiresAt = now + cacheTtlMs\<rparr> cache)"
proof -
  have "grounded_entry options world now (flagKey tid c, \<lparr>ce_value = b, ce_expiresAt = now + cacheTtlMs\<rparr>)"
    unfolding grounded_entry_def by (intro exI [of _ answered] exI [of _ tid] exI [of _ c]) (use assms in simp)
  then show ?thesis
    using assms(1) set_setCacheEntry [of "flagKey tid c" "\<lparr>ce_value = b, ce_expiresAt = now + cacheTtlMs\<rparr>" cache]
    by blast
qed

lemma flag_run_grounded: "flag_run options world now cache \<Longrightarrow> grounded options world now cache"
proof (induction rule: flag_run.induct)
  case (flag_received now cache received answered tenantId code)
  have g: "grounded options world received cache" using grounded_later [OF flag_received.IH flag_received.hyps(2)] .
  show ?case
  proof (cases "said options (world answered) tenantId code")
    case None
    show ?thesis unfolding fetchFlag_said None using g by simp
  next
    case (Some b)
    show ?thesis unfolding fetchFlag_said Some option.case snd_conv
      by (rule grounded_set [OF g Some flag_received.hyps(5,3,4)])
  qed
qed simp

text \<open>C36: the cache of feature flags never holds more than a thousand entries nor two for one key, whatever
  is asked and answered.\<close>

theorem feature_cache_bounded:
  assumes "flag_run options world now cache"
  shows "length cache \<le> MAX_CACHE_SIZE \<and> distinct (map fst cache)"
  using assms
proof (induction rule: flag_run.induct)
  case (flag_received now cache received answered tenantId code)
  then show ?case
    by (cases "said options (world answered) tenantId code")
      (simp_all add: fetchFlag_said setCacheEntry_bounded setCacheEntry_distinct)
qed (simp add: MAX_CACHE_SIZE_def)

text \<open>C17: the feature gate, where it gates, fails closed and is little more than a minute behind. When
  gating is configured and the guard was given the flag service as its checker, a request for a gated
  feature passes only if the tenant manager answered that the feature is enabled for the tenant, during
  the check or less than 65 seconds before it (an answer may take five seconds and is then cached for a
  minute); an unreachable or failing tenant manager admits nothing else. When gating is not configured, or
  the guard was given no checker, every request passes.\<close>

theorem feature_gate_sound:
  assumes run: "flag_run options world now0 cache" and time: "now0 \<le> sent" "sent \<le> answered" "answered \<le> received"
    and code: "code \<noteq> []" and tid: "CHR '':'' \<notin> set (show_opt (h ''x-tenant-id''))"
    and gate: "sdk_FeatureGateGuard (Some code) checker h cache = (outcome, cache')"
    and checker: "checker = None \<or> checker = Some (isEnabled options (world answered) sent received)"
  shows "if checker = None \<or> \<not> gating_on options then outcome = Inr True \<and> cache' = cache
    else case outcome of
      Inr _ \<Rightarrow> \<exists>t \<le> received. sent < t + 65000 \<and> said options (world t) (h ''x-tenant-id'') code = Some True
    | Inl x \<Rightarrow> \<exists>why. x = Forbidden why"
proof (cases "checker = None \<or> \<not> gating_on options")
  case True
  with checker gate code show ?thesis by (auto simp: sdk_FeatureGateGuard_def isEnabled_def split: prod.splits)
next
  case on: False
  let ?check = "isEnabled options (world answered) sent received (h ''x-tenant-id'') code cache"
  have c: "checker = Some (isEnabled options (world answered) sent received)" using on checker by blast
  have g: "grounded options world now0 cache" using flag_run_grounded [OF run] .
  have out: "outcome = (if fst ?check then Inr True
      else Inl (Forbidden (''Feature '' @ quoted code @ '' is not enabled for this tenant'')))"
    using gate code by (auto simp: c sdk_FeatureGateGuard_def split: prod.splits)
  have "\<exists>t \<le> received. sent < t + 65000 \<and> said options (world t) (h ''x-tenant-id'') code = Some True" if en: "fst ?check"
  proof (cases rule: isEnabled_cases [of options "world answered" sent received "h ''x-tenant-id''" code cache])
    case (hit ce)
    have "grounded_entry options world now0 (flagKey (h ''x-tenant-id'') code, ce)"
      using map_of_SomeD [OF hit(1)] g by blast
    then obtain t tid' c where e: "flagKey (h ''x-tenant-id'') code = flagKey tid' c"
      "CHR '':'' \<notin> set (show_opt tid')" "t \<le> now0" "ce_expiresAt ce \<le> t + 5000 + cacheTtlMs"
      "said options (world t) tid' c = Some (ce_value ce)"
      unfolding grounded_entry_def fst_conv snd_conv by blast
    have "said options (world t) (h ''x-tenant-id'') code = Some (ce_value ce)"
      using said_cong [of "h ''x-tenant-id''" tid'] flagKey_inject [OF tid e(2,1)] e(5) by simp
    moreover have v: "ce_value ce = True" using hit(3) en by simp
    moreover have "sent < t + 65000" using hit(2) e(4) by (simp add: cacheTtlMs_def)
    moreover have "t \<le> received" using e(3) time by simp
    ultimately show ?thesis by (intro exI [of _ t]) (simp only: v simp_thms)
  next
    case fetched
    with en have "said options (world answered) (h ''x-tenant-id'') code = Some True"
      by (auto simp: fetchFlag_said split: option.splits)
    then show ?thesis using time by (intro exI [of _ answered]) simp
  qed (use on in simp)
  then show ?thesis using on unfolding out by auto
qed

end
