(* ===== verification/Chassis_Integration.thy ===== *)
theory Chassis_Integration
  imports Tenant_Theorems Billing_Payments Sdk_Features
begin

text \<open>
  The services together: the payloads the tenant manager and the billing engine exchange over the
  message bus, decoded as the consumers' interfaces declare them, and what a message published by one
  service does in the other. The properties here say what happens to
  a message that is delivered; \<open>Chassis_System\<close> composes the deliveries, and \<open>Message_Topology\<close> says which
  queue a message reaches.
\<close>

subsection \<open>Consumers\<close>

fun json_string :: "json option \<Rightarrow> string option" where
  "json_string (Some (JStr s)) = Some s"
| "json_string _ = None"

definition text_field :: "string \<Rightarrow> json \<Rightarrow> string option" where
  "text_field k p = json_string (json_get k p)"

text \<open>\<^verbatim>\<open>TenantProvisionedEvent\<close> as the billing engine reads it.\<close>

definition provisioned_of :: "json \<Rightarrow> tenantProvisioned option" where
  "provisioned_of p =
     (case (text_field ''tenantId'' p, text_field ''slug'' p, text_field ''plan'' p, text_field ''adminEmail'' p) of
        (Some i, Some slug, Some plan, Some mail) \<Rightarrow>
          Some \<lparr>tp_tenantId = i, tp_slug = slug, tp_plan = plan, tp_adminEmail = mail\<rparr>
      | _ \<Rightarrow> None)"

text \<open>
  A member of a payload as the handlers pass it on: absent, null or a text. (Every published message
  carries texts in the members the handlers read, \<open>sent_bare\<close> in \<open>Chassis_System\<close>.)
\<close>

definition member_field :: "string \<Rightarrow> json \<Rightarrow> string field" where
  "member_field k p = (case json_get k p of Some (JStr s) \<Rightarrow> Value s | Some JNull \<Rightarrow> Null | _ \<Rightarrow> Undefined)"

lemma member_text: "text_field k p = Some x \<longleftrightarrow> member_field k p = Value x"
  by (auto simp: text_field_def member_field_def split: option.split json.split)

text \<open>
  The handlers of \<^verbatim>\<open>BillingEventsController\<close>, and the texts of their \<^verbatim>\<open>@MessagePattern\<close>s, by which the
  framework picks the handler of a message (\<open>Message_Topology\<close>).
\<close>

definition BillingEventsController_handleBillingSynced :: "tm_env \<Rightarrow> json \<Rightarrow> tm_state \<Rightarrow> tm_state" where
  "BillingEventsController_handleBillingSynced e p s =
     handleBillingSynced e (member_field ''tenantId'' p) (member_field ''stripeCustomerId'' p) s"

definition BillingEventsController_handleSubscriptionStatus :: "tm_env \<Rightarrow> json \<Rightarrow> tm_state \<Rightarrow> tm_state" where
  "BillingEventsController_handleSubscriptionStatus e p s =
     handleSubscriptionStatus e (member_field ''tenantId'' p) (text_field ''status'' p) (text_field ''plan'' p) s"

lemma status_payload:
  "BillingEventsController_handleSubscriptionStatus e (payload (status_msg i st)) s =
     handleSubscriptionStatus e (Value i) (Some st) None s"
  by (simp add: BillingEventsController_handleSubscriptionStatus_def text_field_def member_field_def status_msg_def)

lemma synced_payload:
  "BillingEventsController_handleBillingSynced e (payload (synced_msg i c)) s = handleBillingSynced e (Value i) (Value c) s"
  by (simp add: BillingEventsController_handleBillingSynced_def member_field_def synced_msg_def)

lemma provisioned_payload:
  "provisioned_of (payload (provisioned_msg e t)) =
     Some \<lparr>tp_tenantId = t_id t, tp_slug = t_slug t, tp_plan = t_currentPlan t, tp_adminEmail = t_adminEmail t\<rparr>"
  by (simp add: provisioned_of_def text_field_def TenantProvisionedEvent_def)

lemma status_applied:
  assumes "find_tenant i s = Some t"
  shows "map_option t_status (find_tenant i (handleSubscriptionStatus e (Value i) st None s)) =
    Some (t_status (applySubscriptionStatus e st t))"
proof -
  have i: "t_id t = i" using find_SomeD [OF assms] by simp
  have "handleSubscriptionStatus e (Value i) st None s = snd (save_tenant (tm_now e) (applySubscriptionStatus e st t) s)"
    by (simp only: handleSubscriptionStatus_def subscription_tenant_simps fits_null_simps assms option.case Let_def truthy_simps simp_thms if_False if_True)
  moreover have "t_status (fst (save_tenant n x s)) = t_status x" for n x
    by (simp add: save_tenant_def Let_def)
  ultimately show ?thesis
    by (simp only: find_save_tenant applySubscriptionStatus_keeps(1) i simp_thms if_True option.map)
qed

lemma updateFromStripe_up:
  assumes "\<And>st. db_fault e st = None" "subscription_fits (patch_subscription dto r)"
    and "find (\<lambda>x. sb_stripeSubscriptionId x = Some (us_stripeSubscriptionId dto)) (subRows s) = Some r"
  obtains n where
    "updateFromStripe e dto s = (Inr (), s\<lparr>subRows := save_row sb_id ((patch_subscription dto r)\<lparr>sb_updatedAt := n\<rparr>) (subRows s)\<rparr>)"
proof (cases "patch_subscription dto r \<in> set (subRows s)")
  case True
  have "(patch_subscription dto r)\<lparr>sb_updatedAt := sb_updatedAt (patch_subscription dto r)\<rparr> = patch_subscription dto r"
    by simp
  with True show ?thesis
    using that [of "sb_updatedAt (patch_subscription dto r)"] assms
    by (simp add: updateFromStripe_def save_subscription_def)
next
  case False
  then show ?thesis using that [of "be_now e"] assms by (simp add: updateFromStripe_def save_subscription_def)
qed

subsection \<open>From a new tenant to its customer\<close>

text \<open>If the messages are delivered, a new tenant and the billing engine agree. (As deployed they are not,
  \<open>deployed_without_billing\<close> in \<open>Message_Topology\<close>.) The message the tenant manager publishes when it
  provisions a tenant is one the billing engine reads; once delivered, handling it stores a
  subscription of that tenant for the tenant's plan, and the message this publishes in turn, delivered
  to the tenant manager, records the Stripe customer of that subscription on the tenant.\<close>

lemma provisioning_end_to_end:
  assumes wf: "tm_wf ts" and new: "createTenant te dto u ts = (Inr t, ts1)" and up: "bus_up (tm_bus ts)"
    and none: "find_sub (t_id t) bs = None" and up': "bus_up (be_bus bs)"
    and acc: "provision_accepted e
      \<lparr>tp_tenantId = t_id t, tp_slug = t_slug t, tp_plan = t_currentPlan t, tp_adminEmail = t_adminEmail t\<rparr> c bs"
  shows "\<exists>msg r. provisioned_of (payload (last (published (tm_bus ts1)))) = Some msg \<and>
    find_sub (t_id t) (onTenantProvisioned e msg bs) = Some r \<and>
    sb_planCode r = coalesce (ct_plan dto) ''free'' \<and> sb_stripeCustomerId r = c \<and>
    map_option t_stripeCustomerId (find_tenant (t_id t) (BillingEventsController_handleBillingSynced te'
      (payload (last (published (be_bus (onTenantProvisioned e msg bs))))) ts1)) = Some (Some c)"
proof -
  obtain s1 where created: "provision te dto (coalesce (ct_plan dto) ''free'')
      (plans_findByCode (tm_now te) (coalesce (ct_plan dto) ''free'') ts) u ts = Inr (t, s1)"
    and ts1: "tenants ts1 = tenants ts @ [t]" "published (tm_bus ts1) = published (tm_bus ts) @ [provisioned_msg te t]"
    using new
  proof (cases rule: createTenant_cases)
    case (created t' s1)
    then have t': "t' = t" by simp
    note res = provision_result [OF created(2) [unfolded t']]
    have "published (tm_bus ts1) = published (tm_bus ts) @ [provisioned_msg te t]"
      unfolding created(3) t' by (simp add: res(10) pub.emit_up [OF up])
    moreover have "tenants ts1 = tenants ts @ [t]" unfolding created(3) by (simp add: res(1))
    ultimately show ?thesis using that created(2) t' by simp
  qed simp
  note res = provision_result [OF created]
  let ?m = "\<lparr>tp_tenantId = t_id t, tp_slug = t_slug t, tp_plan = t_currentPlan t, tp_adminEmail = t_adminEmail t\<rparr>"
  have "find_sub (tp_tenantId ?m) bs = None" using none by simp
  then obtain r where r: "onTenantProvisioned e ?m bs = bs\<lparr>subRows := subRows bs @ [r],
      be_bus := publish ''chassis.tenants'' ''billing.synced''
        (JObj [(''tenantId'', JStr (t_id t)), (''stripeCustomerId'', JStr c)]) (be_bus bs),
      stripeCustomers := stripeCustomers bs @ [(c, t_id t)]\<rparr>"
    "sb_tenantId r = t_id t" "sb_stripeCustomerId r = c" "sb_planCode r = t_currentPlan t"
    using provision_first [of ?m, OF _ acc] by auto
  have sub: "find_sub (t_id t) (onTenantProvisioned e ?m bs) = Some r" using none r(2) by (simp add: r(1) find_append)
  have last: "last (published (be_bus (onTenantProvisioned e ?m bs))) = synced_msg (t_id t) c"
    by (simp add: r(1) pub.emit_up [OF up'] synced_msg_def)
  have plan: "t_currentPlan t = coalesce (ct_plan dto) ''free''" using res by simp
  have "find_tenant (t_id t) ts = None" using res(14) by (auto simp: find_None_iff)
  then have "find_tenant (t_id t) ts1 = Some t" by (simp add: ts1 find_append)
  then have "map_option t_stripeCustomerId (find_tenant (t_id t) (handleBillingSynced te' (Value (t_id t)) (Value c) ts1)) = Some (Some c)"
    using acc by (simp add: handleBillingSynced_def patch_opt_def provision_accepted_def find_update_where [where key = t_id])
  then show ?thesis
    using sub r plan provisioned_payload [of te t] last
    by (intro exI [of _ ?m] exI [of _ r]) (simp add: ts1(2) synced_payload)
qed

subsection \<open>From a payment to the tenant's status\<close>

text \<open>If they are delivered, payments suspend and restore a tenant. On healthy services a failed payment of
  a tenant's Stripe customer publishes a message that, handled by the tenant manager, suspends the
  tenant, and the next paid invoice publishes one that makes it active again, also a tenant that was
  archived in the meantime (\<open>billing_reactivates_cancelled\<close>).\<close>

lemma payment_status_reaches_tenant:
  assumes wf: "be_wf s" and up: "be_healthy e1 s" "be_healthy e2 s"
    and f: "find_sub_by_customer (invoice_customer i1) s = Some r"
    and same: "invoice_customer i2 = invoice_customer i1"
    and new: "find_invoice (si_id i2) s = None" "invoice_accepted e2 i2 s"
    and tenant: "find_tenant (sb_tenantId r) ts = Some t"
  shows "\<exists>s1 s2 ts1. processEvent e1 (InvoicePaymentFailed i1) s = (Inr (), s1) \<and>
    processEvent e2 (InvoicePaid i2) s1 = (Inr (), s2) \<and>
    BillingEventsController_handleSubscriptionStatus te1 (payload (last (published (be_bus s1)))) ts = ts1 \<and>
    map_option t_status (find_tenant (sb_tenantId r) ts1) = Some TS_suspended \<and>
    map_option t_status (find_tenant (sb_tenantId r)
      (BillingEventsController_handleSubscriptionStatus te2 (payload (last (published (be_bus s2)))) ts1)) = Some TS_active"
proof -
  obtain s1 where s1: "processEvent e1 (InvoicePaymentFailed i1) s = (Inr (), s1)"
    "find_sub_by_customer (invoice_customer i1) s1 = Some (r\<lparr>sb_status := ''past_due'', sb_updatedAt := be_now e1\<rparr>)"
    "published (be_bus s1) = published (be_bus s) @ [status_msg (sb_tenantId r) ''past_due'']"
    "be_healthy e2 s1 = be_healthy e2 s" "invoiceRows s1 = invoiceRows s"
    by (rule payment_failed_step [OF wf up(1) f, of e2])
  have wf1: "be_wf s1" using wf_processEvent [OF wf, of e1 "InvoicePaymentFailed i1"] s1(1) by simp
  obtain s2 where s2: "processEvent e2 (InvoicePaid i2) s1 = (Inr (), s2)"
    "published (be_bus s2) = published (be_bus s1) @
       [payment_msg e2 i2 (sb_tenantId r), status_msg (sb_tenantId r) ''active'']"
    by (rule payment_recovers_step [OF wf1, of e2 i2 "r\<lparr>sb_status := ''past_due'', sb_updatedAt := be_now e1\<rparr>"])
      (use s1 up new same in \<open>simp_all add: invoice_accepted_def\<close>)
  let ?ts1 = "handleSubscriptionStatus te1 (Value (sb_tenantId r)) (Some ''past_due'') None ts"
  have d1: "map_option t_status (find_tenant (sb_tenantId r) ?ts1) = Some TS_suspended"
    using status_applied [OF tenant, of te1 "Some ''past_due''"] by (simp add: applySubscriptionStatus_def)
  then obtain t1 where "find_tenant (sb_tenantId r) ?ts1 = Some t1" by auto
  from status_applied [OF this, of te2 "Some ''active''"]
  have "map_option t_status (find_tenant (sb_tenantId r) (handleSubscriptionStatus te2 (Value (sb_tenantId r)) (Some ''active'') None ?ts1)) = Some TS_active"
    by (simp add: applySubscriptionStatus_def)
  with d1 s1(1,3) s2 show ?thesis by (simp add: status_payload)
qed

text \<open>A cancellation at Stripe does not reach the tenant. Stripe and the billing engine spell the
  status \<^verbatim>\<open>canceled\<close>, the tenant manager's handler knows only \<^verbatim>\<open>cancelled\<close>: the deletion of the
  subscription marks it cancelled in the billing tables and publishes a message that, handled by the
  tenant manager, changes nothing.\<close>

lemma stripe_cancellation_ignored_by_tenant:
  assumes wf: "be_wf s" and up: "be_healthy e s"
    and f: "find_sub_by_customer (customerRef_id (ss_customer sub)) s = Some r"
    and linked: "find (\<lambda>x. sb_stripeSubscriptionId x = Some (ss_id sub)) (subRows s) = Some r" "subscription_fits r"
    and tm: "tm_wf ts" "find_tenant (sb_tenantId r) ts = Some t"
  shows "\<exists>s'. processEvent e (SubscriptionDeleted sub) s = (Inr (), s') \<and>
    map_option sb_status (find_sub (sb_tenantId r) s') = Some ''canceled'' \<and>
    last (published (be_bus s')) = status_msg (sb_tenantId r) ''canceled'' \<and>
    BillingEventsController_handleSubscriptionStatus te (payload (last (published (be_bus s')))) ts = ts"
proof -
  let ?c = "customerRef_id (ss_customer sub)"
  let ?dto = "\<lparr>us_stripeSubscriptionId = ss_id sub, us_planCode = None, us_status = Some ''canceled'',
          us_currentPeriodStart = None, us_currentPeriodEnd = None, us_cancelAtPeriodEnd = None\<rparr>"
  have fit: "subscription_fits (patch_subscription ?dto r)"
    using linked(2) by (simp add: subscription_fits_def patch_subscription_def fits_def)
  obtain n where upd: "updateFromStripe e ?dto s =
      (Inr (), s\<lparr>subRows := save_row sb_id ((patch_subscription ?dto r)\<lparr>sb_updatedAt := n\<rparr>) (subRows s)\<rparr>)"
    using updateFromStripe_up [OF healthy_up [OF up] fit] linked(1) by auto
  define r' where "r' = (patch_subscription ?dto r)\<lparr>sb_updatedAt := n\<rparr>"
  have u: "unique_on sb_id (subRows s)" "unique_on sb_tenantId (subRows s)" using wf by (auto simp: be_wf_def)
  have r: "r \<in> set (subRows s)" using find_SomeD [OF f] by simp
  have eq: "sb_id r = sb_id r'" "sb_tenantId r = sb_tenantId r'" "sb_stripeCustomerId r = sb_stripeCustomerId r'"
    "sb_status r' = ''canceled''"
    by (simp_all add: r'_def patch_subscription_def)
  let ?rows = "save_row sb_id r' (subRows s)"
  let ?s1 = "s\<lparr>subRows := ?rows\<rparr>"
  have t': "find (\<lambda>x. sb_tenantId x = sb_tenantId r) ?rows = Some r'"
    using save_row_key_swap [OF u r eq(1,2)] eq(2) by (simp add: find_save_row)
  have "find (\<lambda>x. sb_stripeCustomerId x = ?c) ?rows = Some r'"
    by (rule find_replaced [OF u(1) f eq(1,3)])
  then have c: "find_sub_by_customer ?c ?s1 = Some r'" by simp
  have bus: "bus_up (be_bus ?s1)" using up by (simp add: be_healthy_def)
  have "processEvent e (SubscriptionDeleted sub) s =
      (Inr (), ?s1\<lparr>be_bus := publish ''chassis.billing'' ''subscription.status''
         (JObj [(''tenantId'', JStr (sb_tenantId r')), (''status'', JStr ''canceled'')]) (be_bus ?s1)\<rparr>)"
    using upd publishStatus_up [OF healthy_up [OF up] c bus] by (simp add: handleSubscriptionDeleted_def r'_def)
  moreover have "handleSubscriptionStatus te (Value (sb_tenantId r)) (Some ''canceled'') None ts = ts"
    using tm find_SomeD [OF tm(2)] save_row_same [of t_id "tenants ts" t]
    by (simp add: handleSubscriptionStatus_def applySubscriptionStatus_def save_tenant_def tm_wf_def)
  ultimately show ?thesis
    using t' eq bus pub.emit_up [OF bus] by (simp add: status_msg_def [symmetric] status_payload)
qed

subsection \<open>From a feature to the gate\<close>

text \<open>
  The check endpoint of the tenant manager answers with a property \<^verbatim>\<open>enabled\<close>; the SDK reads
  \<^verbatim>\<open>isEnabled\<close>, so an answer of that endpoint, whatever it says, is read as disabled.
\<close>

lemma check_answer_read_as_disabled:
  "flag_of (JObj [(''success'', JBool True), (''data'', JObj [(''enabled'', JBool b)])]) = False"
  by (simp add: flag_of_def)

end
