(* ===== verification/Sdk_Database.thy ===== *)
theory Sdk_Database
  imports Access_Control
begin

text \<open>
  Tenant context and row-level security: the middleware that puts a request's tenant into the
  asynchronous store (the SDK's and the one the three services share), the statements that copy it
  into the database session, and the SDK's \<^verbatim>\<open>TenantAwareRepository\<close>, whose every operation runs in a
  transaction with the tenant set. Which of the query runner's calls throws, and what the work inside
  the transaction does with the session settings and the data it sees, are parameters.
\<close>

subsection \<open>Context of a request\<close>

record tenantContextData =
  td_tenantId :: string
  td_userId :: string
  td_isPlatformAdmin :: bool

definition PLATFORM_ADMIN_TENANT_ID :: string where
  "PLATFORM_ADMIN_TENANT_ID = ''ffffffff-ffff-ffff-ffff-ffffffffffff''"

text \<open>\<^verbatim>\<open>x || d\<close> on a header.\<close>

definition header_or :: "string option \<Rightarrow> string \<Rightarrow> string" where
  "header_or v d = (if truthy v then the v else d)"

text \<open>What the rest of the request finds in the store; \<^const>\<open>None\<close> is no store.\<close>

definition context_with :: "string \<Rightarrow> headers \<Rightarrow> tenantContextData option" where
  "context_with fallback h =
     (if \<not> truthy (h ''x-tenant-id'') \<and> h ''x-is-platform-admin'' \<noteq> Some ''true'' then None
      else Some \<lparr>td_tenantId = header_or (h ''x-tenant-id'') fallback, td_userId = header_or (h ''x-user-id'') [],
                 td_isPlatformAdmin = (h ''x-is-platform-admin'' = Some ''true'')\<rparr>)"

definition sdk_TenantContextMiddleware :: "headers \<Rightarrow> tenantContextData option" where
  "sdk_TenantContextMiddleware h = context_with PLATFORM_ADMIN_TENANT_ID h"

definition service_TenantContextMiddleware :: "headers \<Rightarrow> tenantContextData option" where
  "service_TenantContextMiddleware h = context_with ''00000000-0000-0000-0000-000000000000'' h"

definition RequestIdMiddleware :: "string \<Rightarrow> headers \<Rightarrow> headers" where
  "RequestIdMiddleware uuidv4 h = (if truthy (h ''x-request-id'') then h else h(''x-request-id'' \<mapsto> uuidv4))"

lemma context_tenant:
  "context_with fallback h = Some c \<Longrightarrow> truthy (h ''x-tenant-id'') \<Longrightarrow> h ''x-tenant-id'' = Some (td_tenantId c)"
  by (cases "h ''x-tenant-id''") (auto simp: context_with_def header_or_def split: if_splits)

text \<open>A request without the platform-admin header never runs as platform admin or in the sentinel tenant.\<close>

lemma context_not_admin:
  "context_with fallback h = Some c \<Longrightarrow> h ''x-is-platform-admin'' \<noteq> Some ''true'' \<Longrightarrow>
     \<not> td_isPlatformAdmin c \<and> h ''x-tenant-id'' = Some (td_tenantId c)"
  by (cases "h ''x-tenant-id''") (auto simp: context_with_def header_or_def split: if_splits)

lemma request_id_set: "truthy (Some uuidv4) \<Longrightarrow> truthy (RequestIdMiddleware uuidv4 h ''x-request-id'')"
  by (simp add: RequestIdMiddleware_def)

subsection \<open>Session settings\<close>

text \<open>
  The calls on a query runner: \<^verbatim>\<open>SET LOCAL name = value\<close>, \<^verbatim>\<open>set_config(name, value, true)\<close> and the
  transaction commands; \<open>Work\<close> is the caller's function.
\<close>

datatype rq_call =
  Connect | StartTransaction | SetLocal string string | SetConfig string string | Work | Commit | Rollback | Release

definition show_bool :: "bool \<Rightarrow> string" where
  "show_bool b = (if b then ''true'' else ''false'')"

definition setRlsContext :: "tenantContextData option \<Rightarrow> rq_call list" where
  "setRlsContext ctx =
     (case ctx of None \<Rightarrow> []
      | Some c \<Rightarrow> [SetLocal ''app.current_tenant_id'' (td_tenantId c),
                   SetLocal ''app.is_platform_admin'' (show_bool (td_isPlatformAdmin c))])"

text \<open>\<^verbatim>\<open>RlsSubscriber.beforeQuery\<close> of the services: the statements sent ahead of a query.\<close>

definition beforeQuery :: "tenantContextData option \<Rightarrow> bool \<Rightarrow> rq_call list" where
  "beforeQuery store hasRunner =
     (case store of None \<Rightarrow> []
      | Some c \<Rightarrow>
          if td_tenantId c = [] \<or> \<not> hasRunner then []
          else [SetConfig ''app.current_tenant_id'' (td_tenantId c),
                SetConfig ''app.is_platform_admin'' (show_bool (td_isPlatformAdmin c))])"

subsection \<open>Tenant-aware repository\<close>

text \<open>
  A connection of the pool: the settings it has from its role and database, the committed data, the
  open transaction (what has been set for it alone, and the data as it sees them), and the calls made
  on it. \<open>throws\<close> tells which call fails; one that does has no effect. A transaction starts from the
  committed data with nothing set. PostgreSQL ignores \<^verbatim>\<open>SET LOCAL\<close> (and a \<^verbatim>\<open>set_config\<close> that is local)
  outside a transaction, and TypeORM refuses to commit or roll back when there is none.
\<close>

record 'd connection =
  cn_settings :: "string \<rightharpoonup> string"
  cn_data :: 'd
  cn_tx :: "((string \<rightharpoonup> string) \<times> 'd) option"
  cn_calls :: "rq_call list"

definition idle_connection :: "(string \<rightharpoonup> string) \<Rightarrow> 'd \<Rightarrow> 'd connection" where
  "idle_connection settings d = \<lparr>cn_settings = settings, cn_data = d, cn_tx = None, cn_calls = []\<rparr>"

definition set_local :: "string \<Rightarrow> string \<Rightarrow> 'd connection \<Rightarrow> 'd connection" where
  "set_local name v s = s\<lparr>cn_tx := map_option (\<lambda>(l, d). (l(name \<mapsto> v), d)) (cn_tx s)\<rparr>"

definition no_transaction :: exn where
  "no_transaction = JsError ''Transaction is not started yet, start transaction before committing or rolling it back.''"

fun call_effect :: "rq_call \<Rightarrow> 'd connection \<Rightarrow> unit result \<times> 'd connection" where
  "call_effect StartTransaction s =
     (Inr (), if cn_tx s = None then s\<lparr>cn_tx := Some (Map.empty, cn_data s)\<rparr> else s)"
| "call_effect (SetLocal name v) s = (Inr (), set_local name v s)"
| "call_effect (SetConfig name v) s = (Inr (), set_local name v s)"
| "call_effect Commit s =
     (case cn_tx s of None \<Rightarrow> (Inl no_transaction, s) | Some (l, d) \<Rightarrow> (Inr (), s\<lparr>cn_data := d, cn_tx := None\<rparr>))"
| "call_effect Rollback s =
     (case cn_tx s of None \<Rightarrow> (Inl no_transaction, s) | Some t \<Rightarrow> (Inr (), s\<lparr>cn_tx := None\<rparr>))"
| "call_effect _ s = (Inr (), s)"

definition call :: "(rq_call \<Rightarrow> exn option) \<Rightarrow> rq_call \<Rightarrow> 'd connection \<Rightarrow> unit result \<times> 'd connection" where
  "call throws c s =
     (let s = s\<lparr>cn_calls := cn_calls s @ [c]\<rparr> in case throws c of Some x \<Rightarrow> (Inl x, s) | None \<Rightarrow> call_effect c s)"

text \<open>
  The caller's function reads the settings in force and reads and writes the data the session sees:
  inside a transaction those of the transaction, outside one the committed data themselves.
\<close>

definition do_work ::
    "((string \<rightharpoonup> string) \<Rightarrow> 'd \<Rightarrow> 'r result \<times> 'd) \<Rightarrow> 'd connection \<Rightarrow> 'r result \<times> 'd connection" where
  "do_work fn s =
     (let s = s\<lparr>cn_calls := cn_calls s @ [Work]\<rparr> in
      case cn_tx s of
        None \<Rightarrow> (case fn (cn_settings s) (cn_data s) of (r, d) \<Rightarrow> (r, s\<lparr>cn_data := d\<rparr>))
      | Some (l, v) \<Rightarrow> (case fn (cn_settings s ++ l) v of (r, d) \<Rightarrow> (r, s\<lparr>cn_tx := Some (l, d)\<rparr>)))"

definition tryBlock ::
    "tenantContextData \<Rightarrow> (rq_call \<Rightarrow> exn option) \<Rightarrow> ((string \<rightharpoonup> string) \<Rightarrow> 'd \<Rightarrow> 'r result \<times> 'd) \<Rightarrow> 'd connection \<Rightarrow>
       'r result \<times> 'd connection" where
  "tryBlock context throws fn s =
     and_then (call throws Connect s) (\<lambda>_ s.
     and_then (call throws StartTransaction s) (\<lambda>_ s.
     and_then (call throws (SetLocal ''app.current_tenant_id'' (td_tenantId context)) s) (\<lambda>_ s.
     and_then (call throws (SetLocal ''app.is_platform_admin'' (show_bool (td_isPlatformAdmin context))) s) (\<lambda>_ s.
     and_then (do_work fn s) (\<lambda>result s.
     and_then (call throws Commit s) (\<lambda>_ s. (Inr result, s)))))))"

text \<open>The catch clause rolls back and the finally clause releases; an exception of theirs replaces the first.\<close>

definition catchBlock ::
    "(rq_call \<Rightarrow> exn option) \<Rightarrow> 'r result \<times> 'd connection \<Rightarrow> 'r result \<times> 'd connection" where
  "catchBlock throws p =
     (case p of
        (Inr result, s) \<Rightarrow> (Inr result, s)
      | (Inl err, s) \<Rightarrow> and_then (call throws Rollback s) (\<lambda>_ s. (Inl err, s)))"

definition finallyBlock ::
    "(rq_call \<Rightarrow> exn option) \<Rightarrow> 'r result \<times> 'd connection \<Rightarrow> 'r result \<times> 'd connection" where
  "finallyBlock throws p = (case p of (r, s) \<Rightarrow> and_then (call throws Release s) (\<lambda>_ s. (r, s)))"

definition withTenantContext ::
    "tenantContextData option \<Rightarrow> (rq_call \<Rightarrow> exn option) \<Rightarrow> ((string \<rightharpoonup> string) \<Rightarrow> 'd \<Rightarrow> 'r result \<times> 'd) \<Rightarrow>
       'd connection \<Rightarrow> 'r result \<times> 'd connection" where
  "withTenantContext store throws fn s =
     (case store of
        None \<Rightarrow> (Inl (JsError ''TenantAwareRepository: No tenant context found. Ensure TenantContextMiddleware is applied.''), s)
      | Some context \<Rightarrow> finallyBlock throws (catchBlock throws (tryBlock context throws fn s)))"

text \<open>The operations: each runs one call of the entity manager.\<close>

definition repo_findAll where
  "repo_findAll store throws manager_find options = withTenantContext store throws (\<lambda>st d. manager_find st options d)"

definition repo_findOne where
  "repo_findOne store throws manager_findOne options = withTenantContext store throws (\<lambda>st d. manager_findOne st options d)"

definition repo_save where
  "repo_save store throws manager_save entity = withTenantContext store throws (\<lambda>st d. manager_save st entity d)"

definition repo_remove where
  "repo_remove store throws manager_remove entity = withTenantContext store throws (\<lambda>st d. manager_remove st entity d)"

definition repo_count where
  "repo_count store throws manager_count options = withTenantContext store throws (\<lambda>st d. manager_count st options d)"

subsection \<open>Properties\<close>

text \<open>How a call ends: it fails and is only noted, or has its effect.\<close>

lemma call_cases:
  obtains (fails) x where "call throws c s = (Inl x, s\<lparr>cn_calls := cn_calls s @ [c]\<rparr>)" "throws c = Some x"
  | (runs) "call throws c s = call_effect c (s\<lparr>cn_calls := cn_calls s @ [c]\<rparr>)" "throws c = None"
  by (cases "throws c") (auto simp: call_def Let_def)

text \<open>How the try block ends: before the work, after it, at the commit, or with everything done.\<close>

definition opened :: "tenantContextData \<Rightarrow> rq_call list" where
  "opened c = [Connect, StartTransaction, SetLocal ''app.current_tenant_id'' (td_tenantId c),
     SetLocal ''app.is_platform_admin'' (show_bool (td_isPlatformAdmin c))]"

definition in_force :: "(string \<rightharpoonup> string) \<Rightarrow> tenantContextData \<Rightarrow> string \<rightharpoonup> string" where
  "in_force settings c = settings(''app.current_tenant_id'' \<mapsto> td_tenantId c,
     ''app.is_platform_admin'' \<mapsto> show_bool (td_isPlatformAdmin c))"

lemma tryBlock_cases:
  obtains (failed) x s where "tryBlock c throws fn (idle_connection st d) = (Inl x, s)"
      "cn_data s = d" "cn_settings s = st" "Release \<notin> set (cn_calls s)"
      "Work \<notin> set (cn_calls s) \<or> (\<exists>cs. cn_calls s = opened c @ Work # cs \<and> Work \<notin> set cs)"
  | (committed) r s where "tryBlock c throws fn (idle_connection st d) = (Inr r, s)"
      "cn_settings s = st" "cn_tx s = None" "cn_calls s = opened c @ [Work, Commit]" "fn (in_force st c) d = (Inr r, cn_data s)"
proof -
  obtain r d1 where f: "fn (in_force st c) d = (r, d1)" by fastforce
  have f': "fn (st(''app.current_tenant_id'' \<mapsto> td_tenantId c, ''app.is_platform_admin'' \<mapsto> show_bool (td_isPlatformAdmin c))) d =
    (r, d1)" using f by (simp add: in_force_def)
  note defs = tryBlock_def call_def idle_connection_def set_local_def do_work_def opened_def Let_def
  show ?thesis
  proof (cases "\<forall>x \<in> set (opened c). throws x = None")
    case False
    obtain a s where run: "tryBlock c throws fn (idle_connection st d) = (a, s)" by fastforce
    have "(\<exists>x. a = Inl x) \<and> cn_data s = d \<and> cn_settings s = st \<and> Release \<notin> set (cn_calls s) \<and> Work \<notin> set (cn_calls s)"
      using False run by (auto simp: defs split: option.splits)
    then show ?thesis using failed run by blast
  next
    case True
    obtain a s where run: "tryBlock c throws fn (idle_connection st d) = (a, s)" by fastforce
    show ?thesis
    proof (cases "(\<exists>x. r = Inl x) \<or> throws Commit \<noteq> None")
      case True
      then have "(\<exists>x. a = Inl x) \<and> cn_data s = d \<and> cn_settings s = st \<and> Release \<notin> set (cn_calls s) \<and>
        (\<exists>cs. cn_calls s = opened c @ Work # cs \<and> Work \<notin> set cs)"
        using run f' \<open>\<forall>x \<in> set (opened c). throws x = None\<close> by (cases r) (auto simp: defs)
      then show ?thesis using failed run by blast
    next
      case False
      then have "a = r \<and> (\<exists>x. a = Inr x) \<and> cn_settings s = st \<and> cn_tx s = None \<and>
        cn_calls s = opened c @ [Work, Commit] \<and> d1 = cn_data s"
        using run f' \<open>\<forall>x \<in> set (opened c). throws x = None\<close> by (cases r) (auto simp: defs)
      then show ?thesis using committed run f by blast
    qed
  qed
qed

text \<open>C18: a tenant-aware operation is one transaction of its tenant. Without a context nothing is called.
  With one, on a connection the pool hands out with no transaction open and any settings, and when the
  release itself succeeds: the connection is released exactly once, as the last call, on every path, with
  the settings it came with and, unless the rollback failed, with no transaction open. The caller's function
  is run at most once and only after a transaction has been started and the tenant and the admin flag of the
  context have been set in it. A returned value means that the function ran on the committed data with these
  two settings in force over those of the connection, succeeded, and that what it wrote has been committed;
  an exception means that the database is as before and that a rollback was requested.\<close>

theorem tenant_context_transaction:
  assumes run: "withTenantContext (Some c) throws fn (idle_connection st d) = (r, s)" and rel: "throws Release = None"
  shows "withTenantContext None throws fn (idle_connection st d) = (Inl (JsError
      ''TenantAwareRepository: No tenant context found. Ensure TenantContextMiddleware is applied.''), idle_connection st d) \<and>
    (\<exists>cs. cn_calls s = cs @ [Release] \<and> Release \<notin> set cs) \<and>
    cn_settings s = st \<and> (throws Rollback = None \<longrightarrow> cn_tx s = None) \<and>
    (Work \<notin> set (cn_calls s) \<or> (\<exists>cs. cn_calls s =
       [Connect, StartTransaction, SetLocal ''app.current_tenant_id'' (td_tenantId c),
        SetLocal ''app.is_platform_admin'' (if td_isPlatformAdmin c then ''true'' else ''false''), Work] @ cs \<and> Work \<notin> set cs)) \<and>
    (case r of
       Inr a \<Rightarrow>
         fn (st(''app.current_tenant_id'' \<mapsto> td_tenantId c,
                ''app.is_platform_admin'' \<mapsto> (if td_isPlatformAdmin c then ''true'' else ''false''))) d = (Inr a, cn_data s) \<and>
         cn_calls s = [Connect, StartTransaction, SetLocal ''app.current_tenant_id'' (td_tenantId c),
            SetLocal ''app.is_platform_admin'' (if td_isPlatformAdmin c then ''true'' else ''false''), Work, Commit, Release]
     | Inl x \<Rightarrow> cn_data s = d \<and> Rollback \<in> set (cn_calls s))"
proof (cases rule: tryBlock_cases [of c throws fn st d])
  case (failed x s1)
  then show ?thesis
    using run rel
    by (cases "cn_tx s1"; cases "throws Rollback")
      (auto simp: withTenantContext_def catchBlock_def finallyBlock_def call_def Let_def opened_def show_bool_def)
next
  case (committed a s1)
  then show ?thesis
    using run rel
    by (auto simp: withTenantContext_def catchBlock_def finallyBlock_def call_def Let_def opened_def show_bool_def in_force_def)
qed

text \<open>
  PostgreSQL does not accept a bind parameter in \<^verbatim>\<open>SET\<close> (SQLSTATE 42601). When the statement fails
  like this, every operation of the repository fails and the work is never run.
\<close>

lemma set_local_rejected:
  assumes "throws (SetLocal ''app.current_tenant_id'' (td_tenantId c)) = Some (QueryFailed ''42601'')"
    and "throws Connect = None" "throws StartTransaction = None" "throws Rollback = None" "throws Release = None"
  shows "withTenantContext (Some c) throws fn (idle_connection st d) = (Inl (QueryFailed ''42601''),
    (idle_connection st d)\<lparr>cn_calls := [Connect, StartTransaction,
       SetLocal ''app.current_tenant_id'' (td_tenantId c), Rollback, Release]\<rparr>)"
  using assms by (simp add: withTenantContext_def catchBlock_def finallyBlock_def tryBlock_def call_def Let_def idle_connection_def)

end
