(* ===== verification/Sdk_Http.thy ===== *)
theory Sdk_Http
  imports Data_Store Sdk_Features
begin

text \<open>
  The HTTP plumbing: exception filters of the SDK and of the identity service, the response envelope,
  the request timeout, the audit interceptors with the SDK's audit publisher, internal service calls
  and the health checks.
\<close>

subsection \<open>Exception filters\<close>

text \<open>
  What can be thrown: an \<^verbatim>\<open>HttpException\<close> with its status, response (a text or an object with an
  optional code and a message that is a text or a list of validation messages) and own message, another
  \<^verbatim>\<open>Error\<close>, or any other value.
\<close>

datatype respMessage = NoMessage | TextMessage string | ListMessage "string list"

datatype httpResponse = StringResponse string | ObjectResponse "string option" respMessage

datatype thrown = HttpException nat httpResponse string | ErrorThrown string | ValueThrown json

fun message_json :: "respMessage \<Rightarrow> string \<Rightarrow> json" where
  "message_json NoMessage own = JStr own"
| "message_json (TextMessage m) own = JStr (if m = [] then own else m)"
| "message_json (ListMessage ms) own = JArr (map JStr ms)"

definition opt_json :: "string option \<Rightarrow> json" where
  "opt_json v = (if truthy v then JStr (the v) else JNull)"

text \<open>The SDK's filter: status and body of the answer.\<close>

fun sdk_status :: "thrown \<Rightarrow> nat" where
  "sdk_status (HttpException status _ _) = status"
| "sdk_status _ = 500"

fun sdk_code :: "thrown \<Rightarrow> string" where
  "sdk_code (HttpException status (ObjectResponse code _) _) =
     (if truthy code then the code else ''HTTP_'' @ show_nat status)"
| "sdk_code _ = ''INTERNAL_ERROR''"

fun sdk_message :: "thrown \<Rightarrow> json" where
  "sdk_message (HttpException _ (ObjectResponse _ m) own) = message_json m own"
| "sdk_message (HttpException _ (StringResponse _) own) = JStr own"
| "sdk_message _ = JStr ''An unexpected error occurred''"

definition sdk_catch :: "instant \<Rightarrow> headers \<Rightarrow> thrown \<Rightarrow> nat \<times> json" where
  "sdk_catch now h x =
     (sdk_status x,
      JObj [(''success'', JBool False), (''data'', JNull),
        (''error'', JObj [(''code'', JStr (sdk_code x)), (''message'', sdk_message x)]),
        (''meta'', JObj [(''requestId'', opt_json (h ''x-request-id'')), (''timestamp'', JTime now)])])"

text \<open>The filter of the identity service.\<close>

record errorResponse =
  er_statusCode :: nat
  er_message :: string
  er_errors :: "string list option"
  er_timestamp :: instant
  er_path :: string

fun id_error :: "thrown \<Rightarrow> nat \<times> string \<times> string list option" where
  "id_error (HttpException status (StringResponse m) own) = (status, m, None)"
| "id_error (HttpException status (ObjectResponse _ NoMessage) own) = (status, own, None)"
| "id_error (HttpException status (ObjectResponse _ (TextMessage m)) own) = (status, m, None)"
| "id_error (HttpException status (ObjectResponse _ (ListMessage ms)) own) = (status, ''Validation failed'', Some ms)"
| "id_error (ErrorThrown _) = (500, ''Internal server error'', None)"
| "id_error (ValueThrown _) = (500, ''Internal server error'', None)"

definition identity_catch :: "instant \<Rightarrow> string \<Rightarrow> thrown \<Rightarrow> errorResponse" where
  "identity_catch now url x =
     (case id_error x of (status, message, errors) \<Rightarrow>
        \<lparr>er_statusCode = status, er_message = message, er_errors = errors, er_timestamp = now, er_path = url\<rparr>)"

text \<open>The exceptions of the services as NestJS throws them; a driver error is no \<^verbatim>\<open>HttpException\<close>.\<close>

fun nest_thrown :: "(string \<Rightarrow> string) \<Rightarrow> exn \<Rightarrow> thrown" where
  "nest_thrown driver (BadRequest m) = HttpException 400 (ObjectResponse None (TextMessage m)) m"
| "nest_thrown driver (Unauthorized m) = HttpException 401 (ObjectResponse None (TextMessage m)) m"
| "nest_thrown driver (Forbidden m) = HttpException 403 (ObjectResponse None (TextMessage m)) m"
| "nest_thrown driver (NotFound m) = HttpException 404 (ObjectResponse None (TextMessage m)) m"
| "nest_thrown driver (Conflict m) = HttpException 409 (ObjectResponse None (TextMessage m)) m"
| "nest_thrown driver (QueryFailed c) = ErrorThrown (driver c)"
| "nest_thrown driver (JsError m) = ErrorThrown m"

text \<open>Neither filter tells the client anything of an unexpected exception, and both give the same status.\<close>

lemma filters_do_not_leak:
  "sdk_catch now h (ErrorThrown m) = sdk_catch now h (ErrorThrown m')"
  "identity_catch now url (ErrorThrown m) = identity_catch now url (ErrorThrown m')"
  by (simp_all add: sdk_catch_def identity_catch_def)

lemma filters_agree_on_status: "fst (sdk_catch now h x) = er_statusCode (identity_catch now url x)"
  by (cases x rule: id_error.cases) (simp_all add: sdk_catch_def identity_catch_def)

lemma database_errors_hidden:
  "sdk_catch now h (nest_thrown driver (QueryFailed c)) = sdk_catch now h (nest_thrown driver' (QueryFailed c'))"
  by (simp add: sdk_catch_def)

subsection \<open>Response envelope and timeout\<close>

text \<open>\<^verbatim>\<open>data?.pagination\<close> of a handler's value goes into the meta data.\<close>

definition envelope :: "string \<Rightarrow> instant \<Rightarrow> headers \<Rightarrow> json \<Rightarrow> json" where
  "envelope uuidv4 now h data =
     JObj [(''success'', JBool True), (''data'', data), (''error'', JNull),
       (''meta'', JObj ([(''requestId'', JStr (if truthy (h ''x-request-id'') then the (h ''x-request-id'') else uuidv4)),
                         (''timestamp'', JTime now)] @
          (case json_get ''pagination'' data of
             None \<Rightarrow> [] | Some p \<Rightarrow> if json_truthy p then [(''pagination'', p)] else [])))]"

text \<open>Reading the envelope gives back the value, also \<^verbatim>\<open>null\<close>.\<close>

lemma envelope_data: "json_get ''data'' (envelope uuidv4 now h data) = Some data"
  by (simp add: envelope_def)

lemma envelope_pagination:
  "json_get ''pagination'' data = Some p \<Longrightarrow> json_truthy p \<Longrightarrow>
     (case json_get ''meta'' (envelope uuidv4 now h data) of Some m \<Rightarrow> json_get ''pagination'' m | None \<Rightarrow> None) = Some p"
  by (simp add: envelope_def)

text \<open>
  The handler's outcome and the time it took, in milliseconds. A \<^verbatim>\<open>TimeoutError\<close>, of the interceptor or
  of the handler itself, becomes a 408.
\<close>

datatype 'a outcome = Emits 'a | Throws thrown | ThrowsTimeout

definition requestTimeout :: thrown where
  "requestTimeout = HttpException 408 (ObjectResponse None (TextMessage ''Request Timeout'')) ''Request Timeout''"

definition timeoutMs :: "chassisOptions option \<Rightarrow> int" where
  "timeoutMs options = coalesce (case options of None \<Rightarrow> None | Some opts \<Rightarrow> co_requestTimeoutMs opts) 30000"

definition timeout_intercept :: "chassisOptions option \<Rightarrow> int \<Rightarrow> 'a outcome \<Rightarrow> thrown + 'a" where
  "timeout_intercept options duration result =
     (if timeoutMs options < duration then Inl requestTimeout
      else case result of Emits a \<Rightarrow> Inr a | Throws x \<Rightarrow> Inl x | ThrowsTimeout \<Rightarrow> Inl requestTimeout)"

subsection \<open>Audit\<close>

record auditEvent =
  ae_tenantId :: "string option"
  ae_userId :: "string option"
  ae_action :: string
  ae_resourceType :: string
  ae_resourceId :: "json option"
  ae_body :: json
  ae_requestId :: "string option"
  ae_serviceName :: string

text \<open>The SDK's publisher has a channel only when a broker is configured and auditing is on.\<close>

definition audit_connected :: "chassisOptions option \<Rightarrow> bool" where
  "audit_connected options =
     (case options of None \<Rightarrow> False
      | Some opts \<Rightarrow> truthy (co_rabbitmqUrl opts) \<and> co_enableAuditLogging opts = Some True)"

text \<open>The event as \<^verbatim>\<open>JSON.stringify\<close> prints it, with the default timestamp.\<close>

definition audit_json :: "instant \<Rightarrow> auditEvent \<Rightarrow> json" where
  "audit_json now ev =
     JObj ((case ae_tenantId ev of None \<Rightarrow> [] | Some t \<Rightarrow> [(''tenantId'', JStr t)]) @
           (case ae_userId ev of None \<Rightarrow> [] | Some u \<Rightarrow> [(''userId'', JStr u)]) @
           [(''action'', JStr (ae_action ev)), (''resourceType'', JStr (ae_resourceType ev))] @
           (case ae_resourceId ev of None \<Rightarrow> [] | Some i \<Rightarrow> [(''resourceId'', i)]) @
           [(''changes'', JObj [(''body'', ae_body ev)])] @
           (case ae_requestId ev of None \<Rightarrow> [] | Some r \<Rightarrow> [(''requestId'', JStr r)]) @
           [(''serviceName'', JStr (ae_serviceName ev)), (''timestamp'', JTime now)])"

definition audit_publish :: "chassisOptions option \<Rightarrow> instant \<Rightarrow> auditEvent \<Rightarrow> bus \<Rightarrow> bus" where
  "audit_publish options now ev b =
     (if \<not> audit_connected options then b else publish ''chassis.audit'' [] (audit_json now ev) b)"

text \<open>\<^verbatim>\<open>name.replace('Controller', '')\<close> removes the first occurrence.\<close>

fun remove_first :: "string \<Rightarrow> string \<Rightarrow> string" where
  "remove_first w [] = []"
| "remove_first w (c # cs) =
     (if take (length w) (c # cs) = w then drop (length w) (c # cs) else c # remove_first w cs)"

text \<open>The audited handler: its value is \<open>data\<close>; a handler that throws publishes nothing.\<close>

definition sdk_audit ::
    "chassisOptions option \<Rightarrow> bool \<Rightarrow> string option \<Rightarrow> string \<Rightarrow> instant \<Rightarrow> headers \<Rightarrow> json \<Rightarrow> thrown + json \<Rightarrow> bus \<Rightarrow>
       (thrown + json) \<times> bus" where
  "sdk_audit options hasPublisher auditAction className now h body result b =
     (if \<not> truthy auditAction \<or> \<not> hasPublisher then (result, b)
      else case result of
        Inl x \<Rightarrow> (result, b)
      | Inr data \<Rightarrow>
          (result, audit_publish options now
            \<lparr>ae_tenantId = h ''x-tenant-id'', ae_userId = h ''x-user-id'', ae_action = the auditAction,
             ae_resourceType = remove_first ''Controller'' className,
             ae_resourceId = (case json_get ''data'' data of None \<Rightarrow> None | Some d \<Rightarrow> json_get ''id'' d),
             ae_body = body, ae_requestId = h ''x-request-id'',
             ae_serviceName = (case options of None \<Rightarrow> ''unknown''
               | Some opts \<Rightarrow> if co_serviceName opts = [] then ''unknown'' else co_serviceName opts)\<rparr> b))"

text \<open>
  The identity service audits every mutating request of an authenticated caller, with the real user
  behind an impersonation.
\<close>

definition mutating :: "string \<Rightarrow> bool" where
  "mutating m \<longleftrightarrow> m \<in> {''POST'', ''PUT'', ''PATCH'', ''DELETE''}"

definition request_event :: "string \<Rightarrow> string \<Rightarrow> int \<Rightarrow> instant \<Rightarrow> jwtPayload \<Rightarrow> json" where
  "request_event verb url durationMs now u =
     JObj [(''userId'', JStr (jp_sub u)), (''action'', JStr (toLowerCase verb @ '':'' @ url)),
       (''meta'', JObj ([(''url'', JStr url), (''method'', JStr verb), (''durationMs'', JNum (of_int durationMs)),
          (''tenantId'', case jp_tenantId u of None \<Rightarrow> JNull | Some t \<Rightarrow> JStr t),
          (''isImpersonating'', JBool (jp_isImpersonating u))] @
          (case jp_realUserId u of None \<Rightarrow> [] | Some r \<Rightarrow> [(''realUserId'', JStr r)]))),
       (''timestamp'', JTime now)]"

definition identity_audit ::
    "string \<Rightarrow> string \<Rightarrow> jwtPayload option \<Rightarrow> instant \<Rightarrow> instant \<Rightarrow> 'x + 'a \<Rightarrow> bus \<Rightarrow> ('x + 'a) \<times> bus" where
  "identity_audit verb url user startTime now result b =
     (if \<not> mutating verb then (result, b)
      else case (result, user) of
        (Inr _, Some u) \<Rightarrow> (result, publish ''chassis.audit'' ''http.request'' (request_event verb url (now - startTime) now u) b)
      | _ \<Rightarrow> (result, b))"

text \<open>An audited request leaves the handler's result alone and logs at most one message, none for a failure.\<close>

lemma identity_audit_transparent:
  "fst (identity_audit verb url user t0 now result b) = result"
  "snd (identity_audit verb url user t0 now (Inl x) b) = b"
  by (auto simp: identity_audit_def split: sum.split option.split)

lemma identity_audit_logs:
  "mutating verb \<Longrightarrow> bus_up b \<Longrightarrow>
     published (snd (identity_audit verb url (Some u) t0 now (Inr a) b)) =
       published b @ [\<lparr>exchange = ''chassis.audit'', routingKey = ''http.request'',
         payload = request_event verb url (now - t0) now u\<rparr>]"
  by (simp add: identity_audit_def pub.emit_up)

lemma sdk_audit_transparent:
  "fst (sdk_audit options p action cls now h body result b) = result"
  "snd (sdk_audit options p action cls now h body (Inl x) b) = b"
  by (auto simp: sdk_audit_def split: sum.split)

subsection \<open>Internal calls\<close>

record internalRequest =
  ir_method :: "string option"
  ir_body :: "json option"
  ir_headers :: "(string \<times> string) list"
  ir_timeoutMs :: "int option"

text \<open>The answer of \<^verbatim>\<open>fetch\<close>: an exception, or a status with the text of the body and its parse.\<close>

datatype rawReply = RawThrows exn | RawReply nat string "json option"

text \<open>Own headers first, the caller's over them, the service token last.\<close>

definition mergedHeaders :: "chassisOptions option \<Rightarrow> (string \<times> string) list \<Rightarrow> (string \<times> string) list" where
  "mergedHeaders options hs =
     (let base = [(''Content-Type'', ''application/json''),
                  (''X-Service-Name'', case options of None \<Rightarrow> ''unknown'' | Some opts \<Rightarrow> co_serviceName opts)];
          merged = foldl (\<lambda>m p. AList.update (fst p) (snd p) m) base hs
      in case options of
           None \<Rightarrow> merged
         | Some opts \<Rightarrow>
             if truthy (co_serviceToken opts)
             then AList.update ''X-Service-Token'' (the (co_serviceToken opts)) merged else merged)"

definition internal_request ::
    "chassisOptions option \<Rightarrow> (string \<Rightarrow> string \<Rightarrow> (string \<times> string) list \<Rightarrow> json option \<Rightarrow> int \<Rightarrow> rawReply) \<Rightarrow>
       string \<Rightarrow> internalRequest \<Rightarrow> json result" where
  "internal_request options fetch url req =
     (case fetch (coalesce (ir_method req) ''GET'') url (mergedHeaders options (ir_headers req)) (ir_body req)
             (coalesce (ir_timeoutMs req) 10000) of
        RawThrows x \<Rightarrow> Inl x
      | RawReply status txt body \<Rightarrow>
          if \<not> response_ok status then Inl (JsError (''HTTP '' @ show_nat status @ '': '' @ txt))
          else (case body of None \<Rightarrow> Inl (JsError ''Unexpected token in JSON'') | Some b \<Rightarrow> Inr b))"

definition internal_get where
  "internal_get options fetch url req = internal_request options fetch url (req\<lparr>ir_method := Some ''GET'', ir_body := None\<rparr>)"

definition internal_post where
  "internal_post options fetch url body req =
     internal_request options fetch url (req\<lparr>ir_method := Some ''POST'', ir_body := Some body\<rparr>)"

text \<open>A caller cannot replace the service token.\<close>

lemma service_token_sent:
  "options = Some opts \<Longrightarrow> truthy (co_serviceToken opts) \<Longrightarrow>
     map_of (mergedHeaders options hs) ''X-Service-Token'' = co_serviceToken opts"
  by (cases "co_serviceToken opts") (auto simp: mergedHeaders_def Let_def AList.update_conv)

text \<open>The paging query of the SDK's clients.\<close>

definition skip :: "int \<Rightarrow> int \<Rightarrow> int" where
  "skip page pageSize = (page - 1) * pageSize"

subsection \<open>Health checks\<close>

datatype health = Health_ok | Health_error

record healthStatus =
  hs_degraded :: bool
  hs_checks :: "(string \<times> health) list"

definition probe :: "bool \<Rightarrow> health" where
  "probe throws = (if throws then Health_error else Health_ok)"

definition identity_check :: "bool \<Rightarrow> healthStatus" where
  "identity_check dbThrows =
     (let d = probe dbThrows in \<lparr>hs_degraded = (d \<noteq> Health_ok), hs_checks = [(''database'', d)]\<rparr>)"

text \<open>\<open>ping\<close> is absent without a Redis client, else says whether the ping threw.\<close>

definition redis_probe :: "bool option \<Rightarrow> health" where
  "redis_probe ping = (case ping of None \<Rightarrow> Health_error | Some throws \<Rightarrow> probe throws)"

definition tenant_check :: "bool \<Rightarrow> bool option \<Rightarrow> healthStatus" where
  "tenant_check dbThrows ping =
     (let d = probe dbThrows; r = redis_probe ping
      in \<lparr>hs_degraded = (\<not> (d = Health_ok \<and> r = Health_ok)), hs_checks = [(''database'', d), (''redis'', r)]\<rparr>)"

definition billing_check :: "bool \<Rightarrow> bool option \<Rightarrow> bus \<Rightarrow> healthStatus" where
  "billing_check dbThrows ping b =
     (let d = probe dbThrows; r = redis_probe ping; q = (if isConnected b then Health_ok else Health_error)
      in \<lparr>hs_degraded = (\<not> (d = Health_ok \<and> r = Health_ok \<and> q = Health_ok)),
          hs_checks = [(''database'', d), (''redis'', r), (''rabbitmq'', q)]\<rparr>)"

lemma health_reports_failures:
  "hs_degraded (identity_check a) = (Health_error \<in> snd ` set (hs_checks (identity_check a)))"
  "hs_degraded (tenant_check a p) = (Health_error \<in> snd ` set (hs_checks (tenant_check a p)))"
  "hs_degraded (billing_check a p b) = (Health_error \<in> snd ` set (hs_checks (billing_check a p b)))"
  by (auto simp: identity_check_def tenant_check_def billing_check_def Let_def probe_def redis_probe_def
      split: option.split)

end
