(* ===== verification/Chassis_Witnesses.thy ===== *)
theory Chassis_Witnesses
  imports Tenant_Witnesses Billing_Witnesses Chassis_Integration Sdk_Database Sdk_Http
begin

text \<open>Concrete instances of the properties of the SDK and of the services together.\<close>

subsection \<open>The feature gate\<close>

definition xs_options :: chassisOptions where
  "xs_options = \<lparr>co_serviceName = ''svc'', co_tenantManagerUrl = Some ''http://tm'', co_rabbitmqUrl = None,
     co_redisUrl = None, co_jwtSecret = None, co_serviceToken = Some ''secret'', co_enableAuditLogging = None,
     co_enableFeatureGating = Some True, co_requestTimeoutMs = None\<rparr>"

text \<open>The tenant manager enables every feature until the instant 1000 and is down from there on.\<close>

definition xs_world :: "instant \<Rightarrow> string \<Rightarrow> string \<Rightarrow> fetchReply" where
  "xs_world t url token =
     (if t < 1000 then FetchReply 200 (Some (JObj [(''data'', JObj [(''isEnabled'', JBool True)])])) else FetchThrows)"

definition xs_headers :: headers where
  "xs_headers = [''x-tenant-id'' \<mapsto> ''t1'']"

definition xs_cache :: flagCache where
  "xs_cache = snd (isEnabled (Some xs_options) (xs_world 500) 400 700 (Some ''t1'') ''reports'' [])"

lemma xs_cache_eq: "xs_cache = [(''t1:reports'', \<lparr>ce_value = True, ce_expiresAt = 60700\<rparr>)]"
  by (simp add: xs_cache_def isEnabled_def gating_on_def xs_options_def xs_world_def fetchFlag_def response_ok_def
      flag_of_def setCacheEntry_def MAX_CACHE_SIZE_def flagKey_def show_opt_def cacheTtlMs_def)

lemma xs_run: "flag_run (Some xs_options) xs_world 700 xs_cache"
proof -
  have "xs_cache = snd (fetchFlag (the (Some xs_options)) (xs_world 500) 700 (Some ''t1'') ''reports'' [])"
    by (simp add: xs_cache_def isEnabled_def gating_on_def xs_options_def)
  then show ?thesis
    using flag_received [OF flag_start [of "Some xs_options" xs_world 0], of 700 500 "Some ''t1''" "''reports''"]
    by (simp add: show_opt_def)
qed

theorem feature_cache_bounded_witness: "length xs_cache \<le> 1000"
  using feature_cache_bounded [OF xs_run] by (simp add: MAX_CACHE_SIZE_def)

theorem feature_gate_sound_witness:
  "sdk_FeatureGateGuard (Some ''reports'') (Some (isEnabled (Some xs_options) (xs_world 2200) 2000 2400)) xs_headers xs_cache =
     (Inr True, xs_cache) \<and>
   (\<exists>t. t \<le> 2400 \<and> 2000 < t + 65000 \<and> said (Some xs_options) (xs_world t) (Some ''t1'') ''reports'' = Some True) \<and>
   sdk_FeatureGateGuard (Some ''reports'') None xs_headers xs_cache = (Inr True, xs_cache)"
proof -
  let ?c = "Some (isEnabled (Some xs_options) (xs_world 2200) 2000 2400)"
  have pass: "sdk_FeatureGateGuard (Some ''reports'') ?c xs_headers xs_cache = (Inr True, xs_cache)"
    by (simp add: sdk_FeatureGateGuard_def isEnabled_def gating_on_def xs_options_def xs_headers_def xs_cache_eq
        flagKey_def show_opt_def)
  have on: "gating_on (Some xs_options)" by (simp add: gating_on_def xs_options_def)
  have tid: "CHR '':'' \<notin> set (show_opt (xs_headers ''x-tenant-id''))" by (simp add: xs_headers_def show_opt_def)
  note gate = feature_gate_sound [OF xs_run, where h = xs_headers and sent = 2000 and answered = 2200 and received = 2400
    and code = "''reports''", OF _ _ _ _ tid]
  have "\<exists>t \<le> 2400. 2000 < t + 65000 \<and> said (Some xs_options) (xs_world t) (xs_headers ''x-tenant-id'') ''reports'' = Some True"
    using gate [OF _ _ _ _ pass] on by simp
  moreover have "sdk_FeatureGateGuard (Some ''reports'') None xs_headers xs_cache = (Inr True, xs_cache)"
    using gate [OF _ _ _ _ prod.collapse [symmetric], of None] by (auto simp: prod_eq_iff)
  ultimately show ?thesis using pass by (simp add: xs_headers_def)
qed

subsection \<open>Tenant-aware transactions\<close>

definition xs_context :: tenantContextData where
  "xs_context = \<lparr>td_tenantId = ''t1'', td_userId = ''u1'', td_isPlatformAdmin = False\<rparr>"

text \<open>The work appends the tenant it sees to a table and returns it.\<close>

definition xs_work :: "(string \<rightharpoonup> string) \<Rightarrow> string list \<Rightarrow> string result \<times> string list" where
  "xs_work st d = (case st ''app.current_tenant_id'' of None \<Rightarrow> (Inl (JsError ''no tenant''), d) | Some t \<Rightarrow> (Inr t, d @ [t]))"

definition xs_base :: "string \<rightharpoonup> string" where
  "xs_base = [''search_path'' \<mapsto> ''public'']"

definition xs_calls :: "rq_call list" where
  "xs_calls = [Connect, StartTransaction, SetLocal ''app.current_tenant_id'' ''t1'',
     SetLocal ''app.is_platform_admin'' ''false'', Work, Commit]"

lemmas xs_run_simps = withTenantContext_def finallyBlock_def catchBlock_def tryBlock_def call_def do_work_def set_local_def
  idle_connection_def xs_work_def xs_context_def xs_calls_def xs_base_def show_bool_def Let_def

theorem tenant_context_transaction_witness:
  "withTenantContext (Some xs_context) (\<lambda>_. None) xs_work (idle_connection xs_base []) =
     (Inr ''t1'', \<lparr>cn_settings = xs_base, cn_data = [''t1''], cn_tx = None, cn_calls = xs_calls @ [Release]\<rparr>) \<and>
   xs_work (xs_base(''app.current_tenant_id'' \<mapsto> ''t1'', ''app.is_platform_admin'' \<mapsto> ''false'')) [] = (Inr ''t1'', [''t1'']) \<and>
   withTenantContext (Some xs_context) (\<lambda>c. if c = Commit then Some (QueryFailed ''40001'') else None) xs_work
       (idle_connection xs_base []) =
     (Inl (QueryFailed ''40001''),
      \<lparr>cn_settings = xs_base, cn_data = [], cn_tx = None, cn_calls = xs_calls @ [Rollback, Release]\<rparr>) \<and>
   Rollback \<in> set (xs_calls @ [Rollback, Release])"
proof -
  have ok: "withTenantContext (Some xs_context) (\<lambda>_. None) xs_work (idle_connection xs_base []) =
     (Inr ''t1'', \<lparr>cn_settings = xs_base, cn_data = [''t1''], cn_tx = None, cn_calls = xs_calls @ [Release]\<rparr>)"
    by (simp add: xs_run_simps)
  have lost: "withTenantContext (Some xs_context) (\<lambda>c. if c = Commit then Some (QueryFailed ''40001'') else None) xs_work
       (idle_connection xs_base []) =
     (Inl (QueryFailed ''40001''),
      \<lparr>cn_settings = xs_base, cn_data = [], cn_tx = None, cn_calls = xs_calls @ [Rollback, Release]\<rparr>)"
    by (simp add: xs_run_simps)
  show ?thesis
    using ok lost tenant_context_transaction [OF ok] tenant_context_transaction [OF lost]
    by (simp add: xs_context_def)
qed

subsection \<open>Services together\<close>

lemma provisioning_end_to_end_witness:
  "\<exists>t msg r. fst (createTenant ex_env (ex_create ''New'') ''u1'' ex_fresh) = Inr t \<and>
     find_sub ''t2'' (onTenantProvisioned xb_env msg xb_state) = Some r \<and> sb_planCode r = ''pro'' \<and>
     sb_stripeCustomerId r = ''cus2''"
proof -
  obtain t where t: "fst (createTenant ex_env (ex_create ''New'') ''u1'' ex_fresh) = Inr t" "t_id t = ''t2''"
    "t_currentPlan t = ''pro''"
    by (simp add: createTenant_def provision_def provisioningRow_def insert_tenant_def tenant_fits_def fits_def toLowerCase_def
      insert_feature_def ex_fresh_def ex_defs plans_findByCode_def save_tenant_def save_row_def finalSlug_def Let_def)
  have new: "createTenant ex_env (ex_create ''New'') ''u1'' ex_fresh =
      (Inr t, snd (createTenant ex_env (ex_create ''New'') ''u1'' ex_fresh))"
    using t(1) by (metis prod.collapse)
  have up: "bus_up (tm_bus ex_fresh)" by (simp add: bus_up_def ex_fresh_def ex_state_def)
  have none: "find_sub (t_id t) xb_state = None" by (simp add: t(2) xb_state_def xb_sub_def)
  have acc: "provision_accepted xb_env
      \<lparr>tp_tenantId = t_id t, tp_slug = t_slug t, tp_plan = t_currentPlan t, tp_adminEmail = t_adminEmail t\<rparr> ''cus2'' xb_state"
    by (simp add: provision_accepted_def t fits_def xb_env_def xb_state_def xb_sub_def)
  from provisioning_end_to_end [OF ex_fresh_wf new up none xb_up(1) acc, of ex_env] t show ?thesis
    by (auto simp: ex_create_def)
qed

lemma payment_status_reaches_tenant_witness:
  "\<exists>s1 ts1. processEvent xb_env (InvoicePaymentFailed xb_inv) xb_state = (Inr (), s1) \<and>
     BillingEventsController_handleSubscriptionStatus ex_env (payload (last (published (be_bus s1)))) ex_state = ts1 \<and>
     map_option t_status (find_tenant ''t1'' ts1) = Some TS_suspended"
proof -
  have "find_invoice (si_id xb_inv) xb_state = None" by (simp add: xb_state_def)
  moreover have "find_tenant (sb_tenantId xb_sub) ex_state = Some ex_tenant"
    using ex_found(1) by (simp add: xb_sub_def)
  ultimately have "\<exists>s1 s2 ts1. processEvent xb_env (InvoicePaymentFailed xb_inv) xb_state = (Inr (), s1) \<and>
      processEvent xb_env (InvoicePaid xb_inv) s1 = (Inr (), s2) \<and>
      BillingEventsController_handleSubscriptionStatus ex_env (payload (last (published (be_bus s1)))) ex_state = ts1 \<and>
      map_option t_status (find_tenant (sb_tenantId xb_sub) ts1) = Some TS_suspended \<and>
      map_option t_status (find_tenant (sb_tenantId xb_sub)
        (BillingEventsController_handleSubscriptionStatus ex_env (payload (last (published (be_bus s2)))) ts1)) = Some TS_active"
    by (intro payment_status_reaches_tenant [OF xb_wf xb_up(2) xb_up(2) xb_customer refl _ xb_accepted])
  then show ?thesis by (fastforce simp: xb_sub_def)
qed

definition xb_linked :: subscription where
  "xb_linked = xb_sub\<lparr>sb_stripeSubscriptionId := Some ''sub1'', sb_status := ''active''\<rparr>"

lemma stripe_cancellation_ignored_by_tenant_witness:
  "\<exists>s'. processEvent xb_env (SubscriptionDeleted xb_long) (xb_state\<lparr>subRows := [xb_linked]\<rparr>) = (Inr (), s') \<and>
     map_option sb_status (find_sub ''t1'' s') = Some ''canceled'' \<and>
     BillingEventsController_handleSubscriptionStatus ex_env (payload (last (published (be_bus s')))) ex_state = ex_state"
proof -
  let ?s = "xb_state\<lparr>subRows := [xb_linked]\<rparr>"
  have "be_wf ?s" "be_healthy xb_env ?s"
    by (simp_all add: be_wf_def be_healthy_def bus_up_def xb_linked_def xb_defs unique_on_def)
  moreover have "find_sub_by_customer (customerRef_id (ss_customer xb_long)) ?s = Some xb_linked"
    "find (\<lambda>x. sb_stripeSubscriptionId x = Some (ss_id xb_long)) (subRows ?s) = Some xb_linked"
    "subscription_fits xb_linked"
    by (simp_all add: xb_linked_def xb_defs subscription_fits_def fits_def)
  moreover have "find_tenant (sb_tenantId xb_linked) ex_state = Some ex_tenant"
    using ex_found(1) by (simp add: xb_linked_def xb_sub_def)
  ultimately have "\<exists>s'. processEvent xb_env (SubscriptionDeleted xb_long) ?s = (Inr (), s') \<and>
      map_option sb_status (find_sub (sb_tenantId xb_linked) s') = Some ''canceled'' \<and>
      last (published (be_bus s')) = status_msg (sb_tenantId xb_linked) ''canceled'' \<and>
      BillingEventsController_handleSubscriptionStatus ex_env (payload (last (published (be_bus s')))) ex_state = ex_state"
    by (intro stripe_cancellation_ignored_by_tenant [OF _ _ _ _ _ ex_wf])
  then show ?thesis by (fastforce simp: xb_linked_def xb_sub_def)
qed

end
