(* ===== verification/Http_Witnesses.thy ===== *)
theory Http_Witnesses
  imports Http_Theorems Service_Config Identity_Witnesses Chassis_Witnesses
begin

text \<open>
  A concrete validation pipe that meets the documented behaviour, and the theorems about the HTTP
  surface applied to small requests on the example deployments.
\<close>

text \<open>The strictest pipe: it accepts exactly what the documentation promises of accepted bodies.\<close>

definition hw_pipe :: validation where
  "hw_pipe = \<lparr>vp_validate = \<lambda>cls x.
      (if (\<forall>k \<in> fst ` set x. k \<in> fst ` set cls) \<and>
          (\<forall>(k, ty, ds) \<in> set cls. property_ok \<lparr>vp_validate = \<lambda>_ _. None, vp_check = check_means\<rparr> ty ds (property k x))
       then None else Some (BadRequest ''Bad Request'')),
     vp_check = check_means\<rparr>"

lemma hw_property_ok:
  "property_ok \<lparr>vp_validate = g, vp_check = check_means\<rparr> ty ds f = property_ok hw_pipe ty ds f"
  by (simp add: property_ok_def hw_pipe_def)

lemma hw_documented: "pipe_documented hw_pipe"
  unfolding pipe_documented_def
proof (intro conjI allI impI)
  show "check_means d f" if "vp_check hw_pipe d f" for d f using that by (simp add: hw_pipe_def)
  fix cls x
  assume "vp_accepts hw_pipe cls x"
  then have "(\<forall>k \<in> fst ` set x. k \<in> fst ` set cls) \<and> (\<forall>(k, ty, ds) \<in> set cls. property_ok hw_pipe ty ds (property k x))"
    unfolding hw_property_ok [where g = "\<lambda>_ _. None", symmetric]
    by (subst (asm) hw_pipe_def) (simp split: if_splits)
  then show "\<forall>k \<in> fst ` set x. k \<in> fst ` set cls" "\<forall>(k, ty, ds) \<in> set cls. property_ok hw_pipe ty ds (property k x)"
    by blast+
qed

definition hw_register :: body where
  "hw_register = [(''email'', JStr ''eve@x.io''), (''password'', JStr ''Secret12''), (''displayName'', JStr ''Eve'')]"

lemma hw_password: "passwordPattern ''Secret12''"
  by (simp add: passwordPattern_def is_digit_def)

lemma hw_register_accepted: "vp_accepts hw_pipe RegisterDto hw_register"
  by (simp add: hw_pipe_def RegisterDto_def hw_register_def property_ok_def property_def hw_password)

definition hw_verify :: passport where
  "hw_verify h = (None, None)"

definition hw_served :: "id_reply result \<times> id_state" where
  "hw_served = id_serve hw_pipe hw_verify (iw_env 0) Map.empty None (PublicCall (PostRegister hw_register)) iw_state"

lemma hw_register_of: "registerDto_of hw_register = Some iw_register"
  by (simp add: registerDto_of_def body_text_def property_def hw_register_def iw_register_def)

lemma hw_rows: "userRows (snd hw_served) = [iw_user ''adm'' True, iw_user ''bob'' False,
    \<lparr>u_id = ''new'', u_email = ''eve@x.io'', u_emailVerified = False, u_passwordHash = ''#Secret12'', u_displayName = ''Eve'',
     u_avatarUrl = None, u_phone = None, u_isPlatformAdmin = False, u_isActive = True, u_lastLoginAt = Some 0,
     u_createdAt = 0, u_updatedAt = 0\<rparr>]"
proof -
  have low: "toLowerCase ''eve@x.io'' = ''eve@x.io''" by (simp add: toLowerCase_def lower_char_def)
  show ?thesis
    unfolding hw_served_def id_serve.simps AuthController_public_routes.simps validated_def hw_register_accepted hw_register_of
      option.case AuthController_register_def
    by (simp add: answer_def register_def users_create_def users_findByEmail_def insert_user_def user_fits_def fits_def low
        login_def issueTokens_def insert_token_def token_fits_def updateLastLogin_def update_where_def Let_def
        iw_register_def iw_defs)
qed

theorem no_privilege_escalation_witness:
  "\<exists>u0 \<in> set (userRows iw_state). u_id u0 = ''adm'' \<and> u_isPlatformAdmin u0"
proof -
  have "hw_served = (fst hw_served, snd hw_served)" by simp
  from no_privilege_escalation [OF hw_documented this [unfolded hw_served_def], of "iw_user ''adm'' True"]
  show ?thesis using hw_rows [unfolded hw_served_def] by (auto simp: iw_user_def)
qed

definition hw_patch :: body where
  "hw_patch = [(''name'', JStr ''Acme Ltd''), (''phone'', JStr ''123'')]"

definition hw_admin :: passport where
  "hw_admin h = (None, Some (ex_user True))"

lemma hw_updated: "\<exists>r s'. tm_serve hw_pipe hw_admin ex_env Map.empty (TenantsCall (PatchTenant ''t1'' hw_patch)) ex_state =
    Some (r, s') \<and> (\<exists>t \<in> set (tenants s'). t_name t = ''Acme Ltd'')"
proof -
  have "vp_accepts hw_pipe UpdateTenantDto hw_patch"
    by (simp add: hw_pipe_def UpdateTenantDto_def hw_patch_def property_ok_def property_def)
  then show ?thesis
    by (simp add: updateRoute_def for_user_def tm_JwtAuthGuard_def hw_admin_def handleRequest_def tm_JwtStrategy_validate_def
        TenantsController_update_def updateTenant_def tenants_findById_def patch_tenant_def updateTenantDto_of_def
        Let_def present_def body_text_def body_object_def property_def hw_patch_def patch_val_def patch_opt_def
        save_tenant_def save_row_def respond_def ex_defs)
qed

theorem stored_texts_fit_witness:
  "\<exists>r s' u t. u \<in> set (userRows (snd hw_served)) \<and> u_id u = ''new'' \<and> user_fits u \<and>
     tm_serve hw_pipe hw_admin ex_env Map.empty (TenantsCall (PatchTenant ''t1'' hw_patch)) ex_state = Some (r, s') \<and>
     t \<in> set (tenants s') \<and> t_name t = ''Acme Ltd'' \<and> tenant_fits t"
proof -
  obtain r s' t where s': "tm_serve hw_pipe hw_admin ex_env Map.empty (TenantsCall (PatchTenant ''t1'' hw_patch)) ex_state = Some (r, s')"
    and t: "t \<in> set (tenants s')" "t_name t = ''Acme Ltd''"
    using hw_updated by (elim exE conjE bexE) (rule that)
  have users: "\<forall>u \<in> set (userRows iw_state). user_fits u" by (simp add: user_fits_def fits_def iw_defs)
  have tenants: "\<forall>t \<in> set (tenants ex_state). tenant_fits t" by (simp add: tenant_fits_def fits_def ex_defs)
  have "\<exists>u \<in> set (userRows (snd hw_served)). u_id u = ''new''" unfolding hw_rows by simp
  then obtain u where u: "u \<in> set (userRows (snd hw_served))" "u_id u = ''new''" ..
  note fit = stored_texts_fit [OF hw_documented, of iw_state hw_verify "iw_env 0" Map.empty None
      "PublicCall (PostRegister hw_register)" ex_state hw_admin ex_env Map.empty
      "TenantsCall (PatchTenant ''t1'' hw_patch)" r s', folded hw_served_def]
  have "user_fits u" by (rule bspec [OF mp [OF conjunct1 [OF fit] users] u(1)])
  moreover have "tenant_fits t" by (rule bspec [OF mp [OF mp [OF conjunct2 [OF fit] tenants] s'] t(1)])
  ultimately show ?thesis using u t s' by (intro exI conjI)
qed

definition hw_eve :: user where
  "hw_eve = \<lparr>u_id = ''new'', u_email = ''eve@x.io'', u_emailVerified = False, u_passwordHash = ''#Secret12'', u_displayName = ''Eve'',
     u_avatarUrl = None, u_phone = None, u_isPlatformAdmin = False, u_isActive = True, u_lastLoginAt = Some 0,
     u_createdAt = 0, u_updatedAt = 0\<rparr>"


lemma accepted_bodies_typed_witness:
  "registerDto_of hw_register = Some iw_register \<and> passwordPattern (rg_password iw_register)"
proof -
  from accepted_bodies_typed [OF hw_documented, of hw_register "[]" "[]"] hw_register_accepted
  have "\<exists>dto. registerDto_of hw_register = Some dto \<and> passwordPattern (rg_password dto)" by blast
  then show ?thesis using hw_register_of by auto
qed

definition hw_long :: body where
  "hw_long = [(''name'', JStr (replicate 120 CHR ''a'')), (''adminEmail'', JStr ''a@b.io'')]"

theorem long_name_refused_by_database_witness:
  "TenantsController_routes hw_pipe ex_env (ex_user True) (PostTenants hw_long) ex_state = Some (Inl (QueryFailed ''22001''), ex_state)"
proof -
  have d: "createTenantDto_of hw_long = Some (the (createTenantDto_of hw_long))"
      "ct_name (the (createTenantDto_of hw_long)) = replicate 120 CHR ''a''"
    by (simp_all add: createTenantDto_of_def body_text_def property_def hw_long_def)
  have "vp_accepts hw_pipe CreateTenantDto hw_long"
    by (simp add: hw_pipe_def CreateTenantDto_def hw_long_def property_ok_def property_def)
  from long_name_refused_by_database [OF d(1) this, of "ex_user True" ex_env] d(2) show ?thesis
    by (simp add: ex_user_def ex_env_def toLowerCase_def)
qed

theorem anonymous_changes_nothing_witness:
  "(\<exists>x. tm_serve hw_pipe hw_verify ex_env Map.empty (TenantsCall (DeleteTenant ''t1'')) ex_state = Some (Inl x, ex_state)) \<and>
   (\<exists>x. id_serve hw_pipe hw_verify (iw_env 0) Map.empty None (PrivateCall (UsersRoute (DeleteUser ''bob''))) iw_state = (Inl x, iw_state)) \<and>
   snd (be_serve hw_verify (xb_env\<lparr>constructEvent := \<lambda>_ _ _. None\<rparr>) Map.empty (StripeWebhook []) xb_state) = xb_state"
proof -
  let ?e = "xb_env\<lparr>constructEvent := \<lambda>_ _ _. None\<rparr>"
  have "anonymous hw_verify Map.empty" by (simp add: anonymous_def hw_verify_def)
  moreover have "\<exists>x. internalServiceGuard ex_env (Map.empty ''x-service-token'') = Inl x"
    by (simp add: internalServiceGuard_def)
  moreover have "constructWebhookEvent ?e b (Map.empty ''stripe-signature'') (coalesce (webhookSecret ?e) []) = None" for b
    by (simp add: constructWebhookEvent_def)
  ultimately show ?thesis
    using anonymous_changes_nothing [of hw_verify Map.empty ex_env ?e hw_pipe "TenantsCall (DeleteTenant ''t1'')" ex_state
        "iw_env 0" None "UsersRoute (DeleteUser ''bob'')" iw_state "StripeWebhook []" xb_state] by blast
qed

definition hw_member :: passport where
  "hw_member h = (None, Some (ex_user False))"

theorem billing_routes_confined_witness:
  "\<exists>x r. be_serve hw_member xb_env Map.empty (BillingCall (SubscriptionsRoute GetSubscription)) xb_state = (Inr (Subscription_reply x), xb_state) \<and>
     ar_data x = Some r \<and> sb_tenantId r = ''t1''"
proof -
  obtain x where x: "be_serve hw_member xb_env Map.empty (BillingCall (SubscriptionsRoute GetSubscription)) xb_state = (Inr (Subscription_reply x), xb_state)"
    by (simp add: behind_def be_JwtAuthGuard_def hw_member_def handleRequest_def be_JwtStrategy_validate_def
        getSubscription_def with_permission_def billing_PermissionsGuard_def with_tenant_def subs_findByTenantId_def
        find_by_tenant_def respond_def ex_user_def xb_defs)
  have u: "be_JwtAuthGuard hw_member Map.empty = Inr (ex_user False)" "jp_tenantId (ex_user False) = Some ''t1''"
    by (simp_all add: be_JwtAuthGuard_def hw_member_def handleRequest_def be_JwtStrategy_validate_def ex_user_def)
  from billing_routes_confined [OF x] u have "\<exists>r. ar_data x = Some r \<and> sb_tenantId r = ''t1''" by auto
  with x show ?thesis by blast
qed

end
