(* ===== verification/Token_Witnesses.thy ===== *)
theory Token_Witnesses
  imports Token_Authority Http_Witnesses
begin

text \<open>
  A token of the example deployment on its way: a member exchanges a refresh token at the identity
  service and reads the tenant with the access token at the tenant manager.
\<close>

definition tw_claims :: jwtClaims where
  "tw_claims = \<lparr>jp_sub = ''bob'', jp_email = ''bob@x.io'', jp_displayName = ''bob'', jp_isPlatformAdmin = False,
     jp_tenantId = Some ''t1'', jp_tenantSlug = None, jp_roles = Some [''tenant_admin''],
     jp_permissions = Some [''users:manage''], jp_isImpersonating = False, jp_realUserId = None\<rparr>"

text \<open>A signature that tells these claims from all others.\<close>

definition tw_sign :: "jwtClaims \<Rightarrow> string \<Rightarrow> string" where
  "tw_sign c d = (if c = tw_claims then ''tok'' else ''other'')"

definition tw_env :: id_env where
  "tw_env = (iw_env 0)\<lparr>jwt_sign := tw_sign\<rparr>"

definition tw_state :: id_state where
  "tw_state = iw_state\<lparr>tokenRows := [\<lparr>rt_id = ''k1'', rt_userId = ''bob'', rt_tokenHash = ''h-rnd'', rt_deviceInfo = None,
     rt_ipAddress = None, rt_expiresAt = 1000, rt_revokedAt = None, rt_createdAt = 0\<rparr>]\<rparr>"

definition tw_nobody :: passport where
  "tw_nobody h = (None, None)"

definition tw_verify :: passport where
  "tw_verify h = (if h ''authorization'' = Some ''Bearer tok''
     then (None, Some (jwtClaims.extend tw_claims \<lparr>jp_iat = 0, jp_exp = 900\<rparr>)) else (None, None))"

definition tw_body :: body where
  "tw_body = [(''refreshToken'', JStr ''rnd'')]"

lemma tw_refreshed:
  "\<exists>x. id_serve hw_pipe tw_nobody tw_env Map.empty None (PublicCall (PostRefresh tw_body)) tw_state =
    (Inr (Access_reply x), tw_state) \<and> reply_tokens (Inr (Access_reply x)) = [''tok'']"
proof -
  have ok: "vp_accepts hw_pipe RefreshTokenDto tw_body"
    by (simp add: hw_pipe_def RefreshTokenDto_def tw_body_def property_ok_def property_def)
  have claims: "buildJwtPayload (iw_user ''bob'' False) (Some iw_member) tw_state = tw_claims"
    by (simp add: buildJwtPayload_def membership_roles_def membership_permissions_def permission_def tw_claims_def
        tw_state_def iw_defs)
  have "refreshAccessToken tw_env ''rnd'' tw_state =
      Inr (accessTokenFor tw_env (iw_user ''bob'' False) (Some iw_member) tw_state)"
    by (simp add: refreshAccessToken_def Let_def primaryMembership_def memberships_findByUserId_def rt_isValid_def rt_isExpired_def
        rt_isRevoked_def redis_get_def tw_state_def tw_env_def iw_defs)
  moreover have "body_text ''refreshToken'' tw_body = Some ''rnd''"
    by (simp add: body_text_def property_def tw_body_def)
  ultimately show ?thesis
    by (simp add: validated_def ok reads_def AuthController_refresh_def accessTokenFor_def signAccessToken_def claims
        tw_env_def tw_sign_def)
qed

lemma tw_served: "served hw_pipe tw_sign tw_state [(''tok'', tw_state)] tw_state"
proof -
  obtain x where x: "id_serve hw_pipe tw_nobody tw_env Map.empty None (PublicCall (PostRefresh tw_body)) tw_state =
    (Inr (Access_reply x), tw_state)" "reply_tokens (Inr (Access_reply x)) = [''tok'']"
    using tw_refreshed by blast
  have "jwt_sign tw_env = tw_sign" "trusts tw_sign [] tw_nobody"
    by (simp_all add: tw_env_def trusts_def tw_nobody_def)
  from served.serve [OF served.start this x(1)] show ?thesis by (simp only: x(2)) simp
qed

lemma tw_trusted: "trusts tw_sign [(''tok'', tw_state)] tw_verify"
  by (auto simp: trusts_def tw_verify_def tw_sign_def tw_claims_def jwtClaims.defs split: if_splits)

definition tw_headers :: headers where
  "tw_headers = [''authorization'' \<mapsto> ''Bearer tok'']"

lemma tw_answered: "answered_about ex_env tw_verify tw_headers Users ''t1''"
proof -
  have "\<exists>r s'. tm_serve hw_pipe tw_verify ex_env tw_headers (TenantsCall (GetTenant ''t1'')) ex_state = Some (Inr r, s')"
    by (simp add: for_user_def tm_JwtAuthGuard_def tm_JwtStrategy_validate_def handleRequest_def tw_verify_def tw_headers_def
        tw_claims_def jwtClaims.defs reads_def TenantsController_findOne_def tenants_findById_def ex_defs)
  then obtain r s' where
    "tm_serve hw_pipe tw_verify ex_env tw_headers (TenantsCall (GetTenant ''t1'')) ex_state = Some (Inr r, s')"
    by blast
  from answered_about.tenant_request [OF this, of "''t1''"] show ?thesis by simp
qed

text \<open>A service asks for a feature with the shared secret.\<close>

definition tw_tm_env :: tm_env where
  "tw_tm_env = ex_env\<lparr>internalServiceToken := Some ''secret''\<rparr>"

definition tw_service_headers :: headers where
  "tw_service_headers = [''x-service-token'' \<mapsto> ''secret'']"

lemma tw_checked: "answered_about tw_tm_env tw_verify tw_service_headers Services ''t1''"
proof -
  have "\<exists>r s'. tm_serve hw_pipe tw_verify tw_tm_env tw_service_headers (FeatureCheck ''t1'' ''reports'') ex_state = Some (Inr r, s')"
    by (simp add: respond_def FeaturesController_checkFeature_def internalServiceGuard_def tw_tm_env_def tw_service_headers_def
        ex_defs split: prod.split)
  then obtain r s' where
    "tm_serve hw_pipe tw_verify tw_tm_env tw_service_headers (FeatureCheck ''t1'' ''reports'') ex_state = Some (Inr r, s')"
    by blast
  from answered_about.tenant_request [OF this, of "''t1''"] show ?thesis by simp
qed

theorem access_traces_to_grant_witness:
  "(\<exists>m \<in> set (membershipRows tw_state). m_userId m = ''bob'' \<and> m_tenantId m = ''t1'') \<and>
   tw_service_headers ''x-service-token'' = internalServiceToken tw_tm_env"
proof -
  have none: "sessionRows tw_state = []" by (simp add: tw_state_def iw_state_def)
  from access_traces_to_grant [OF tw_served hw_documented none tw_trusted tw_answered]
  obtain c exp where "''tok'' = tw_sign c exp" "(\<exists>m \<in> set (membershipRows tw_state). m_userId m = jp_sub c \<and> m_tenantId m = ''t1'') \<or>
     (\<exists>x \<in> set (sessionRows tw_state). is_targetUserId x = jp_sub c \<and> is_targetTenantId x = ''t1'' \<and>
        is_adminUserId x \<in> admin_ids tw_state) \<or>
     (jp_isPlatformAdmin c \<and> jp_sub c \<in> admin_ids tw_state)"
    by auto
  moreover from access_traces_to_grant [OF tw_served hw_documented none tw_trusted tw_checked]
  have "tw_service_headers ''x-service-token'' = internalServiceToken tw_tm_env" by auto
  ultimately show ?thesis using none by (auto simp: tw_sign_def tw_claims_def split: if_splits)
qed

end
