(* ===== verification/Billing_Revenue.thy ===== *)
theory Billing_Revenue
  imports Billing_Witnesses
begin

text \<open>
  The figures of \<^verbatim>\<open>RevenueService.getRevenueSummary\<close> against each other: the groups of a
  \<^verbatim>\<open>GROUP BY\<close> query partition its rows, so the breakdowns by period and by plan add up to the
  totals the summary reports beside them; and what the churn rate counts.
\<close>

subsection \<open>Groups of rows\<close>

lemma groups_distinct [simp]: "distinct (groups k rows)"
  by (simp add: groups_def)

lemma groups_set [simp]: "set (groups k rows) = k ` set rows"
  by (simp add: groups_def)

lemma groups_length: "length (groups k rows) = card (k ` set rows)"
  using distinct_card [OF groups_distinct, of k rows] by simp

lemma sum_list_single:
  fixes c :: "'a :: comm_monoid_add"
  assumes "distinct gs" "x \<in> set gs"
  shows "(\<Sum>g\<leftarrow>gs. if x = g then c else 0) = c"
  using assms by (simp add: sum_list_distinct_conv_sum_set)

text \<open>The sums of the groups add up to the sum of all rows, whatever the order of the groups.\<close>

lemma sum_groups:
  fixes f :: "'r \<Rightarrow> 'a :: comm_monoid_add"
  assumes "distinct gs" "k ` set rows \<subseteq> set gs"
  shows "(\<Sum>g\<leftarrow>gs. \<Sum>x\<leftarrow>filter (\<lambda>x. k x = g) rows. f x) = (\<Sum>x\<leftarrow>rows. f x)"
  using assms(2)
proof (induction rows)
  case Nil
  then show ?case by simp
next
  case (Cons x rows)
  have "(\<Sum>y\<leftarrow>filter (\<lambda>y. k y = g) (x # rows). f y) =
      (if k x = g then f x else 0) + (\<Sum>y\<leftarrow>filter (\<lambda>y. k y = g) rows. f y)" for g
    by simp
  then have "(\<Sum>g\<leftarrow>gs. \<Sum>y\<leftarrow>filter (\<lambda>y. k y = g) (x # rows). f y) =
      (\<Sum>g\<leftarrow>gs. if k x = g then f x else 0) + (\<Sum>g\<leftarrow>gs. \<Sum>y\<leftarrow>filter (\<lambda>y. k y = g) rows. f y)"
    by (simp only: sum_list_addf)
  with Cons sum_list_single [OF assms(1), of "k x" "f x"] show ?case by simp
qed

lemma sum_by_group:
  fixes f :: "'r \<Rightarrow> 'a :: comm_monoid_add"
  shows "(\<Sum>g\<leftarrow>groups k rows. \<Sum>x\<leftarrow>filter (\<lambda>x. k x = g) rows. f x) = (\<Sum>x\<leftarrow>rows. f x)"
  by (rule sum_groups) simp_all

text \<open>The same for \<^verbatim>\<open>COUNT(*)\<close>.\<close>

lemma count_groups:
  "(\<Sum>g\<leftarrow>groups k rows. length (filter (\<lambda>x. k x = g) rows)) = length rows"
  using sum_by_group [of "\<lambda>_. 1 :: nat" k rows] by (simp add: sum_list_triv)

text \<open>An inner join counts a row of the left side once for every partner.\<close>

lemma sum_join:
  fixes f :: "'r \<Rightarrow> rat"
  shows "sum_list (map (f \<circ> fst) (concat (map (\<lambda>i. map (Pair i) (partners i)) rows))) =
    (\<Sum>i\<leftarrow>rows. of_nat (length (partners i)) * f i)"
  by (induction rows) (simp_all add: o_def sum_list_triv)

lemma sum_filter_split:
  fixes f :: "'r \<Rightarrow> 'a :: comm_monoid_add"
  shows "(\<Sum>x\<leftarrow>filter P xs. f x) + (\<Sum>x\<leftarrow>filter (\<lambda>x. \<not> P x) xs. f x) = (\<Sum>x\<leftarrow>xs. f x)"
  by (induction xs) (simp_all add: ac_simps)

subsection \<open>The breakdowns of the summary\<close>

text \<open>The label an invoice is grouped under, and the number of periods with revenue.\<close>

definition period_label :: "be_env \<Rightarrow> period \<Rightarrow> invoice \<Rightarrow> string" where
  "period_label e p i = to_char e (period_format p) (the (iv_paidAt i))"

definition dated :: "be_state \<Rightarrow> invoice list" where
  "dated s = filter (\<lambda>i. iv_status i = ''paid'' \<and> iv_paidAt i \<noteq> None) (invoiceRows s)"

lemma revenueByPeriod_eq:
  "getRevenueByPeriod e p s =
    map (\<lambda>g. (g, \<Sum>i\<leftarrow>filter (\<lambda>i. period_label e p i = g) (dated s). iv_amountPaid i))
      (take 30 (rev (sort (groups (period_label e p) (dated s)))))"
  by (simp add: getRevenueByPeriod_def period_label_def [abs_def] dated_def Let_def)

text \<open>The listed periods add up to the invoices that fall into one of them.\<close>

lemma revenue_periods_sum:
  "sum_list (map snd (getRevenueByPeriod e p s)) =
    (\<Sum>i\<leftarrow>filter (\<lambda>i. period_label e p i \<in> fst ` set (getRevenueByPeriod e p s)) (dated s). iv_amountPaid i)"
proof -
  define gs where "gs = take 30 (rev (sort (groups (period_label e p) (dated s))))"
  have gs: "fst ` set (getRevenueByPeriod e p s) = set gs" "distinct gs"
    by (simp_all add: revenueByPeriod_eq gs_def image_image)
  let ?rows = "filter (\<lambda>i. period_label e p i \<in> set gs) (dated s)"
  have "filter (\<lambda>i. period_label e p i = g) (dated s) = filter (\<lambda>i. period_label e p i = g) ?rows" if "g \<in> set gs" for g
    using that by (auto intro: filter_cong)
  then have "sum_list (map snd (getRevenueByPeriod e p s)) =
      (\<Sum>g\<leftarrow>gs. \<Sum>i\<leftarrow>filter (\<lambda>i. period_label e p i = g) ?rows. iv_amountPaid i)"
    by (simp add: revenueByPeriod_eq o_def gs_def [symmetric] cong: map_cong)
  also have "\<dots> = (\<Sum>i\<leftarrow>?rows. iv_amountPaid i)"
    by (rule sum_groups [OF gs(2)]) auto
  finally show ?thesis by (simp add: gs(1))
qed

text \<open>Paid invoices that the breakdown by period leaves out: without a payment date, or of a period that is
  not listed.\<close>

definition unlisted :: "be_env \<Rightarrow> period \<Rightarrow> be_state \<Rightarrow> invoice \<Rightarrow> bool" where
  "unlisted e p s i \<longleftrightarrow> iv_paidAt i = None \<or> period_label e p i \<notin> fst ` set (getRevenueByPeriod e p s)"

lemma total_splits:
  "getTotalRevenue s = sum_list (map snd (getRevenueByPeriod e p s)) +
    (\<Sum>i\<leftarrow>filter (\<lambda>i. iv_status i = ''paid'' \<and> unlisted e p s i) (invoiceRows s). iv_amountPaid i)"
proof -
  let ?paid = "filter (\<lambda>i. iv_status i = ''paid'') (invoiceRows s)"
  have "filter (\<lambda>i. period_label e p i \<in> fst ` set (getRevenueByPeriod e p s)) (dated s) = filter (\<lambda>i. \<not> unlisted e p s i) ?paid"
    by (auto simp: dated_def unlisted_def intro!: filter_cong)
  moreover have "filter (\<lambda>i. iv_status i = ''paid'' \<and> unlisted e p s i) (invoiceRows s) = filter (unlisted e p s) ?paid"
    by (auto intro: filter_cong)
  ultimately show ?thesis
    using sum_filter_split [of iv_amountPaid "unlisted e p s" ?paid]
    by (simp add: revenue_periods_sum getTotalRevenue_def sum_paid_def add.commute)
qed

text \<open>The newest periods come first, at most thirty, each once; a period left out is older than all of
  them.\<close>

lemma revenue_periods_newest:
  "length (getRevenueByPeriod e p s) \<le> 30" (is ?len)
  "sorted_wrt (>) (map fst (getRevenueByPeriod e p s))" (is ?desc)
  "i \<in> set (dated s) \<Longrightarrow> period_label e p i \<notin> fst ` set (getRevenueByPeriod e p s) \<Longrightarrow>
    length (getRevenueByPeriod e p s) = 30 \<and> (\<forall>x \<in> set (getRevenueByPeriod e p s). period_label e p i < fst x)"
proof -
  define gs where "gs = rev (sort (groups (period_label e p) (dated s)))"
  have gs: "sorted_wrt (>) gs"
    by (simp add: gs_def sorted_wrt_rev strict_sorted_iff)
  have fst: "map fst (getRevenueByPeriod e p s) = take 30 gs"
    by (simp add: revenueByPeriod_eq gs_def o_def)
  show ?len by (simp add: revenueByPeriod_eq)
  show ?desc using gs by (simp add: fst sorted_wrt_take)
  assume i: "i \<in> set (dated s)" "period_label e p i \<notin> fst ` set (getRevenueByPeriod e p s)"
  have set: "fst ` set (getRevenueByPeriod e p s) = set (take 30 gs)"
    using arg_cong [OF fst, of set] by simp
  have "period_label e p i \<in> set gs" using i(1) by (simp add: gs_def)
  then have late: "period_label e p i \<in> set (drop 30 gs)"
    using i(2) unfolding set by (metis append_take_drop_id Un_iff set_append)
  then have "30 < length gs" by (metis drop_all empty_iff list.set(1) not_le)
  then have "length (getRevenueByPeriod e p s) = 30" using arg_cong [OF fst, of length] by simp
  moreover have "period_label e p i < fst x" if "x \<in> set (getRevenueByPeriod e p s)" for x
  proof -
    have "fst x \<in> set (take 30 gs)" using that by (simp add: set [symmetric])
    moreover have "sorted_wrt (>) (take 30 gs @ drop 30 gs)" using gs by simp
    ultimately show ?thesis using late by (simp only: sorted_wrt_append)
  qed
  ultimately show "length (getRevenueByPeriod e p s) = 30 \<and> (\<forall>x \<in> set (getRevenueByPeriod e p s). period_label e p i < fst x)"
    by blast
qed

lemma plans_count_active: "sum_list (map snd (getSubscriptionsByPlan s)) = getActiveSubscriptionCount s"
  by (simp add: getSubscriptionsByPlan_def getActiveSubscriptionCount_def Let_def o_def count_groups del: filter_filter)

text \<open>The paid invoices of the current month, each with the subscriptions of its customer.\<close>

definition paid_this_month :: "be_env \<Rightarrow> be_state \<Rightarrow> invoice list" where
  "paid_this_month e s = filter (\<lambda>i. iv_status i = ''paid'' \<and> in_current_month e (iv_paidAt i)) (invoiceRows s)"

abbreviation customer_subs :: "be_state \<Rightarrow> invoice \<Rightarrow> subscription list" where
  "customer_subs s i \<equiv> filter (\<lambda>r. sb_stripeCustomerId r = iv_stripeCustomerId i) (subRows s)"

lemma mrr_eq: "getCurrentMonthRevenue e s = (\<Sum>i\<leftarrow>paid_this_month e s. iv_amountPaid i)"
  by (simp add: getCurrentMonthRevenue_def sum_paid_def paid_this_month_def)

lemma arr_by_plan_sum:
  "sum_list (map snd (getArrByPlan e s)) =
    (\<Sum>i\<leftarrow>paid_this_month e s. 12 * of_nat (length (customer_subs s i)) * iv_amountPaid i)"
proof -
  define rows where "rows = concat (map (\<lambda>i. map (Pair i) (customer_subs s i)) (paid_this_month e s))"
  have "sum_list (map snd (getArrByPlan e s)) =
      (\<Sum>g\<leftarrow>groups (sb_planCode \<circ> snd) rows.
        (\<Sum>x\<leftarrow>filter (\<lambda>x. (sb_planCode \<circ> snd) x = g) rows. (iv_amountPaid \<circ> fst) x) * 12)"
    by (simp add: getArrByPlan_def Let_def rows_def paid_this_month_def o_def)
  also have "\<dots> = (\<Sum>x\<leftarrow>rows. (iv_amountPaid \<circ> fst) x) * 12"
    by (simp only: sum_list_mult_const sum_by_group)
  also have "(\<Sum>x\<leftarrow>rows. (iv_amountPaid \<circ> fst) x) = (\<Sum>i\<leftarrow>paid_this_month e s. of_nat (length (customer_subs s i)) * iv_amountPaid i)"
    unfolding rows_def by (rule sum_join)
  finally show ?thesis by (simp add: sum_list_const_mult [symmetric] ac_simps)
qed

text \<open>C29: the figures of the revenue summary agree with each other, for every content of the tables. The
  revenue by period lists each period once, newest first and at most thirty, with the revenue of the
  paid invoices dated in it; together with the paid invoices it leaves out it adds up to the total
  revenue, and it leaves out only those without a payment date and, when it lists thirty, those of
  older periods than all it lists. The active subscriptions by plan add up to their number. The annual
  revenue by plan adds up to twelve times the invoices paid this month, each counted once for every
  subscription of its customer, so to twelve times the monthly revenue when each has one.\<close>

theorem revenue_breakdowns_agree:
  "let r = getRevenueSummary e p s;
      listed = fst ` set (rv_revenueByPeriod r);
      label = (\<lambda>i. to_char e (period_format p) (the (iv_paidAt i))) in
    rv_totalRevenue r = sum_list (map snd (rv_revenueByPeriod r)) +
      (\<Sum>i\<leftarrow>filter (\<lambda>i. iv_status i = ''paid'' \<and> (iv_paidAt i = None \<or> label i \<notin> listed)) (invoiceRows s). iv_amountPaid i) \<and>
    sorted_wrt (>) (map fst (rv_revenueByPeriod r)) \<and> length (rv_revenueByPeriod r) \<le> 30 \<and>
    (\<forall>(g, x) \<in> set (rv_revenueByPeriod r). x =
      (\<Sum>i\<leftarrow>filter (\<lambda>i. iv_status i = ''paid'' \<and> iv_paidAt i \<noteq> None \<and> label i = g) (invoiceRows s). iv_amountPaid i)) \<and>
    (\<forall>i \<in> set (invoiceRows s). iv_status i = ''paid'' \<and> iv_paidAt i \<noteq> None \<and> label i \<notin> listed \<longrightarrow>
      length (rv_revenueByPeriod r) = 30 \<and> (\<forall>x \<in> set (rv_revenueByPeriod r). label i < fst x)) \<and>
    sum_list (map snd (rv_subscriptionsByPlan r)) = rv_activeSubscriptions r \<and>
    rv_mrr r = (\<Sum>i\<leftarrow>filter (\<lambda>i. iv_status i = ''paid'' \<and> in_current_month e (iv_paidAt i)) (invoiceRows s). iv_amountPaid i) \<and>
    sum_list (map snd (rv_arrByPlan r)) =
      (\<Sum>i\<leftarrow>filter (\<lambda>i. iv_status i = ''paid'' \<and> in_current_month e (iv_paidAt i)) (invoiceRows s).
        12 * of_nat (length (filter (\<lambda>b. sb_stripeCustomerId b = iv_stripeCustomerId i) (subRows s))) * iv_amountPaid i)"
proof -
  let ?r = "getRevenueSummary e p s"
  have r: "rv_revenueByPeriod ?r = getRevenueByPeriod e p s" "rv_totalRevenue ?r = getTotalRevenue s"
    "rv_subscriptionsByPlan ?r = getSubscriptionsByPlan s" "rv_activeSubscriptions ?r = getActiveSubscriptionCount s"
    "rv_arrByPlan ?r = getArrByPlan e s" "rv_mrr ?r = getCurrentMonthRevenue e s"
    by (simp_all add: getRevenueSummary_def)
  have label: "to_char e (period_format p) (the (iv_paidAt i)) = period_label e p i" for i by (simp add: period_label_def)
  have left_out: "length (getRevenueByPeriod e p s) = 30 \<and> (\<forall>x \<in> set (getRevenueByPeriod e p s). period_label e p i < fst x)"
    if "i \<in> set (invoiceRows s)" "iv_status i = ''paid''" "iv_paidAt i \<noteq> None" "period_label e p i \<notin> fst ` set (getRevenueByPeriod e p s)" for i
    using revenue_periods_newest(3) [of i s e p] that by (simp add: dated_def)
  have entries: "x = (\<Sum>i\<leftarrow>filter (\<lambda>i. iv_status i = ''paid'' \<and> iv_paidAt i \<noteq> None \<and> period_label e p i = g) (invoiceRows s). iv_amountPaid i)"
    if "(g, x) \<in> set (getRevenueByPeriod e p s)" for g x
    using that by (auto simp: revenueByPeriod_eq dated_def conj_ac intro!: arg_cong [where f = sum_list] map_cong filter_cong dest!: in_set_takeD)
  show ?thesis
    unfolding Let_def r label
    by (intro conjI)
      (use total_splits [of s e p] left_out entries in
        \<open>auto simp: unlisted_def revenue_periods_newest plans_count_active arr_by_plan_sum mrr_eq paid_this_month_def\<close>)
qed

text \<open>So an invoice counts twice for a customer with two subscriptions: the column has no unique constraint.\<close>

lemma shared_customer_counts_twice:
  assumes "subRows s = [r1, r2]" "sb_planCode r1 = sb_planCode r2"
    and "sb_stripeCustomerId r1 = iv_stripeCustomerId i" "sb_stripeCustomerId r2 = iv_stripeCustomerId i"
    and "paid_this_month e s = [i]"
  shows "getArrByPlan e s = [(sb_planCode r1, 24 * iv_amountPaid i)] \<and> getCurrentMonthRevenue e s = iv_amountPaid i"
  using assms(5) by (simp add: getArrByPlan_def mrr_eq groups_def assms flip: paid_this_month_def)

subsection \<open>Churn\<close>

text \<open>When every subscription was cancelled this month, those opened this month count as churned too,
  though not among the subscriptions of the start of the month: the rate exceeds one.\<close>

lemma churn_rate_above_one:
  assumes "\<forall>r \<in> set (subRows s). sb_status r = ''canceled'' \<and> date_trunc_month e (be_now e) \<le> sb_updatedAt r"
    and "\<exists>r \<in> set (subRows s). sb_createdAt r < date_trunc_month e (be_now e)"
    and "\<exists>r \<in> set (subRows s). date_trunc_month e (be_now e) \<le> sb_createdAt r"
  shows "1 < getChurnRate e s"
proof -
  let ?m = "date_trunc_month e (be_now e)"
  let ?old = "length (filter (\<lambda>r. sb_createdAt r < ?m) (subRows s))"
  have all: "filter (\<lambda>r. sb_status r = ''canceled'' \<and> ?m \<le> sb_updatedAt r) (subRows s) = subRows s"
    using assms(1) by (simp add: filter_id_conv)
  have "?old < length (subRows s)"
    using assms(3) by (auto intro!: length_filter_less simp: not_less)
  moreover have "0 < ?old"
    using assms(2) by (auto simp: filter_empty_conv)
  ultimately show ?thesis
    by (simp add: getChurnRate_def Let_def all)
qed


subsection \<open>A concrete summary\<close>

definition xr_invoice :: "string \<Rightarrow> string \<Rightarrow> rat \<Rightarrow> instant \<Rightarrow> invoice" where
  "xr_invoice i c amount paid =
     \<lparr>iv_id = i, iv_tenantId = ''t1'', iv_stripeInvoiceId = i, iv_stripeCustomerId = c, iv_amountDue = amount,
      iv_amountPaid = amount, iv_currency = ''usd'', iv_status = ''paid'', iv_invoiceUrl = None, iv_invoicePdf = None,
      iv_periodStart = None, iv_periodEnd = None, iv_paidAt = Some paid, iv_createdAt = paid\<rparr>"

definition xr_state :: be_state where
  "xr_state = xb_state\<lparr>
     subRows := [xb_sub\<lparr>sb_status := ''active''\<rparr>,
       xb_sub\<lparr>sb_id := ''s2'', sb_tenantId := ''t2'', sb_stripeCustomerId := ''cus2'', sb_planCode := ''free'', sb_status := ''active''\<rparr>],
     invoiceRows := [xr_invoice ''in1'' ''cus1'' 10 120, xr_invoice ''in2'' ''cus2'' 5 130, xr_invoice ''in3'' ''cus1'' 7 30]\<rparr>"

definition xr_env :: be_env where
  "xr_env = xb_env\<lparr>be_now := 150, to_char := (\<lambda>f t. if t < 100 then ''2023-12'' else ''2024-01'')\<rparr>"

lemmas xr_defs = xr_invoice_def xr_state_def xr_env_def xb_env_def xb_state_def xb_sub_def

theorem revenue_breakdowns_agree_witness:
  "\<exists>r. r = getRevenueSummary xr_env monthly xr_state \<and> rv_totalRevenue r = 22 \<and>
    map fst (rv_revenueByPeriod r) = [''2024-01'', ''2023-12''] \<and> sum_list (map snd (rv_revenueByPeriod r)) = 22 \<and>
    sum_list (map snd (rv_subscriptionsByPlan r)) = 2 \<and> sum_list (map snd (rv_arrByPlan r)) = 180"
proof -
  let ?r = "getRevenueSummary xr_env monthly xr_state"
  have figures: "rv_totalRevenue ?r = 22" "rv_activeSubscriptions ?r = 2"
    "map fst (rv_revenueByPeriod ?r) = [''2024-01'', ''2023-12'']"
    by (simp_all add: getRevenueSummary_def getTotalRevenue_def getActiveSubscriptionCount_def sum_paid_def
        getRevenueByPeriod_def groups_def Let_def xr_defs)
  from arg_cong [OF figures(3), of set] have "fst ` set (rv_revenueByPeriod ?r) = {''2024-01'', ''2023-12''}" by simp
  with revenue_breakdowns_agree [of xr_env monthly xr_state, unfolded Let_def] figures show ?thesis
    by (simp add: in_current_month_def xr_defs)
qed

end
