(* ===== verification/Announcements.thy ===== *)
theory Announcements
  imports Chassis_Integration
begin

text \<open>
  What the services say to each other. A message \<^emph>\<open>mentions\<close> the tenant of its \<^verbatim>\<open>tenantId\<close> field; a
  service is an \<open>announcer\<close> when every step of it only appends messages that mention tenants it then
  knows, and never forgets one. The tenant manager (knowing its tenants) and the billing engine (knowing
  the tenants of its subscriptions) are announcers; the billing engine moreover announces a Stripe
  customer at most once for a tenant.
\<close>

subsection \<open>Messages about tenants\<close>

definition mentions :: "bus_msg \<Rightarrow> uuid \<Rightarrow> bool" where
  "mentions m i \<longleftrightarrow> text_field ''tenantId'' (payload m) = Some i"

definition confined :: "uuid set \<Rightarrow> bus_msg list \<Rightarrow> bool" where
  "confined K ms \<longleftrightarrow> (\<forall>m \<in> set ms. \<forall>i. mentions m i \<longrightarrow> i \<in> K)"

lemma confined_simps [simp]:
  "confined K []" "confined K (xs @ ys) \<longleftrightarrow> confined K xs \<and> confined K ys"
  "confined K (m # ms) \<longleftrightarrow> (\<forall>i. mentions m i \<longrightarrow> i \<in> K) \<and> confined K ms"
  by (auto simp: confined_def)

lemma confined_mono: "confined K ms \<Longrightarrow> K \<subseteq> K' \<Longrightarrow> confined K' ms"
  by (auto simp: confined_def)

lemma confinedD: "confined K ms \<Longrightarrow> m \<in> set ms \<Longrightarrow> mentions m i \<Longrightarrow> i \<in> K"
  by (auto simp: confined_def)


lemma publish_log:
  obtains "published (publish ex rk p b) = published b"
  | "published (publish ex rk p b) = published b @ [\<lparr>exchange = ex, routingKey = rk, payload = p\<rparr>]"
  by (cases "channel b"; cases "rejects b \<lparr>exchange = ex, routingKey = rk, payload = p\<rparr>")
    (auto simp: publish_def Let_def)

text \<open>A log that has grown by messages of a kind only.\<close>

definition grown :: "(bus_msg \<Rightarrow> bool) \<Rightarrow> bus_msg list \<Rightarrow> bus_msg list \<Rightarrow> bool" where
  "grown P xs ys \<longleftrightarrow> (\<exists>ms. ys = xs @ ms \<and> list_all P ms)"

lemma grown_refl [simp]: "grown P xs xs"
  by (simp add: grown_def)

lemma grown_trans: "grown P xs ys \<Longrightarrow> grown P ys zs \<Longrightarrow> grown P xs zs"
  by (auto simp: grown_def)

lemma grown_publish:
  "P \<lparr>exchange = ex, routingKey = rk, payload = p\<rparr> \<Longrightarrow> grown P (published b) (published (publish ex rk p b))"
  by (rule publish_log [of ex rk p b]) (auto simp: grown_def)

lemma grown_confined:
  "grown (\<lambda>m. \<forall>i. mentions m i \<longrightarrow> i \<in> K) xs ys \<Longrightarrow> confined K ys \<longleftrightarrow> confined K xs"
  by (auto simp: grown_def confined_def list_all_iff)

text \<open>The exchanges a service's publisher asserts when it starts.\<close>

datatype exchangeType = Fanout | Topic

definition tm_exchanges :: "(string \<times> exchangeType) list" where
  "tm_exchanges = [(''chassis.audit'', Fanout), (''chassis.tenants'', Topic)]"

definition be_exchanges :: "(string \<times> exchangeType) list" where
  "be_exchanges = [(''chassis.audit'', Fanout), (''chassis.tenants'', Topic), (''chassis.billing'', Topic)]"

text \<open>A bare payload: it has no member \<^verbatim>\<open>pattern\<close>, and the members the consumers read are texts when it
  has them.\<close>

definition text_member :: "string \<Rightarrow> json \<Rightarrow> bool" where
  "text_member k p \<longleftrightarrow> (case json_get k p of None \<Rightarrow> True | Some (JStr _) \<Rightarrow> True | _ \<Rightarrow> False)"

definition bare_payload :: "json \<Rightarrow> bool" where
  "bare_payload p \<longleftrightarrow> json_get ''pattern'' p = None \<and> text_member ''tenantId'' p \<and> text_member ''status'' p \<and>
     text_member ''plan'' p \<and> text_member ''stripeCustomerId'' p"

text \<open>Messages as a service sends them: bare payloads on its exchanges.\<close>

definition on_exchanges :: "(string \<times> exchangeType) list \<Rightarrow> bus_msg list \<Rightarrow> bool" where
  "on_exchanges xs ms \<longleftrightarrow> (\<forall>m \<in> set ms. exchange m \<in> fst ` set xs \<and> bare_payload (payload m))"

lemmas mentions_defs = mentions_def text_field_def bare_payload_def text_member_def

text \<open>A message on one of these that announces no customer and mentions no tenant outside a set.\<close>

definition plain :: "(string \<times> exchangeType) list \<Rightarrow> uuid set \<Rightarrow> bus_msg \<Rightarrow> bool" where
  "plain xs K m \<longleftrightarrow> routingKey m \<noteq> ''billing.synced'' \<and> exchange m \<in> fst ` set xs \<and>
     bare_payload (payload m) \<and> (\<forall>i. mentions m i \<longrightarrow> i \<in> K)"

lemma plain_on_exchanges: "grown (plain xs K) ms ms' \<Longrightarrow> on_exchanges xs ms \<Longrightarrow> on_exchanges xs ms'"
  by (auto simp: grown_def plain_def on_exchanges_def list_all_iff)

lemma grown_plain: "grown (plain xs0 K) xs ys \<Longrightarrow> grown (\<lambda>m. \<forall>i. mentions m i \<longrightarrow> i \<in> K) xs ys"
  by (auto simp: grown_def plain_def list_all_iff)

text \<open>The customers announced, by tenant.\<close>

definition announced :: "bus_msg list \<Rightarrow> string option list" where
  "announced ms = map (\<lambda>m. text_field ''tenantId'' (payload m)) (filter (\<lambda>m. routingKey m = ''billing.synced'') ms)"

lemma announced_append [simp]: "announced (xs @ ys) = announced xs @ announced ys"
  by (simp add: announced_def)

lemma announced_grown: "grown (plain xs0 K) xs ys \<Longrightarrow> announced ys = announced xs"
  by (auto simp: grown_def announced_def plain_def list_all_iff)

lemma announced_confined: "confined K ms \<Longrightarrow> Some i \<in> set (announced ms) \<Longrightarrow> i \<in> K"
  by (auto simp: announced_def confined_def mentions_def)

subsection \<open>Announcers\<close>

locale announcer =
  fixes inv :: "'s \<Rightarrow> bool" and step :: "'s \<Rightarrow> 's \<Rightarrow> bool"
    and known :: "'s \<Rightarrow> uuid set" and log :: "'s \<Rightarrow> bus_msg list"
  assumes step_keeps: "inv s \<Longrightarrow> step s s' \<Longrightarrow> inv s'"
    and known_grows: "inv s \<Longrightarrow> step s s' \<Longrightarrow> known s \<subseteq> known s'"
    and log_grows: "inv s \<Longrightarrow> step s s' \<Longrightarrow> grown (\<lambda>m. \<forall>i. mentions m i \<longrightarrow> i \<in> known s') (log s) (log s')"
begin

lemma announces: "inv s \<Longrightarrow> confined (known s) (log s) \<Longrightarrow> step s s' \<Longrightarrow> confined (known s') (log s')"
  using grown_confined [OF log_grows] confined_mono [OF _ known_grows] by blast

lemma announced_kept: "inv s \<Longrightarrow> step s s' \<Longrightarrow> set (log s) \<subseteq> set (log s')"
  using log_grows [of s s'] by (auto simp: grown_def)

lemma announced_run:
  "step\<^sup>*\<^sup>* s s' \<Longrightarrow> inv s \<Longrightarrow> confined (known s) (log s) \<Longrightarrow>
     inv s' \<and> known s \<subseteq> known s' \<and> set (log s) \<subseteq> set (log s') \<and> confined (known s') (log s')"
proof (induction rule: rtranclp_induct)
  case (step y z)
  then show ?case using step_keeps announces known_grows announced_kept by (meson subset_trans)
qed simp

end

subsection \<open>The tenant manager\<close>

abbreviation tenant_ids :: "tm_state \<Rightarrow> uuid set" where
  "tenant_ids s \<equiv> t_id ` set (tenants s)"

definition tm_moves :: "tm_state \<Rightarrow> tm_state \<Rightarrow> bool" where
  "tm_moves s s' \<longleftrightarrow> (\<exists>e ev. tm_step e ev s s')"

lemma tenant_ids_find: "i \<in> tenant_ids s \<longleftrightarrow> find_tenant i s \<noteq> None"
  by (auto simp: find_None_iff)

lemma tm_step_ids: "tm_step e ev s s' \<Longrightarrow> tenant_ids s \<subseteq> tenant_ids s'"
  by (intro subsetI) (auto simp only: tenant_ids_find not_None_eq dest: tm_step_row)

text \<open>A log that has grown by messages about one stored tenant at most.\<close>

abbreviation tells :: "tm_state \<Rightarrow> tm_state \<Rightarrow> bool" where
  "tells s s' \<equiv> grown (plain tm_exchanges (tenant_ids s')) (published (tm_bus s)) (published (tm_bus s'))"

lemma createTenant_tells:
  assumes "createTenant e dto u s = (r, s')"
  shows "tells s s'"
  using assms
proof (cases rule: createTenant_cases)
  case (created t s1)
  note res = provision_result [OF created(2)]
  have "t_id t \<in> tenant_ids s'" by (simp add: created(3) res(1))
  then have "tells s1 s'" unfolding created(3) by (simp add: grown_publish plain_def tm_exchanges_def TenantProvisionedEvent_def mentions_defs)
  then show ?thesis by (simp add: res(10))
qed simp_all

lemma changePlan_tells:
  assumes "changePlan e i p t s = Some (r, s')" "i \<in> tenant_ids s'"
  shows "tells s s'"
proof -
  obtain q s2 where rep: "replaceTenantFeatures e i (sync_codes e p s) i (snd (repriced e p t s)) = (q, s2)"
    by (rule prod.exhaust)
  have s2: "tm_bus s2 = tm_bus s"
    using replaceTenantFeatures_frame(5) [OF rep] by (simp add: save_tenant_def Let_def)
  show ?thesis
  proof (cases q)
    case (Inl x)
    with assms s2 show ?thesis by (simp add: changePlan_replaced [OF rep])
  next
    case (Inr u)
    then obtain s3 where "invalidateTenantFeatureCache e i s2 = Some s3"
      and s': "tm_bus s' = publish ''chassis.tenants'' ''tenant.plan-changed''
         (TenantPlanChangedEvent (tm_now e) i (t_currentPlan t) p) (tm_bus s3)"
      using assms(1) by (auto simp: changePlan_replaced [OF rep])
    from invalidate_frame [OF this(1)] s2 have "tm_bus s3 = tm_bus s" by auto
    with s' assms(2) show ?thesis by (simp add: grown_publish plain_def tm_exchanges_def TenantPlanChangedEvent_def mentions_defs)
  qed
qed

lemma updateTenant_tells:
  assumes "updateTenant e i dto s = Some (r, s')" "tenant_ids s \<subseteq> tenant_ids s'"
  shows "tells s s'"
proof (cases "tenants_findById i s")
  case (Inr t0)
  then have "i \<in> tenant_ids s'" using assms(2) find_tenant_id [OF Inr] tenant_ids_find [of i s] by auto
  then show ?thesis
    using assms(1) Inr changePlan_tells [of e i _ _ s r s']
    by (auto simp: updateTenant_def save_tenant_def Let_def split: sum.splits field.splits if_splits)
qed (use assms in \<open>simp add: updateTenant_def\<close>)

lemma suspendTenant_tells: "tells s (snd (suspendTenant e i why s))"
proof (cases "tenants_findById i s")
  case (Inr t)
  let ?s1 = "snd (save_tenant (tm_now e) (t\<lparr>t_status := TS_suspended, t_suspendedAt := Some (tm_now e)\<rparr>) s)"
  have "i \<in> tenant_ids ?s1"
    using find_tenant_id [OF Inr] by (simp only: tenant_ids_find find_save_tenant) simp
  then have "tells s (?s1\<lparr>tm_bus := publish ''chassis.tenants'' ''tenant.suspended''
      (TenantSuspendedEvent (tm_now e) i why) (tm_bus ?s1)\<rparr>)"
    by (cases why) (simp_all add: grown_publish plain_def tm_exchanges_def mentions_defs TenantSuspendedEvent_def)
  with Inr show ?thesis by (simp add: suspendTenant_def Let_def case_prod_beta)
qed (simp add: suspendTenant_def)

lemma toggleFeature_tells:
  assumes "tm_wf s" "toggleFeature e i c b u s = (r, s')"
  shows "tells s s'"
  using assms(2)
proof (cases rule: toggleFeature_cases)
  case (saved f s1)
  have "find_tenant i s \<noteq> None"
    using saved(6)
  proof
    assume "insert_feature f s = Inr s1"
    with saved(2) show ?thesis by (auto simp: insert_feature_def split: if_splits)
  next
    assume "\<exists>f0. find_override i c s = Some f0 \<and> tf_id f = tf_id f0 \<and>
      s1 = s\<lparr>tenantFeatures := save_row tf_id f (tenantFeatures s)\<rparr>"
    then show ?thesis using assms(1) by (auto simp: find_override_iff) (auto simp: tm_wf_def)
  qed
  with saved show ?thesis by (simp add: tenant_ids_find grown_publish plain_def tm_exchanges_def TenantFeatureToggledEvent_def mentions_defs)
qed simp_all


lemma silent_tells: "tm_bus s' = tm_bus s \<Longrightarrow> tells s s'"
  by simp

lemma tm_step_tells:
  assumes "tm_inv s" "tm_step e ev s s'"
  shows "tells s s'"
  using assms(2)
proof (cases rule: tm_step.cases)
  case (create u dto)
  then show ?thesis
    using createTenant_tells [OF prod.collapse [symmetric]] by (simp add: TenantsController_create_def)
next
  case (update u i dto r)
  then show ?thesis
    using updateTenant_tells [of e i dto s "fst _" s'] tm_step_ids [OF assms(2)]
    by (auto simp: TenantsController_update_def respond_def split: if_splits)
next
  case (suspend u i why)
  then show ?thesis using suspendTenant_tells by (simp add: TenantsController_suspend_def)
next
  case (activate u i)
  then show ?thesis
    by (simp add: TenantsController_activate_def activateTenant_def save_tenant_def Let_def split: sum.split)
next
  case (remove u i r)
  then have "tm_bus s' = tm_bus s"
    by (auto simp: TenantsController_remove_def archiveTenant_def save_tenant_def Let_def
        split: if_splits sum.splits dest!: invalidate_frame)
  then show ?thesis by (rule silent_tells)
next
  case (toggle u i c b)
  then show ?thesis
    using toggleFeature_tells [OF _ prod.collapse [symmetric]] assms(1)
    by (simp add: FeaturesController_toggleFeature_def tm_inv_def)
next
  case (check tok i c)
  then have "tm_bus s' = tm_bus s"
    using isFeatureEnabled_frame [of e i c s]
    by (auto simp: FeaturesController_checkFeature_def split: sum.splits prod.splits if_splits)
  then show ?thesis by (rule silent_tells)
next
  case billingSynced
  then show ?thesis by (simp add: handleBillingSynced_def split: field.split)
next
  case subscriptionStatus
  then show ?thesis by (simp add: handleSubscriptionStatus_def save_tenant_def Let_def split: option.split)
qed

interpretation tenant_manager: announcer tm_inv tm_moves tenant_ids "\<lambda>s. published (tm_bus s)"
  by unfold_locales (auto simp: tm_moves_def intro: tm_step_inv grown_plain [OF tm_step_tells] dest: tm_step_ids)

lemma tenants_on_exchanges:
  "tm_inv s \<Longrightarrow> tm_moves s s' \<Longrightarrow> on_exchanges tm_exchanges (published (tm_bus s)) \<Longrightarrow> on_exchanges tm_exchanges (published (tm_bus s'))"
  by (auto simp: tm_moves_def intro: plain_on_exchanges tm_step_tells)

lemma tenants_announce_nothing: "tm_inv s \<Longrightarrow> tm_moves s s' \<Longrightarrow> announced (published (tm_bus s')) = announced (published (tm_bus s))"
  by (auto simp: tm_moves_def intro: announced_grown tm_step_tells)

subsection \<open>The billing engine\<close>

abbreviation billed :: "be_state \<Rightarrow> uuid set" where
  "billed s \<equiv> sb_tenantId ` set (subRows s)"

definition be_says :: "be_state \<Rightarrow> be_state \<Rightarrow> bool" where
  "be_says s0 s \<longleftrightarrow> be_keeps s0 s \<and> grown (plain be_exchanges (billed s0)) (published (be_bus s0)) (published (be_bus s))"

lemma be_says_keeps: "be_says s0 s \<Longrightarrow> be_keeps s0 s"
  by (simp add: be_says_def)

lemma be_says_billed: "be_says s0 s \<Longrightarrow> billed s = billed s0"
  by (auto simp: be_says_def be_keeps_def dest: keys_tenants)

lemma says_silent: "be_says s0 s \<Longrightarrow> be_keeps s0 s' \<Longrightarrow> be_bus s' = be_bus s \<Longrightarrow> be_says s0 s'"
  by (simp add: be_says_def)

lemma says_and_then:
  "be_says s0 (snd p) \<Longrightarrow> (\<And>a s. be_says s0 s \<Longrightarrow> be_says s0 (snd (f a s))) \<Longrightarrow> be_says s0 (snd (and_then p f))"
  by (rule and_then_preserves [where Q = "be_says s0"])

lemma says_emit:
  assumes "be_says s0 s" "plain be_exchanges (billed s0) \<lparr>exchange = ex, routingKey = rk, payload = p\<rparr>"
  shows "be_says s0 (snd (emit_event ex rk p s))"
  using assms keeps_emit [of s0 s ex rk p] grown_publish [of "plain be_exchanges (billed s0)" ex rk p "be_bus s"]
  by (auto simp: be_says_def emit_event_def elim: grown_trans)

lemma says_by_customer:
  assumes "be_says s0 s"
    and "\<And>r. r \<in> set (subRows s) \<Longrightarrow> sb_tenantId r \<in> billed s0 \<Longrightarrow> be_says s0 (snd (f (Some r) s))"
    and "be_says s0 (snd (f None s))"
  shows "be_says s0 (snd (and_then (findByStripeCustomerId e c s) f))"
proof (rule and_then_preserves [where Q = "be_says s0"])
  show "be_says s0 (snd (findByStripeCustomerId e c s))"
    using assms(1) findByStripeCustomerId_cases [of e c s] by (metis prod.collapse)
  fix r s' assume "findByStripeCustomerId e c s = (Inr r, s')"
  from findByStripeCustomerId_cases [OF this] have "s' = s" "r = find_sub_by_customer c s" by auto
  then show "be_says s0 (snd (f r s'))"
    using assms(2,3) be_says_billed [OF assms(1)] find_SomeD [of "\<lambda>x. sb_stripeCustomerId x = c" "subRows s"]
    by (cases "find_sub_by_customer c s") (simp, metis imageI)
qed

text \<open>The statements leave the log alone.\<close>

lemma statements_silent [simp]:
  "be_bus (snd (updateFromStripe e dto s)) = be_bus s"
  "be_bus (snd (linkStripeSubscription e c i st a b s)) = be_bus s"
  "be_bus (snd (update_by_tenant e t ok patch s)) = be_bus s"
  "be_bus (snd (upsertFromStripe e dto' s)) = be_bus s"
proof -
  show "be_bus (snd (updateFromStripe e dto s)) = be_bus s"
    by (simp add: updateFromStripe_def on_db_def save_subscription_def Let_def split: option.split)
  show "be_bus (snd (linkStripeSubscription e c i st a b s)) = be_bus s"
    unfolding linkStripeSubscription_def findByStripeCustomerId_def
    by (simp add: on_db_def and_then_def save_subscription_def Let_def split: option.split)
  show "be_bus (snd (update_by_tenant e t ok patch s)) = be_bus s"
    by (simp add: update_by_tenant_def on_db_def split: option.split)
  show "be_bus (snd (upsertFromStripe e dto' s)) = be_bus s"
    by (simp add: upsertFromStripe_def on_db_def save_invoice_def insert_invoice_def split: option.split)
qed

lemma says_statements:
  assumes "be_says s0 s"
  shows "be_says s0 (snd (updateFromStripe e dto s))" "be_says s0 (snd (linkStripeSubscription e c i st a b s))"
    "be_says s0 (snd (updateStatusByTenantId e t st s))" "be_says s0 (snd (linkStripeCustomerId e t c s))"
  using keeps_rules(2-5) [OF be_says_keeps [OF assms]]
  by (simp_all add: says_silent [OF assms] updateStatusByTenantId_def linkStripeCustomerId_def)

lemma says_publishStatus: "be_says s0 s \<Longrightarrow> be_says s0 (snd (publishSubscriptionStatus e c status plan s))"
  unfolding publishSubscriptionStatus_def
  by (rule says_by_customer)
    (auto simp: plain_def be_exchanges_def mentions_defs intro!: says_emit)

lemmas says_rules = says_publishStatus says_statements

lemma says_handleInvoicePaid:
  assumes "be_says s0 s"
  shows "be_says s0 (snd (handleInvoicePaid e sinv s))"
  unfolding handleInvoicePaid_def
proof (rule says_by_customer [OF assms])
  fix r assume r: "r \<in> set (subRows s)" "sb_tenantId r \<in> billed s0"
  have "be_says s0 (snd (upsertFromStripe e (paid_invoice_dto e sinv (sb_tenantId r)) s))"
    by (rule says_silent [OF assms keeps_upsertFromStripe])
      (use assms r in \<open>simp_all add: be_says_keeps paid_invoice_dto_def\<close>)
  moreover have "plain be_exchanges (billed s0) \<lparr>exchange = ''chassis.audit'', routingKey = ''billing.payment.succeeded'',
      payload = paymentPayload e sinv (sb_tenantId r)\<rparr>"
    using r by (simp add: plain_def be_exchanges_def mentions_defs)
  ultimately show "be_says s0 (snd (case Some r of None \<Rightarrow> (Inr (), s)
    | Some r \<Rightarrow>
           and_then (upsertFromStripe e (paid_invoice_dto e sinv (sb_tenantId r)) s) (\<lambda>_ s.
           and_then (emit_event ''chassis.audit'' ''billing.payment.succeeded''
             (paymentPayload e sinv (sb_tenantId r)) s) (\<lambda>_ s.
           if sb_status r = ''past_due''
           then and_then (updateStatusByTenantId e (sb_tenantId r) ''active'' s) (\<lambda>_.
                publishSubscriptionStatus e (invoice_customer sinv) ''active'' None)
           else (Inr (), s)))))"
    by (simp only: option.case) (intro says_and_then; simp add: says_emit says_rules says_and_then)
qed (use assms in simp)

lemma says_handlePaymentFailed: "be_says s0 s \<Longrightarrow> be_says s0 (snd (handleInvoicePaymentFailed e sinv s))"
  unfolding handleInvoicePaymentFailed_def
  by (rule says_by_customer) (simp_all only: option.case snd_conv says_and_then says_rules)

lemma processEvent_says: "be_wf s \<Longrightarrow> be_says s (snd (processEvent e d s))"
proof -
  assume "be_wf s"
  then have k: "be_says s s" by (simp add: be_says_def keeps_refl)
  have "plain be_exchanges K \<lparr>exchange = ''chassis.audit'', routingKey = ''billing.subscription.created'', payload = createdPayload e sub\<rparr>" for K sub
    by (simp add: plain_def be_exchanges_def mentions_defs)
  with k show ?thesis
    by (cases d) (simp_all add: handleSubscriptionCreated_def handleSubscriptionUpdated_def
      handleSubscriptionDeleted_def handleCustomerCreated_def Let_def
      says_and_then says_rules says_emit says_handleInvoicePaid says_handlePaymentFailed)
qed


lemma marks_silent [simp]:
  "be_bus (snd (update_webhook e st i f s)) = be_bus s" "subRows (snd (update_webhook e st i f s)) = subRows s"
  "be_bus (snd (upsert_webhook e ev s)) = be_bus s" "subRows (snd (upsert_webhook e ev s)) = subRows s"
  by (simp_all add: update_webhook_def upsert_webhook_eq on_db_def split: option.split)

text \<open>The log and the subscribed tenants after a whole request.\<close>

definition engine_says :: "be_state \<Rightarrow> be_state \<Rightarrow> bool" where
  "engine_says s0 s \<longleftrightarrow> billed s = billed s0 \<and> grown (plain be_exchanges (billed s0)) (published (be_bus s0)) (published (be_bus s))"

lemma engine_says_refl [simp]: "engine_says s s"
  by (simp add: engine_says_def)

lemma engine_says_silent: "engine_says s0 s \<Longrightarrow> subRows s' = subRows s \<Longrightarrow> be_bus s' = be_bus s \<Longrightarrow> engine_says s0 s'"
  by (simp add: engine_says_def)

lemma guardedProcessing_says:
  assumes "be_wf s"
  shows "engine_says s (snd (guardedProcessing e ev s))"
proof -
  have "engine_says s (snd (processEvent e (ev_data ev) s))"
    using processEvent_says [OF assms] be_says_billed by (auto simp: engine_says_def be_says_def)
  then have "engine_says s (snd (processAndMark e ev s))"
    unfolding processAndMark_def
    by (intro and_then_preserves [where Q = "engine_says s"]) (simp_all add: engine_says_silent markProcessed_def)
  then show ?thesis
    by (auto simp: guardedProcessing_def markError_def engine_says_silent split: prod.split sum.split)
qed

lemma handleWebhook_says:
  assumes "be_wf s"
  shows "engine_says s (snd (handleWebhook e body sig s))"
proof (cases rule: handleWebhook_cases [of e body sig s])
  case (handled ev s1)
  have s1: "subRows s1 = subRows s" "be_bus s1 = be_bus s"
    using marks_silent(3,4) [of e ev s] handled(3) by simp_all
  have "be_wf s1" using wf_upsert_webhook [OF assms, of e ev] handled(3) by simp
  then have "engine_says s (snd (guardedProcessing e ev s1))"
    using guardedProcessing_says [of s1 e ev] s1 by (simp add: engine_says_def)
  then show ?thesis
    unfolding handled(4) by (intro and_then_preserves [where Q = "engine_says s"]) simp_all
qed simp_all

text \<open>Table constraints, messages about subscribed tenants only, one customer announced for each.\<close>

definition be_honest :: "be_state \<Rightarrow> bool" where
  "be_honest s \<longleftrightarrow> be_wf s \<and> confined (billed s) (published (be_bus s)) \<and> distinct (announced (published (be_bus s))) \<and>
     on_exchanges be_exchanges (published (be_bus s))"

lemma provisioned_says:
  assumes "be_honest s"
  shows "billed s \<subseteq> billed (onTenantProvisioned e msg s)" "be_honest (onTenantProvisioned e msg s)"
    "billed (onTenantProvisioned e msg s) \<subseteq> insert (tp_tenantId msg) (billed s)"
    "grown (\<lambda>m. \<forall>i. mentions m i \<longrightarrow> i \<in> billed (onTenantProvisioned e msg s))
       (published (be_bus s)) (published (be_bus (onTenantProvisioned e msg s)))"
proof -
  let ?s' = "onTenantProvisioned e msg s"
  have wf: "be_wf ?s'" using assms wf_onTenantProvisioned by (simp add: be_honest_def)
  have "billed s \<subseteq> billed ?s' \<and> be_honest ?s' \<and> billed ?s' \<subseteq> insert (tp_tenantId msg) (billed s) \<and>
    grown (\<lambda>m. \<forall>i. mentions m i \<longrightarrow> i \<in> billed ?s') (published (be_bus s)) (published (be_bus ?s'))"
  proof (cases rule: provisionSubscription_cases [of e msg s])
    case (created c r)
    let ?m = "synced_msg (tp_tenantId msg) c"
    have new: "tp_tenantId msg \<notin> billed s" using created(2,6) by auto
    have s': "subRows ?s' = subRows s @ [r]" "be_bus ?s' = publish (exchange ?m) (routingKey ?m) (payload ?m) (be_bus s)"
      using created(7) by (simp_all add: onTenantProvisioned_def synced_msg_def)
    have g: "grown (\<lambda>m. m = ?m) (published (be_bus s)) (published (be_bus ?s'))"
      unfolding s' by (rule grown_publish) simp
    have m: "mentions ?m i \<longleftrightarrow> i = tp_tenantId msg" "routingKey ?m = ''billing.synced''" for i
      by (auto simp: synced_msg_def mentions_defs)
    have "Some (tp_tenantId msg) \<notin> set (announced (published (be_bus s)))"
      using new announced_confined assms by (auto simp: be_honest_def)
    then have "distinct (announced (published (be_bus ?s')))"
      using assms unfolding s'
      by (cases rule: publish_log [of "exchange ?m" "routingKey ?m" "payload ?m" "be_bus s"])
        (simp_all add: be_honest_def announced_def synced_msg_def text_field_def)
    moreover have "confined (billed ?s') (published (be_bus ?s'))"
      using g assms m created(2)
      by (auto simp: grown_def s' be_honest_def list_all_iff confined_def)
    moreover have "grown (\<lambda>m. \<forall>i. mentions m i \<longrightarrow> i \<in> billed ?s') (published (be_bus s)) (published (be_bus ?s'))"
      using g m created(2) by (auto simp: grown_def s'(1) list_all_iff)
    moreover have "on_exchanges be_exchanges (published (be_bus ?s'))"
    proof -
      have "exchange ?m \<in> fst ` set be_exchanges" "bare_payload (payload ?m)"
        by (simp_all add: synced_msg_def be_exchanges_def mentions_defs)
      then show ?thesis
        using g assms unfolding grown_def be_honest_def on_exchanges_def list_all_iff by (metis Un_iff set_append)
    qed
    ultimately show ?thesis using wf created(2) by (auto simp: be_honest_def s'(1))
  qed (use assms in \<open>auto simp: onTenantProvisioned_def be_honest_def be_wf_def\<close>)
  then show "billed s \<subseteq> billed ?s'" "be_honest ?s'" "billed ?s' \<subseteq> insert (tp_tenantId msg) (billed s)"
    "grown (\<lambda>m. \<forall>i. mentions m i \<longrightarrow> i \<in> billed ?s') (published (be_bus s)) (published (be_bus ?s'))"
    by blast+
qed

lemma webhook_honest:
  assumes "be_honest s"
  shows "be_honest (snd (handleWebhook e body sig s))"
  using assms handleWebhook_says [of s e body sig] wf_handleWebhook [of s e body sig]
  by (auto simp: be_honest_def engine_says_def announced_grown grown_confined [OF grown_plain] intro: plain_on_exchanges)

definition be_moves :: "be_state \<Rightarrow> be_state \<Rightarrow> bool" where
  "be_moves s s' \<longleftrightarrow> (\<exists>e ev. s' = be_handle e ev s)"

interpretation billing_engine: announcer be_honest be_moves billed "\<lambda>s. published (be_bus s)"
proof
  fix s s'
  assume s: "be_honest s" and "be_moves s s'"
  then obtain e ev where s': "s' = be_handle e ev s" by (auto simp: be_moves_def)
  have w: "engine_says s (snd (handleWebhook e body sig s))" for body sig
    using s by (intro handleWebhook_says) (simp add: be_honest_def)
  show "be_honest s'" "billed s \<subseteq> billed s'"
    using provisioned_says(1,2) [OF s] webhook_honest [OF s] w
    by (cases ev; auto simp: s' engine_says_def)+
  show "grown (\<lambda>m. \<forall>i. mentions m i \<longrightarrow> i \<in> billed s') (published (be_bus s)) (published (be_bus s'))"
    using provisioned_says(4) [OF s] w grown_plain [of be_exchanges "billed s"]
    by (cases ev) (simp_all add: s' engine_says_def)
qed

lemma be_honest_empty [simp]: "published b = [] \<Longrightarrow> be_honest (be_empty b)"
  by (simp add: be_honest_def wf_be_empty) (simp add: be_empty_def announced_def on_exchanges_def)

end
