(* ===== verification/Chassis_System.thy ===== *)
theory Chassis_System
  imports Announcements
begin

text \<open>
  The tenant manager and the billing engine as one system. Each service handles its own requests; a
  message either of them has published may be handed to a handler of the other at any later time, any
  number of times, in any order, or never. Which messages the broker and the framework hand to which
  handler is the parameter \<open>routes\<close>; the handlers are those of the consumers' controllers.
\<close>

subsection \<open>The composed system\<close>

record chassis =
  tenantManager :: tm_state
  billingEngine :: be_state

datatype consumer = OnTenantProvisioned | OnBillingSynced | OnSubscriptionStatus

type_synonym routing = "bus_msg \<Rightarrow> consumer \<Rightarrow> bool"

datatype chassis_event =
    Request tm_env tm_event
  | Webhook be_env string "string option"
  | Provision be_env bus_msg
  | Synced tm_env bus_msg
  | Status tm_env bus_msg

text \<open>The events of the tenant manager that arrive over HTTP.\<close>

fun http_event :: "tm_event \<Rightarrow> bool" where
  "http_event (Ev_billingSynced i c) = False"
| "http_event (Ev_subscriptionStatus i st p) = False"
| "http_event _ = True"

definition sent :: "chassis \<Rightarrow> bus_msg list" where
  "sent c = published (tm_bus (tenantManager c)) @ published (be_bus (billingEngine c))"

inductive chassis_step :: "routing \<Rightarrow> chassis_event \<Rightarrow> chassis \<Rightarrow> chassis \<Rightarrow> bool" for routes where
  request: "http_event ev \<Longrightarrow> tm_step e ev (tenantManager c) s \<Longrightarrow>
     chassis_step routes (Request e ev) c (c\<lparr>tenantManager := s\<rparr>)"
| webhook: "chassis_step routes (Webhook e body sig) c
     (c\<lparr>billingEngine := snd (handleWebhook e body sig (billingEngine c))\<rparr>)"
| provision: "m \<in> set (sent c) \<Longrightarrow> routes m OnTenantProvisioned \<Longrightarrow> provisioned_of (payload m) = Some msg \<Longrightarrow>
     chassis_step routes (Provision be m) c (c\<lparr>billingEngine := onTenantProvisioned be msg (billingEngine c)\<rparr>)"
| synced: "m \<in> set (sent c) \<Longrightarrow> routes m OnBillingSynced \<Longrightarrow>
     chassis_step routes (Synced e m) c
       (c\<lparr>tenantManager := BillingEventsController_handleBillingSynced e (payload m) (tenantManager c)\<rparr>)"
| status: "m \<in> set (sent c) \<Longrightarrow> routes m OnSubscriptionStatus \<Longrightarrow>
     chassis_step routes (Status e m) c
       (c\<lparr>tenantManager := BillingEventsController_handleSubscriptionStatus e (payload m) (tenantManager c)\<rparr>)"

inductive_cases chassis_stepE: "chassis_step routes ev c c'"

text \<open>A fresh deployment: no tenant, no subscription, nothing said.\<close>

definition chassis_init :: "chassis \<Rightarrow> bool" where
  "chassis_init c \<longleftrightarrow> tm_init (tenantManager c) \<and> (\<exists>b. billingEngine c = be_empty b) \<and> sent c = []"

inductive chassis_steps :: "routing \<Rightarrow> chassis_event list \<Rightarrow> chassis \<Rightarrow> chassis \<Rightarrow> bool" for routes where
  stays: "chassis_steps routes [] c c"
| stepped: "chassis_steps routes evs c c' \<Longrightarrow> chassis_step routes ev c' c'' \<Longrightarrow> chassis_steps routes (evs @ [ev]) c c''"

definition chassis_run :: "routing \<Rightarrow> chassis_event list \<Rightarrow> chassis \<Rightarrow> bool" where
  "chassis_run routes evs c \<longleftrightarrow> (\<exists>c0. chassis_init c0 \<and> chassis_steps routes evs c0 c)"

subsection \<open>The services agree on the tenants\<close>

definition chassis_ok :: "chassis \<Rightarrow> bool" where
  "chassis_ok c \<longleftrightarrow> tm_inv (tenantManager c) \<and> be_honest (billingEngine c) \<and>
     announced (published (tm_bus (tenantManager c))) = [] \<and>
     on_exchanges tm_exchanges (published (tm_bus (tenantManager c))) \<and>
     confined (tenant_ids (tenantManager c)) (sent c) \<and> billed (billingEngine c) \<subseteq> tenant_ids (tenantManager c)"

lemma provisioned_mentions: "provisioned_of (payload m) = Some msg \<Longrightarrow> mentions m (tp_tenantId msg)"
  by (auto simp: provisioned_of_def mentions_def split: option.splits)

text \<open>A delivery is a step of the service it reaches; a status message without tenant is one about the
  tenant of the first row.\<close>

lemma synced_moves: "BillingEventsController_handleBillingSynced e p s = s \<or>
    (\<exists>i. member_field ''tenantId'' p = Value i \<and>
       tm_step e (Ev_billingSynced i (member_field ''stripeCustomerId'' p)) s (BillingEventsController_handleBillingSynced e p s))"
proof (cases "member_field ''tenantId'' p")
  case (Value i)
  then show ?thesis by (simp add: BillingEventsController_handleBillingSynced_def tm_step.billingSynced)
qed (simp_all add: BillingEventsController_handleBillingSynced_def handleBillingSynced_def)

lemma status_moves: "BillingEventsController_handleSubscriptionStatus e p s = s \<or>
    (\<exists>i. tm_step e (Ev_subscriptionStatus i (text_field ''status'' p) (text_field ''plan'' p)) s
       (BillingEventsController_handleSubscriptionStatus e p s))"
  using subscription_message_about [of e "member_field ''tenantId'' p" "text_field ''status'' p" "text_field ''plan'' p" s]
  unfolding BillingEventsController_handleSubscriptionStatus_def by (metis tm_step.subscriptionStatus)

lemma synced_tm_moves: "BillingEventsController_handleBillingSynced e p s = s \<or> tm_moves s (BillingEventsController_handleBillingSynced e p s)"
  using synced_moves [of e p s] by (auto simp: tm_moves_def)

lemma status_tm_moves:
  "BillingEventsController_handleSubscriptionStatus e p s = s \<or> tm_moves s (BillingEventsController_handleSubscriptionStatus e p s)"
  using status_moves [of e p s] by (auto simp: tm_moves_def)

lemma ok_tenants:
  assumes "chassis_ok c" "tm_moves (tenantManager c) s"
  shows "chassis_ok (c\<lparr>tenantManager := s\<rparr>)"
  using assms tenant_manager.announces [of "tenantManager c" s] tenant_manager.known_grows [of "tenantManager c" s]
    tenant_manager.step_keeps [of "tenantManager c" s] tenants_announce_nothing [of "tenantManager c" s]
    tenants_on_exchanges [of "tenantManager c" s] confined_mono [of "tenant_ids (tenantManager c)" _ "tenant_ids s"]
  unfolding chassis_ok_def sent_def by simp (blast intro: subset_trans)

lemma ok_billing:
  assumes "chassis_ok c" "be_moves (billingEngine c) s" "billed s \<subseteq> tenant_ids (tenantManager c)"
  shows "chassis_ok (c\<lparr>billingEngine := s\<rparr>)"
proof -
  have h: "be_honest s" using assms(1,2) billing_engine.step_keeps by (auto simp: chassis_ok_def)
  then have "confined (tenant_ids (tenantManager c)) (published (be_bus s))"
    using assms(3) confined_mono by (auto simp: be_honest_def)
  with h assms show ?thesis by (simp add: chassis_ok_def sent_def)
qed

lemma chassis_step_ok:
  assumes "chassis_ok c" "chassis_step routes ev c c'"
  shows "chassis_ok c'"
  using assms(2)
proof (cases rule: chassis_step.cases)
  case (request ev e s)
  then show ?thesis using ok_tenants [OF assms(1), of s] by (auto simp: tm_moves_def)
next
  case (webhook e body sig)
  have b: "be_honest (billingEngine c)" using assms(1) by (simp add: chassis_ok_def)
  then have "billed (snd (handleWebhook e body sig (billingEngine c))) = billed (billingEngine c)"
    using handleWebhook_says [of "billingEngine c" e body sig] by (simp add: be_honest_def engine_says_def)
  moreover have "be_moves (billingEngine c) (snd (handleWebhook e body sig (billingEngine c)))"
    unfolding be_moves_def by (intro exI [of _ e] exI [of _ "Deliver body sig"]) simp
  ultimately show ?thesis using webhook ok_billing [OF assms(1)] assms(1) by (simp add: chassis_ok_def)
next
  case (provision m msg e)
  let ?s = "onTenantProvisioned e msg (billingEngine c)"
  have "tp_tenantId msg \<in> tenant_ids (tenantManager c)"
    using assms(1) provision(3) confinedD [OF _ _ provisioned_mentions [OF provision(5)]] by (auto simp: chassis_ok_def)
  then have "billed ?s \<subseteq> tenant_ids (tenantManager c)"
    using assms(1) provisioned_says(3) [of "billingEngine c" e msg] unfolding chassis_ok_def
    by (elim conjE) (rule subset_trans, assumption, simp)
  moreover have "be_moves (billingEngine c) ?s"
    unfolding be_moves_def by (intro exI [of _ e] exI [of _ "Provisioned msg"]) simp
  ultimately show ?thesis using provision(2) ok_billing [OF assms(1)] by simp
next
  case (synced m e)
  from synced_tm_moves [of e "payload m" "tenantManager c"] show ?thesis
    using assms(1) ok_tenants [OF assms(1)] by (auto simp: synced(2))
next
  case (status m e)
  from status_tm_moves [of e "payload m" "tenantManager c"] show ?thesis
    using assms(1) ok_tenants [OF assms(1)] by (auto simp: status(2))
qed

lemma chassis_init_ok: "chassis_init c \<Longrightarrow> chassis_ok c"
proof -
  assume init: "chassis_init c"
  then obtain b where b: "billingEngine c = be_empty b" "published b = []"
    by (auto simp: chassis_init_def sent_def be_empty_def)
  then have "be_honest (billingEngine c)" "billed (billingEngine c) = {}" by (simp_all, simp add: be_empty_def)
  with init show ?thesis
    by (simp add: chassis_ok_def chassis_init_def tm_init_def tm_inv_def tm_wf_def sent_def announced_def on_exchanges_def)
qed

lemma chassis_steps_ok: "chassis_steps routes evs c c' \<Longrightarrow> chassis_ok c \<Longrightarrow> chassis_ok c'"
  by (induction rule: chassis_steps.induct) (auto intro: chassis_step_ok)

lemma chassis_run_ok: "chassis_run routes evs c \<Longrightarrow> chassis_ok c"
  unfolding chassis_run_def by (auto intro: chassis_steps_ok chassis_init_ok)

text \<open>Every message of a run is bare: what the handlers read of it are texts.\<close>

lemma sent_bare: "chassis_run routes evs c \<Longrightarrow> m \<in> set (sent c) \<Longrightarrow> bare_payload (payload m)"
  using chassis_run_ok [of routes evs c] by (auto simp: chassis_ok_def be_honest_def sent_def on_exchanges_def)

text \<open>C10: the services never disagree about which tenants exist. From a fresh deployment on, whatever
  requests and webhooks arrive and however the broker loses, repeats, reorders or misroutes messages,
  the tables of both services keep their constraints, every subscription and every invoice belongs to a
  tenant the tenant manager stores, every message that names a tenant names a stored one, and the
  billing engine has announced at most one Stripe customer for a tenant.\<close>

theorem services_agree_on_tenants:
  assumes "chassis_run routes evs c"
  shows "tm_wf (tenantManager c) \<and> be_wf (billingEngine c) \<and>
    (\<forall>r \<in> set (subRows (billingEngine c)). \<exists>t \<in> set (tenants (tenantManager c)). t_id t = sb_tenantId r) \<and>
    (\<forall>v \<in> set (invoiceRows (billingEngine c)). \<exists>t \<in> set (tenants (tenantManager c)). t_id t = iv_tenantId v) \<and>
    (\<forall>m \<in> set (sent c). \<forall>i. text_field ''tenantId'' (payload m) = Some i \<longrightarrow>
       (\<exists>t \<in> set (tenants (tenantManager c)). t_id t = i)) \<and>
    distinct (announced (published (be_bus (billingEngine c))))"
proof -
  have ok: "chassis_ok c" by (rule chassis_run_ok [OF assms])
  then have wf: "tm_wf (tenantManager c)" "be_wf (billingEngine c)"
    "distinct (announced (published (be_bus (billingEngine c))))"
    by (auto simp: chassis_ok_def tm_inv_def be_honest_def)
  have subs: "\<exists>t \<in> set (tenants (tenantManager c)). t_id t = i" if "i \<in> billed (billingEngine c)" for i
    using ok that by (force simp: chassis_ok_def)
  moreover have "iv_tenantId v \<in> billed (billingEngine c)" if "v \<in> set (invoiceRows (billingEngine c))" for v
    using wf(2) that by (auto simp: be_wf_def)
  moreover have "\<exists>t \<in> set (tenants (tenantManager c)). t_id t = i"
    if "m \<in> set (sent c)" "text_field ''tenantId'' (payload m) = Some i" for m i
    using ok that confinedD [of "tenant_ids (tenantManager c)" "sent c" m i] by (auto simp: chassis_ok_def mentions_def)
  ultimately show ?thesis using wf by blast
qed


subsection \<open>The recorded customer is the announced one\<close>

text \<open>The Stripe customer a tenant row carries.\<close>

definition customer_of :: "uuid \<Rightarrow> tm_state \<Rightarrow> string option" where
  "customer_of i s = Option.bind (find_tenant i s) t_stripeCustomerId"

lemma customer_cong: "tenants s' = tenants s \<Longrightarrow> customer_of i s' = customer_of i s"
  by (simp add: customer_of_def)

lemma save_tenant_customer [simp]: "t_stripeCustomerId (fst (save_tenant now t s)) = t_stripeCustomerId t"
  by (simp add: save_tenant_def Let_def)

lemma customer_save:
  assumes "find_tenant (t_id t) s = Some t0" "t_stripeCustomerId t = t_stripeCustomerId t0"
  shows "customer_of i (snd (save_tenant now t s)) = customer_of i s"
  using assms by (simp add: customer_of_def find_save_tenant)

lemma provision_customer:
  assumes "provision e dto p plan u s = Inr (t, s')"
  shows "t_stripeCustomerId t = ct_stripeCustomerId dto"
proof -
  obtain s2 where "(t, s') = save_tenant (tm_now e) ((provisioningRow e dto p)\<lparr>t_enabledFeatures := p_includedFeatures plan,
       t_status := TS_active\<rparr>) s2"
    using provision_cases [OF assms] by blast
  then have "t = fst (save_tenant (tm_now e) ((provisioningRow e dto p)\<lparr>t_enabledFeatures := p_includedFeatures plan,
       t_status := TS_active\<rparr>) s2)" by (metis fst_conv)
  then show ?thesis by (simp add: save_tenant_def Let_def provisioningRow_def)
qed

lemma createTenant_customer:
  assumes "createTenant e dto u s = (r, s')"
  shows "customer_of i s' = customer_of i s \<or> i = newTenantId e \<and> customer_of i s' = ct_stripeCustomerId dto"
  using assms(1)
proof (cases rule: createTenant_cases)
  case (created t s1)
  note res = provision_result [OF created(2)]
  have "t_stripeCustomerId t = ct_stripeCustomerId dto"
    using provision_customer [OF created(2)] by simp
  with created(3) res(1,2,14) show ?thesis
    by (cases "find_tenant i s") (auto simp: customer_of_def find_append)
qed simp

text \<open>A request that names a customer for a tenant in its body.\<close>

fun names_customer :: "tm_env \<Rightarrow> tm_event \<Rightarrow> uuid \<Rightarrow> string \<Rightarrow> bool" where
  "names_customer e (Ev_create u dto) i x \<longleftrightarrow> i = newTenantId e \<and> ct_stripeCustomerId dto = Some x"
| "names_customer e (Ev_update u j dto) i x \<longleftrightarrow> i = j \<and> ut_stripeCustomerId dto = Value x"
| "names_customer e _ i x \<longleftrightarrow> False"

lemma updateTenant_customer:
  assumes "updateTenant e j dto s = Some (r, s')"
  shows "customer_of i s' = customer_of i s \<or>
    i = j \<and> customer_of i s' = patch_opt (ut_stripeCustomerId dto) (customer_of i s)"
proof (cases "tenants_findById j s")
  case t0: (Inr t0)
  show ?thesis
  proof (cases "patch_tenant dto t0")
    case (Inr t)
    let ?c = "patch_opt (ut_stripeCustomerId dto) (t_stripeCustomerId t0)"
    have new: "t_stripeCustomerId t = ?c" using Inr by (auto simp: patch_tenant_def split: if_splits)
    have id: "t_id t = j" using find_tenant_id [OF t0] patch_tenant_keeps [OF Inr] by simp
    have old: "customer_of j s = t_stripeCustomerId t0" using find_tenant_id [OF t0] by (simp add: customer_of_def)
    have saved: "customer_of i (snd (save_tenant n t s)) = (if i = j then ?c else customer_of i s)" for n
      using id new by (simp add: customer_of_def find_save_tenant)
    have plan: "customer_of i s' = (if i = j then ?c else customer_of i s)" if "changePlan e j p t s = Some (r, s')" for p
    proof -
      have "touches j (\<lambda>_ x. t_stripeCustomerId x = ?c) s s'"
        by (rule changePlan_touches [OF t0 _ _ that]) (simp_all add: new id)
      then have "rel_option (if i = j then \<lambda>_ x. t_stripeCustomerId x = ?c else (=))
          (find_tenant i s) (find_tenant i s')" by (simp add: touches_def)
      then show ?thesis
        using find_tenant_id [OF t0]
        by (cases "find_tenant i s"; cases "find_tenant i s'") (auto simp: customer_of_def split: if_splits)
    qed
    have "customer_of i s' = (if i = j then ?c else customer_of i s)"
      using assms(1) t0 Inr saved plan
      by (auto simp: updateTenant_def Let_def case_prod_beta simp del: snd_conv split: field.splits if_splits)
    with old show ?thesis by (auto split: if_splits)
  qed (use assms t0 in \<open>simp add: updateTenant_def\<close>)
qed (use assms in \<open>simp add: updateTenant_def\<close>)

lemma status_change_customer:
  assumes "tenants_findById j s = Inr t" "t_id (f t) = t_id t" "t_stripeCustomerId (f t) = t_stripeCustomerId t"
  shows "customer_of i (snd (save_tenant now (f t) s)) = customer_of i s"
  using find_tenant_id [OF assms(1)] assms by (intro customer_save [of _ _ t]) simp_all

lemma handleSubscriptionStatus_customer: "customer_of i (handleSubscriptionStatus e j st p s) = customer_of i s"
proof (cases "subscription_tenant j s")
  case (Some t)
  then have t: "tenants_findById (t_id t) s = Inr t" by (simp add: tenants_findById_def subscription_tenant_stored)
  show ?thesis
    using Some status_change_customer [OF t, of "\<lambda>t. let t1 = applySubscriptionStatus e st t in
      if truthy p \<and> the p \<noteq> t_currentPlan t1 then t1\<lparr>t_currentPlan := the p\<rparr> else t1" i "tm_now e"]
    by (simp add: handleSubscriptionStatus_def Let_def applySubscriptionStatus_def)
qed (simp add: handleSubscriptionStatus_def)

lemma consumed_status_customer:
  "customer_of i (BillingEventsController_handleSubscriptionStatus e p s) = customer_of i s"
  by (simp add: BillingEventsController_handleSubscriptionStatus_def handleSubscriptionStatus_customer)

lemma handleBillingSynced_customer:
  "customer_of i (handleBillingSynced e j c s) =
    (if j = Value i \<and> fits_null 100 (field_or_null c) \<and> find_tenant i s \<noteq> None
     then patch_opt c (customer_of i s) else customer_of i s)"
proof (cases j)
  case (Value k)
  have id: "t_id t = i" if "find_tenant i s = Some t" for t using find_SomeD [OF that] by simp
  show ?thesis
    by (cases "find_tenant i s") (auto simp: Value customer_of_def handleBillingSynced_def find_update_where [where key = t_id] dest: id)
qed (simp_all add: handleBillingSynced_def)

lemma consumed_synced_customer:
  assumes "customer_of i (BillingEventsController_handleBillingSynced e p s) = Some x"
  shows "customer_of i s = Some x \<or> text_field ''tenantId'' p = Some i \<and> text_field ''stripeCustomerId'' p = Some x"
  using assms
  by (cases "member_field ''stripeCustomerId'' p")
    (simp_all add: BillingEventsController_handleBillingSynced_def handleBillingSynced_customer member_text patch_opt_def split: if_splits)

lemma request_customer:
  assumes "tm_step e ev s s'" "http_event ev" "customer_of i s' = Some x"
  shows "customer_of i s = Some x \<or> names_customer e ev i x"
  using assms(1)
proof (cases rule: tm_step.cases)
  case (create u dto)
  obtain r s1 where c: "createTenant e dto (jp_sub u) s = (r, s1)" by (rule prod.exhaust)
  from createTenant_customer [OF this, of i] show ?thesis
    using assms(3) create by (auto simp: TenantsController_create_def respond_def c split: if_splits)
next
  case (update u j dto r)
  show ?thesis
  proof (cases "\<exists>q. updateTenant e j dto s = Some (q, s')")
    case True
    then obtain q where "updateTenant e j dto s = Some (q, s')" by blast
    from updateTenant_customer [OF this, of i] show ?thesis
      using assms(3) update(1) by (auto simp: patch_opt_def split: field.splits)
  next
    case False
    then have "s' = s" using update by (auto simp: TenantsController_update_def respond_def split: if_splits)
    with assms(3) show ?thesis by simp
  qed
next
  case (suspend u j why)
  have "customer_of i (snd (suspendTenant e j why s)) = customer_of i s"
    using status_change_customer [where f = "\<lambda>t. t\<lparr>t_status := TS_suspended, t_suspendedAt := Some (tm_now e)\<rparr>"]
    by (auto simp: suspendTenant_def Let_def case_prod_beta customer_of_def split: sum.split)
  with suspend assms(3) show ?thesis by (simp add: TenantsController_suspend_def split: if_splits)
next
  case (activate u j)
  have "customer_of i (snd (activateTenant e j s)) = customer_of i s"
    using status_change_customer [where f = "\<lambda>t. t\<lparr>t_status := TS_active, t_suspendedAt := None\<rparr>"]
    by (auto simp: activateTenant_def Let_def case_prod_beta split: sum.split)
  with activate assms(3) show ?thesis by (simp add: TenantsController_activate_def split: if_splits)
next
  case (remove u j r)
  have "customer_of i s' = customer_of i s" if a: "archiveTenant e j s = Some (q, s')" for q
  proof -
    have "customer_of i s' = customer_of i s1" if "invalidateTenantFeatureCache e j s1 = Some s'" for s1
      using invalidate_frame [OF that] by (intro customer_cong) auto
    with a show ?thesis
      using status_change_customer [where f = "\<lambda>t. t\<lparr>t_status := TS_cancelled, t_cancelledAt := Some (tm_now e)\<rparr>"]
      by (auto simp: archiveTenant_def Let_def case_prod_beta split: sum.splits if_splits)
  qed
  with remove assms(3) show ?thesis by (auto simp: TenantsController_remove_def split: if_splits)
next
  case (toggle u j c b)
  then have "tenants s' = tenants s"
    using toggleFeature_frame(1) [OF prod.collapse [symmetric]] by (simp add: FeaturesController_toggleFeature_def)
  from customer_cong [OF this] assms(3) show ?thesis by simp
next
  case (check tok j c)
  then have "tenants s' = tenants s"
    using isFeatureEnabled_frame(1) [of e j c s]
    by (auto simp: FeaturesController_checkFeature_def split: sum.splits prod.splits if_splits)
  from customer_cong [OF this] assms(3) show ?thesis by simp
qed (use assms(2) in simp_all)


text \<open>The billing engine has announced customer \<open>x\<close> for tenant \<open>i\<close>.\<close>

definition announces_customer :: "bus_msg \<Rightarrow> uuid \<Rightarrow> string \<Rightarrow> bool" where
  "announces_customer m i x \<longleftrightarrow> routingKey m = ''billing.synced'' \<and> mentions m i \<and>
     text_field ''stripeCustomerId'' (payload m) = Some x"

text \<open>Where a tenant's customer comes from: an announcement of the billing engine, or a request of the run.\<close>

definition requested_customer :: "chassis_event list \<Rightarrow> uuid \<Rightarrow> string \<Rightarrow> bool" where
  "requested_customer evs i x \<longleftrightarrow> (\<exists>e r. Request e r \<in> set evs \<and> names_customer e r i x)"

definition customers_ok :: "chassis_event list \<Rightarrow> chassis \<Rightarrow> bool" where
  "customers_ok evs c \<longleftrightarrow> (\<forall>i x. customer_of i (tenantManager c) = Some x \<longrightarrow>
     (\<exists>m \<in> set (published (be_bus (billingEngine c))). announces_customer m i x) \<or> requested_customer evs i x)"

lemma requested_more: "requested_customer evs i x \<Longrightarrow> requested_customer (evs @ [ev]) i x"
  by (auto simp: requested_customer_def)

lemma customers_tenants:
  assumes "customers_ok evs c"
    and "\<And>i x. customer_of i s = Some x \<Longrightarrow> customer_of i (tenantManager c) = Some x \<or> requested_customer (evs @ [ev]) i x"
  shows "customers_ok (evs @ [ev]) (c\<lparr>tenantManager := s\<rparr>)"
  using assms requested_more [of evs] unfolding customers_ok_def by simp blast

lemma customers_billing:
  assumes "customers_ok evs c" "be_honest (billingEngine c)" "be_moves (billingEngine c) s"
  shows "customers_ok (evs @ [ev]) (c\<lparr>billingEngine := s\<rparr>)"
  using assms(1) billing_engine.announced_kept [OF assms(2,3)] requested_more [of evs] unfolding customers_ok_def
  by simp blast

lemma synced_of_billing:
  "chassis_ok c \<Longrightarrow> m \<in> set (sent c) \<Longrightarrow> routingKey m = ''billing.synced'' \<Longrightarrow> m \<in> set (published (be_bus (billingEngine c)))"
  by (auto simp: chassis_ok_def sent_def announced_def filter_empty_conv)

lemma chassis_step_customers:
  assumes "chassis_ok c" "customers_ok evs c" "chassis_step routes ev c c'"
    and key: "\<And>m. routes m OnBillingSynced \<Longrightarrow> routingKey m = ''billing.synced''"
  shows "customers_ok (evs @ [ev]) c'"
  using assms(3)
proof (cases rule: chassis_step.cases)
  case (request r e s)
  have "customer_of i (tenantManager c) = Some x \<or> requested_customer (evs @ [ev]) i x" if "customer_of i s = Some x" for i x
    using request_customer [OF request(4,3) that] request(1) by (auto simp: requested_customer_def)
  then show ?thesis unfolding request(2) by (rule customers_tenants [OF assms(2)])
next
  case (webhook e body sig)
  have "be_moves (billingEngine c) (snd (handleWebhook e body sig (billingEngine c)))"
    unfolding be_moves_def by (intro exI [of _ e] exI [of _ "Deliver body sig"]) simp
  then show ?thesis using webhook assms(1) customers_billing [OF assms(2)] by (simp add: chassis_ok_def)
next
  case (provision m msg e)
  have "be_moves (billingEngine c) (onTenantProvisioned e msg (billingEngine c))"
    unfolding be_moves_def by (intro exI [of _ e] exI [of _ "Provisioned msg"]) simp
  then show ?thesis using provision(2) assms(1) customers_billing [OF assms(2)] by (simp add: chassis_ok_def)
next
  case (synced m e)
  have m: "m \<in> set (published (be_bus (billingEngine c)))" "routingKey m = ''billing.synced''"
    using synced_of_billing [OF assms(1) synced(3)] key [OF synced(4)] by auto
  have "(\<exists>m \<in> set (published (be_bus (billingEngine c))). announces_customer m i x) \<or> requested_customer (evs @ [ev]) i x"
    if "customer_of i (BillingEventsController_handleBillingSynced e (payload m) (tenantManager c)) = Some x" for i x
    using consumed_synced_customer [OF that] assms(2) m requested_more [of evs i x ev]
    by (auto simp: customers_ok_def announces_customer_def mentions_def)
  then show ?thesis unfolding synced(2) customers_ok_def by simp
next
  case (status m e)
  show ?thesis unfolding status(2) by (rule customers_tenants [OF assms(2)]) (simp add: consumed_status_customer)
qed

lemma chassis_steps_customers:
  assumes "chassis_steps routes evs c c'" "chassis_ok c" "customers_ok [] c"
    and key: "\<And>m. routes m OnBillingSynced \<Longrightarrow> routingKey m = ''billing.synced''"
  shows "customers_ok evs c'"
  using assms(1-3)
proof (induction rule: chassis_steps.induct)
  case (stepped evs c c' ev c'')
  have "chassis_ok c'" by (rule chassis_steps_ok [OF stepped.hyps(1) stepped.prems(1)])
  moreover have "customers_ok evs c'" by (rule stepped.IH) (use stepped.prems in auto)
  ultimately show ?case by (rule chassis_step_customers [OF _ _ stepped.hyps(2) key])
qed

lemma announcement_unique:
  assumes "distinct (announced ms)" "m \<in> set ms" "m' \<in> set ms"
    and "routingKey m = ''billing.synced''" "routingKey m' = ''billing.synced''" "mentions m i" "mentions m' i"
  shows "m = m'"
proof -
  have "inj_on (\<lambda>m. text_field ''tenantId'' (payload m)) {x \<in> set ms. routingKey x = ''billing.synced''}"
    using assms(1) by (simp add: announced_def distinct_map)
  then show ?thesis by (rule inj_onD) (use assms in \<open>simp_all add: mentions_def\<close>)
qed

text \<open>C11: the Stripe customer recorded on a tenant is the one billing created for it, unless a request
  named it. The assumption is that only messages with the key \<^verbatim>\<open>billing.synced\<close> are handed to the handler
  of that name; requests may set customers by hand. Then a customer on a tenant's row was either named for
  exactly that tenant in the body of a create or update request of the run, or it was announced by the
  billing engine for exactly that tenant, no other customer ever was, and the tenant has a
  subscription.\<close>

theorem recorded_customer_is_announced:
  assumes run: "chassis_run routes evs c"
    and key: "\<forall>m. routes m OnBillingSynced \<longrightarrow> routingKey m = ''billing.synced''"
    and t: "find_tenant i (tenantManager c) = Some t" "t_stripeCustomerId t = Some x"
  shows "(\<exists>e u dto. Request e (Ev_create u dto) \<in> set evs \<and> newTenantId e = i \<and> ct_stripeCustomerId dto = Some x) \<or>
    (\<exists>e u dto. Request e (Ev_update u i dto) \<in> set evs \<and> ut_stripeCustomerId dto = Value x) \<or>
    (\<exists>m \<in> set (published (be_bus (billingEngine c))). announces_customer m i x \<and>
      (\<forall>m' \<in> set (sent c). routingKey m' = ''billing.synced'' \<and> mentions m' i \<longrightarrow> m' = m) \<and>
      (\<exists>r \<in> set (subRows (billingEngine c)). sb_tenantId r = i))"
proof -
  obtain c0 where c0: "chassis_init c0" "chassis_steps routes evs c0 c" using run by (auto simp: chassis_run_def)
  have "customers_ok [] c0" using c0(1) by (simp add: customers_ok_def customer_of_def chassis_init_def tm_init_def)
  then have "customers_ok evs c"
    by (rule chassis_steps_customers [OF c0(2) chassis_init_ok [OF c0(1)]]) (use key in auto)
  moreover have "customer_of i (tenantManager c) = Some x" using t by (simp add: customer_of_def)
  ultimately consider (announced) m where "m \<in> set (published (be_bus (billingEngine c)))" "announces_customer m i x"
    | (requested) e r where "Request e r \<in> set evs" "names_customer e r i x"
    unfolding customers_ok_def requested_customer_def by blast
  then show ?thesis
  proof cases
    case (announced m)
    have ok: "chassis_ok c" by (rule chassis_run_ok [OF run])
    then have h: "confined (billed (billingEngine c)) (published (be_bus (billingEngine c)))"
      "distinct (announced (published (be_bus (billingEngine c))))"
      by (auto simp: chassis_ok_def be_honest_def)
    have "m' = m" if "m' \<in> set (sent c)" "routingKey m' = ''billing.synced''" "mentions m' i" for m'
      by (rule announcement_unique [OF h(2) synced_of_billing [OF ok that(1,2)] announced(1), where i = i])
        (use that announced(2) in \<open>simp_all add: announces_customer_def\<close>)
    moreover have "i \<in> billed (billingEngine c)"
      using confinedD [OF h(1) announced(1)] announced(2) by (simp add: announces_customer_def)
    ultimately show ?thesis using announced by auto
  next
    case (requested e r)
    then show ?thesis by (cases r) auto
  qed
qed


subsection \<open>The order of the status messages\<close>

text \<open>Events that leave the status of tenant \<open>i\<close> alone. A status message spares it when it names another
  tenant; one that names none reaches the tenant of the first row.\<close>

fun spares :: "uuid \<Rightarrow> chassis_event \<Rightarrow> bool" where
  "spares i (Request e (Ev_suspend u j why)) \<longleftrightarrow> j \<noteq> i"
| "spares i (Request e (Ev_activate u j)) \<longleftrightarrow> j \<noteq> i"
| "spares i (Request e (Ev_remove u j)) \<longleftrightarrow> j \<noteq> i"
| "spares i (Status e m) \<longleftrightarrow> (\<exists>j. j \<noteq> i \<and> mentions m j)"
| "spares i _ \<longleftrightarrow> True"

definition status_of :: "uuid \<Rightarrow> chassis \<Rightarrow> tenantStatus option" where
  "status_of i c = map_option t_status (find_tenant i (tenantManager c))"

lemma status_of_move:
  assumes "tm_step e ev (tenantManager c) s" "status_of i c = Some a"
  shows "status_of i (c\<lparr>tenantManager := s\<rparr>) = Some (next_status e ev i a)"
  using assms(2) tm_step_row [OF assms(1), of i] by (auto simp: status_of_def)

lemma consumed_status:
  assumes "status_of i c = Some a"
  shows "status_of i (c\<lparr>tenantManager := BillingEventsController_handleBillingSynced e p (tenantManager c)\<rparr>) = Some a"
    and "text_field ''tenantId'' p = Some j \<Longrightarrow>
      status_of i (c\<lparr>tenantManager := BillingEventsController_handleSubscriptionStatus e p (tenantManager c)\<rparr>) =
        Some (if i = j then subscription_outcome (text_field ''status'' p) (text_field ''plan'' p) a else a)"
proof -
  show "status_of i (c\<lparr>tenantManager := BillingEventsController_handleBillingSynced e p (tenantManager c)\<rparr>) = Some a"
    using synced_moves [of e p "tenantManager c"] status_of_move [OF _ assms] assms by fastforce
  assume "text_field ''tenantId'' p = Some j"
  then show "status_of i (c\<lparr>tenantManager := BillingEventsController_handleSubscriptionStatus e p (tenantManager c)\<rparr>) =
      Some (if i = j then subscription_outcome (text_field ''status'' p) (text_field ''plan'' p) a else a)"
    using status_of_move [OF tm_step.subscriptionStatus assms]
    by (simp add: BillingEventsController_handleSubscriptionStatus_def member_text)
qed

lemma spared_status:
  assumes "chassis_step routes ev c c'" "spares i ev" "status_of i c = Some a"
  shows "status_of i c' = Some a"
  using assms(1)
proof (cases rule: chassis_step.cases)
  case (request r e s)
  have "next_status e r i a = a" using assms(2) request(1,3) by (cases r) auto
  then show ?thesis using status_of_move [OF request(4) assms(3)] request(2) by simp
next
  case (synced m e)
  then show ?thesis using consumed_status(1) [OF assms(3)] by simp
next
  case (status m e)
  then obtain j where "j \<noteq> i" "text_field ''tenantId'' (payload m) = Some j" using assms(2) by (auto simp: mentions_def)
  with status show ?thesis using consumed_status(2) [OF assms(3), of "payload m" j e] by simp
qed (use assms(3) in \<open>simp_all add: status_of_def\<close>)

lemma spared_statuses:
  "chassis_steps routes evs c c' \<Longrightarrow> \<forall>ev \<in> set evs. spares i ev \<Longrightarrow> status_of i c = Some a \<Longrightarrow> status_of i c' = Some a"
  by (induction rule: chassis_steps.induct) (auto intro: spared_status)

lemma last_status_decides:
  assumes "chassis_run routes pre c0" and "chassis_step routes (Status e m) c0 c1" and "mentions m i"
    and "chassis_steps routes post c1 c" and "\<forall>ev \<in> set post. spares i ev"
  shows "\<exists>a. status_of i c0 = Some a \<and>
    status_of i c = Some (subscription_outcome (text_field ''status'' (payload m)) (text_field ''plan'' (payload m)) a)"
proof -
  from assms(2) have m: "m \<in> set (sent c0)"
    and c1: "c1 = c0\<lparr>tenantManager := BillingEventsController_handleSubscriptionStatus e (payload m) (tenantManager c0)\<rparr>"
    by (auto elim: chassis_stepE)
  have "confined (tenant_ids (tenantManager c0)) (sent c0)"
    using chassis_run_ok [OF assms(1)] by (simp add: chassis_ok_def)
  then have "i \<in> tenant_ids (tenantManager c0)" using confinedD m assms(3) by blast
  then obtain a where a: "status_of i c0 = Some a" by (auto simp only: tenant_ids_find status_of_def)
  from consumed_status(2) [OF this, of "payload m" i e] c1 assms(3)
  have "status_of i c1 = Some (subscription_outcome (text_field ''status'' (payload m)) (text_field ''plan'' (payload m)) a)"
    by (simp add: mentions_def)
  with spared_statuses [OF assms(4,5) this] a show ?thesis by blast
qed

text \<open>C12: the status message delivered last decides. Any message about a tenant that is handed to the
  status handler, published by whichever service, leaves the tenant active, suspended or cancelled when
  its status is \<^verbatim>\<open>active\<close>, \<^verbatim>\<open>past_due\<close> or \<^verbatim>\<open>suspended\<close>, or \<^verbatim>\<open>cancelled\<close>; when its status is any other text or
  missing (as the \<^verbatim>\<open>canceled\<close>, \<^verbatim>\<open>unpaid\<close> and \<^verbatim>\<open>trialing\<close> of Stripe), or when it carries a plan of more than 50
  characters, the status stays as it was. So it is whatever was delivered before and in which order it
  was published; and it stays so through all further requests, webhooks and messages until the next
  lifecycle request for that tenant or the next delivery to the status handler of a message about it
  or about no tenant at all.\<close>

theorem last_delivered_status_decides:
  assumes "chassis_run routes pre c0" and "chassis_step routes (Status e m) c0 c1" and "mentions m i"
    and "chassis_steps routes post c1 c" and "\<forall>ev \<in> set post. spares i ev"
  shows "\<exists>a. status_of i c0 = Some a \<and> status_of i c = Some (
    if (\<exists>p. text_field ''plan'' (payload m) = Some p \<and> 50 < length p) then a
    else case text_field ''status'' (payload m) of
      Some st \<Rightarrow> if st = ''active'' then TS_active
        else if st = ''past_due'' \<or> st = ''suspended'' then TS_suspended
        else if st = ''cancelled'' then TS_cancelled else a
    | None \<Rightarrow> a)"
  using last_status_decides [OF assms]
  by (auto simp: subscription_outcome_def subscription_target_def fits_null_def fits_def split: option.splits)

text \<open>So a message that is delivered a second time, or late, undoes what came after it: a past-due
  message that was ever published suspends the tenant whenever it is handed over, also when the
  payment has been received and its message handled in between. The messages carry no order.\<close>

lemma stale_message_suspends:
  assumes "chassis_run routes evs c" "status_msg i ''past_due'' \<in> set (sent c)"
    and "routes (status_msg i ''past_due'') OnSubscriptionStatus"
  shows "\<exists>c'. chassis_step routes (Status e (status_msg i ''past_due'')) c c' \<and> status_of i c' = Some TS_suspended"
proof -
  let ?m = "status_msg i ''past_due''"
  let ?c' = "c\<lparr>tenantManager := BillingEventsController_handleSubscriptionStatus e (payload ?m) (tenantManager c)\<rparr>"
  have step: "chassis_step routes (Status e ?m) c ?c'" by (rule chassis_step.status) (rule assms)+
  have "\<exists>a. status_of i c = Some a \<and>
    status_of i ?c' = Some (subscription_outcome (text_field ''status'' (payload ?m)) (text_field ''plan'' (payload ?m)) a)"
    by (rule last_status_decides [OF assms(1) step _ chassis_steps.stays]) (simp_all add: status_msg_def mentions_defs)
  with step show ?thesis by (auto simp: status_msg_def text_field_def subscription_outcome_def subscription_target_def)
qed


text \<open>
  The statuses the billing engine's \<^verbatim>\<open>Subscription\<close> entity can carry, as published. Of the six, the tenant
  manager knows two: a subscription that is unpaid, incomplete or cancelled leaves its tenant's status
  alone, and neither \<^verbatim>\<open>cancelled\<close> nor \<^verbatim>\<open>suspended\<close>, which its handler waits for, is ever sent.
\<close>

datatype subscriptionStatus = SS_active | SS_trialing | SS_past_due | SS_canceled | SS_unpaid | SS_incomplete

fun status_text :: "subscriptionStatus \<Rightarrow> string" where
  "status_text SS_active = ''active''"
| "status_text SS_trialing = ''trialing''"
| "status_text SS_past_due = ''past_due''"
| "status_text SS_canceled = ''canceled''"
| "status_text SS_unpaid = ''unpaid''"
| "status_text SS_incomplete = ''incomplete''"

lemma statuses_understood:
  "subscription_target (Some (status_text x)) a = (case x of SS_active \<Rightarrow> TS_active | SS_past_due \<Rightarrow> TS_suspended | _ \<Rightarrow> a)"
  "status_text x \<notin> {''cancelled'', ''suspended''}"
  by (cases x; simp add: subscription_target_def)+

end
