(* ===== verification/System_Witnesses.thy ===== *)
theory System_Witnesses
  imports Chassis_System Tenant_Witnesses Billing_Witnesses
begin

text \<open>
  A run of the composed system: a tenant is created, its message provisions a subscription, the Stripe
  customer is recorded, a payment fails, and the tenant is suspended.
\<close>

text \<open>Messages go by their routing key to the handler of that name.\<close>

fun by_key :: routing where
  "by_key m OnTenantProvisioned \<longleftrightarrow> routingKey m = ''tenant.provisioned''"
| "by_key m OnBillingSynced \<longleftrightarrow> routingKey m = ''billing.synced''"
| "by_key m OnSubscriptionStatus \<longleftrightarrow> routingKey m = ''subscription.status''"

definition xw_env :: be_env where
  "xw_env = xb_env\<lparr>customers_create := (\<lambda>_ _ _. Inr ''cus1''),
     constructEvent := (\<lambda>_ _ _. Some \<lparr>ev_id = ''ev1'', ev_data = InvoicePaymentFailed xb_inv\<rparr>)\<rparr>"

definition xw_start :: chassis where
  "xw_start = \<lparr>tenantManager = ex_fresh, billingEngine = be_empty xb_bus\<rparr>"

definition xw_event :: tm_event where
  "xw_event = Ev_create (ex_user True) (ex_create ''New'')"

definition xw_created :: chassis where
  "xw_created = xw_start\<lparr>tenantManager := snd (TenantsController_create ex_env (ex_user True) (ex_create ''New'') ex_fresh)\<rparr>"

definition xw_tenant :: tenantProvisioned where
  "xw_tenant = \<lparr>tp_tenantId = ''t2'', tp_slug = ''new-abcd'', tp_plan = ''pro'', tp_adminEmail = ''a@new.io''\<rparr>"

definition xw_message :: bus_msg where
  "xw_message = \<lparr>exchange = ''chassis.tenants'', routingKey = ''tenant.provisioned'',
     payload = TenantProvisionedEvent 1000 ''t2'' ''new-abcd'' ''pro'' ''a@new.io''\<rparr>"

definition xw_subscribed :: chassis where
  "xw_subscribed = xw_created\<lparr>billingEngine := onTenantProvisioned xw_env xw_tenant (be_empty xb_bus)\<rparr>"

definition xw_synced :: chassis where
  "xw_synced = xw_subscribed\<lparr>tenantManager := BillingEventsController_handleBillingSynced ex_env
     (payload (synced_msg ''t2'' ''cus1'')) (tenantManager xw_subscribed)\<rparr>"

definition xw_failed :: chassis where
  "xw_failed = xw_synced\<lparr>billingEngine := snd (handleWebhook xw_env [] None (billingEngine xw_synced))\<rparr>"

definition xw_suspended :: chassis where
  "xw_suspended = xw_failed\<lparr>tenantManager := BillingEventsController_handleSubscriptionStatus ex_env
     (payload (status_msg ''t2'' ''past_due'')) (tenantManager xw_failed)\<rparr>"

lemma xw_init: "chassis_init xw_start"
  by (auto simp: chassis_init_def xw_start_def tm_init_def ex_fresh_def ex_defs unique_on_def sent_def be_empty_def xb_bus_def)

lemma xw_chars: "char_of (110 :: nat) = CHR ''n''" "char_of (97 :: nat) = CHR ''a''"
  by code_simp+

lemma xw_published: "published (tm_bus (tenantManager xw_created)) = [xw_message]"
  by (simp add: xw_created_def TenantsController_create_def respond_def createTenant_def provision_def provisioningRow_def
      insert_tenant_def tenant_fits_def fits_def toLowerCase_def insert_feature_def ex_fresh_def ex_defs plans_findByCode_def
      save_tenant_def save_row_def finalSlug_def Let_def requestOwnerMembership_def publish_def xw_message_def lower_char_def xw_chars)


lemma xw_row:
  "map t_id (tenants (tenantManager xw_created)) = [''t2'']"
  by (simp add: xw_created_def TenantsController_create_def respond_def createTenant_def provision_def provisioningRow_def
      insert_tenant_def tenant_fits_def fits_def toLowerCase_def insert_feature_def ex_fresh_def ex_defs plans_findByCode_def
      save_tenant_def save_row_def finalSlug_def Let_def requestOwnerMembership_def)

lemma xw_message_read: "provisioned_of (payload xw_message) = Some xw_tenant"
  by (simp add: provisioned_of_def text_field_def xw_message_def TenantProvisionedEvent_def xw_tenant_def)

lemma xw_engine:
  "published (be_bus (billingEngine xw_subscribed)) = [synced_msg ''t2'' ''cus1'']"
  "map sb_tenantId (subRows (billingEngine xw_subscribed)) = [''t2'']"
  by (simp_all add: xw_subscribed_def onTenantProvisioned_def provisionSubscription_def createCustomer_def subs_create_def
      find_by_tenant_def insert_subscription_def subscription_fits_def fits_def emit_event_def publish_def be_empty_def xw_env_def xb_defs
      xw_tenant_def synced_msg_def)

lemma xw_engine_failed:
  "published (be_bus (billingEngine xw_failed)) = [synced_msg ''t2'' ''cus1'', status_msg ''t2'' ''past_due'']"
  by (simp add: xw_failed_def xw_synced_def xw_subscribed_def onTenantProvisioned_def provisionSubscription_def createCustomer_def subs_create_def
      find_by_tenant_def insert_subscription_def subscription_fits_def fits_def emit_event_def publish_def be_empty_def xw_env_def xb_defs
      xw_tenant_def synced_msg_def handleWebhook_def constructWebhookEvent_def upsert_webhook_def processAndMark_def
      handleInvoicePaymentFailed_def findByStripeCustomerId_def invoice_customer_def updateStatusByTenantId_def update_by_tenant_def
      publishSubscriptionStatus_def update_where_def markProcessed_def update_webhook_def status_msg_def)


lemma xw_steps:
  "chassis_step by_key (Request ex_env xw_event) xw_start xw_created"
  "chassis_step by_key (Provision xw_env xw_message) xw_created xw_subscribed"
  "chassis_step by_key (Synced ex_env (synced_msg ''t2'' ''cus1'')) xw_subscribed xw_synced"
  "chassis_step by_key (Webhook xw_env [] None) xw_synced xw_failed"
  "chassis_step by_key (Status ex_env (status_msg ''t2'' ''past_due'')) xw_failed xw_suspended"
proof -
  have "tm_step ex_env xw_event (tenantManager xw_start) (snd (TenantsController_create ex_env (ex_user True) (ex_create ''New'') ex_fresh))"
    unfolding xw_event_def xw_start_def by (simp add: tm_step.create)
  then show "chassis_step by_key (Request ex_env xw_event) xw_start xw_created"
    unfolding xw_created_def by (intro chassis_step.request) (simp add: xw_event_def)
  have "billingEngine xw_created = be_empty xb_bus" by (simp add: xw_created_def xw_start_def)
  then show "chassis_step by_key (Provision xw_env xw_message) xw_created xw_subscribed"
    using chassis_step.provision [of xw_message xw_created by_key xw_tenant xw_env] xw_message_read xw_published
    by (simp add: sent_def xw_subscribed_def xw_message_def)
  show "chassis_step by_key (Synced ex_env (synced_msg ''t2'' ''cus1'')) xw_subscribed xw_synced"
    unfolding xw_synced_def by (intro chassis_step.synced) (simp_all add: sent_def xw_engine, simp add: synced_msg_def)
  show "chassis_step by_key (Webhook xw_env [] None) xw_synced xw_failed"
    unfolding xw_failed_def by (rule chassis_step.webhook)
  show "chassis_step by_key (Status ex_env (status_msg ''t2'' ''past_due'')) xw_failed xw_suspended"
    unfolding xw_suspended_def by (intro chassis_step.status) (simp_all add: sent_def xw_engine_failed, simp add: status_msg_def)
qed

definition xw_trace :: "chassis_event list" where
  "xw_trace = [Request ex_env xw_event, Provision xw_env xw_message, Synced ex_env (synced_msg ''t2'' ''cus1''),
     Webhook xw_env [] None]"

lemma xw_run: "chassis_run by_key xw_trace xw_failed"
proof -
  note stays = chassis_steps.stays [of by_key xw_start]
  have "chassis_steps by_key xw_trace xw_start xw_failed"
    using chassis_steps.stepped [OF chassis_steps.stepped [OF chassis_steps.stepped [OF chassis_steps.stepped
      [OF stays xw_steps(1)] xw_steps(2)] xw_steps(3)] xw_steps(4)]
    by (simp add: xw_trace_def)
  with xw_init show ?thesis by (auto simp: chassis_run_def)
qed

lemma xw_customer: "customer_of ''t2'' (tenantManager xw_failed) = Some ''cus1''"
proof -
  have "find_tenant ''t2'' (tenantManager xw_created) \<noteq> None"
    using xw_row by (auto simp: find_None_iff)
  then show ?thesis
    by (simp add: xw_failed_def xw_synced_def synced_payload handleBillingSynced_customer xw_subscribed_def patch_opt_def fits_def)
qed

theorem services_agree_on_tenants_witness:
  "status_msg ''t2'' ''past_due'' \<in> set (sent xw_failed) \<and>
   (\<exists>t \<in> set (tenants (tenantManager xw_failed)). t_id t = ''t2'') \<and>
   length (published (be_bus (billingEngine xw_failed))) = 2 \<and> distinct (announced (published (be_bus (billingEngine xw_failed))))"
proof -
  have m: "status_msg ''t2'' ''past_due'' \<in> set (sent xw_failed)" by (simp add: sent_def xw_engine_failed)
  moreover have "text_field ''tenantId'' (payload (status_msg ''t2'' ''past_due'')) = Some ''t2''"
    by (simp add: status_msg_def mentions_defs)
  ultimately show ?thesis using services_agree_on_tenants [OF xw_run] xw_engine_failed by simp
qed

theorem recorded_customer_is_announced_witness:
  "\<exists>m \<in> set (published (be_bus (billingEngine xw_failed))). announces_customer m ''t2'' ''cus1''"
proof -
  obtain t where t: "find_tenant ''t2'' (tenantManager xw_failed) = Some t" "t_stripeCustomerId t = Some ''cus1''"
    using xw_customer by (auto simp: customer_of_def bind_eq_Some_conv)
  have "\<not> (\<exists>e u dto. Request e (Ev_create u dto) \<in> set xw_trace \<and> newTenantId e = ''t2'' \<and> ct_stripeCustomerId dto = Some ''cus1'')"
    "\<not> (\<exists>e u dto. Request e (Ev_update u ''t2'' dto) \<in> set xw_trace \<and> ut_stripeCustomerId dto = Value ''cus1'')"
    by (simp_all add: xw_trace_def xw_event_def ex_create_def)
  with recorded_customer_is_announced [OF xw_run _ t] show ?thesis by auto
qed

theorem last_delivered_status_decides_witness: "status_of ''t2'' xw_suspended = Some TS_suspended"
  using last_delivered_status_decides [OF xw_run xw_steps(5), of "''t2''", OF _ chassis_steps.stays]
  by (simp add: status_msg_def mentions_defs)

end
