(* ===== verification/Message_Topology.thy ===== *)
theory Message_Topology
  imports System_Witnesses
begin

text \<open>
  The broker as the repository configures it: the exchanges, queues and bindings of
  \<^verbatim>\<open>infrastructure/rabbitmq/definitions.json\<close>, the exchanges the publishers assert when they start and
  the queues the consumers read, and the patterns of the consumers' handlers. How a topic exchange compares a routing key with the key of a binding
  is the broker's, and a parameter; a fanout exchange ignores keys. Every message of the composed system
  is published on an exchange that its publisher has asserted and the definitions declare with the same
  type; but no message is routed to a queue that a consumer reads, and none carries the pattern by which
  the framework picks a handler.
\<close>

subsection \<open>Publishers\<close>

definition id_exchanges :: "(string \<times> exchangeType) list" where
  "id_exchanges = [(''chassis.audit'', Fanout), (''chassis.tenants'', Topic)]"

text \<open>
  \<^verbatim>\<open>onModuleInit\<close> asserts the exchanges one after the other once the channel exists; the first failure
  ends it with a warning.
\<close>

definition startPublisher ::
    "bool \<Rightarrow> bool \<Rightarrow> (string \<times> exchangeType \<Rightarrow> bool) \<Rightarrow> (string \<times> exchangeType) list \<Rightarrow> bus \<Rightarrow> bus \<times> (string \<times> exchangeType) list" where
  "startPublisher connect_ok create_ok assert_ok xs b =
     (onModuleInit connect_ok create_ok b, if connect_ok \<and> create_ok then takeWhile assert_ok xs else [])"

text \<open>
  \<^verbatim>\<open>onModuleDestroy\<close> closes the channel and the connection and swallows errors of both; the field keeps
  the closed channel, on which the library throws from then on for the messages \<open>shut\<close> says.
\<close>

definition onModuleDestroy :: "(bus_msg \<Rightarrow> bool) \<Rightarrow> bus \<Rightarrow> bus" where
  "onModuleDestroy shut b = (if channel b then b\<lparr>rejects := shut\<rparr> else b)"

text \<open>After shutdown a publish neither throws nor reaches the broker, but the publisher still reports
  that it is connected.\<close>

lemma destroyed_publisher:
  assumes "\<And>m. shut m"
  shows "publish ex rk p (onModuleDestroy shut b) = onModuleDestroy shut b"
    and "isConnected (onModuleDestroy shut b) = isConnected b"
  using assms by (simp_all add: onModuleDestroy_def publish_def isConnected_def)

subsection \<open>The broker's definitions\<close>

record binding =
  bd_source :: string
  bd_destination :: string
  bd_routingKey :: string

definition declared_exchanges :: "(string \<times> exchangeType) list" where
  "declared_exchanges = [(''chassis.tenants'', Topic), (''chassis.billing'', Topic), (''chassis.audit'', Fanout),
     (''chassis.notifications'', Topic)]"

definition declared_queues :: "string list" where
  "declared_queues = [''billing.tenant-provisioned'', ''audit.log-entry'', ''notifications.email'', ''notifications.sms'']"

definition declared_bindings :: "binding list" where
  "declared_bindings =
     [\<lparr>bd_source = ''chassis.tenants'', bd_destination = ''billing.tenant-provisioned'', bd_routingKey = ''tenant.provisioned''\<rparr>,
      \<lparr>bd_source = ''chassis.audit'', bd_destination = ''audit.log-entry'', bd_routingKey = []\<rparr>]"

text \<open>The queues a message reaches; \<open>topic_match pattern key\<close> is the broker's comparison.\<close>

definition queues_of :: "(string \<Rightarrow> string \<Rightarrow> bool) \<Rightarrow> bus_msg \<Rightarrow> string list" where
  "queues_of topic_match m =
     map bd_destination (filter (\<lambda>b. bd_source b = exchange m \<and>
       (case map_of declared_exchanges (exchange m) of
          Some Fanout \<Rightarrow> True
        | Some Topic \<Rightarrow> topic_match (bd_routingKey b) (routingKey m)
        | None \<Rightarrow> False)) declared_bindings)"

text \<open>How each service consumes, from the two \<^verbatim>\<open>main.ts\<close>; with \<^verbatim>\<open>noAck\<close> off the broker keeps a message
  until it is acknowledged and delivers it again otherwise.\<close>

record consumerOptions =
  cq_queue :: string
  cq_durable :: bool
  cq_noAck :: bool

definition tm_consumer :: consumerOptions where
  "tm_consumer = \<lparr>cq_queue = ''tenants_billing_queue'', cq_durable = True, cq_noAck = False\<rparr>"

definition be_consumer :: consumerOptions where
  "be_consumer = \<lparr>cq_queue = ''billing_consumer_queue'', cq_durable = True, cq_noAck = False\<rparr>"

fun consumer_queue :: "consumer \<Rightarrow> string" where
  "consumer_queue OnTenantProvisioned = cq_queue be_consumer"
| "consumer_queue OnBillingSynced = cq_queue tm_consumer"
| "consumer_queue OnSubscriptionStatus = cq_queue tm_consumer"

definition deployed_routing :: "(string \<Rightarrow> string \<Rightarrow> bool) \<Rightarrow> routing" where
  "deployed_routing topic_match m k \<longleftrightarrow> consumer_queue k \<in> set (queues_of topic_match m)"

text \<open>
  The handlers' \<^verbatim>\<open>@MessagePattern\<close>s. The framework (\<^verbatim>\<open>@nestjs/microservices\<close>) gives a message to the handler
  whose pattern is the text of the message's member \<^verbatim>\<open>pattern\<close>; the routing key plays no part in it.
\<close>

fun message_pattern :: "consumer \<Rightarrow> string" where
  "message_pattern OnTenantProvisioned = ''tenant.provisioned''"
| "message_pattern OnBillingSynced = ''billing-synced''"
| "message_pattern OnSubscriptionStatus = ''subscription-status''"

definition pattern_matches :: "bus_msg \<Rightarrow> consumer \<Rightarrow> bool" where
  "pattern_matches m k \<longleftrightarrow> text_field ''pattern'' (payload m) = Some (message_pattern k)"

subsection \<open>What the configuration gives\<close>

text \<open>The publishers and the definitions agree on every exchange, so no assertion is refused for its type.\<close>

lemma exchanges_agree:
  "set tm_exchanges \<subseteq> set declared_exchanges" "set be_exchanges \<subseteq> set declared_exchanges"
  "set id_exchanges \<subseteq> set declared_exchanges" "distinct (map fst declared_exchanges)"
  by (simp_all add: tm_exchanges_def be_exchanges_def id_exchanges_def declared_exchanges_def)

text \<open>Every message of a run is on an exchange its publisher asserts.\<close>

lemma messages_on_asserted_exchanges:
  assumes "chassis_run routes evs c"
  shows "on_exchanges tm_exchanges (published (tm_bus (tenantManager c)))"
    and "on_exchanges be_exchanges (published (be_bus (billingEngine c)))"
    and "m \<in> set (sent c) \<Longrightarrow> exchange m \<in> fst ` set declared_exchanges"
proof -
  have ok: "chassis_ok c" by (rule chassis_run_ok [OF assms])
  then show tm: "on_exchanges tm_exchanges (published (tm_bus (tenantManager c)))"
    and be: "on_exchanges be_exchanges (published (be_bus (billingEngine c)))"
    by (auto simp: chassis_ok_def be_honest_def)
  show "exchange m \<in> fst ` set declared_exchanges" if "m \<in> set (sent c)"
    using that tm be image_mono [OF exchanges_agree(1), of fst] image_mono [OF exchanges_agree(2), of fst]
    unfolding sent_def on_exchanges_def by (metis Un_iff set_append subsetD)
qed

lemma bound_queues: "set (queues_of f m) \<subseteq> {''billing.tenant-provisioned'', ''audit.log-entry''}"
  by (auto simp: queues_of_def declared_bindings_def)

lemma no_consumer_queue: "\<not> deployed_routing f m k"
  using bound_queues [of f m] by (cases k) (auto simp: deployed_routing_def tm_consumer_def be_consumer_def)

text \<open>Nor does a handler's pattern match: no service puts one into a payload.\<close>

lemma no_pattern_matches: "chassis_ok c \<Longrightarrow> m \<in> set (sent c) \<Longrightarrow> \<not> pattern_matches m k"
  by (auto simp: chassis_ok_def be_honest_def sent_def on_exchanges_def bare_payload_def pattern_matches_def text_field_def)

lemma undelivered_steps:
  assumes "chassis_steps routes evs c c'" "subRows (billingEngine c) = []" "chassis_ok c"
    and deliver: "\<And>m k. routes m k \<Longrightarrow> deployed_routing f m k \<or> pattern_matches m k"
  shows "subRows (billingEngine c') = [] \<and>
    (\<forall>ev \<in> set evs. (\<exists>e r. ev = Request e r) \<or> (\<exists>e body sig. ev = Webhook e body sig))"
  using assms(1-3)
proof (induction rule: chassis_steps.induct)
  case (stepped evs c c' ev c'')
  then have IH: "subRows (billingEngine c') = []"
    "\<forall>ev \<in> set evs. (\<exists>e r. ev = Request e r) \<or> (\<exists>e body sig. ev = Webhook e body sig)" by auto
  have ok: "chassis_ok c'" using chassis_steps_ok [OF stepped.hyps(1)] stepped.prems(2) by blast
  then have none: "\<not> routes m k" if "m \<in> set (sent c')" for m k
    using deliver [of m k] no_consumer_queue [of f m k] no_pattern_matches [OF ok that, of k] by blast
  from stepped.hyps(2) show ?case
  proof (cases rule: chassis_step.cases)
    case (webhook e body sig)
    have "billed (snd (handleWebhook e body sig (billingEngine c'))) = {}"
      using handleWebhook_says [of "billingEngine c'" e body sig] IH ok by (simp add: chassis_ok_def be_honest_def engine_says_def)
    then show ?thesis using webhook IH by simp
  qed (use IH none in auto)
qed simp

text \<open>C15: as the repository configures it, the services do not reach each other. Let a message be handed
  to a handler only when the broker's definitions bind the queue its service reads, or (were the queues
  bound) when the message carries the handler's pattern, as the framework requires. Then, whatever
  requests and Stripe events arrive and however the broker compares keys, no handler ever runs: a run
  consists of requests and webhooks only, no subscription and no invoice is ever stored, and a new
  tenant has no billing.\<close>

theorem deployed_without_billing:
  assumes "chassis_run routes evs c"
    and "\<forall>m k. routes m k \<longrightarrow> consumer_queue k \<in> set (queues_of topic_match m) \<or>
      text_field ''pattern'' (payload m) = Some (message_pattern k)"
  shows "subRows (billingEngine c) = [] \<and> invoiceRows (billingEngine c) = [] \<and>
    (\<forall>ev \<in> set evs. (\<exists>e r. ev = Request e r) \<or> (\<exists>e body sig. ev = Webhook e body sig))"
proof -
  obtain c0 where c0: "chassis_init c0" "chassis_steps routes evs c0 c"
    using assms(1) by (auto simp: chassis_run_def)
  have "subRows (billingEngine c0) = []" using c0(1) by (auto simp: chassis_init_def be_empty_def)
  then have "subRows (billingEngine c) = [] \<and> (\<forall>ev \<in> set evs. (\<exists>e r. ev = Request e r) \<or> (\<exists>e body sig. ev = Webhook e body sig))"
    by (rule undelivered_steps [OF c0(2) _ chassis_init_ok [OF c0(1)], of topic_match])
      (use assms(2) in \<open>auto simp: deployed_routing_def pattern_matches_def\<close>)
  moreover have "invoiceRows (billingEngine c) = []" if "subRows (billingEngine c) = []"
    using chassis_run_ok [OF assms(1)] that by (auto simp: chassis_ok_def be_honest_def be_wf_def)
  ultimately show ?thesis by blast
qed

text \<open>The run of \<open>System_Witnesses\<close> up to the new tenant is one of the deployed system, by either rule: its
  message is left in a queue nobody reads.\<close>

theorem deployed_without_billing_witness:
  "chassis_run (\<lambda>m k. deployed_routing (=) m k \<or> pattern_matches m k) [Request ex_env xw_event] xw_created \<and>
   map t_id (tenants (tenantManager xw_created)) = [''t2''] \<and>
   queues_of (=) xw_message = [''billing.tenant-provisioned''] \<and> subRows (billingEngine xw_created) = []"
proof -
  let ?routes = "\<lambda>m k. deployed_routing (=) m k \<or> pattern_matches m k"
  have "tm_step ex_env xw_event (tenantManager xw_start) (snd (TenantsController_create ex_env (ex_user True) (ex_create ''New'') ex_fresh))"
    unfolding xw_event_def xw_start_def by (simp add: tm_step.create)
  then have "chassis_step ?routes (Request ex_env xw_event) xw_start xw_created"
    unfolding xw_created_def by (intro chassis_step.request) (simp add: xw_event_def)
  then have run: "chassis_run ?routes [Request ex_env xw_event] xw_created"
    unfolding chassis_run_def using xw_init chassis_steps.stepped [OF chassis_steps.stays] by fastforce
  moreover have "queues_of (=) xw_message = [''billing.tenant-provisioned'']"
    by (simp add: queues_of_def xw_message_def declared_exchanges_def declared_bindings_def)
  moreover have "subRows (billingEngine xw_created) = []"
    using deployed_without_billing [OF run, of "(=)"] by (simp add: deployed_routing_def pattern_matches_def)
  ultimately show ?thesis using xw_row by simp
qed

end
