(* ===== verification/Service_Copies.thy ===== *)
theory Service_Copies
  imports Service_Config Sdk_Database Sdk_Http Billing_Revenue Message_Topology
begin

text \<open>
  What the services keep copies of. The publisher, the response DTO, the tenant middleware and the
  row-level-security subscriber exist once in each service, the revenue queries twice in the billing
  engine. Each copy is written out from its own file and compared with the one the other theories use;
  the database and Redis settings of the modules, which do differ, are functions of the environment.
\<close>

subsection \<open>Publishers\<close>

definition id_publish :: "string \<Rightarrow> string \<Rightarrow> json \<Rightarrow> bus \<Rightarrow> bus" where
  "id_publish ex rk msg b =
     (if \<not> channel b then b
      else let m = \<lparr>exchange = ex, routingKey = rk, payload = msg\<rparr>
           in if rejects b m then b else b\<lparr>published := published b @ [m]\<rparr>)"

definition be_publish :: "string \<Rightarrow> string \<Rightarrow> json \<Rightarrow> bus \<Rightarrow> bus" where
  "be_publish ex rk msg b =
     (if \<not> channel b then b
      else let m = \<lparr>exchange = ex, routingKey = rk, payload = msg\<rparr>
           in if rejects b m then b else b\<lparr>published := published b @ [m]\<rparr>)"

definition id_onModuleInit ::
    "bool \<Rightarrow> bool \<Rightarrow> (string \<times> exchangeType \<Rightarrow> bool) \<Rightarrow> bus \<Rightarrow> bus \<times> (string \<times> exchangeType) list" where
  "id_onModuleInit connect_ok create_ok assert_ok b =
     (if \<not> connect_ok then (b, [])
      else if \<not> create_ok then (b, [])
      else (b\<lparr>channel := True\<rparr>, takeWhile assert_ok id_exchanges))"

definition be_onModuleInit ::
    "bool \<Rightarrow> bool \<Rightarrow> (string \<times> exchangeType \<Rightarrow> bool) \<Rightarrow> bus \<Rightarrow> bus \<times> (string \<times> exchangeType) list" where
  "be_onModuleInit connect_ok create_ok assert_ok b =
     (if \<not> connect_ok then (b, [])
      else if \<not> create_ok then (b, [])
      else (b\<lparr>channel := True\<rparr>, takeWhile assert_ok be_exchanges))"

definition id_onModuleDestroy :: "(bus_msg \<Rightarrow> bool) \<Rightarrow> bus \<Rightarrow> bus" where
  "id_onModuleDestroy shut b = (if channel b then b\<lparr>rejects := shut\<rparr> else b)"

definition be_onModuleDestroy :: "(bus_msg \<Rightarrow> bool) \<Rightarrow> bus \<Rightarrow> bus" where
  "be_onModuleDestroy shut b = (if channel b then b\<lparr>rejects := shut\<rparr> else b)"

text \<open>A healthy broker is asserted all exchanges a service publishes on, and the copies behave alike.\<close>

lemma publishers_agree:
  "id_publish = publish" "be_publish = publish"
  "id_onModuleInit c k a b = startPublisher c k a id_exchanges b"
  "be_onModuleInit c k a b = startPublisher c k a be_exchanges b"
  "id_onModuleDestroy = onModuleDestroy" "be_onModuleDestroy = onModuleDestroy"
  by (auto simp: fun_eq_iff id_publish_def be_publish_def publish_def Let_def id_onModuleInit_def be_onModuleInit_def
      startPublisher_def onModuleInit_def id_onModuleDestroy_def be_onModuleDestroy_def onModuleDestroy_def)

lemma healthy_start:
  "startPublisher True True (\<lambda>_. True) xs b = (b\<lparr>channel := True\<rparr>, xs)"
  by (simp add: startPublisher_def onModuleInit_def takeWhile_eq_all_conv)

subsection \<open>Responses\<close>

definition id_ok :: "'a \<Rightarrow> string option \<Rightarrow> 'a apiResponse" where
  "id_ok data message =
     \<lparr>ar_success = True, ar_data = Some data, ar_message = message, ar_errors = None, ar_meta = None\<rparr>"

definition id_created :: "'a \<Rightarrow> 'a apiResponse" where
  "id_created data =
     \<lparr>ar_success = True, ar_data = Some data, ar_message = Some ''Created successfully'', ar_errors = None, ar_meta = None\<rparr>"

definition id_error_response :: "string \<Rightarrow> string list option \<Rightarrow> 'a apiResponse" where
  "id_error_response message errors =
     \<lparr>ar_success = False, ar_data = None, ar_message = Some message, ar_errors = errors, ar_meta = None\<rparr>"

definition id_paginated :: "'a list \<Rightarrow> int \<Rightarrow> int \<Rightarrow> int \<Rightarrow> 'a list apiResponse" where
  "id_paginated data totalCount page limit =
     \<lparr>ar_success = True, ar_data = Some data, ar_message = None, ar_errors = None,
      ar_meta = Some \<lparr>pm_total = totalCount, pm_page = page, pm_limit = limit,
        pm_totalPages = \<lceil>rat_of_int totalCount / rat_of_int limit\<rceil>\<rparr>\<rparr>"

definition be_ok :: "'a \<Rightarrow> string option \<Rightarrow> 'a apiResponse" where
  "be_ok data message =
     \<lparr>ar_success = True, ar_data = Some data, ar_message = message, ar_errors = None, ar_meta = None\<rparr>"

definition be_created :: "'a \<Rightarrow> 'a apiResponse" where
  "be_created data =
     \<lparr>ar_success = True, ar_data = Some data, ar_message = Some ''Created successfully'', ar_errors = None, ar_meta = None\<rparr>"

definition be_error :: "string \<Rightarrow> string list option \<Rightarrow> 'a apiResponse" where
  "be_error message errors =
     \<lparr>ar_success = False, ar_data = None, ar_message = Some message, ar_errors = errors, ar_meta = None\<rparr>"

definition be_paginated :: "'a list \<Rightarrow> int \<Rightarrow> int \<Rightarrow> int \<Rightarrow> 'a list apiResponse" where
  "be_paginated data totalCount page limit =
     \<lparr>ar_success = True, ar_data = Some data, ar_message = None, ar_errors = None,
      ar_meta = Some \<lparr>pm_total = totalCount, pm_page = page, pm_limit = limit,
        pm_totalPages = \<lceil>rat_of_int totalCount / rat_of_int limit\<rceil>\<rparr>\<rparr>"

lemma responses_agree:
  "id_ok = api_ok" "id_created = api_created" "id_error_response = api_error" "id_paginated = api_paginated"
  "be_ok = api_ok" "be_created = api_created" "be_error = api_error" "be_paginated = api_paginated"
  by (simp_all add: fun_eq_iff id_ok_def id_created_def id_error_response_def id_paginated_def be_ok_def be_created_def
      be_error_def be_paginated_def api_ok_def api_created_def api_error_def api_paginated_def)

text \<open>The number of pages a client is told is enough for the rows and no more: the last page is not
  empty, and there is none when there are no rows.\<close>

lemma total_pages_tight:
  assumes "0 < limit" "0 \<le> totalCount"
  shows "\<exists>n. ar_meta (be_paginated data totalCount page limit) =
      Some \<lparr>pm_total = totalCount, pm_page = page, pm_limit = limit, pm_totalPages = n\<rparr> \<and>
    totalCount \<le> n * limit \<and> (0 < totalCount \<longrightarrow> (n - 1) * limit < totalCount) \<and> (totalCount = 0 \<longrightarrow> n = 0)"
proof -
  let ?n = "\<lceil>rat_of_int totalCount / rat_of_int limit\<rceil>"
  have "0 < rat_of_int limit" using assms(1) by simp
  then have "rat_of_int totalCount \<le> of_int ?n * rat_of_int limit"
    by (rule pos_divide_le_eq [THEN iffD1]) (rule le_of_int_ceiling)
  then have "rat_of_int totalCount \<le> of_int (?n * limit)" by simp
  then have up: "totalCount \<le> ?n * limit" by (simp only: of_int_le_iff)
  have "of_int (?n - 1) < rat_of_int totalCount / rat_of_int limit" using ceiling_correct [of "rat_of_int totalCount / rat_of_int limit"] by simp
  then have "rat_of_int ((?n - 1) * limit) < of_int totalCount" using assms(1) by (simp add: pos_less_divide_eq)
  then have "(?n - 1) * limit < totalCount" by (simp only: of_int_less_iff)
  with up show ?thesis by (auto simp: be_paginated_def)
qed


subsection \<open>Request context\<close>

definition tm_TenantContextMiddleware :: "headers \<Rightarrow> tenantContextData option" where
  "tm_TenantContextMiddleware h =
     (let isPlatformAdmin = (h ''x-is-platform-admin'' = Some ''true'') in
      if \<not> truthy (h ''x-tenant-id'') \<and> \<not> isPlatformAdmin then None
      else Some \<lparr>td_tenantId = header_or (h ''x-tenant-id'') ''00000000-0000-0000-0000-000000000000'',
                 td_userId = header_or (h ''x-user-id'') [], td_isPlatformAdmin = isPlatformAdmin\<rparr>)"

definition be_TenantContextMiddleware :: "headers \<Rightarrow> tenantContextData option" where
  "be_TenantContextMiddleware h =
     (let isPlatformAdmin = (h ''x-is-platform-admin'' = Some ''true'') in
      if \<not> truthy (h ''x-tenant-id'') \<and> \<not> isPlatformAdmin then None
      else Some \<lparr>td_tenantId = header_or (h ''x-tenant-id'') ''00000000-0000-0000-0000-000000000000'',
                 td_userId = header_or (h ''x-user-id'') [], td_isPlatformAdmin = isPlatformAdmin\<rparr>)"

definition tm_beforeQuery :: "tenantContextData option \<Rightarrow> bool \<Rightarrow> rq_call list" where
  "tm_beforeQuery store hasRunner =
     (if store = None \<or> td_tenantId (the store) = [] \<or> \<not> hasRunner then []
      else [SetConfig ''app.current_tenant_id'' (td_tenantId (the store)),
            SetConfig ''app.is_platform_admin'' (show_bool (td_isPlatformAdmin (the store)))])"

definition be_beforeQuery :: "tenantContextData option \<Rightarrow> bool \<Rightarrow> rq_call list" where
  "be_beforeQuery store hasRunner =
     (if store = None \<or> td_tenantId (the store) = [] \<or> \<not> hasRunner then []
      else [SetConfig ''app.current_tenant_id'' (td_tenantId (the store)),
            SetConfig ''app.is_platform_admin'' (show_bool (td_isPlatformAdmin (the store)))])"

text \<open>\<^verbatim>\<open>TenantContextInterceptor\<close> of the billing engine: the tenant of the token, never one of the route.\<close>

definition be_requestTenantId :: "jwtPayload option \<Rightarrow> string option" where
  "be_requestTenantId user = (if user \<noteq> None \<and> truthy (jp_tenantId (the user)) then jp_tenantId (the user) else None)"

lemma request_context_copies:
  "tm_TenantContextMiddleware = service_TenantContextMiddleware" "be_TenantContextMiddleware = service_TenantContextMiddleware"
  "tm_beforeQuery = beforeQuery" "be_beforeQuery = beforeQuery"
  by (auto simp: fun_eq_iff tm_TenantContextMiddleware_def be_TenantContextMiddleware_def service_TenantContextMiddleware_def
      context_with_def tm_beforeQuery_def be_beforeQuery_def beforeQuery_def Let_def split: option.split)

lemma be_requestTenantId_tm: "be_requestTenantId user = requestTenantId user None"
  by (simp add: be_requestTenantId_def requestTenantId_def)

text \<open>
  The setting the row policies read comes from the request's headers alone: whoever the token belongs
  to, the statements ahead of a query name the tenant of the header \<^verbatim>\<open>x-tenant-id\<close> and the admin flag of
  \<^verbatim>\<open>x-is-platform-admin\<close>, in every service; without both headers no setting is sent.
\<close>

lemma settings_follow_headers:
  "be_beforeQuery (be_TenantContextMiddleware h) True =
     (if truthy (h ''x-tenant-id'')
      then [SetConfig ''app.current_tenant_id'' (the (h ''x-tenant-id'')),
            SetConfig ''app.is_platform_admin'' (show_bool (h ''x-is-platform-admin'' = Some ''true''))]
      else if h ''x-is-platform-admin'' = Some ''true''
      then [SetConfig ''app.current_tenant_id'' ''00000000-0000-0000-0000-000000000000'',
            SetConfig ''app.is_platform_admin'' ''true'']
      else [])"
  "tm_beforeQuery (tm_TenantContextMiddleware h) True = be_beforeQuery (be_TenantContextMiddleware h) True"
  "beforeQuery (service_TenantContextMiddleware h) True = be_beforeQuery (be_TenantContextMiddleware h) True"
  by (cases "h ''x-tenant-id''";
      auto simp: request_context_copies service_TenantContextMiddleware_def context_with_def beforeQuery_def header_or_def show_bool_def)+

text \<open>\<^verbatim>\<open>ChassisModule.configure\<close>: a service built on the SDK sets the request id, then the context.\<close>

definition sdk_configure :: "string \<Rightarrow> headers \<Rightarrow> headers \<times> tenantContextData option" where
  "sdk_configure fresh h = (let h1 = RequestIdMiddleware fresh h in (h1, sdk_TenantContextMiddleware h1))"

lemma request_id_keeps_context: "snd (sdk_configure fresh h) = sdk_TenantContextMiddleware h"
  by (simp add: sdk_configure_def Let_def RequestIdMiddleware_def sdk_TenantContextMiddleware_def context_with_def)

subsection \<open>Revenue queries of the invoices service\<close>

definition InvoicesService_getTotalRevenue :: "be_state \<Rightarrow> rat" where
  "InvoicesService_getTotalRevenue s = (\<Sum>i \<leftarrow> filter (\<lambda>i. iv_status i = ''paid'') (invoiceRows s). iv_amountPaid i)"

definition InvoicesService_getRevenueByPeriod :: "be_env \<Rightarrow> period \<Rightarrow> be_state \<Rightarrow> (string \<times> rat) list" where
  "InvoicesService_getRevenueByPeriod e p s =
     (let fmt = period_format p;
          rows = [(to_char e fmt d, iv_amountPaid i). i \<leftarrow> invoiceRows s, iv_status i = ''paid'',
                    d \<leftarrow> (case iv_paidAt i of None \<Rightarrow> [] | Some d \<Rightarrow> [d])]
      in map (\<lambda>g. (g, \<Sum>(l, x) \<leftarrow> filter (\<lambda>r. fst r = g) rows. x)) (take 30 (rev (sort (groups fst rows)))))"

text \<open>Both services report the same figures.\<close>

lemma paid_rows:
  "[(f d, iv_amountPaid i). i \<leftarrow> xs, iv_status i = ''paid'', d \<leftarrow> (case iv_paidAt i of None \<Rightarrow> [] | Some d \<Rightarrow> [d])] =
     map (\<lambda>i. (f (the (iv_paidAt i)), iv_amountPaid i)) (filter (\<lambda>i. iv_status i = ''paid'' \<and> iv_paidAt i \<noteq> None) xs)"
  by (induction xs) (auto split: option.split)

lemma invoices_service_agrees:
  "InvoicesService_getTotalRevenue s = getTotalRevenue s"
  "InvoicesService_getRevenueByPeriod e p s = getRevenueByPeriod e p s"
proof -
  show "InvoicesService_getTotalRevenue s = getTotalRevenue s"
    by (simp add: InvoicesService_getTotalRevenue_def getTotalRevenue_def sum_paid_def)
  show "InvoicesService_getRevenueByPeriod e p s = getRevenueByPeriod e p s"
    unfolding InvoicesService_getRevenueByPeriod_def getRevenueByPeriod_def Let_def paid_rows
    by (simp add: groups_def filter_map comp_def case_prod_beta)
qed

subsection \<open>Database and Redis settings\<close>

text \<open>\<open>Ssl b\<close> is a TLS connection that verifies the server's certificate exactly when \<open>b\<close>.\<close>

datatype sslOption = NoSsl | Ssl bool

record dbOptions =
  do_url :: "string option"
  do_schema :: string
  do_synchronize :: bool
  do_logging :: bool
  do_ssl :: sslOption

definition identity_database :: "process_env \<Rightarrow> dbOptions" where
  "identity_database env =
     \<lparr>do_url = env ''DATABASE_URL'', do_schema = ''iam'', do_synchronize = False,
      do_logging = (env ''NODE_ENV'' = Some ''development''),
      do_ssl = (if env ''NODE_ENV'' = Some ''production'' then Ssl False else NoSsl)\<rparr>"

text \<open>\<^verbatim>\<open>config/database.config.ts\<close> registers the same settings a second time.\<close>

definition identity_databaseConfig :: "process_env \<Rightarrow> dbOptions" where
  "identity_databaseConfig env =
     \<lparr>do_url = env ''DATABASE_URL'', do_schema = ''iam'', do_synchronize = False,
      do_logging = (env ''NODE_ENV'' = Some ''development''),
      do_ssl = (if env ''NODE_ENV'' = Some ''production'' then Ssl False else NoSsl)\<rparr>"

definition tenant_database :: "process_env \<Rightarrow> dbOptions" where
  "tenant_database env =
     \<lparr>do_url = env ''DATABASE_URL'', do_schema = ''tenant_mgmt'', do_synchronize = False,
      do_logging = (tc_nodeEnv (tenant_appConfig env) = ''development''),
      do_ssl = (if tc_nodeEnv (tenant_appConfig env) = ''production'' then Ssl False else NoSsl)\<rparr>"

definition billing_database :: "process_env \<Rightarrow> dbOptions" where
  "billing_database env =
     \<lparr>do_url = env ''DATABASE_URL'', do_schema = ''billing'', do_synchronize = False,
      do_logging = (bc_nodeEnv (billing_appConfig env) = ''development''),
      do_ssl = (if bc_nodeEnv (billing_appConfig env) = ''production'' then Ssl False else NoSsl)\<rparr>"

text \<open>
  Deployed with one environment the services share the database but no schema, none rewrites its tables,
  and all use the same kind of connection: encrypted exactly in production, and never verified.
\<close>

lemma databases_separate:
  "do_url (identity_database env) = do_url (tenant_database env)" "do_url (billing_database env) = do_url (tenant_database env)"
  "distinct [do_schema (identity_database env), do_schema (tenant_database env), do_schema (billing_database env)]"
  "\<not> do_synchronize (identity_database env)" "\<not> do_synchronize (tenant_database env)" "\<not> do_synchronize (billing_database env)"
  "identity_databaseConfig env = identity_database env"
  by (simp_all add: identity_database_def identity_databaseConfig_def tenant_database_def billing_database_def)

lemma connections_alike:
  "do_ssl (tenant_database env) = do_ssl (identity_database env)" "do_ssl (billing_database env) = do_ssl (identity_database env)"
  "do_ssl (identity_database env) = (if env ''NODE_ENV'' = Some ''production'' then Ssl False else NoSsl)"
  by (cases "env ''NODE_ENV''"; simp add: identity_database_def tenant_database_def billing_database_def
      tenant_appConfig_def billing_appConfig_def setting_def)+

text \<open>Without \<^verbatim>\<open>NODE_ENV\<close> the identity service does not log its statements and the other two do.\<close>

lemma logging_differs_by_default:
  assumes "env ''NODE_ENV'' = None"
  shows "\<not> do_logging (identity_database env)" "do_logging (tenant_database env)" "do_logging (billing_database env)"
  using assms by (simp_all add: identity_database_def tenant_database_def billing_database_def tenant_appConfig_def
      billing_appConfig_def setting_def)

record redisOptions =
  ro_url :: string
  ro_lazyConnect :: bool
  ro_maxRetriesPerRequest :: int
  ro_enableReadyCheck :: bool

definition tenant_redis :: "process_env \<Rightarrow> redisOptions" where
  "tenant_redis env = \<lparr>ro_url = tc_redisUrl (tenant_appConfig env), ro_lazyConnect = True, ro_maxRetriesPerRequest = 3,
     ro_enableReadyCheck = True\<rparr>"

definition billing_redis :: "process_env \<Rightarrow> redisOptions" where
  "billing_redis env = \<lparr>ro_url = bc_redisUrl (billing_appConfig env), ro_lazyConnect = False, ro_maxRetriesPerRequest = 3,
     ro_enableReadyCheck = True\<rparr>"

text \<open>The signing options of the other two services' \<^verbatim>\<open>JwtModule\<close>, which verify and never sign.\<close>

definition tenant_jwtModule :: "process_env \<Rightarrow> string \<times> string" where
  "tenant_jwtModule env = (tc_jwtSecret (tenant_appConfig env), tc_jwtExpiry (tenant_appConfig env))"

definition billing_jwtModule :: "process_env \<Rightarrow> string \<times> string" where
  "billing_jwtModule env = (bc_jwtSecret (billing_appConfig env), bc_jwtExpiry (billing_appConfig env))"

text \<open>One environment gives all services the same Redis and the same token options.\<close>

lemma shared_infrastructure:
  "ro_url (tenant_redis env) = ic_redisUrl (identity_appConfig env)" "ro_url (billing_redis env) = ic_redisUrl (identity_appConfig env)"
  "tenant_jwtModule env = billing_jwtModule env"
  "tenant_jwtModule env = (ic_jwtSecret (identity_appConfig env), ic_jwtExpiry (identity_appConfig env))"
  by (simp_all add: tenant_redis_def billing_redis_def tenant_jwtModule_def billing_jwtModule_def identity_appConfig_def
      tenant_appConfig_def billing_appConfig_def)

end
