(* ===== verification/Sdk_Module.thy ===== *)
theory Sdk_Module
  imports Service_Copies
begin

text \<open>
  \<^verbatim>\<open>packages/chassis-sdk/src/chassis.module.ts\<close>: what a product service gets when it imports the SDK's module.
  The dependency injection of NestJS is not part of the repository; what the module relies on is stated as
  the contract \<open>encapsulated\<close> of its documentation.
\<close>

subsection \<open>The module\<close>

datatype provided = UseValue chassisOptions | UseClass string | UseExisting string

record dynamicModule =
  dm_global :: bool
  dm_providers :: "(string \<times> provided) list"
  dm_exports :: "string list"

definition ChassisModule_forRoot :: "chassisOptions \<Rightarrow> dynamicModule" where
  "ChassisModule_forRoot options =
     \<lparr>dm_global = True,
      dm_providers =
        [(''CHASSIS_OPTIONS'', UseValue options),
         (''FeatureFlagService'', UseClass ''FeatureFlagService''),
         (''AuditPublisherService'', UseClass ''AuditPublisherService''),
         (''InternalHttpService'', UseClass ''InternalHttpService''),
         (''APP_GUARD'', UseClass ''JwtAuthGuard''),
         (''FEATURE_FLAG_CHECKER'', UseExisting ''FeatureFlagService''),
         (''AUDIT_PUBLISHER'', UseExisting ''AuditPublisherService'')],
      dm_exports = [''CHASSIS_OPTIONS'', ''FeatureFlagService'', ''AuditPublisherService'', ''InternalHttpService'']\<rparr>"

text \<open>Guards and interceptors registered for every route of the application.\<close>

definition enhancers :: "string \<Rightarrow> dynamicModule \<Rightarrow> string list" where
  "enhancers token m = [c. (t, p) \<leftarrow> dm_providers m, t = token, c \<leftarrow> (case p of UseClass c \<Rightarrow> [c] | _ \<Rightarrow> [])]"

text \<open>
  What a class of another module is given for a token of this one. The documentation of NestJS: a
  provider is encapsulated in its module unless it is exported, global modules included; an exported one
  is the provider registered for the token. An \<^verbatim>\<open>@Optional()\<close> parameter that finds no provider is undefined.
\<close>

type_synonym injector = "dynamicModule \<Rightarrow> string \<Rightarrow> provided option"

definition encapsulated :: "injector \<Rightarrow> bool" where
  "encapsulated inject \<longleftrightarrow> (\<forall>m token.
     inject m token = (if dm_global m \<and> token \<in> set (dm_exports m) then map_of (dm_providers m) token else None))"

subsection \<open>A product service\<close>

text \<open>A route with \<^verbatim>\<open>@RequireFeature(code)\<close> behind \<^verbatim>\<open>@UseGuards(FeatureGateGuard)\<close>: the middleware of the
  module, its global guard, then the gate with the checker it is given.\<close>

definition product_gate ::
  "injector \<Rightarrow> chassisOptions \<Rightarrow> string option \<Rightarrow> (string option \<Rightarrow> string \<Rightarrow> 's \<Rightarrow> bool \<times> 's) \<Rightarrow> headers \<Rightarrow> 's \<Rightarrow>
    bool result \<times> 's" where
  "product_gate inject options featureCode checker h s =
     sdk_FeatureGateGuard featureCode
       (map_option (\<lambda>_. checker) (inject (ChassisModule_forRoot options) ''FEATURE_FLAG_CHECKER'')) h s"

definition product_request ::
  "injector \<Rightarrow> chassisOptions \<Rightarrow> bool \<Rightarrow> string option \<Rightarrow> (string option \<Rightarrow> string \<Rightarrow> 's \<Rightarrow> bool \<times> 's) \<Rightarrow> string \<Rightarrow>
    headers \<Rightarrow> 's \<Rightarrow> bool result \<times> 's" where
  "product_request inject options isPublic featureCode checker fresh h s =
     (case sdk_configure fresh h of (h1, context) \<Rightarrow>
        (case sdk_JwtAuthGuard isPublic h1 of
           Inl x \<Rightarrow> (Inl x, s)
         | Inr _ \<Rightarrow> product_gate inject options featureCode checker h1 s))"

definition product_audit ::
  "injector \<Rightarrow> chassisOptions \<Rightarrow> string option \<Rightarrow> string \<Rightarrow> instant \<Rightarrow> headers \<Rightarrow> json \<Rightarrow> thrown + json \<Rightarrow> bus \<Rightarrow>
    (thrown + json) \<times> bus" where
  "product_audit inject options auditAction className now h body result b =
     sdk_audit
       (case inject (ChassisModule_forRoot options) ''CHASSIS_OPTIONS'' of Some (UseValue opts) \<Rightarrow> Some opts | _ \<Rightarrow> None)
       (inject (ChassisModule_forRoot options) ''AUDIT_PUBLISHER'' \<noteq> None) auditAction className now h body result b"

lemma module_tokens:
  assumes "encapsulated inject"
  shows "inject (ChassisModule_forRoot options) ''CHASSIS_OPTIONS'' = Some (UseValue options)"
    "inject (ChassisModule_forRoot options) ''FeatureFlagService'' = Some (UseClass ''FeatureFlagService'')"
    "inject (ChassisModule_forRoot options) ''FEATURE_FLAG_CHECKER'' = None"
    "inject (ChassisModule_forRoot options) ''AUDIT_PUBLISHER'' = None"
  using assms by (simp_all add: encapsulated_def ChassisModule_forRoot_def)

text \<open>The gate of a product service never asks: the module provides the checker and does not export it, so
  that the guard, built in the module of its controller, finds none. A request passes exactly when it
  carries the gateway's identity, whatever feature the route requires and whatever the tenant has.\<close>

lemma feature_gate_not_wired:
  assumes "encapsulated inject"
  shows "product_request inject options isPublic featureCode checker fresh h s =
    (if isPublic \<or> truthy (h ''x-user-id'') then (Inr True, s)
     else (Inl (Unauthorized ''Missing gateway identity headers''), s))"
proof -
  have "product_gate inject options featureCode checker h1 s = (Inr True, s)" for h1
    by (simp add: product_gate_def module_tokens [OF assms] sdk_FeatureGateGuard_def)
  moreover have "RequestIdMiddleware fresh h ''x-user-id'' = h ''x-user-id''"
    by (simp add: RequestIdMiddleware_def)
  ultimately show ?thesis
    by (simp add: product_request_def sdk_configure_def Let_def sdk_JwtAuthGuard_def)
qed

text \<open>Nor is anything audited.\<close>

lemma audit_not_wired:
  assumes "encapsulated inject"
  shows "product_audit inject options auditAction className now h body result b = (result, b)"
  by (simp add: product_audit_def module_tokens [OF assms] sdk_audit_def)

text \<open>Had the module exported the checker, the gate would refuse what the flag service refuses.\<close>

lemma exported_checker_refuses:
  assumes "inject (ChassisModule_forRoot options) ''FEATURE_FLAG_CHECKER'' = Some p" "featureCode \<noteq> []"
    and "checker (h ''x-tenant-id'') featureCode s = (False, s')"
  shows "\<exists>x. product_gate inject options (Some featureCode) checker h s = (Inl x, s')"
  using assms by (simp add: product_gate_def sdk_FeatureGateGuard_def)

text \<open>The options mount nothing: for all of them the only global guard is the one that demands the
  gateway's headers, and there is no global interceptor.\<close>

lemma options_mount_nothing:
  "enhancers ''APP_GUARD'' (ChassisModule_forRoot options) = [''JwtAuthGuard'']"
  "enhancers ''APP_INTERCEPTOR'' (ChassisModule_forRoot options) = []"
  by (simp_all add: enhancers_def ChassisModule_forRoot_def)

text \<open>The contract can be met.\<close>

lemma encapsulated_instance:
  "encapsulated (\<lambda>m token. if dm_global m \<and> token \<in> set (dm_exports m) then map_of (dm_providers m) token else None)"
  by (simp add: encapsulated_def)

end
