(* ===== verification/Async_Processes.thy ===== *)
theory Async_Processes
  imports Chassis_Prelude
begin

text \<open>
  Asynchronous handlers. A handler of the services is an \<^verbatim>\<open>async\<close> function: it runs without
  interruption up to an \<^verbatim>\<open>await\<close>, and other requests run before it resumes. Here a handler is a tree
  of steps on the shared state (\<open>proc\<close>); the requests in flight form a pool in which one of them at
  a time advances by one step. The rely-guarantee rules show what every interleaving keeps, and a
  request that gets its turn again and again finishes.
\<close>

subsection \<open>Handlers as trees of steps\<close>

datatype ('s, 'a) proc = Done 'a | Await "'s \<Rightarrow> ('s, 'a) proc \<times> 's"

primrec bind_proc :: "('s, 'a) proc \<Rightarrow> ('a \<Rightarrow> ('s, 'b) proc) \<Rightarrow> ('s, 'b) proc" where
  "bind_proc (Done a) f = f a"
| "bind_proc (Await g) f = Await (\<lambda>s. map_prod (\<lambda>p. bind_proc p f) id (g s))"

text \<open>The handler with no other request in between.\<close>

primrec run_proc :: "('s, 'a) proc \<Rightarrow> 's \<Rightarrow> 'a \<times> 's" where
  "run_proc (Done a) = (\<lambda>s. (a, s))"
| "run_proc (Await g) = (\<lambda>s. (\<lambda>(f, s'). f s') (map_prod run_proc id (g s)))"

definition atomically :: "('s \<Rightarrow> 'a \<times> 's) \<Rightarrow> ('s, 'a) proc" where
  "atomically f = Await (\<lambda>s. map_prod Done id (f s))"

text \<open>A query, a write, and an insert that the constraints may refuse.\<close>

definition reading :: "('s \<Rightarrow> 'a) \<Rightarrow> ('s, 'a result) proc" where
  "reading f = atomically (\<lambda>s. (Inr (f s), s))"

definition writing :: "('s \<Rightarrow> 's) \<Rightarrow> ('s, unit result) proc" where
  "writing f = atomically (\<lambda>s. (Inr (), f s))"

definition inserting :: "('s \<Rightarrow> 's result) \<Rightarrow> 'a \<Rightarrow> ('s, 'a result) proc" where
  "inserting ins a = atomically (\<lambda>s. case ins s of Inl x \<Rightarrow> (Inl x, s) | Inr s' \<Rightarrow> (Inr a, s'))"

text \<open>Sequencing that stops at an exception, and a catch clause.\<close>

definition bind_ok :: "('s, 'a result) proc \<Rightarrow> ('a \<Rightarrow> ('s, 'b result) proc) \<Rightarrow> ('s, 'b result) proc" where
  "bind_ok p f = bind_proc p (case_sum (\<lambda>x. Done (Inl x)) f)"

definition catch_with :: "('s, 'a result) proc \<Rightarrow> (exn \<Rightarrow> ('s, 'a result) proc) \<Rightarrow> ('s, 'a result) proc" where
  "catch_with p h = bind_proc p (case_sum h (\<lambda>a. Done (Inr a)))"

lemma proc_induct [case_names Done Await]:
  assumes "\<And>a. P (Done a)" and "\<And>g. (\<And>s. P (fst (g s))) \<Longrightarrow> P (Await g)"
  shows "P p"
proof (induction p)
  case (Await g)
  then show ?case by (intro assms(2)) (metis UNIV_I fsts.intros prod.collapse rangeI)
qed (rule assms(1))

lemma run_bind: "run_proc (bind_proc p f) s = (let (a, s') = run_proc p s in run_proc (f a) s')"
proof (induction p arbitrary: s rule: proc_induct)
  case (Await g)
  from Await [of s] show ?case by (cases "g s") simp
qed simp

lemma run_atomically [simp]: "run_proc (atomically f) = f"
  by (simp add: atomically_def case_prod_beta fun_eq_iff)

lemma run_reading [simp]: "run_proc (reading f) s = (Inr (f s), s)"
  by (simp add: reading_def)

lemma run_writing [simp]: "run_proc (writing f) s = (Inr (), f s)"
  by (simp add: writing_def)

lemma run_inserting [simp]:
  "run_proc (inserting ins a) s = (case ins s of Inl x \<Rightarrow> (Inl x, s) | Inr s' \<Rightarrow> (Inr a, s'))"
  by (simp add: inserting_def)

lemma run_bind_ok [simp]: "run_proc (bind_ok p f) s = and_then (run_proc p s) (\<lambda>a. run_proc (f a))"
  by (simp add: bind_ok_def run_bind and_then_def split: prod.split sum.split)

lemma run_catch [simp]:
  "run_proc (catch_with p h) s =
     (case run_proc p s of (Inl x, s') \<Rightarrow> run_proc (h x) s' | (Inr a, s') \<Rightarrow> (Inr a, s'))"
  by (simp add: catch_with_def run_bind split: prod.split sum.split)

subsection \<open>Requests in flight\<close>

type_synonym ('r, 's, 'a) pool = "('r \<times> ('s, 'a) proc) list"

fun advance :: "nat \<Rightarrow> ('r, 's, 'a) pool \<times> 's \<Rightarrow> ('r, 's, 'a) pool \<times> 's" where
  "advance i (ps, s) =
     (if i < length ps
      then case ps ! i of
             (r, Done a) \<Rightarrow> (ps, s)
           | (r, Await g) \<Rightarrow> (let (p, s') = g s in (ps[i := (r, p)], s'))
      else (ps, s))"

lemma length_advance: "length (fst (advance i c)) = length (fst c)"
  by (cases c) (auto split: prod.split proc.split simp: Let_def)

text \<open>From the requests in flight and the state of \<open>c0\<close> on, requests arrive at any time and advance in
  any order.\<close>

inductive interleaved ::
  "('r \<Rightarrow> ('s, 'a) proc) \<Rightarrow> ('r, 's, 'a) pool \<times> 's \<Rightarrow> ('r, 's, 'a) pool \<times> 's \<Rightarrow> bool" for start c0 where
  none: "interleaved start c0 c0"
| arrive: "interleaved start c0 (ps, s) \<Longrightarrow> interleaved start c0 (ps @ [(r, start r)], s)"
| turn: "interleaved start c0 c \<Longrightarrow> interleaved start c0 (advance i c)"

text \<open>A request that is never interrupted ends as its handler alone does.\<close>

lemma advance_last: "\<exists>n. (advance (length ps) ^^ n) (ps @ [(r, p)], s) =
    (ps @ [(r, Done (fst (run_proc p s)))], snd (run_proc p s))"
proof (induction p arbitrary: s rule: proc_induct)
  case (Done a)
  show ?case by (rule exI [of _ 0]) simp
next
  case (Await g)
  obtain p' s' where g: "g s = (p', s')" by (cases "g s")
  from Await [of s s'] obtain n where
    n: "(advance (length ps) ^^ n) (ps @ [(r, p')], s') = (ps @ [(r, Done (fst (run_proc p' s')))], snd (run_proc p' s'))"
    by (auto simp: g)
  show ?case by (rule exI [of _ "Suc n"]) (simp add: funpow_swap1 g n)
qed

lemma interleaved_funpow: "interleaved start c0 c \<Longrightarrow> interleaved start c0 ((advance i ^^ n) c)"
  by (induction n) (simp_all add: turn)

lemma interleaved_schedule:
  "interleaved start c0 c \<Longrightarrow> interleaved start c0 (foldl (\<lambda>c i. advance i c) c turns)"
  by (induction turns arbitrary: c) (simp_all add: turn)

lemma interleaved_alone:
  assumes "interleaved start c0 (ps, s)"
  shows "interleaved start c0 (ps @ [(r, Done (fst (run_proc (start r) s)))], snd (run_proc (start r) s))"
proof -
  obtain n where n: "(advance (length ps) ^^ n) (ps @ [(r, start r)], s) =
      (ps @ [(r, Done (fst (run_proc (start r) s)))], snd (run_proc (start r) s))"
    using advance_last [of ps r "start r" s] by (elim exE)
  from interleaved_funpow [OF arrive [OF assms, of r], where i = "length ps" and n = n] show ?thesis
    by (simp only: n)
qed

text \<open>Concrete runs: the requests of a list arrive one after the other and advance in the given order.\<close>

definition arrivals :: "('r \<Rightarrow> ('s, 'a) proc) \<Rightarrow> 'r list \<Rightarrow> ('r, 's, 'a) pool" where
  "arrivals start rs = map (\<lambda>r. (r, start r)) rs"

definition replay :: "('r \<Rightarrow> ('s, 'a) proc) \<Rightarrow> 'r list \<Rightarrow> nat list \<Rightarrow> ('r, 's, 'a) pool \<times> 's \<Rightarrow> ('r, 's, 'a) pool \<times> 's" where
  "replay start rs turns c = foldl (\<lambda>c i. advance i c) (fst c @ arrivals start rs, snd c) turns"

lemma arrivals_interleaved: "interleaved start c (fst c @ arrivals start rs, snd c)"
proof (induction rs rule: rev_induct)
  case Nil
  show ?case by (simp add: arrivals_def interleaved.none)
next
  case (snoc r rs)
  then show ?case using interleaved.arrive [of start c "fst c @ arrivals start rs" "snd c" r] by (simp add: arrivals_def)
qed

lemma replay_interleaved: "interleaved start c (replay start rs turns c)"
  unfolding replay_def by (rule interleaved_schedule [OF arrivals_interleaved])

subsection \<open>What every interleaving keeps\<close>

text \<open>
  \<open>meets I R Q p s\<close>: from \<open>s\<close> on, whatever the others do within \<open>R\<close>, every step of \<open>p\<close> keeps the
  invariant \<open>I\<close> and stays within \<open>R\<close> itself, and a result satisfies \<open>Q\<close>.
\<close>

primrec meets :: "('s \<Rightarrow> bool) \<Rightarrow> ('s \<Rightarrow> 's \<Rightarrow> bool) \<Rightarrow> ('a \<Rightarrow> 's \<Rightarrow> bool) \<Rightarrow> ('s, 'a) proc \<Rightarrow> 's \<Rightarrow> bool" where
  "meets I R Q (Done a) = (\<lambda>s. Q a s)"
| "meets I R Q (Await g) = (\<lambda>s0. \<forall>s. R s0 s \<longrightarrow> I s \<longrightarrow>
     I (snd (g s)) \<and> R s (snd (g s)) \<and> fst (map_prod (meets I R Q) id (g s)) (snd (g s)))"

locale shared_state =
  fixes inv :: "'s \<Rightarrow> bool" and rely :: "'s \<Rightarrow> 's \<Rightarrow> bool"
  assumes rely_refl: "rely s s" and rely_trans: "rely s s' \<Longrightarrow> rely s' s'' \<Longrightarrow> rely s s''"
begin

lemma meets_later:
  assumes "meets inv rely Q p s" "rely s s'" "\<And>a s s'. rely s s' \<Longrightarrow> Q a s \<Longrightarrow> Q a s'"
  shows "meets inv rely Q p s'"
  using assms by (cases p) (auto intro: rely_trans)

lemma meets_weaken:
  assumes "meets inv rely Q p s" "\<And>a s. Q a s \<Longrightarrow> Q' a s"
  shows "meets inv rely Q' p s"
  using assms(1)
proof (induction p arbitrary: s rule: proc_induct)
  case (Await g)
  then show ?case by (simp add: fst_map_prod)
qed (simp add: assms(2))

lemma meets_bind:
  assumes "meets inv rely Q p s0" "inv s0"
    and "\<And>a s. inv s \<Longrightarrow> rely s0 s \<Longrightarrow> Q a s \<Longrightarrow> meets inv rely Q' (f a) s"
  shows "meets inv rely Q' (bind_proc p f) s0"
  using assms
proof (induction p arbitrary: s0 rule: proc_induct)
  case (Done a)
  then show ?case by (simp add: rely_refl)
next
  case (Await g)
  have "inv (snd (g s)) \<and> rely s (snd (g s)) \<and> meets inv rely Q' (bind_proc (fst (g s)) f) (snd (g s))"
    if s: "rely s0 s" "inv s" for s
  proof -
    from Await.prems(1) s have g: "inv (snd (g s))" "rely s (snd (g s))" "meets inv rely Q (fst (g s)) (snd (g s))"
      by (auto simp: fst_map_prod)
    moreover have "meets inv rely Q' (bind_proc (fst (g s)) f) (snd (g s))"
      by (rule Await.IH [OF g(3,1)]) (auto intro: Await.prems(3) rely_trans s(1) g(2))
    ultimately show ?thesis by blast
  qed
  then show ?case by (simp add: fst_map_prod)
qed

lemma meets_atomically:
  assumes "\<And>s. rely s0 s \<Longrightarrow> inv s \<Longrightarrow> inv (snd (f s)) \<and> rely s (snd (f s)) \<and> Q (fst (f s)) (snd (f s))"
  shows "meets inv rely Q (atomically f) s0"
  using assms by (auto simp: atomically_def fst_map_prod)

lemma meets_bind_ok:
  assumes "meets inv rely (\<lambda>r s. case r of Inl x \<Rightarrow> Q' (Inl x) s | Inr a \<Rightarrow> Q a s) p s0" "inv s0"
    and "\<And>a s. inv s \<Longrightarrow> rely s0 s \<Longrightarrow> Q a s \<Longrightarrow> meets inv rely Q' (f a) s"
  shows "meets inv rely Q' (bind_ok p f) s0"
  unfolding bind_ok_def by (rule meets_bind [OF assms(1,2)]) (auto split: sum.splits intro: assms(3))

text \<open>A part whose result does not matter.\<close>

lemma meets_then:
  assumes "meets inv rely (\<lambda>_ _. True) p s0" "inv s0" "\<And>x s. Q (Inl x) s"
    and "\<And>a s. inv s \<Longrightarrow> rely s0 s \<Longrightarrow> meets inv rely Q (f a) s"
  shows "meets inv rely Q (bind_ok p f) s0"
  unfolding bind_ok_def
  by (rule meets_bind [OF assms(1,2)]) (auto split: sum.splits intro: assms(3,4))

lemma meets_catch:
  assumes "meets inv rely (\<lambda>r s. case r of Inl x \<Rightarrow> Q x s | Inr a \<Rightarrow> Q' (Inr a) s) p s0" "inv s0"
    and "\<And>x s. inv s \<Longrightarrow> rely s0 s \<Longrightarrow> Q x s \<Longrightarrow> meets inv rely Q' (h x) s"
  shows "meets inv rely Q' (catch_with p h) s0"
  unfolding catch_with_def by (rule meets_bind [OF assms(1,2)]) (auto split: sum.splits intro: assms(3))

end

text \<open>A service: how a request starts, and what its answer promises from then on.\<close>

locale async_service = shared_state inv rely
  for inv :: "'s \<Rightarrow> bool" and rely :: "'s \<Rightarrow> 's \<Rightarrow> bool" +
  fixes start :: "'r \<Rightarrow> ('s, 'a) proc" and answered :: "'r \<Rightarrow> 'a \<Rightarrow> 's \<Rightarrow> bool"
  assumes start_meets: "inv s \<Longrightarrow> meets inv rely (answered r) (start r) s"
    and answered_stable: "rely s s' \<Longrightarrow> answered r a s \<Longrightarrow> answered r a s'"
begin

definition fulfils :: "('r \<Rightarrow> 'a \<Rightarrow> 's \<Rightarrow> bool) \<Rightarrow> ('r, 's, 'a) pool \<times> 's \<Rightarrow> nat \<Rightarrow> bool" where
  "fulfils Q c i \<longleftrightarrow> (case fst c ! i of (r, p) \<Rightarrow> meets inv rely (Q r) p (snd c))"

definition pool_ok :: "('r, 's, 'a) pool \<times> 's \<Rightarrow> bool" where
  "pool_ok c \<longleftrightarrow> inv (snd c) \<and> (\<forall>i < length (fst c). fulfils answered c i)"

lemma pool_ok_empty: "inv s \<Longrightarrow> pool_ok ([], s)"
  by (simp add: pool_ok_def)

lemma advance_state:
  assumes "pool_ok c"
  shows "inv (snd (advance i c)) \<and> rely (snd c) (snd (advance i c))"
proof (cases "\<exists>r g. i < length (fst c) \<and> fst c ! i = (r, Await g)")
  case True
  then obtain r g where i: "i < length (fst c)" "fst c ! i = (r, Await g)" by auto
  then have "meets inv rely (answered r) (Await g) (snd c)" "inv (snd c)"
    using assms by (auto simp: pool_ok_def fulfils_def)
  then have "inv (snd (g (snd c)))" "rely (snd c) (snd (g (snd c)))" using rely_refl by auto
  moreover have "snd (advance i c) = snd (g (snd c))" using i by (cases c) (simp add: case_prod_beta)
  ultimately show ?thesis by simp
next
  case False
  then have "advance i c = c" by (cases c; cases "fst c ! i"; cases "snd (fst c ! i)") auto
  with assms show ?thesis by (simp add: pool_ok_def rely_refl)
qed

lemma advance_fulfils:
  assumes "pool_ok c" "fulfils Q c i" "i < length (fst c)"
    and stable: "\<And>r a s s'. rely s s' \<Longrightarrow> Q r a s \<Longrightarrow> Q r a s'"
  shows "fulfils Q (advance j c) i"
proof (cases "\<exists>r g. j = i \<and> fst c ! i = (r, Await g)")
  case True
  then obtain r g where j: "j = i" "fst c ! i = (r, Await g)" by auto
  then have "meets inv rely (Q r) (Await g) (snd c)" "inv (snd c)"
    using assms by (auto simp: pool_ok_def fulfils_def)
  then have "meets inv rely (Q r) (fst (g (snd c))) (snd (g (snd c)))" using rely_refl by auto
  with j assms(3) show ?thesis by (cases c) (simp add: fulfils_def case_prod_beta)
next
  case False
  then have "fst (advance j c) ! i = fst c ! i"
    by (cases c; cases "fst c ! j"; cases "snd (fst c ! j)"; cases "j = i") (auto simp: Let_def case_prod_beta)
  with assms(2) show ?thesis
    using advance_state [OF assms(1), of j] stable
    by (auto simp: fulfils_def intro: meets_later split: prod.split)
qed

lemma advance_ok: "pool_ok c \<Longrightarrow> pool_ok (advance i c)"
  using advance_state [of c i] advance_fulfils [of c answered _ i] answered_stable
  by (auto simp: pool_ok_def length_advance)

lemma fulfils_append [simp]:
  "i < length ps \<Longrightarrow> fulfils Q (ps @ [x], s) i = fulfils Q (ps, s) i"
  "fulfils Q (ps @ [(r, p)], s) (length ps) = meets inv rely (Q r) p s"
  by (simp_all add: fulfils_def nth_append)

lemma interleaved_ok: "interleaved start c0 c \<Longrightarrow> pool_ok c0 \<Longrightarrow> pool_ok c \<and> rely (snd c0) (snd c)"
proof (induction rule: interleaved.induct)
  case none
  then show ?case by (simp add: rely_refl)
next
  case (arrive ps s r)
  then show ?case using start_meets [of s r] by (auto simp: pool_ok_def less_Suc_eq)
next
  case (turn c i)
  then show ?case using advance_ok [of c i] advance_state [of c i] by (auto intro: rely_trans)
qed

lemma interleaved_keeps:
  assumes "interleaved start c0 (ps, s)" "pool_ok c0"
  shows "inv s" "rely (snd c0) s" "(r, Done a) \<in> set ps \<Longrightarrow> answered r a s"
proof -
  have ok: "pool_ok (ps, s) \<and> rely (snd c0) s" using interleaved_ok [OF assms] by simp
  then show "inv s" "rely (snd c0) s" by (simp_all add: pool_ok_def)
  assume "(r, Done a) \<in> set ps"
  then obtain i where "i < length ps" "ps ! i = (r, Done a)" by (auto simp: in_set_conv_nth)
  with ok show "answered r a s" by (auto simp: pool_ok_def fulfils_def)
qed

text \<open>What a request promises that arrives once \<open>J\<close> holds for good.\<close>

lemma late_arrivals:
  assumes run: "interleaved start c0 c" and ok: "pool_ok c0" and J: "J (snd c0)"
    and J_stable: "\<And>s s'. rely s s' \<Longrightarrow> J s \<Longrightarrow> J s'"
    and stable: "\<And>r a s s'. rely s s' \<Longrightarrow> Q r a s \<Longrightarrow> Q r a s'"
    and starts: "\<And>r s. inv s \<Longrightarrow> J s \<Longrightarrow> meets inv rely (Q r) (start r) s"
  shows "\<forall>i. length (fst c0) \<le> i \<longrightarrow> i < length (fst c) \<longrightarrow> fulfils Q c i"
  using run
proof (induction rule: interleaved.induct)
  case (arrive ps s r)
  have "inv s" "J s" using interleaved_ok [OF arrive(1) ok] J J_stable by (auto simp: pool_ok_def)
  with arrive.IH starts show ?case by (auto simp: less_Suc_eq)
next
  case (turn c j)
  then show ?case
    using interleaved_ok [OF turn(1) ok] stable by (auto simp: length_advance intro!: advance_fulfils)
qed simp

end

subsection \<open>Requests that get their turn finish\<close>

primrec scheduled :: "(nat \<Rightarrow> nat) \<Rightarrow> ('r, 's, 'a) pool \<times> 's \<Rightarrow> nat \<Rightarrow> ('r, 's, 'a) pool \<times> 's" where
  "scheduled turns c 0 = c"
| "scheduled turns c (Suc n) = advance (turns n) (scheduled turns c n)"

lemma length_scheduled [simp]: "length (fst (scheduled turns c n)) = length (fst c)"
  by (induction n) (simp_all add: length_advance)

lemma advance_other: "i \<noteq> j \<Longrightarrow> fst (advance i c) ! j = fst c ! j"
  by (cases c) (auto split: prod.split proc.split simp: Let_def)

lemma advance_self:
  "i < length (fst c) \<Longrightarrow> fst c ! i = (r, Await g) \<Longrightarrow> fst (advance i c) ! i = (r, fst (g (snd c)))"
  by (cases c) (auto split: prod.split simp: Let_def)

lemma scheduled_waits:
  "n \<le> m \<Longrightarrow> (\<And>k. n \<le> k \<Longrightarrow> k < m \<Longrightarrow> turns k \<noteq> i) \<Longrightarrow>
     fst (scheduled turns c m) ! i = fst (scheduled turns c n) ! i"
  by (induction rule: dec_induct) (simp_all add: advance_other)

lemma fair_finishes:
  assumes fair: "\<And>n. \<exists>m \<ge> n. turns m = i" and i: "i < length (fst c)"
    and "fst (scheduled turns c n) ! i = (r, p)"
  shows "\<exists>m a. fst (scheduled turns c m) ! i = (r, Done a)"
  using assms(3)
proof (induction p arbitrary: n rule: proc_induct)
  case (Await g)
  define m where "m = (LEAST m. n \<le> m \<and> turns m = i)"
  have m: "n \<le> m" "turns m = i"
    using LeastI_ex [of "\<lambda>m. n \<le> m \<and> turns m = i"] fair [of n] unfolding m_def by auto
  have "turns k \<noteq> i" if "n \<le> k" "k < m" for k
    using not_less_Least [of k "\<lambda>m. n \<le> m \<and> turns m = i"] that unfolding m_def by auto
  with m(1) have "fst (scheduled turns c m) ! i = (r, Await g)"
    using scheduled_waits [of n m turns i c] Await.prems by simp
  then have "fst (scheduled turns c (Suc m)) ! i = (r, fst (g (snd (scheduled turns c m))))"
    using advance_self [of i "scheduled turns c m" r g] i m(2) by simp
  then show ?case by (rule Await.IH)
qed blast

subsection \<open>Restricted requests\<close>

text \<open>A run in which only requests of \<open>P\<close> arrive.\<close>

definition only :: "('r \<Rightarrow> bool) \<Rightarrow> 'a \<Rightarrow> ('r \<Rightarrow> ('s, 'a) proc) \<Rightarrow> 'r \<Rightarrow> ('s, 'a) proc" where
  "only P d start r = (if P r then start r else Done d)"

definition arrived :: "('r, 's, 'a) pool \<times> 's \<Rightarrow> ('r, 's, 'a) pool \<times> 's \<Rightarrow> 'r list" where
  "arrived c0 c = map fst (drop (length (fst c0)) (fst c))"

lemma requests_advance: "map fst (fst (advance i c)) = map fst (fst c)"
proof (cases c)
  case (Pair ps s)
  have "map fst (ps[i := (r, p)]) = map fst ps" if "fst (ps ! i) = r" for r p
    using that by (cases "i < length ps") (simp_all add: map_update list_update_same_conv list_update_beyond)
  then show ?thesis by (auto simp: Pair Let_def split: prod.split proc.split)
qed

lemma arrived_advance: "arrived c0 (advance i c) = arrived c0 c"
  by (simp add: arrived_def drop_map [symmetric] requests_advance)

lemma interleaved_requests: "interleaved start c0 c \<Longrightarrow> \<exists>rs. map fst (fst c) = map fst (fst c0) @ rs"
  by (induction rule: interleaved.induct) (auto simp: requests_advance)

lemma interleaved_only:
  assumes "interleaved start c0 c" "\<forall>r \<in> set (arrived c0 c). P r"
  shows "interleaved (only P d start) c0 c \<and> length (fst c0) \<le> length (fst c)"
  using assms
proof (induction rule: interleaved.induct)
  case none
  then show ?case by (simp add: interleaved.none)
next
  case (arrive ps s r)
  then have "interleaved (only P d start) c0 (ps, s)" "length (fst c0) \<le> length ps" "P r"
    by (auto simp: arrived_def)
  moreover from this(3) have "only P d start r = start r" by (simp add: only_def)
  ultimately show ?case using interleaved.arrive [of "only P d start" c0 ps s r] by simp
next
  case (turn c i)
  then show ?case by (simp add: arrived_advance length_advance interleaved.turn)
qed

text \<open>A process keeps what its rely keeps.\<close>

lemma meets_and:
  assumes "meets I R Q p s" and stable: "\<And>s s'. R s s' \<Longrightarrow> J s \<Longrightarrow> J s'"
  shows "meets (\<lambda>s. I s \<and> J s) R Q p s"
  using assms(1)
proof (induction p arbitrary: s rule: proc_induct)
  case (Await g)
  have "J (snd (g s'))" if "R s s'" "I s'" "J s'" for s'
    using that Await.prems stable [of s' "snd (g s')"] by auto
  with Await show ?case by (simp add: fst_map_prod)
qed simp

end
