(* ===== verification/Billing_Async.thy ===== *)
theory Billing_Async
  imports Billing_Payments Async_Processes
begin

text \<open>
  The handlers of the billing engine that write, with their \<^verbatim>\<open>await\<close>s: every statement sent to the
  database, every call of Stripe and every publication is a step of its own, and the rows a handler
  has loaded may be out of date when it saves them. Alone a handler computes what the sequential
  definitions of \<open>Billing_Webhooks\<close> say; the rest shows what holds when webhook requests and
  provisioning messages are handled at the same time.
\<close>

subsection \<open>Services\<close>

definition stmt :: "be_env \<Rightarrow> statement \<Rightarrow> (be_state \<Rightarrow> 'a result \<times> be_state) \<Rightarrow> (be_state, 'a result) proc" where
  "stmt e st f = atomically (on_db e st f)"

definition subs_create_async :: "be_env \<Rightarrow> createSubscriptionDto \<Rightarrow> (be_state, subscription result) proc" where
  "subs_create_async e dto =
     bind_ok (atomically (find_by_tenant e (cs_tenantId dto))) (\<lambda>existing.
       case existing of
         Some _ \<Rightarrow> Done (Inl (Conflict (''Subscription already exists for tenant '' @ cs_tenantId dto)))
       | None \<Rightarrow> stmt e SubWrite (insert_subscription (new_subscription e dto)))"

definition updateFromStripe_async :: "be_env \<Rightarrow> updateFromStripeDto \<Rightarrow> (be_state, unit result) proc" where
  "updateFromStripe_async e dto =
     bind_ok (stmt e SubFind (\<lambda>s.
         (Inr (find (\<lambda>r. sb_stripeSubscriptionId r = Some (us_stripeSubscriptionId dto)) (subRows s)), s))) (\<lambda>sub.
       case sub of
         None \<Rightarrow> Done (Inr ())
       | Some r \<Rightarrow> stmt e SubWrite (save_subscription (be_now e) (patch_subscription dto r)))"

definition linkStripeSubscription_async ::
    "be_env \<Rightarrow> string \<Rightarrow> string \<Rightarrow> string \<Rightarrow> instant \<Rightarrow> instant \<Rightarrow> (be_state, unit result) proc" where
  "linkStripeSubscription_async e customerId subscriptionId status periodStart periodEnd =
     bind_ok (atomically (findByStripeCustomerId e customerId)) (\<lambda>sub.
       case sub of
         None \<Rightarrow> Done (Inr ())
       | Some r \<Rightarrow> stmt e SubWrite (save_subscription (be_now e)
           (r\<lparr>sb_stripeSubscriptionId := Some subscriptionId, sb_status := status,
              sb_currentPeriodStart := Some periodStart, sb_currentPeriodEnd := Some periodEnd\<rparr>)))"

definition upsertFromStripe_async :: "be_env \<Rightarrow> createInvoiceDto \<Rightarrow> (be_state, invoice result) proc" where
  "upsertFromStripe_async e dto =
     bind_ok (stmt e InvFind (\<lambda>s. (Inr (find_invoice (ci_stripeInvoiceId dto) s), s))) (\<lambda>existing.
       case existing of
         Some r \<Rightarrow> stmt e InvWrite (save_invoice
           (r\<lparr>iv_status := ci_status dto, iv_amountPaid := ci_amountPaid dto,
              iv_paidAt := (case ci_paidAt dto of None \<Rightarrow> iv_paidAt r | d \<Rightarrow> d)\<rparr>))
       | None \<Rightarrow> stmt e InvWrite (insert_invoice (invoice_of e dto)))"

subsection \<open>Handlers\<close>

definition publishSubscriptionStatus_async ::
    "be_env \<Rightarrow> string \<Rightarrow> string \<Rightarrow> string option \<Rightarrow> (be_state, unit result) proc" where
  "publishSubscriptionStatus_async e customerId status plan =
     bind_ok (atomically (findByStripeCustomerId e customerId)) (\<lambda>localSub.
       case localSub of
         None \<Rightarrow> Done (Inr ())
       | Some r \<Rightarrow> atomically (emit_event ''chassis.billing'' ''subscription.status''
           (statusPayload (sb_tenantId r) status plan)))"

definition handleSubscriptionCreated_async :: "be_env \<Rightarrow> stripeSubscription \<Rightarrow> (be_state, unit result) proc" where
  "handleSubscriptionCreated_async e sub =
     (let customerId = customerRef_id (ss_customer sub) in
      bind_ok (linkStripeSubscription_async e customerId (ss_id sub) (ss_status sub)
                 (ss_current_period_start sub * 1000) (ss_current_period_end sub * 1000)) (\<lambda>_.
      bind_ok (publishSubscriptionStatus_async e customerId (ss_status sub) None) (\<lambda>_.
      atomically (emit_event ''chassis.audit'' ''billing.subscription.created'' (createdPayload e sub)))))"

definition handleSubscriptionUpdated_async :: "be_env \<Rightarrow> stripeSubscription \<Rightarrow> (be_state, unit result) proc" where
  "handleSubscriptionUpdated_async e sub =
     bind_ok (updateFromStripe_async e (updatedDto sub)) (\<lambda>_.
     publishSubscriptionStatus_async e (customerRef_id (ss_customer sub)) (ss_status sub) (planCode_of sub))"

definition handleSubscriptionDeleted_async :: "be_env \<Rightarrow> stripeSubscription \<Rightarrow> (be_state, unit result) proc" where
  "handleSubscriptionDeleted_async e sub =
     bind_ok (updateFromStripe_async e (deletedDto sub)) (\<lambda>_.
     publishSubscriptionStatus_async e (customerRef_id (ss_customer sub)) ''canceled'' None)"

definition handleInvoicePaid_async :: "be_env \<Rightarrow> stripeInvoice \<Rightarrow> (be_state, unit result) proc" where
  "handleInvoicePaid_async e sinv =
     bind_ok (atomically (findByStripeCustomerId e (invoice_customer sinv))) (\<lambda>localSub.
       case localSub of
         None \<Rightarrow> Done (Inr ())
       | Some r \<Rightarrow>
           bind_ok (upsertFromStripe_async e (paid_invoice_dto e sinv (sb_tenantId r))) (\<lambda>_.
           bind_ok (atomically (emit_event ''chassis.audit'' ''billing.payment.succeeded''
             (paymentPayload e sinv (sb_tenantId r)))) (\<lambda>_.
           if sb_status r = ''past_due''
           then bind_ok (atomically (updateStatusByTenantId e (sb_tenantId r) ''active'')) (\<lambda>_.
                publishSubscriptionStatus_async e (invoice_customer sinv) ''active'' None)
           else Done (Inr ()))))"

definition handleInvoicePaymentFailed_async :: "be_env \<Rightarrow> stripeInvoice \<Rightarrow> (be_state, unit result) proc" where
  "handleInvoicePaymentFailed_async e sinv =
     bind_ok (atomically (findByStripeCustomerId e (invoice_customer sinv))) (\<lambda>localSub.
       case localSub of
         None \<Rightarrow> Done (Inr ())
       | Some r \<Rightarrow>
           bind_ok (atomically (updateStatusByTenantId e (sb_tenantId r) ''past_due'')) (\<lambda>_.
           publishSubscriptionStatus_async e (invoice_customer sinv) ''past_due'' None))"

definition handleCustomerCreated_async :: "be_env \<Rightarrow> stripeCustomer \<Rightarrow> (be_state, unit result) proc" where
  "handleCustomerCreated_async e customer =
     (if \<not> truthy (sc_metadata_tenantId customer) then Done (Inr ())
      else atomically (linkStripeCustomerId e (the (sc_metadata_tenantId customer)) (sc_id customer)))"

fun processEvent_async :: "be_env \<Rightarrow> eventData \<Rightarrow> (be_state, unit result) proc" where
  "processEvent_async e (SubscriptionCreated sub) = handleSubscriptionCreated_async e sub"
| "processEvent_async e (SubscriptionUpdated sub) = handleSubscriptionUpdated_async e sub"
| "processEvent_async e (SubscriptionDeleted sub) = handleSubscriptionDeleted_async e sub"
| "processEvent_async e (InvoicePaid sinv) = handleInvoicePaid_async e sinv"
| "processEvent_async e (InvoicePaymentFailed sinv) = handleInvoicePaymentFailed_async e sinv"
| "processEvent_async e (CustomerCreated customer) = handleCustomerCreated_async e customer"
| "processEvent_async e (OtherEvent _) = Done (Inr ())"

definition handleWebhook_async :: "be_env \<Rightarrow> string \<Rightarrow> string option \<Rightarrow> (be_state, webhookReply result) proc" where
  "handleWebhook_async e rawBody sig =
     (case constructWebhookEvent e rawBody sig (coalesce (webhookSecret e) []) of
        None \<Rightarrow> Done (Inr SignatureRefused)
      | Some ev \<Rightarrow>
          bind_ok (stmt e WhFind (\<lambda>s. (Inr (find_webhook (ev_id ev) s), s))) (\<lambda>existing.
          if (case existing of None \<Rightarrow> False | Some w \<Rightarrow> we_processed w) then Done (Inr ReceivedDuplicate)
          else
            bind_ok (atomically (upsert_webhook e ev)) (\<lambda>_.
            bind_ok (catch_with
                (bind_ok (processEvent_async e (ev_data ev)) (\<lambda>_. atomically (markProcessed e (ev_id ev))))
                (\<lambda>x. atomically (markError e (ev_id ev) x))) (\<lambda>_.
            Done (Inr Received)))))"

definition provisionSubscription_async :: "be_env \<Rightarrow> tenantProvisioned \<Rightarrow> (be_state, unit result) proc" where
  "provisionSubscription_async e msg =
     bind_ok (atomically (createCustomer e (tp_adminEmail msg) (tp_slug msg) (tp_tenantId msg))) (\<lambda>customerId.
     bind_ok (subs_create_async e (provisionDto msg customerId)) (\<lambda>_.
     atomically (emit_event ''chassis.tenants'' ''billing.synced'' (syncedPayload msg customerId))))"

text \<open>A request to the engine in its environment, and its answer; a consumed message has none.\<close>

datatype be_answer = Answered "webhookReply result" | Consumed

fun be_start :: "be_env \<times> be_event \<Rightarrow> (be_state, be_answer) proc" where
  "be_start (e, Deliver body sig) = bind_proc (handleWebhook_async e body sig) (\<lambda>r. Done (Answered r))"
| "be_start (e, Provisioned msg) = bind_proc (provisionSubscription_async e msg) (\<lambda>_. Done Consumed)"

subsection \<open>Without interruption\<close>

lemma run_stmt [simp]: "run_proc (stmt e st f) = on_db e st f"
  by (simp add: stmt_def fun_eq_iff)

lemma on_db_and_then: "and_then (on_db e st (\<lambda>s. (Inr (g s), s)) s) f = on_db e st (\<lambda>s. f (g s) s) s"
  by (simp add: on_db_def split: option.split)

lemma and_then_cong: "(\<And>a s. f a s = g a s) \<Longrightarrow> and_then p f = and_then p g"
  by (simp add: and_then_def split: prod.split sum.split)

lemma run_subs_create: "run_proc (subs_create_async e dto) s = subs_create e dto s"
  unfolding subs_create_async_def subs_create_def
  by (simp only: run_bind_ok run_atomically) (rule and_then_cong, simp split: option.split)

lemma run_linkStripeSubscription:
  "run_proc (linkStripeSubscription_async e c i st a b) s = linkStripeSubscription e c i st a b s"
  unfolding linkStripeSubscription_async_def linkStripeSubscription_def
  by (simp only: run_bind_ok run_atomically) (rule and_then_cong, simp split: option.split)

lemma run_updateFromStripe: "run_proc (updateFromStripe_async e dto) s = updateFromStripe e dto s"
  unfolding updateFromStripe_async_def updateFromStripe_def run_bind_ok run_stmt on_db_and_then
  by (rule arg_cong [where f = "\<lambda>f. on_db e SubFind f s"]) (auto split: option.split)

lemma run_upsertFromStripe: "run_proc (upsertFromStripe_async e dto) s = upsertFromStripe e dto s"
  unfolding upsertFromStripe_async_def upsertFromStripe_def run_bind_ok run_stmt on_db_and_then
  by (rule arg_cong [where f = "\<lambda>f. on_db e InvFind f s"]) (auto split: option.split)

lemma run_publishStatus: "run_proc (publishSubscriptionStatus_async e c st plan) s = publishSubscriptionStatus e c st plan s"
  unfolding publishSubscriptionStatus_async_def publishSubscriptionStatus_def
  by (simp only: run_bind_ok run_atomically) (rule and_then_cong, simp split: option.split)

lemmas run_services = run_subs_create run_linkStripeSubscription run_updateFromStripe run_upsertFromStripe
  run_publishStatus

lemma run_invoice_handlers:
  "run_proc (handleInvoicePaid_async e sinv) s = handleInvoicePaid e sinv s"
  "run_proc (handleInvoicePaymentFailed_async e sinv) s = handleInvoicePaymentFailed e sinv s"
  unfolding handleInvoicePaid_async_def handleInvoicePaid_def handleInvoicePaymentFailed_async_def
    handleInvoicePaymentFailed_def
  by (simp_all only: run_bind_ok run_atomically)
    (auto simp: run_services intro!: and_then_cong split: option.split)

lemma run_processEvent: "run_proc (processEvent_async e d) s = processEvent e d s"
  by (cases d) (auto simp: run_services run_invoice_handlers Let_def intro!: and_then_cong
      simp: handleSubscriptionCreated_async_def handleSubscriptionCreated_def
      handleSubscriptionUpdated_async_def handleSubscriptionUpdated_def handleSubscriptionDeleted_async_def
      handleSubscriptionDeleted_def handleCustomerCreated_async_def handleCustomerCreated_def)

lemma run_handleWebhook: "run_proc (handleWebhook_async e body sig) s = handleWebhook e body sig s"
  unfolding handleWebhook_async_def handleWebhook_def
  by (auto simp: run_processEvent processAndMark_def intro!: and_then_cong split: option.split sum.split prod.split)

lemma run_provisionSubscription: "run_proc (provisionSubscription_async e msg) s = provisionSubscription e msg s"
  unfolding provisionSubscription_async_def provisionSubscription_def
  by (auto simp: run_services and_then_def split: sum.split prod.split)

lemma run_be_start: "snd (run_proc (be_start (e, ev)) s) = be_handle e ev s"
  by (cases ev) (simp_all add: run_handleWebhook run_bind run_provisionSubscription onTenantProvisioned_def
      case_prod_beta)

text \<open>The billing engine's handlers, with all their interruption points, compute the sequential
  handlers when no other request runs in between: the webhook endpoint answers and stores what the
  sequential one does, and a request of either kind changes the state as the sequential machine does.\<close>

lemma billing_async_refines:
  "run_proc (handleWebhook_async e body sig) s = handleWebhook e body sig s \<and>
   snd (run_proc (be_start (e, ev)) s) = be_handle e ev s"
  by (simp add: run_handleWebhook run_be_start)

text \<open>A sequence of uninterrupted requests is one of the interleavings.\<close>

lemma be_run_interleaved: "be_run s0 s \<Longrightarrow> \<exists>ps. interleaved be_start ([], s0) (ps, s)"
proof (induction rule: be_run.induct)
  case (run_refl s)
  show ?case by (blast intro: interleaved.none)
next
  case (run_step s s' e ev)
  then obtain ps where "interleaved be_start ([], s) (ps, s')" by blast
  from interleaved_alone [OF this, of "(e, ev)"] show ?case by (auto simp: run_be_start)
qed

end
