(* ===== verification/Billing_Interleaving.thy ===== *)
theory Billing_Interleaving
  imports Billing_Async
begin

text \<open>
  Webhook requests and provisioning messages handled at the same time. No row ever loses its
  identity (\<open>be_evolves\<close>); on that the handlers may rely between two of their steps, so that saving a row
  loaded earlier still hits that row, and every step keeps the table constraints. The interface
  \<open>async_service\<close> then gives the invariant of every interleaving and what an answer promises.
\<close>

subsection \<open>What no request takes away\<close>

definition iv_key :: "invoice \<Rightarrow> uuid \<times> string \<times> uuid" where
  "iv_key i = (iv_id i, iv_stripeInvoiceId i, iv_tenantId i)"

definition we_key :: "webhookEvent \<Rightarrow> uuid \<times> string" where
  "we_key w = (we_id w, we_stripeEventId w)"

definition be_evolves :: "be_state \<Rightarrow> be_state \<Rightarrow> bool" where
  "be_evolves s s' \<longleftrightarrow> sb_key ` set (subRows s) \<subseteq> sb_key ` set (subRows s') \<and>
     iv_key ` set (invoiceRows s) \<subseteq> iv_key ` set (invoiceRows s') \<and>
     we_key ` set (webhookRows s) \<subseteq> we_key ` set (webhookRows s')"

interpretation tables: shared_state be_wf be_evolves
proof
  fix s s' s''
  show "be_evolves s s" by (simp add: be_evolves_def)
  show "be_evolves s s' \<Longrightarrow> be_evolves s' s'' \<Longrightarrow> be_evolves s s''"
    unfolding be_evolves_def by (elim conjE, intro conjI) (erule (1) subset_trans)+
qed

abbreviation be_meets :: "('a \<Rightarrow> be_state \<Rightarrow> bool) \<Rightarrow> (be_state, 'a) proc \<Rightarrow> be_state \<Rightarrow> bool" where
  "be_meets \<equiv> meets be_wf be_evolves"

lemma evolves_refl [simp]: "be_evolves s s"
  by (rule tables.rely_refl)

lemma evolves_sub: "be_evolves s s' \<Longrightarrow> sb_key r \<in> sb_key ` set (subRows s) \<Longrightarrow> sb_key r \<in> sb_key ` set (subRows s')"
  by (auto simp: be_evolves_def)

lemma evolves_tenant: "be_evolves s s' \<Longrightarrow> t \<in> sb_tenantId ` set (subRows s) \<Longrightarrow> t \<in> sb_tenantId ` set (subRows s')"
  by (force simp: be_evolves_def sb_key_def)

lemma evolves_sub_id: "be_evolves s s' \<Longrightarrow> i \<in> sb_id ` set (subRows s) \<Longrightarrow> i \<in> sb_id ` set (subRows s')"
  by (force simp: be_evolves_def sb_key_def)

lemma evolves_invoice: "be_evolves s s' \<Longrightarrow> iv_key i \<in> iv_key ` set (invoiceRows s) \<Longrightarrow> iv_key i \<in> iv_key ` set (invoiceRows s')"
  by (auto simp: be_evolves_def)

lemma evolves_event:
  "be_evolves s s' \<Longrightarrow> i \<in> we_stripeEventId ` set (webhookRows s) \<Longrightarrow> i \<in> we_stripeEventId ` set (webhookRows s')"
  by (force simp: be_evolves_def we_key_def)

subsection \<open>The single steps\<close>

text \<open>A step keeps the constraints and takes nothing away.\<close>

definition good_step :: "be_state \<Rightarrow> be_state \<Rightarrow> bool" where
  "good_step s s' \<longleftrightarrow> be_wf s' \<and> be_evolves s s'"

lemma good_same [simp]: "be_wf s \<Longrightarrow> good_step s s"
  by (simp add: good_step_def)

lemma good_on_db: "be_wf s \<Longrightarrow> good_step s (snd (f s)) \<Longrightarrow> good_step s (snd (on_db e st f s))"
  by (simp add: on_db_def split: option.split)

lemma good_keeps:
  assumes "be_keeps s s'" "iv_key ` set (invoiceRows s) \<subseteq> iv_key ` set (invoiceRows s')"
  shows "good_step s s'"
proof -
  have "sb_key ` set (subRows s') = sb_key ` set (subRows s)"
    using assms(1) by (metis be_keeps_def list.set_map)
  then show ?thesis using assms by (simp add: good_step_def be_evolves_def be_keeps_def)
qed

lemma good_emit: "be_wf s \<Longrightarrow> good_step s (snd (emit_event ex rk p s))"
  by (rule good_keeps [OF keeps_emit [OF keeps_refl]]) (simp_all add: emit_event_def)

lemma good_update_by_tenant:
  "be_wf s \<Longrightarrow> (\<And>r. sb_key (patch r) = sb_key r) \<Longrightarrow> good_step s (snd (update_by_tenant e t ok patch s))"
  by (rule good_keeps [OF keeps_update_by_tenant [OF keeps_refl]])
    (auto simp: update_by_tenant_def on_db_def split: option.split)

lemma good_createCustomer: "be_wf s \<Longrightarrow> good_step s (snd (createCustomer e m n t s))"
  by (rule good_keeps) (auto simp: createCustomer_def be_keeps_def be_wf_def split: sum.split)

text \<open>Saving a row that was loaded earlier.\<close>

lemma good_save_subscription:
  assumes "be_wf s" "sb_key r \<in> sb_key ` set (subRows s)"
  shows "good_step s (snd (save_subscription now r s))"
proof -
  obtain r0 where "r0 \<in> set (subRows s)" "sb_key r = sb_key r0" using assms(2) by auto
  with assms(1) show ?thesis
    by (intro good_keeps [OF keeps_save_subscription [OF keeps_refl]]) (auto simp: save_subscription_def Let_def)
qed

lemma good_save_invoice:
  assumes "be_wf s" "iv_key r \<in> iv_key ` set (invoiceRows s)" "paid_row r"
  shows "good_step s (snd (save_invoice r s))"
proof -
  obtain r0 where r0: "r0 \<in> set (invoiceRows s)" "iv_key r = iv_key r0" using assms(2) by auto
  then have k: "be_keeps s (snd (save_invoice r s))"
    using assms by (intro keeps_save_invoice [OF keeps_refl, of s r0]) (auto simp: iv_key_def)
  have "iv_key x \<in> iv_key ` set (save_row iv_id r (invoiceRows s))" if "x \<in> set (invoiceRows s)" for x
  proof (cases "iv_id x = iv_id r")
    case True
    then have "x = r0"
      using assms(1) r0 that distinct_map_eq [of iv_id "invoiceRows s" x r0] by (auto simp: be_wf_def unique_on_def iv_key_def)
    then show ?thesis using r0 assms(1) by (auto simp: set_save_row be_wf_def)
  next
    case False
    then show ?thesis using that assms(1) by (auto simp: set_save_row be_wf_def)
  qed
  then show ?thesis by (intro good_keeps [OF k]) (auto simp: save_invoice_def)
qed

lemma good_insert_invoice:
  "be_wf s \<Longrightarrow> iv_tenantId r \<in> sb_tenantId ` set (subRows s) \<Longrightarrow> paid_row r \<Longrightarrow> good_step s (snd (insert_invoice r s))"
  by (rule good_keeps [OF keeps_insert_invoice [OF keeps_refl]]) (auto simp: insert_invoice_def)

lemma good_insert_subscription: "be_wf s \<Longrightarrow> good_step s (snd (insert_subscription r s))"
  by (auto simp: insert_subscription_def good_step_def be_evolves_def be_wf_def image_iff)

lemma good_upsert_webhook:
  assumes "be_wf s"
  shows "good_step s (snd (upsert_webhook e ev s))"
proof (cases rule: upsert_webhook_cases [of e ev s])
  case stored
  have u: "unique_on we_stripeEventId (webhookRows s)" using assms by (simp add: be_wf_def)
  have "we_key x \<in> we_key ` set (save_row we_stripeEventId (recorded e ev s) (webhookRows s))"
    if x: "x \<in> set (webhookRows s)" for x
  proof (cases "we_stripeEventId x = ev_id ev")
    case True
    then have "find_webhook (ev_id ev) s = Some x"
      using hooks.lookup_iff [OF u, of "ev_id ev" x] x by simp
    then have "we_key (recorded e ev s) = we_key x" by (simp add: recorded_def we_key_def)
    then show ?thesis using u by (force simp: set_save_row)
  qed (use x u in \<open>auto simp: set_save_row\<close>)
  then have "be_evolves s (snd (upsert_webhook e ev s))"
    using stored(1) by (auto simp: be_evolves_def)
  then show ?thesis using wf_upsert_webhook [OF assms] by (simp add: good_step_def)
qed (use assms in simp)

lemma good_update_webhook:
  assumes "be_wf s" "\<And>w. we_id (f w) = we_id w" "\<And>w. we_stripeEventId (f w) = we_stripeEventId w"
  shows "good_step s (snd (update_webhook e st i f s))"
proof -
  have "map we_key (update_where p f rows) = map we_key rows" for p rows
    using assms(2,3) by (auto simp: update_where_def we_key_def)
  then have "we_key ` set (update_where p f rows) = we_key ` set rows" for p rows
    by (metis list.set_map)
  then have "be_evolves s (snd (update_webhook e st i f s))"
    by (simp add: update_webhook_def on_db_def be_evolves_def split: option.split)
  with wf_update_webhook [OF assms(2,3,1)] show ?thesis by (simp add: good_step_def)
qed

lemma good_marks:
  "be_wf s \<Longrightarrow> good_step s (snd (markProcessed e i s))" "be_wf s \<Longrightarrow> good_step s (snd (markError e i x s))"
  unfolding markProcessed_def markError_def by (rule good_update_webhook; simp)+

subsection \<open>The handlers\<close>

lemma meets_step:
  assumes "\<And>s. be_evolves s0 s \<Longrightarrow> be_wf s \<Longrightarrow> good_step s (snd (f s)) \<and> Q (fst (f s)) (snd (f s))"
  shows "be_meets Q (atomically f) s0"
  using assms by (intro tables.meets_atomically) (auto simp: good_step_def)

lemma meets_stmt:
  assumes "\<And>s. be_evolves s0 s \<Longrightarrow> be_wf s \<Longrightarrow> good_step s (snd (f s)) \<and> Q (fst (f s)) (snd (f s))"
    and "\<And>x s. Q (Inl x) s"
  shows "be_meets Q (stmt e st f) s0"
  unfolding stmt_def using assms by (intro meets_step) (auto simp: on_db_def split: option.split)

text \<open>A handler that loads a subscription by customer goes on with a row of the table, or without one.\<close>

lemma meets_find_customer:
  assumes "be_wf s0"
    and "\<And>s. be_wf s \<Longrightarrow> be_evolves s0 s \<Longrightarrow> be_meets Q (f None) s"
    and "\<And>r s. be_wf s \<Longrightarrow> be_evolves s0 s \<Longrightarrow> sb_key r \<in> sb_key ` set (subRows s) \<Longrightarrow> be_meets Q (f (Some r)) s"
    and "\<And>x s. Q (Inl x) s"
  shows "be_meets Q (bind_ok (atomically (findByStripeCustomerId e c)) f) s0"
proof (rule tables.meets_bind_ok [where Q = "\<lambda>x s. \<forall>r. x = Some r \<longrightarrow> sb_key r \<in> sb_key ` set (subRows s)", OF _ assms(1)])
  show "be_meets (\<lambda>r s. case r of Inl x \<Rightarrow> Q (Inl x) s
      | Inr x \<Rightarrow> \<forall>r. x = Some r \<longrightarrow> sb_key r \<in> sb_key ` set (subRows s)) (atomically (findByStripeCustomerId e c)) s0"
    using assms(4) by (intro meets_step)
      (auto simp: findByStripeCustomerId_def on_db_def split: option.split dest!: find_SomeD)
  fix x s assume "be_wf s" "be_evolves s0 s" "\<forall>r. x = Some r \<longrightarrow> sb_key r \<in> sb_key ` set (subRows s)"
  with assms(2,3) show "be_meets Q (f x) s" by (cases x) auto
qed

abbreviation be_safe :: "(be_state, 'a) proc \<Rightarrow> be_state \<Rightarrow> bool" where
  "be_safe \<equiv> be_meets (\<lambda>_ _. True)"

lemma safe_step: "(\<And>s. be_evolves s0 s \<Longrightarrow> be_wf s \<Longrightarrow> good_step s (snd (f s))) \<Longrightarrow> be_safe (atomically f) s0"
  by (rule meets_step) simp

lemma safe_stmt: "(\<And>s. be_evolves s0 s \<Longrightarrow> be_wf s \<Longrightarrow> good_step s (snd (f s))) \<Longrightarrow> be_safe (stmt e st f) s0"
  by (rule meets_stmt) simp_all

lemma safe_bind: "be_safe p s0 \<Longrightarrow> be_wf s0 \<Longrightarrow> (\<And>a s. be_wf s \<Longrightarrow> be_safe (f a) s) \<Longrightarrow> be_safe (bind_ok p f) s0"
  by (rule tables.meets_bind_ok [where Q = "\<lambda>_ _. True"]) (auto simp: sum.case_eq_if)

lemma safe_updateFromStripe: "be_wf s \<Longrightarrow> be_safe (updateFromStripe_async e dto) s"
  unfolding updateFromStripe_async_def
proof (rule tables.meets_bind_ok [where Q = "\<lambda>x s. \<forall>r. x = Some r \<longrightarrow> sb_key r \<in> sb_key ` set (subRows s)"])
  fix x s assume "be_wf s" "\<forall>r. x = Some r \<longrightarrow> sb_key r \<in> sb_key ` set (subRows s)"
  then show "be_safe (case x of None \<Rightarrow> Done (Inr ())
      | Some r \<Rightarrow> stmt e SubWrite (save_subscription (be_now e) (patch_subscription dto r))) s"
    by (auto split: option.split intro!: safe_stmt good_save_subscription dest: evolves_sub
        simp: sb_key_def patch_subscription_def)
qed (auto intro!: meets_stmt dest!: find_SomeD)

lemma safe_linkStripeSubscription: "be_wf s \<Longrightarrow> be_safe (linkStripeSubscription_async e c i st a b) s"
  unfolding linkStripeSubscription_async_def
  by (rule meets_find_customer)
    (auto intro!: safe_stmt good_save_subscription dest: evolves_sub simp: sb_key_def)

lemma safe_publishStatus: "be_wf s \<Longrightarrow> be_safe (publishSubscriptionStatus_async e c st plan) s"
  unfolding publishSubscriptionStatus_async_def
  by (rule meets_find_customer) (auto intro!: safe_step good_emit)

lemma safe_upsertFromStripe:
  assumes "be_wf s0" "ci_tenantId dto \<in> sb_tenantId ` set (subRows s0)" "ci_status dto = ''paid''" "ci_paidAt dto \<noteq> None"
  shows "be_safe (upsertFromStripe_async e dto) s0"
  unfolding upsertFromStripe_async_def
proof (rule tables.meets_bind_ok [where Q = "\<lambda>x s. \<forall>r. x = Some r \<longrightarrow> iv_key r \<in> iv_key ` set (invoiceRows s)"])
  fix x s assume s: "be_wf s" "be_evolves s0 s" "\<forall>r. x = Some r \<longrightarrow> iv_key r \<in> iv_key ` set (invoiceRows s)"
  have t: "ci_tenantId dto \<in> sb_tenantId ` set (subRows s')" if "be_evolves s s'" for s'
    using evolves_tenant [OF that evolves_tenant [OF s(2) assms(2)]] .
  show "be_safe (case x of
      Some r \<Rightarrow> stmt e InvWrite (save_invoice
        (r\<lparr>iv_status := ci_status dto, iv_amountPaid := ci_amountPaid dto,
           iv_paidAt := (case ci_paidAt dto of None \<Rightarrow> iv_paidAt r | d \<Rightarrow> d)\<rparr>))
    | None \<Rightarrow> stmt e InvWrite (insert_invoice (invoice_of e dto))) s"
  proof (cases x)
    case None
    then show ?thesis
      using t assms(3,4) by (auto intro!: safe_stmt good_insert_invoice simp: invoice_of_def paid_row_def)
  next
    case (Some r)
    then have "iv_key r \<in> iv_key ` set (invoiceRows s')" if "be_evolves s s'" for s'
      using s(3) that by (auto dest: evolves_invoice)
    then show ?thesis
      using Some assms(3,4) by (auto intro!: safe_stmt good_save_invoice simp: iv_key_def paid_row_def)
  qed
qed (use assms in \<open>auto intro!: meets_stmt dest!: find_SomeD\<close>)

lemmas safe_rules = safe_bind safe_step safe_updateFromStripe safe_linkStripeSubscription safe_publishStatus
  good_emit good_marks

lemma safe_update_status: "be_wf s \<Longrightarrow> be_safe (atomically (updateStatusByTenantId e t st)) s"
  unfolding updateStatusByTenantId_def by (intro safe_step good_update_by_tenant) (simp_all add: sb_key_def)

lemma safe_link_customer: "be_wf s \<Longrightarrow> be_safe (atomically (linkStripeCustomerId e t c)) s"
  unfolding linkStripeCustomerId_def by (intro safe_step good_update_by_tenant) (simp_all add: sb_key_def)

lemma safe_handleInvoicePaid: "be_wf s \<Longrightarrow> be_safe (handleInvoicePaid_async e sinv) s"
  unfolding handleInvoicePaid_async_def
proof (rule meets_find_customer)
  fix r s' assume "be_wf s'" "sb_key r \<in> sb_key ` set (subRows s')"
  then have "be_safe (upsertFromStripe_async e (paid_invoice_dto e sinv (sb_tenantId r))) s'"
    by (intro safe_upsertFromStripe) (auto simp: paid_invoice_dto_def sb_key_def)
  with \<open>be_wf s'\<close> show "be_safe (case Some r of None \<Rightarrow> Done (Inr ())
    | Some r \<Rightarrow>
        bind_ok (upsertFromStripe_async e (paid_invoice_dto e sinv (sb_tenantId r))) (\<lambda>_.
        bind_ok (atomically (emit_event ''chassis.audit'' ''billing.payment.succeeded''
          (paymentPayload e sinv (sb_tenantId r)))) (\<lambda>_.
        if sb_status r = ''past_due''
        then bind_ok (atomically (updateStatusByTenantId e (sb_tenantId r) ''active'')) (\<lambda>_.
             publishSubscriptionStatus_async e (invoice_customer sinv) ''active'' None)
        else Done (Inr ())))) s'"
    by (auto intro!: safe_rules safe_update_status)
qed simp_all

lemma safe_handlePaymentFailed: "be_wf s \<Longrightarrow> be_safe (handleInvoicePaymentFailed_async e sinv) s"
  unfolding handleInvoicePaymentFailed_async_def
  by (rule meets_find_customer) (auto intro!: safe_rules safe_update_status)

lemma safe_processEvent: "be_wf s \<Longrightarrow> be_safe (processEvent_async e d) s"
  by (cases d) (auto simp: handleSubscriptionCreated_async_def handleSubscriptionUpdated_async_def
      handleSubscriptionDeleted_async_def handleCustomerCreated_async_def Let_def
      intro!: safe_rules safe_handleInvoicePaid safe_handlePaymentFailed safe_link_customer)

subsection \<open>What an answer promises\<close>

text \<open>A delivery that was received, or taken for a duplicate, has its event on record; a message about a
  new tenant that met no outage and passed the checks leaves the tenant with a subscription.\<close>

definition event_recorded :: "be_env \<Rightarrow> string \<Rightarrow> string option \<Rightarrow> be_state \<Rightarrow> bool" where
  "event_recorded e body sig s \<longleftrightarrow>
     (\<exists>ev. constructEvent e body sig (coalesce (webhookSecret e) []) = Some ev \<and>
        ev_id ev \<in> we_stripeEventId ` set (webhookRows s))"

definition provisionable :: "be_env \<Rightarrow> tenantProvisioned \<Rightarrow> string \<Rightarrow> bool" where
  "provisionable e msg c \<longleftrightarrow>
     customers_create e (tp_adminEmail msg) (tp_slug msg) (tp_tenantId msg) = Inr c \<and>
     db_fault e SubFind = None \<and> db_fault e SubWrite = None \<and> be_isUUID e (tp_tenantId msg) \<and>
     subscription_fits (new_subscription e (provisionDto msg c))"

definition tenant_served :: "be_env \<Rightarrow> tenantProvisioned \<Rightarrow> be_state \<Rightarrow> bool" where
  "tenant_served e msg s \<longleftrightarrow>
     tp_tenantId msg \<in> sb_tenantId ` set (subRows s) \<or> newSubscriptionId e \<in> sb_id ` set (subRows s)"

fun be_answered :: "be_env \<times> be_event \<Rightarrow> be_answer \<Rightarrow> be_state \<Rightarrow> bool" where
  "be_answered (e, Deliver body sig) (Answered (Inr Received)) s = event_recorded e body sig s"
| "be_answered (e, Deliver body sig) (Answered (Inr ReceivedDuplicate)) s = event_recorded e body sig s"
| "be_answered (e, Provisioned msg) Consumed s =
     (\<forall>c. provisionable e msg c \<longrightarrow> tenant_served e msg s)"
| "be_answered _ _ _ = True"

lemma tenant_served_stable: "be_evolves s s' \<Longrightarrow> tenant_served e msg s \<Longrightarrow> tenant_served e msg s'"
  by (auto simp: tenant_served_def dest: evolves_tenant evolves_sub_id)

lemma be_answered_stable: "be_evolves s s' \<Longrightarrow> be_answered r a s \<Longrightarrow> be_answered r a s'"
  by (induction r a s rule: be_answered.induct)
    (auto simp: event_recorded_def dest: evolves_event tenant_served_stable)

lemma upsert_records:
  "upsert_webhook e ev s = (Inr u, s') \<Longrightarrow> be_wf s \<Longrightarrow> ev_id ev \<in> we_stripeEventId ` set (webhookRows s')"
  by (cases rule: upsert_webhook_cases [of e ev s]) (auto simp: be_wf_def set_save_row)

lemma find_records: "find_webhook i s = Some w \<Longrightarrow> i \<in> we_stripeEventId ` set (webhookRows s)"
  by (auto dest!: find_SomeD)

lemma meets_handleWebhook:
  assumes "be_wf s0"
  shows "be_meets (\<lambda>r. be_answered (e, Deliver body sig) (Answered r)) (handleWebhook_async e body sig) s0"
proof (cases "constructEvent e body sig (coalesce (webhookSecret e) [])")
  case None
  then show ?thesis by (simp add: handleWebhook_async_def constructWebhookEvent_def)
next
  case (Some ev)
  let ?on_record = "\<lambda>s. ev_id ev \<in> we_stripeEventId ` set (webhookRows s)"
  let ?Q = "\<lambda>r. be_answered (e, Deliver body sig) (Answered r)"
  have received: "?Q (Inr Received) s" if "?on_record s" for s
    using Some that by (auto simp: event_recorded_def)
  have proc: "be_meets ?Q (bind_ok (catch_with
      (bind_ok (processEvent_async e (ev_data ev)) (\<lambda>_. atomically (markProcessed e (ev_id ev))))
      (\<lambda>x. atomically (markError e (ev_id ev) x))) (\<lambda>_. Done (Inr Received))) s"
    if "be_wf s" "?on_record s" for s
  proof (rule tables.meets_bind_ok [where Q = "\<lambda>_ _. True"])
    have "be_safe (catch_with
        (bind_ok (processEvent_async e (ev_data ev)) (\<lambda>_. atomically (markProcessed e (ev_id ev))))
        (\<lambda>x. atomically (markError e (ev_id ev) x))) s"
      by (rule tables.meets_catch [where Q = "\<lambda>_ _. True"])
        (auto simp: sum.case_eq_if that(1) intro!: safe_rules safe_processEvent)
    then show "be_meets (\<lambda>r s. case r of Inl x \<Rightarrow> ?Q (Inl x) s | Inr a \<Rightarrow> True) (catch_with
        (bind_ok (processEvent_async e (ev_data ev)) (\<lambda>_. atomically (markProcessed e (ev_id ev))))
        (\<lambda>x. atomically (markError e (ev_id ev) x))) s"
      by (simp add: sum.case_eq_if)
    show "be_wf s" by fact
    fix a s' assume "be_evolves s s'"
    from evolves_event [OF this that(2)] show "be_meets ?Q (Done (Inr Received)) s'"
      using received by simp
  qed
  have upsert: "be_meets ?Q (bind_ok (atomically (upsert_webhook e ev)) (\<lambda>_. bind_ok (catch_with
      (bind_ok (processEvent_async e (ev_data ev)) (\<lambda>_. atomically (markProcessed e (ev_id ev))))
      (\<lambda>x. atomically (markError e (ev_id ev) x))) (\<lambda>_. Done (Inr Received)))) s" if "be_wf s" for s
    by (rule tables.meets_bind_ok [where Q = "\<lambda>_. ?on_record", OF _ that], rule meets_step)
      (auto simp: good_upsert_webhook proc split: sum.split
        intro: upsert_records [OF prod_eqI, of e ev])
  show ?thesis
    unfolding handleWebhook_async_def constructWebhookEvent_def Some option.case
    by (rule tables.meets_bind_ok [where Q = "\<lambda>x s. x \<noteq> None \<longrightarrow> ?on_record s", OF _ assms], rule meets_stmt)
      (auto simp: upsert event_recorded_def Some split: sum.split option.split dest: find_records)
qed


text \<open>An insert that is refused found the tenant or the identifier taken.\<close>

lemma insert_subscription_present:
  "subscription_fits r \<Longrightarrow> sb_tenantId r \<in> sb_tenantId ` set (subRows (snd (insert_subscription r s))) \<or>
     sb_id r \<in> sb_id ` set (subRows (snd (insert_subscription r s)))"
  by (auto simp: insert_subscription_def) (metis image_eqI)+

lemma meets_subs_create:
  assumes "be_wf s0"
  shows "be_meets (\<lambda>_ s. provisionable e msg c \<longrightarrow> tenant_served e msg s) (subs_create_async e (provisionDto msg c)) s0"
  unfolding subs_create_async_def
proof (rule tables.meets_bind_ok [where Q = "\<lambda>x s. x \<noteq> None \<longrightarrow> tenant_served e msg s", OF _ assms])
  show "be_meets (\<lambda>r s. case r of Inl x \<Rightarrow> provisionable e msg c \<longrightarrow> tenant_served e msg s
      | Inr x \<Rightarrow> x \<noteq> None \<longrightarrow> tenant_served e msg s) (atomically (find_by_tenant e (cs_tenantId (provisionDto msg c)))) s0"
    by (rule meets_step) (auto simp: find_by_tenant_def on_db_def provisionable_def tenant_served_def split: option.split
        dest!: find_SomeD intro: rev_image_eqI)
  fix x :: "subscription option" and s
  assume x: "x \<noteq> None \<longrightarrow> tenant_served e msg s"
  have ins: "provisionable e msg c \<longrightarrow>
      tenant_served e msg (snd (on_db e SubWrite (insert_subscription (new_subscription e (provisionDto msg c))) s1))" for s1
    using insert_subscription_present [of "new_subscription e (provisionDto msg c)" s1]
    by (simp add: provisionable_def tenant_served_def)
  show "be_meets (\<lambda>_ s. provisionable e msg c \<longrightarrow> tenant_served e msg s) (case x of
      Some _ \<Rightarrow> Done (Inl (Conflict (''Subscription already exists for tenant '' @ cs_tenantId (provisionDto msg c))))
    | None \<Rightarrow> stmt e SubWrite (insert_subscription (new_subscription e (provisionDto msg c)))) s"
  proof (cases x)
    case None
    show ?thesis
      unfolding None option.case stmt_def
      by (rule meets_step) (intro conjI good_on_db good_insert_subscription ins)
  qed (use x in simp)
qed

lemma meets_provision:
  assumes "be_wf s0"
  shows "be_meets (\<lambda>_. be_answered (e, Provisioned msg) Consumed) (provisionSubscription_async e msg) s0"
  unfolding provisionSubscription_async_def
proof (rule tables.meets_bind_ok [where
      Q = "\<lambda>c _. customers_create e (tp_adminEmail msg) (tp_slug msg) (tp_tenantId msg) = Inr c", OF _ assms])
  let ?customer = "customers_create e (tp_adminEmail msg) (tp_slug msg) (tp_tenantId msg)"
  let ?Q = "\<lambda>_. be_answered (e, Provisioned msg) Consumed"
  show "be_meets (\<lambda>r s. case r of Inl x \<Rightarrow> ?Q (Inl x) s | Inr c \<Rightarrow> ?customer = Inr c)
      (atomically (createCustomer e (tp_adminEmail msg) (tp_slug msg) (tp_tenantId msg))) s0"
    by (intro meets_step conjI good_createCustomer) (auto simp: createCustomer_def provisionable_def split: sum.split)
  fix c s assume s: "be_wf s" "?customer = Inr c"
  have answered: "be_answered (e, Provisioned msg) Consumed s'"
    if "provisionable e msg c \<longrightarrow> tenant_served e msg s'" for s'
    using that s(2) by (auto simp: provisionable_def)
  show "be_meets ?Q (bind_ok (subs_create_async e (provisionDto msg c)) (\<lambda>_.
      atomically (emit_event ''chassis.tenants'' ''billing.synced'' (syncedPayload msg c)))) s"
  proof (rule tables.meets_bind_ok [where Q = "\<lambda>_. be_answered (e, Provisioned msg) Consumed", OF _ s(1)])
    show "be_meets (\<lambda>r s. case r of Inl x \<Rightarrow> be_answered (e, Provisioned msg) Consumed s
        | Inr a \<Rightarrow> be_answered (e, Provisioned msg) Consumed s) (subs_create_async e (provisionDto msg c)) s"
      by (rule tables.meets_weaken [OF meets_subs_create [OF s(1)]])
        (simp only: sum.case_eq_if if_cancel, erule answered)
    fix a s' assume "be_answered (e, Provisioned msg) Consumed s'"
    then show "be_meets ?Q (atomically (emit_event ''chassis.tenants'' ''billing.synced'' (syncedPayload msg c))) s'"
      by (intro meets_step conjI good_emit) (auto simp: emit_event_def tenant_served_def dest: evolves_tenant evolves_sub_id)
  qed
qed

lemma meets_be_start: "be_wf s \<Longrightarrow> be_meets (be_answered r) (be_start r) s"
  by (cases r rule: be_start.cases)
    (auto intro!: tables.meets_bind [OF meets_handleWebhook] tables.meets_bind [OF meets_provision])

interpretation engine: async_service be_wf be_evolves be_start be_answered
  by unfold_locales (rule meets_be_start, assumption, rule be_answered_stable)

subsection \<open>Every interleaving\<close>

text \<open>C5: the billing engine handles any number of webhook requests and provisioning messages at the same
  time, interrupted at every statement in any order: the constraints of the tables hold after every
  step (one subscription per tenant, one row per Stripe invoice and per Stripe event, every invoice
  paid and owned by a subscribed tenant), no row disappears or changes its identity, and what an
  answer promises stays true: a delivery answered 200 has its event on record, and a consumed message
  has left its tenant with a subscription.\<close>

theorem billing_interleaving_invariant:
  assumes "interleaved be_start ([], s0) (ps, s)" and "be_wf s0"
  shows "be_wf s \<and> be_evolves s0 s \<and> (\<forall>r a. (r, Done a) \<in> set ps \<longrightarrow> be_answered r a s)"
  using engine.interleaved_keeps [OF assms(1) engine.pool_ok_empty [OF assms(2)]] by auto

text \<open>Every request finishes. However the requests in flight are interleaved, one that gets its turn
  again and again is answered after finitely many steps.\<close>

lemma billing_requests_finish:
  assumes "interleaved be_start c0 c" and "\<forall>n. \<exists>m \<ge> n. turns m = i" and "i < length (fst c)"
  shows "\<exists>n r a. fst (scheduled turns c n) ! i = (r, Done a) \<and> interleaved be_start c0 (scheduled turns c n)"
proof -
  have "interleaved be_start c0 (scheduled turns c n)" for n
    using assms(1) by (induction n) (simp_all add: turn)
  moreover obtain r p where "fst (scheduled turns c 0) ! i = (r, p)" by (cases "fst c ! i") simp
  from fair_finishes [OF _ assms(3) this] assms(2) obtain n a where "fst (scheduled turns c n) ! i = (r, Done a)"
    by blast
  ultimately show ?thesis by blast
qed

end
