(* ===== verification/Billing_Races.thy ===== *)
theory Billing_Races
  imports Billing_Interleaving Billing_Witnesses
begin

text \<open>
  Concrete interleavings of the billing engine: two deliveries of one event that overtake each other
  between the check for duplicates and the record of the event.
\<close>

definition xc_state :: be_state where
  "xc_state = xb_state\<lparr>webhookRows := []\<rparr>"

definition xc_request :: "string \<Rightarrow> be_env \<times> be_event" where
  "xc_request i = (xb_env\<lparr>newWebhookId := i, newInvoiceId := i\<rparr>, Deliver ''b1'' (Some ''ok''))"

definition xc_start :: "(be_env \<times> be_event, be_state, be_answer) pool \<times> be_state" where
  "xc_start = ([(xc_request ''w1'', be_start (xc_request ''w1'')), (xc_request ''w2'', be_start (xc_request ''w2''))], xc_state)"

definition xc_schedule :: "nat list" where
  "xc_schedule = [0, 1, 0, 0, 0, 0, 0, 0, 1, 1, 1, 1, 1, 1]"

definition xc_end :: "(be_env \<times> be_event, be_state, be_answer) pool \<times> be_state" where
  "xc_end = foldl (\<lambda>c i. advance i c) xc_start xc_schedule"

lemmas xc_eval = xc_end_def xc_schedule_def xc_start_def xc_request_def xc_state_def xb_defs
  handleWebhook_async_def constructWebhookEvent_def bind_ok_def catch_with_def stmt_def atomically_def on_db_def
  upsert_webhook_def fits_def handleInvoicePaid_async_def findByStripeCustomerId_def invoice_customer_def
  upsertFromStripe_async_def paid_invoice_dto_def insert_invoice_def in_decimal_12_2_def invoice_of_def
  emit_event_def markProcessed_def update_webhook_def save_invoice_def update_where_def save_row_def

lemma xc_start_interleaved: "interleaved be_start ([], xc_state) xc_start"
  using interleaved.arrive [OF interleaved.arrive [OF interleaved.none, where r = "xc_request ''w1''"],
      where r = "xc_request ''w2''", of be_start "[]" xc_state]
  by (simp add: xc_start_def)

lemma xc_interleaved: "interleaved be_start ([], xc_state) xc_end"
  unfolding xc_end_def by (rule interleaved_schedule [OF xc_start_interleaved])

lemma xc_wf: "be_wf xc_state"
  by (simp add: be_wf_def xc_state_def xb_state_def unique_on_def)

lemma xc_pool: "fst xc_end = [(xc_request ''w1'', Done (Answered (Inr Received))),
    (xc_request ''w2'', Done (Answered (Inr Received)))]"
  by (simp add: xc_eval)

text \<open>The check for duplicates and the record are two statements: two deliveries of one event at the same
  time are both processed, and the payment is announced twice. One after the other, the second is a
  duplicate (\<open>processed_webhook_never_reapplied\<close>). The stored invoice is the same row both times.\<close>

lemma simultaneous_deliveries_both_processed:
  "interleaved be_start ([], xc_state) xc_end \<and>
   map snd (fst xc_end) = [Done (Answered (Inr Received)), Done (Answered (Inr Received))] \<and>
   published (be_bus (snd xc_end)) = replicate 2 (payment_msg xb_env xb_inv ''t1'') \<and>
   length (invoiceRows (snd xc_end)) = 1 \<and> length (webhookRows (snd xc_end)) = 1"
  by (simp add: xc_interleaved xc_pool) (simp add: xc_eval payment_msg_def publish_def numeral_2_eq_2)

theorem billing_interleaving_invariant_witness:
  "be_wf (snd xc_end) \<and> be_evolves xc_state (snd xc_end) \<and> fst xc_end \<noteq> [] \<and>
   event_recorded (fst (xc_request ''w2'')) ''b1'' (Some ''ok'') (snd xc_end)"
proof -
  have "interleaved be_start ([], xc_state) (fst xc_end, snd xc_end)" by (simp add: xc_interleaved)
  note inv = billing_interleaving_invariant [OF this xc_wf]
  moreover have "(xc_request ''w2'', Done (Answered (Inr Received))) \<in> set (fst xc_end)" by (simp add: xc_pool)
  ultimately have "be_answered (xc_request ''w2'') (Answered (Inr Received)) (snd xc_end)" by blast
  then have "event_recorded (fst (xc_request ''w2'')) ''b1'' (Some ''ok'') (snd xc_end)"
    by (simp add: xc_request_def)
  with inv show ?thesis by (simp add: xc_pool)
qed

lemma billing_requests_finish_witness:
  "\<exists>n r a. fst (scheduled (\<lambda>n. n mod 2) xc_start n) ! 1 = (r, Done a) \<and>
    interleaved be_start ([], xc_state) (scheduled (\<lambda>n. n mod 2) xc_start n)"
proof (rule billing_requests_finish [OF xc_start_interleaved])
  show "\<forall>n. \<exists>m \<ge> n. m mod 2 = (1 :: nat)"
  proof
    fix n :: nat
    show "\<exists>m \<ge> n. m mod 2 = 1" by (rule exI [of _ "2 * n + 1"]) simp
  qed
qed (simp add: xc_start_def)

end
