(* ===== verification/Identity_Async.thy ===== *)
theory Identity_Async
  imports Identity_Theorems Async_Processes
begin

text \<open>
  The handlers of the identity service that write, and the refresh of an access token, with their
  \<^verbatim>\<open>await\<close>s: every query, every Redis command and every publication is a step of its own. Relations a
  query loads (\<^verbatim>\<open>user\<close>, \<^verbatim>\<open>role\<close>, \<^verbatim>\<open>role.permissions\<close>) are read in its step. Hashing and comparing
  passwords is synchronous.
\<close>

definition id_emit :: "string \<Rightarrow> string \<Rightarrow> json \<Rightarrow> (id_state, unit result) proc" where
  "id_emit ex rk p = writing (\<lambda>s. s\<lparr>id_bus := publish ex rk p (id_bus s)\<rparr>)"

subsection \<open>Accounts and memberships\<close>

definition users_create_async :: "id_env \<Rightarrow> createUserDto \<Rightarrow> (id_state, user result) proc" where
  "users_create_async e dto =
     bind_ok (reading (users_findByEmail (cu_email dto))) (\<lambda>existing.
       case existing of
         Some _ \<Rightarrow> Done (Inl (Conflict (''A user with email '' @ cu_email dto @ '' already exists'')))
       | None \<Rightarrow> inserting (insert_user (new_user e dto)) (new_user e dto))"

definition saving_user :: "instant \<Rightarrow> user \<Rightarrow> (id_state, user result) proc" where
  "saving_user now u = atomically (\<lambda>s. map_prod Inr id (save_user now u s))"

definition saving_membership :: "instant \<Rightarrow> membership \<Rightarrow> (id_state, membership result) proc" where
  "saving_membership now m = atomically (\<lambda>s. map_prod Inr id (save_membership now m s))"

definition users_update_async :: "id_env \<Rightarrow> uuid \<Rightarrow> updateUserDto \<Rightarrow> (id_state, user result) proc" where
  "users_update_async e i dto =
     bind_ok (atomically (\<lambda>s. (users_findById i s, s))) (\<lambda>u.
       if uu_displayName dto = Null \<or> uu_isActive dto = Null \<or> uu_emailVerified dto = Null
       then Done (Inl (QueryFailed ''23502''))
       else saving_user (id_now e) (patch_user dto u))"

definition users_softDelete_async :: "id_env \<Rightarrow> uuid \<Rightarrow> (id_state, unit result) proc" where
  "users_softDelete_async e i =
     bind_ok (atomically (\<lambda>s. (users_findById i s, s))) (\<lambda>u.
     bind_ok (saving_user (id_now e) (u\<lparr>u_isActive := False\<rparr>)) (\<lambda>_. Done (Inr ())))"

definition store_membership_async ::
  "id_env \<Rightarrow> createMembershipDto \<Rightarrow> membershipStatus \<Rightarrow> membership option \<Rightarrow> (id_state, membership result) proc" where
  "store_membership_async e dto st existing =
     atomically (\<lambda>s. case store_membership e dto st existing s of Inl x \<Rightarrow> (Inl x, s) | Inr (m, s') \<Rightarrow> (Inr m, s'))"

definition memberships_create_async :: "id_env \<Rightarrow> createMembershipDto \<Rightarrow> (id_state, membership result) proc" where
  "memberships_create_async e dto =
     bind_ok (reading (\<lambda>s. find_membership (cm_userId dto) (cm_tenantId dto) s)) (\<lambda>existing.
     bind_ok (atomically (\<lambda>s. (roles_findById (cm_roleId dto) s, s))) (\<lambda>role.
       if existing \<noteq> None \<and> m_status (the existing) \<noteq> MS_removed
       then Done (Inl (Conflict (''User '' @ cm_userId dto @ '' already has an active membership in tenant '' @ cm_tenantId dto)))
       else case membershipStatus_of (coalesce (cm_status dto) ''active'') of
         None \<Rightarrow> Done (Inl (QueryFailed ''22P02''))
       | Some st \<Rightarrow>
           bind_ok (store_membership_async e dto st existing) (\<lambda>saved.
           bind_ok (id_emit ''chassis.tenants'' ''tenant.user-added'' (userAddedPayload e dto role)) (\<lambda>_.
           Done (Inr saved)))))"

definition memberships_remove_async :: "id_env \<Rightarrow> uuid \<Rightarrow> uuid \<Rightarrow> (id_state, unit result) proc" where
  "memberships_remove_async e u t =
     bind_ok (reading (findByUserAndTenant u t)) (\<lambda>x.
       case x of
         None \<Rightarrow> Done (Inl (NotFound (''No membership found for user '' @ u @ '' in tenant '' @ t)))
       | Some m \<Rightarrow> bind_ok (saving_membership (id_now e) (m\<lparr>m_status := MS_removed\<rparr>)) (\<lambda>_. Done (Inr ())))"

definition assignRole_async :: "id_env \<Rightarrow> jwtPayload \<Rightarrow> uuid \<Rightarrow> uuid \<Rightarrow> uuid \<Rightarrow> (id_state, membership result) proc" where
  "assignRole_async e u userId tenantId roleId =
     (case identity_RolesGuard (Some [''tenant_admin'', ''platform_admin'']) (Some u) of
        Inl x \<Rightarrow> Done (Inl x)
      | Inr _ \<Rightarrow>
          bind_ok (reading (findByUserAndTenant userId tenantId)) (\<lambda>x.
          bind_ok (case x of None \<Rightarrow> Done (Inr ()) | Some _ \<Rightarrow> memberships_remove_async e userId tenantId) (\<lambda>_.
          memberships_create_async e
            \<lparr>cm_userId = userId, cm_tenantId = tenantId, cm_roleId = roleId, cm_status = None\<rparr>)))"

subsection \<open>Credentials and tokens\<close>

definition incrementLoginAttempts_async :: "id_env \<Rightarrow> string \<Rightarrow> (id_state, unit result) proc" where
  "incrementLoginAttempts_async e key =
     bind_ok (atomically (\<lambda>s. case redis_incr (id_now e) key (id_redis s) of
         Inl x \<Rightarrow> (Inl x, s)
       | Inr (current, ks) \<Rightarrow> (Inr current, s\<lparr>id_redis := ks\<rparr>))) (\<lambda>current.
       if current = 1
       then writing (\<lambda>s. s\<lparr>id_redis := redis_expire (id_now e) key (coalesce (loginBlockDurationSeconds e) 900) (id_redis s)\<rparr>)
       else Done (Inr ()))"

definition validateCredentials_async :: "id_env \<Rightarrow> string \<Rightarrow> string \<Rightarrow> (id_state, user option result) proc" where
  "validateCredentials_async e email password =
     (let key = loginAttemptsKey email;
          failed = bind_ok (incrementLoginAttempts_async e key) (\<lambda>_. Done (Inr None))
      in bind_ok (reading (\<lambda>s. redis_get (id_now e) key (id_redis s))) (\<lambda>attempts.
         if truthy attempts \<and> parseInt (the attempts) \<noteq> None \<and>
            the (parseInt (the attempts)) \<ge> coalesce (loginMaxAttempts e) 5
         then Done (Inl (Unauthorized locked_msg))
         else bind_ok (reading (users_findByEmail email)) (\<lambda>user.
           case user of
             None \<Rightarrow> failed
           | Some u \<Rightarrow>
               if \<not> u_isActive u then failed
               else if \<not> compareSync e password (u_passwordHash u) then failed
               else bind_ok (writing (\<lambda>s. s\<lparr>id_redis := redis_del [key] (id_redis s)\<rparr>)) (\<lambda>_. Done (Inr (Some u))))))"

definition login_async :: "id_env \<Rightarrow> user \<Rightarrow> string option \<Rightarrow> string option \<Rightarrow> (id_state, tokenResponse result) proc" where
  "login_async e u ipAddress deviceInfo =
     bind_ok (reading (\<lambda>s. buildJwtPayload u (primaryMembership (u_id u) s) s)) (\<lambda>claims.
     bind_ok (inserting (insert_token e (new_token e (u_id u) ipAddress deviceInfo)) ()) (\<lambda>_.
     bind_ok (writing (updateLastLogin e (u_id u))) (\<lambda>_.
     bind_ok (id_emit ''chassis.audit'' ''user.login'' (loginPayload e u ipAddress)) (\<lambda>_.
     Done (Inr \<lparr>tok_accessToken = signAccessToken e claims, tok_refreshToken = randomToken e,
                tok_expiresIn = getExpiresInSeconds e, tok_tokenType = ''Bearer''\<rparr>)))))"

definition AuthController_login_async ::
  "id_env \<Rightarrow> string \<Rightarrow> string \<Rightarrow> headers \<Rightarrow> string option \<Rightarrow> (id_state, tokenResponse result) proc" where
  "AuthController_login_async e email password h remoteAddress =
     bind_ok (validateCredentials_async e email password) (\<lambda>user.
       case user of
         None \<Rightarrow> Done (Inl (Unauthorized ''Invalid email or password''))
       | Some u \<Rightarrow>
           login_async e u (case h ''x-forwarded-for'' of Some a \<Rightarrow> Some a | None \<Rightarrow> remoteAddress) (h ''user-agent''))"

definition register_async :: "id_env \<Rightarrow> registerDto \<Rightarrow> (id_state, tokenResponse result) proc" where
  "register_async e dto = bind_ok (users_create_async e (registerUser dto)) (\<lambda>u. login_async e u None None)"

definition refreshAccessToken_async :: "id_env \<Rightarrow> string \<Rightarrow> (id_state, accessTokenResponse result) proc" where
  "refreshAccessToken_async e tokenValue =
     (let h = sha256 e tokenValue in
      bind_ok (reading (\<lambda>s. redis_get (id_now e) (revokedKey h) (id_redis s))) (\<lambda>blacklisted.
      if truthy blacklisted then Done (Inl (Unauthorized ''Refresh token has been revoked''))
      else bind_ok (reading (\<lambda>s. map_option (\<lambda>r. (r, find_user (rt_userId r) s)) (find_token h s))) (\<lambda>stored.
        case stored of
          None \<Rightarrow> Done (Inl (Unauthorized ''Invalid or expired refresh token''))
        | Some (r, user) \<Rightarrow>
            if \<not> rt_isValid (id_now e) r then Done (Inl (Unauthorized ''Invalid or expired refresh token''))
            else case user of
              None \<Rightarrow> Done (Inl (JsError ''Cannot read properties of null''))
            | Some u \<Rightarrow>
                if \<not> u_isActive u then Done (Inl (Unauthorized ''User account is inactive''))
                else reading (\<lambda>s. accessTokenFor e u (primaryMembership (u_id u) s) s))))"

definition logout_async :: "id_env \<Rightarrow> string \<Rightarrow> (id_state, unit result) proc" where
  "logout_async e tokenValue =
     (let h = sha256 e tokenValue in
      bind_ok (reading (\<lambda>s. find_token h s)) (\<lambda>x.
        case x of
          None \<Rightarrow> Done (Inr ())
        | Some stored \<Rightarrow>
            if rt_isRevoked stored then Done (Inr ())
            else bind_ok (writing (\<lambda>s. s\<lparr>tokenRows :=
                   save_row rt_id (stored\<lparr>rt_revokedAt := Some (id_now e)\<rparr>) (tokenRows s)\<rparr>)) (\<lambda>_.
                 writing (blacklist e h (rt_expiresAt stored)))))"

subsection \<open>Impersonation\<close>

definition startImpersonation_async :: "id_env \<Rightarrow> jwtPayload \<Rightarrow> impersonateDto \<Rightarrow> (id_state, (string \<times> uuid) result) proc" where
  "startImpersonation_async e adminUser dto =
     (if \<not> jp_isPlatformAdmin adminUser
      then Done (Inl (Forbidden ''Only platform administrators can impersonate users''))
      else
        bind_ok (atomically (\<lambda>s. (users_findById (jp_sub adminUser) s, s))) (\<lambda>admin.
        bind_ok (atomically (\<lambda>s. (users_findById (im_targetUserId dto) s, s))) (\<lambda>target.
        if \<not> u_isActive target then Done (Inl (Forbidden ''Cannot impersonate an inactive user''))
        else if u_isPlatformAdmin target
        then Done (Inl (Forbidden ''Cannot impersonate another platform administrator''))
        else
          bind_ok (inserting (\<lambda>s. if newSessionId e \<in> is_id ` set (sessionRows s) then Inl (QueryFailed ''23505'')
              else Inr (s\<lparr>sessionRows := sessionRows s @ [new_session e admin target dto]\<rparr>)) ()) (\<lambda>_.
          bind_ok (reading (\<lambda>s. map_option (\<lambda>m. impersonationPayload admin target (im_targetTenantId dto) (Some m) s)
              (findByUserAndTenant (u_id target) (im_targetTenantId dto) s))) (\<lambda>found.
          bind_ok (reading (\<lambda>s. impersonationPayload admin target (im_targetTenantId dto)
              (find (\<lambda>m. m_tenantId m = im_targetTenantId dto) (memberships_findByUserId (u_id target) s)) s)) (\<lambda>listed.
          let accessToken = jwt_sign e (coalesce found listed) (coalesce (jwt_impersonationExpiry e) ''30m'') in
          bind_ok (writing (\<lambda>s. s\<lparr>sessionRows := save_row is_id
              ((new_session e admin target dto)\<lparr>is_tokenHash := sha256 e accessToken\<rparr>) (sessionRows s)\<rparr>)) (\<lambda>_.
          bind_ok (id_emit ''chassis.audit'' ''user.impersonate'' (startedPayload e admin target dto)) (\<lambda>_.
          Done (Inr (accessToken, newSessionId e))))))))))"

definition endImpersonation_async :: "id_env \<Rightarrow> jwtPayload \<Rightarrow> (id_state, accessTokenResponse result) proc" where
  "endImpersonation_async e caller =
     (if \<not> jp_isImpersonating caller
      then Done (Inl (Forbidden ''Current session is not an impersonation session''))
      else if \<not> truthy (jp_realUserId caller)
      then Done (Inl (Unauthorized ''Missing realUserId in impersonation token''))
      else (let real = the (jp_realUserId caller) in
        bind_ok (reading (\<lambda>s. newest is_createdAt (filter (\<lambda>x. is_targetUserId x = jp_sub caller \<and>
            is_adminUserId x = real \<and> is_endedAt x = None) (sessionRows s)))) (\<lambda>session.
        bind_ok (case session of
            None \<Rightarrow> Done (Inr ())
          | Some x \<Rightarrow>
              bind_ok (writing (\<lambda>s. s\<lparr>sessionRows := save_row is_id (x\<lparr>is_endedAt := Some (id_now e)\<rparr>) (sessionRows s)\<rparr>)) (\<lambda>_.
              writing (revokeImpersonationToken e (is_tokenHash x) (is_expiresAt x)))) (\<lambda>_.
        bind_ok (atomically (\<lambda>s. (users_findById real s, s))) (\<lambda>u.
        reading (\<lambda>s. accessTokenFor e u (primaryMembership (u_id u) s) s))))))"

subsection \<open>Requests\<close>

text \<open>The events of the sequential machine and the refresh; the guards run before the handler.\<close>

datatype id_job = Job id_event | Refresh string

datatype id_outcome = Tokens "tokenResponse result" | Access "accessTokenResponse result" | Ended "unit result"

definition ended :: "(id_state, 'a result) proc \<Rightarrow> (id_state, id_outcome) proc" where
  "ended p = bind_proc p (\<lambda>r. Done (Ended (map_sum id (\<lambda>_. ()) r)))"

definition guarded_async :: "string \<Rightarrow> string \<Rightarrow> jwtPayload \<Rightarrow> (id_state, 'a result) proc \<Rightarrow> (id_state, 'a result) proc" where
  "guarded_async resource action u p =
     (case identity_PermissionsGuard (Some [permission resource action]) (Some u) of Inl x \<Rightarrow> Done (Inl x) | Inr _ \<Rightarrow> p)"

definition with_uuid_async :: "id_env \<Rightarrow> string \<Rightarrow> (id_state, 'a result) proc \<Rightarrow> (id_state, 'a result) proc" where
  "with_uuid_async e i p =
     (if id_isUUID e i then p else Done (Inl (BadRequest ''Validation failed (uuid is expected)'')))"

definition update_allowed :: "jwtPayload \<Rightarrow> uuid \<Rightarrow> unit result" where
  "update_allowed u i =
     (if \<not> jp_isPlatformAdmin u \<and> jp_permissions u = None
      then Inl (JsError ''Cannot read properties of undefined'')
      else if jp_sub u \<noteq> i \<and> \<not> (jp_isPlatformAdmin u \<or> ''users:write'' \<in> set (the (jp_permissions u)))
      then Inl (Forbidden ''You can only update your own profile or must have users:write permission'')
      else Inr ())"

fun id_start :: "id_env \<times> id_job \<Rightarrow> (id_state, id_outcome) proc" where
  "id_start (e, Refresh tok) = bind_proc (refreshAccessToken_async e tok) (\<lambda>r. Done (Access r))"
| "id_start (e, Job (Ie_register dto)) = bind_proc (register_async e dto) (\<lambda>r. Done (Tokens r))"
| "id_start (e, Job (Ie_login m p h a)) = bind_proc (AuthController_login_async e m p h a) (\<lambda>r. Done (Tokens r))"
| "id_start (e, Job (Ie_logout tok)) = ended (logout_async e tok)"
| "id_start (e, Job (Ie_createUser u dto)) = ended (guarded_async ''users'' ''write'' u (users_create_async e dto))"
| "id_start (e, Job (Ie_updateUser u i dto)) =
     ended (with_uuid_async e i (bind_ok (Done (update_allowed u i)) (\<lambda>_. users_update_async e i dto)))"
| "id_start (e, Job (Ie_removeUser u i)) =
     ended (guarded_async ''users'' ''delete'' u (with_uuid_async e i (users_softDelete_async e i)))"
| "id_start (e, Job (Ie_createMembership u dto)) =
     ended (guarded_async ''users'' ''manage'' u (memberships_create_async e dto))"
| "id_start (e, Job (Ie_removeMembership u i t)) =
     ended (guarded_async ''users'' ''manage'' u
       (with_uuid_async e i (with_uuid_async e t (memberships_remove_async e i t))))"
| "id_start (e, Job (Ie_assignRole u i t r)) = ended (assignRole_async e u i t r)"
| "id_start (e, Job (Ie_startImpersonation u dto)) = ended (startImpersonation_async e u dto)"
| "id_start (e, Job (Ie_endImpersonation u)) = bind_proc (endImpersonation_async e u) (\<lambda>r. Done (Access r))"

subsection \<open>Without interruption\<close>

lemma run_emit [simp]: "run_proc (id_emit ex rk p) s = (Inr (), s\<lparr>id_bus := publish ex rk p (id_bus s)\<rparr>)"
  by (simp add: id_emit_def)

lemma run_users_create: "run_proc (users_create_async e dto) s = users_create e dto s"
  by (simp add: users_create_async_def users_create_def Let_def split: option.split del: new_user_def)

lemma run_users_update: "run_proc (users_update_async e i dto) s = users_update e i dto s"
  by (cases "users_findById i s")
    (simp_all add: users_update_async_def users_update_def saving_user_def map_prod_def case_prod_beta del: patch_user_def)

lemma run_users_softDelete: "run_proc (users_softDelete_async e i) s = users_softDelete e i s"
  by (cases "users_findById i s")
    (simp_all add: users_softDelete_async_def users_softDelete_def saving_user_def map_prod_def case_prod_beta)

lemma run_memberships_create: "run_proc (memberships_create_async e dto) s = memberships_create e dto s"
  by (auto simp: memberships_create_async_def memberships_create_def store_membership_async_def Let_def
      simp del: userAddedPayload_def split: sum.split option.split prod.split)

lemma run_memberships_remove: "run_proc (memberships_remove_async e i t) s = memberships_remove e i t s"
  by (simp add: memberships_remove_async_def memberships_remove_def saving_membership_def map_prod_def case_prod_beta
      split: option.split)

lemma run_incrementLoginAttempts: "run_proc (incrementLoginAttempts_async e k) s = incrementLoginAttempts e k s"
  by (auto simp: incrementLoginAttempts_async_def incrementLoginAttempts_def split: sum.split prod.split)

lemma run_validateCredentials: "run_proc (validateCredentials_async e m p) s = validateCredentials e m p s"
  by (auto simp: validateCredentials_async_def validateCredentials_def Let_def run_incrementLoginAttempts and_then_def
      split: option.split sum.split prod.split)

lemma run_login: "run_proc (login_async e u ip d) s = login e u ip d s"
  by (simp add: login_async_def login_def issueTokens_def Let_def split: sum.split del: new_token_def loginPayload_def)

lemma run_AuthController_login:
  "snd (run_proc (AuthController_login_async e m p h a) s) = snd (AuthController_login e m p h a s)"
  by (cases "validateCredentials e m p s"; cases "fst (validateCredentials e m p s)")
    (auto simp: AuthController_login_async_def AuthController_login_def LocalStrategy_validate_def
      run_validateCredentials run_login Let_def split: option.split)

lemma run_register: "run_proc (register_async e dto) s = register e dto s"
  by (simp add: register_async_def register_def run_users_create run_login and_then_def del: registerUser_def
      split: sum.split prod.split)

lemma run_refreshAccessToken: "run_proc (refreshAccessToken_async e tok) s = (refreshAccessToken e tok s, s)"
  by (auto simp: refreshAccessToken_async_def refreshAccessToken_def Let_def split: option.split)

lemma run_logout: "run_proc (logout_async e tok) s = (Inr (), logout e tok s)"
  by (auto simp: logout_async_def logout_def Let_def split: option.split)


lemma run_startImpersonation: "run_proc (startImpersonation_async e u dto) s = startImpersonation e u dto s"
  by (cases "users_findById (jp_sub u) s"; cases "users_findById (im_targetUserId dto) s")
    (auto simp: startImpersonation_async_def startImpersonation_def issueImpersonationToken_def impersonationClaims_def Let_def
      memberships_findByUserId_def findByUserAndTenant_def membership_roles_def membership_permissions_def
      simp del: startedPayload_def split: option.split)

lemma run_endImpersonation: "run_proc (endImpersonation_async e u) s = endImpersonation e u s"
  by (auto simp: endImpersonation_async_def endImpersonation_def reissueAdminToken_def Let_def split: option.split sum.split)

lemma run_assignRole:
  "snd (run_proc (assignRole_async e u i t r) s) = snd (RolesController_assignRole e u i t r s)"
  by (auto simp: assignRole_async_def RolesController_assignRole_def Let_def run_memberships_create run_memberships_remove
      and_then_def split: sum.split option.split prod.split)

lemma run_ended: "snd (run_proc (ended p) s) = snd (run_proc p s)"
  by (simp add: ended_def run_bind case_prod_beta)

lemma run_guarded: "(\<And>s. snd (run_proc p s) = snd (f s)) \<Longrightarrow> snd (run_proc (guarded_async r a u p) s) = snd (guarded r a u f s)"
  by (simp add: guarded_async_def guarded_def split: sum.split)

lemma run_with_uuid: "(\<And>s. snd (run_proc p s) = snd (f s)) \<Longrightarrow> snd (run_proc (with_uuid_async e i p) s) = snd (with_uuid e i f s)"
  by (simp add: with_uuid_async_def with_uuid_def)

lemma run_id_start: "snd (run_proc (id_start (e, Job ev)) s) = id_handle e ev s"
proof (cases ev)
  case (Ie_updateUser u i dto)
  have "snd (run_proc (bind_ok (Done (update_allowed u i)) (\<lambda>_. users_update_async e i dto)) s') =
      snd (if \<not> jp_isPlatformAdmin u \<and> jp_permissions u = None
        then (Inl (JsError ''Cannot read properties of undefined''), s')
        else if jp_sub u \<noteq> i \<and> \<not> (jp_isPlatformAdmin u \<or> ''users:write'' \<in> set (the (jp_permissions u)))
        then (Inl (Forbidden ''You can only update your own profile or must have users:write permission''), s')
        else answer (\<lambda>v. api_ok v None) (users_update e i dto s'))" for s'
    by (simp add: update_allowed_def run_users_update)
  from run_with_uuid [OF this] show ?thesis
    by (simp only: Ie_updateUser id_start.simps id_handle.simps UsersController_update_def run_ended)
next
  case (Ie_removeUser u i)
  show ?thesis
    unfolding Ie_removeUser id_start.simps id_handle.simps UsersController_remove_def run_ended
    by (intro run_guarded run_with_uuid) (simp add: run_users_softDelete)
next
  case (Ie_removeMembership u i t)
  show ?thesis
    unfolding Ie_removeMembership id_start.simps id_handle.simps MembershipsController_remove_def run_ended
    by (intro run_guarded run_with_uuid) (simp add: run_memberships_remove)
next
  case (Ie_createUser u dto)
  show ?thesis
    unfolding Ie_createUser id_start.simps id_handle.simps UsersController_create_def run_ended
    by (intro run_guarded) (simp add: run_users_create)
next
  case (Ie_createMembership u dto)
  show ?thesis
    unfolding Ie_createMembership id_start.simps id_handle.simps MembershipsController_create_def run_ended
    by (intro run_guarded) (simp add: run_memberships_create)
qed (simp_all add: run_ended run_bind case_prod_beta run_register run_AuthController_login run_logout run_assignRole
    run_startImpersonation run_endImpersonation AuthController_register_def AuthController_logout_def
    ImpersonationController_start_def ImpersonationController_end_def)

end
