(* ===== verification/Identity_Interleaving.thy ===== *)
theory Identity_Interleaving
  imports Identity_Async
begin

text \<open>
  Requests to the identity service handled at the same time. Accounts, memberships and tokens keep
  their identity, an account its address and its admin flag, and a revoked token stays revoked
  (\<open>id_evolves\<close>): on that every handler may rely between its steps. It follows that the constraints hold
  in every interleaving and that a logout is final also for refreshes that race with it.
\<close>

subsection \<open>What no request takes away\<close>

definition u_key :: "user \<Rightarrow> uuid \<times> string \<times> bool" where
  "u_key u = (u_id u, u_email u, u_isPlatformAdmin u)"

definition ms_key :: "membership \<Rightarrow> uuid \<times> uuid \<times> uuid" where
  "ms_key m = (m_id m, m_userId m, m_tenantId m)"

definition rt_key :: "refreshToken \<Rightarrow> refreshToken" where
  "rt_key r = r\<lparr>rt_revokedAt := None\<rparr>"

definition token_stored :: "string \<Rightarrow> id_state \<Rightarrow> bool" where
  "token_stored h s \<longleftrightarrow> (\<exists>r \<in> set (tokenRows s). rt_tokenHash r = h)"

definition token_revoked :: "string \<Rightarrow> id_state \<Rightarrow> bool" where
  "token_revoked h s \<longleftrightarrow> (\<exists>r \<in> set (tokenRows s). rt_tokenHash r = h \<and> rt_isRevoked r)"

definition id_evolves :: "id_state \<Rightarrow> id_state \<Rightarrow> bool" where
  "id_evolves s s' \<longleftrightarrow> u_key ` set (userRows s) \<subseteq> u_key ` set (userRows s') \<and>
     ms_key ` set (membershipRows s) \<subseteq> ms_key ` set (membershipRows s') \<and>
     rt_key ` set (tokenRows s) \<subseteq> rt_key ` set (tokenRows s') \<and>
     roleRows s' = roleRows s \<and> (\<forall>h. token_revoked h s \<longrightarrow> token_revoked h s')"

text \<open>The constraints, and the tokens of \<open>H\<close> are stored.\<close>

definition id_inv :: "string set \<Rightarrow> id_state \<Rightarrow> bool" where
  "id_inv H s \<longleftrightarrow> id_wf s \<and> (\<forall>h \<in> H. token_stored h s)"

lemma id_evolves_refl [simp]: "id_evolves s s"
  by (simp add: id_evolves_def)

interpretation sessions: shared_state "id_inv H" id_evolves for H
proof
  fix s s' s''
  show "id_evolves s s" by simp
  show "id_evolves s s' \<Longrightarrow> id_evolves s' s'' \<Longrightarrow> id_evolves s s''"
    unfolding id_evolves_def by (elim conjE, intro conjI) ((erule (1) subset_trans)+, simp_all)
qed

abbreviation id_meets :: "string set \<Rightarrow> ('a \<Rightarrow> id_state \<Rightarrow> bool) \<Rightarrow> (id_state, 'a) proc \<Rightarrow> id_state \<Rightarrow> bool" where
  "id_meets H \<equiv> meets (id_inv H) id_evolves"

lemma rt_key_hash: "rt_key r = rt_key r' \<Longrightarrow> rt_tokenHash r = rt_tokenHash r'"
  by (metis (mono_tags, lifting) refreshToken.select_convs(3) refreshToken.surjective refreshToken.update_convs(7) rt_key_def)

lemma evolves_user: "id_evolves s s' \<Longrightarrow> k \<in> u_key ` set (userRows s) \<Longrightarrow> k \<in> u_key ` set (userRows s')"
  by (auto simp: id_evolves_def)

lemma evolves_member: "id_evolves s s' \<Longrightarrow> k \<in> ms_key ` set (membershipRows s) \<Longrightarrow> k \<in> ms_key ` set (membershipRows s')"
  by (auto simp: id_evolves_def)

lemma evolves_token: "id_evolves s s' \<Longrightarrow> k \<in> rt_key ` set (tokenRows s) \<Longrightarrow> k \<in> rt_key ` set (tokenRows s')"
  by (auto simp: id_evolves_def)

lemma evolves_stored: "id_evolves s s' \<Longrightarrow> token_stored h s \<Longrightarrow> token_stored h s'"
  by (force simp: token_stored_def id_evolves_def dest: rt_key_hash)

lemma evolves_revoked: "id_evolves s s' \<Longrightarrow> token_revoked h s \<Longrightarrow> token_revoked h s'"
  by (simp add: id_evolves_def)

subsection \<open>The single steps\<close>

definition id_good :: "id_state \<Rightarrow> id_state \<Rightarrow> bool" where
  "id_good s s' \<longleftrightarrow> id_wf s' \<and> id_evolves s s'"

lemma good_inv: "id_inv H s \<Longrightarrow> id_good s s' \<Longrightarrow> id_inv H s' \<and> id_evolves s s'"
  by (auto simp: id_inv_def id_good_def intro: evolves_stored)

text \<open>Steps on Redis, the message channel and the sessions leave the constrained tables alone.\<close>

lemma good_frame:
  "id_wf s \<Longrightarrow> userRows s' = userRows s \<Longrightarrow> membershipRows s' = membershipRows s \<Longrightarrow> tokenRows s' = tokenRows s \<Longrightarrow>
   roleRows s' = roleRows s \<Longrightarrow> id_good s s'"
  using id_wf_cong [of s' s] by (simp add: id_good_def id_evolves_def token_revoked_def)

lemma good_insert_user:
  "id_wf s \<Longrightarrow> insert_user u s = Inr s' \<Longrightarrow> u_email u = toLowerCase (u_email u) \<Longrightarrow> id_good s s'"
  using id_wf_insert_user [of s u s']
  by (auto simp: insert_user_def id_good_def id_evolves_def token_revoked_def split: if_splits)

lemma good_insert_token: "id_wf s \<Longrightarrow> insert_token e r s = Inr s' \<Longrightarrow> id_good s s'"
  using id_wf_insert_token [of s e r s']
  by (auto simp: insert_token_def id_good_def id_evolves_def token_revoked_def split: if_splits)

lemma good_insert_membership: "id_wf s \<Longrightarrow> insert_membership m s = Inr s' \<Longrightarrow> id_good s s'"
  using id_wf_insert_membership [of s m s']
  by (auto simp: insert_membership_def id_good_def id_evolves_def token_revoked_def split: if_splits)

lemma good_updateLastLogin:
  assumes "id_wf s"
  shows "id_good s (updateLastLogin e i s)"
proof -
  have "map u_key (userRows (updateLastLogin e i s)) = map u_key (userRows s)"
    by (auto simp: updateLastLogin_def update_where_def u_key_def)
  then have "u_key ` set (userRows (updateLastLogin e i s)) = u_key ` set (userRows s)" by (metis list.set_map)
  with id_wf_updateLastLogin [OF assms] show ?thesis
    by (simp add: id_good_def id_evolves_def token_revoked_def) (simp add: updateLastLogin_def)
qed

text \<open>Saving a row that was loaded earlier hits the row of the same identity.\<close>

lemma good_save_user:
  assumes wf: "id_wf s" and k: "u_key u \<in> u_key ` set (userRows s)"
  shows "id_good s (snd (save_user now u s))"
proof -
  obtain u0 where u0: "u0 \<in> set (userRows s)" "u_key u = u_key u0" using k by auto
  then have f: "find_user (u_id u) s = Some u0" and same: "u_email u = u_email u0"
    using wf by (auto simp: find_user_iff u_key_def)
  let ?u = "fst (save_user now u s)"
  have ku: "u_key ?u = u_key u0" using u0(2) by (simp add: u_key_def)
  have "u_key x \<in> u_key ` set (save_row u_id ?u (userRows s))" if x: "x \<in> set (userRows s)" for x
  proof (cases "u_id x = u_id u")
    case True
    then have "x = u0" using x u0 wf by (auto simp: id_wf_def unique_on_def u_key_def dest: distinct_map_eq)
    then show ?thesis using ku wf by (force simp: set_save_row id_wf_def)
  qed (use x wf in \<open>auto simp: set_save_row id_wf_def\<close>)
  then have "id_evolves s (snd (save_user now u s))"
    by (auto simp: id_evolves_def userRows_save token_revoked_def)
  with id_wf_save_user [OF wf f same] show ?thesis by (simp add: id_good_def)
qed

lemma good_save_membership:
  assumes wf: "id_wf s" and k: "ms_key m \<in> ms_key ` set (membershipRows s)"
  shows "id_good s (snd (save_membership now m s))"
proof -
  obtain m0 where m0: "m0 \<in> set (membershipRows s)" "ms_key m = ms_key m0" using k by auto
  then have f: "find_membership (m_userId m) (m_tenantId m) s = Some m0" and same: "m_id m = m_id m0" "m_key m = m_key m0"
    using wf by (auto simp: find_membership_iff ms_key_def)
  let ?m = "fst (save_membership now m s)"
  have km: "ms_key ?m = ms_key m0" using m0(2) by (simp add: ms_key_def)
  have rows: "membershipRows (snd (save_membership now m s)) = save_row m_key ?m (membershipRows s)"
    by (rule membershipRows_save [OF wf f same])
  have "ms_key x \<in> ms_key ` set (save_row m_key ?m (membershipRows s))" if x: "x \<in> set (membershipRows s)" for x
  proof (cases "m_key x = m_key m")
    case True
    then have "x = m0" using x m0(1) same(2) wf distinct_map_eq [of m_key "membershipRows s" x m0]
      by (auto simp: id_wf_def unique_on_def)
    then show ?thesis using km wf by (force simp: set_save_row id_wf_def)
  qed (use x wf in \<open>auto simp: set_save_row id_wf_def\<close>)
  then have "id_evolves s (snd (save_membership now m s))"
    by (auto simp: id_evolves_def rows token_revoked_def)
  with id_wf_save_membership [OF wf f same] show ?thesis by (simp add: id_good_def)
qed

text \<open>Revoking a token that was loaded earlier: it may have been revoked in between, and is again.\<close>

definition revoke_row :: "instant \<Rightarrow> refreshToken \<Rightarrow> id_state \<Rightarrow> id_state" where
  "revoke_row now r s = s\<lparr>tokenRows := save_row rt_id (r\<lparr>rt_revokedAt := Some now\<rparr>) (tokenRows s)\<rparr>"

lemma good_revoke:
  assumes wf: "id_wf s" and k: "rt_key r \<in> rt_key ` set (tokenRows s)"
  shows "id_good s (revoke_row now r s) \<and> token_revoked (rt_tokenHash r) (revoke_row now r s)"
proof -
  obtain r0 where r0: "r0 \<in> set (tokenRows s)" "rt_key r = rt_key r0" using k by auto
  have "x\<lparr>rt_revokedAt := Some now\<rparr> = (rt_key x)\<lparr>rt_revokedAt := Some now\<rparr>" for x
    by (simp add: rt_key_def)
  then have eq: "r\<lparr>rt_revokedAt := Some now\<rparr> = r0\<lparr>rt_revokedAt := Some now\<rparr>"
    using r0(2) by metis
  note h = rt_key_hash [OF r0(2)]
  have f: "find_token (rt_tokenHash r) s = Some r0" using r0 wf h by (simp add: find_token_iff)
  note rv = revoke_rows [OF wf f, where v = "Some now"]
  have look: "find_token h' (revoke_row now r s) =
      (if h' = rt_tokenHash r then Some (r0\<lparr>rt_revokedAt := Some now\<rparr>) else find_token h' s)" for h'
    using rv(2) [of h'] by (simp add: revoke_row_def eq)
  have wf': "id_wf (revoke_row now r s)" using rv(1) by (simp add: revoke_row_def eq)
  have stays: "\<exists>x' \<in> set (tokenRows (revoke_row now r s)). rt_key x' = rt_key x \<and> (rt_isRevoked x \<longrightarrow> rt_isRevoked x')"
    if x: "x \<in> set (tokenRows s)" for x
  proof (cases "rt_tokenHash x = rt_tokenHash r")
    case True
    then have "x = r0" using x f wf by (simp add: find_token_iff) (metis find_token_iff option.inject wf)
    moreover have "r0\<lparr>rt_revokedAt := Some now\<rparr> \<in> set (tokenRows (revoke_row now r s))"
      using look [of "rt_tokenHash r"] find_SomeD by fastforce
    ultimately show ?thesis by (intro bexI) (auto simp: rt_key_def rt_isRevoked_def)
  next
    case False
    then have "find_token (rt_tokenHash x) (revoke_row now r s) = Some x"
      using look x wf by (simp add: find_token_iff)
    then show ?thesis using find_SomeD by fastforce
  qed
  have "token_revoked (rt_tokenHash r) (revoke_row now r s)"
    using look [of "rt_tokenHash r"] find_SomeD h by (fastforce simp: token_revoked_def rt_isRevoked_def)
  moreover have "id_evolves s (revoke_row now r s)"
    using stays by (fastforce simp: id_evolves_def token_revoked_def image_subset_iff revoke_row_def dest: rt_key_hash
      intro: rev_image_eqI)
  ultimately show ?thesis using wf' by (simp add: id_good_def)
qed

subsection \<open>The handlers\<close>

lemma id_inv_wf: "id_inv H s \<Longrightarrow> id_wf s"
  by (simp add: id_inv_def)

lemma id_step_rule:
  assumes "\<And>s. id_evolves s0 s \<Longrightarrow> id_inv H s \<Longrightarrow> id_good s (snd (f s)) \<and> Q (fst (f s)) (snd (f s))"
  shows "id_meets H Q (atomically f) s0"
  using assms by (intro sessions.meets_atomically) (meson good_inv)

lemma good_same_id: "id_inv H s \<Longrightarrow> id_good s s"
  by (rule good_frame [OF id_inv_wf]) simp_all

lemma id_reading_rule:
  "(\<And>s. id_evolves s0 s \<Longrightarrow> id_inv H s \<Longrightarrow> Q (Inr (f s)) s) \<Longrightarrow> id_meets H Q (reading f) s0"
  unfolding reading_def by (rule id_step_rule) (auto intro: good_same_id)

lemma id_writing_rule:
  "(\<And>s. id_evolves s0 s \<Longrightarrow> id_inv H s \<Longrightarrow> id_good s (f s) \<and> Q (Inr ()) (f s)) \<Longrightarrow> id_meets H Q (writing f) s0"
  unfolding writing_def by (rule id_step_rule) simp

lemma id_inserting_rule:
  assumes "\<And>s s'. id_evolves s0 s \<Longrightarrow> id_inv H s \<Longrightarrow> ins s = Inr s' \<Longrightarrow> id_good s s' \<and> Q (Inr a) s'"
    and "\<And>x s. Q (Inl x) s"
  shows "id_meets H Q (inserting ins a) s0"
  unfolding inserting_def using assms by (intro id_step_rule) (auto split: sum.split intro: good_same_id)

lemma id_query_rule:
  assumes "\<And>s a. id_evolves s0 s \<Longrightarrow> id_inv H s \<Longrightarrow> f s = Inr a \<Longrightarrow> Q (Inr a) s" and "\<And>x s. Q (Inl x) s"
  shows "id_meets H Q (atomically (\<lambda>s. (f s, s))) s0"
  using assms by (intro id_step_rule conjI) (auto intro: good_same_id, metis sumE)

abbreviation id_safe :: "string set \<Rightarrow> (id_state, 'a) proc \<Rightarrow> id_state \<Rightarrow> bool" where
  "id_safe H \<equiv> id_meets H (\<lambda>_ _. True)"

lemma id_safe_bind:
  "id_safe H p s0 \<Longrightarrow> id_inv H s0 \<Longrightarrow> (\<And>a s. id_inv H s \<Longrightarrow> id_safe H (f a) s) \<Longrightarrow> id_safe H (bind_ok p f) s0"
  by (rule sessions.meets_bind_ok [where Q = "\<lambda>_ _. True"]) (auto simp: sum.case_eq_if)

lemma id_safe_frame:
  "(\<And>s. userRows (f s) = userRows s) \<Longrightarrow> (\<And>s. membershipRows (f s) = membershipRows s) \<Longrightarrow>
   (\<And>s. tokenRows (f s) = tokenRows s) \<Longrightarrow> (\<And>s. roleRows (f s) = roleRows s) \<Longrightarrow> id_safe H (writing f) s0"
  by (rule id_writing_rule) (simp add: good_frame id_inv_wf)

lemma id_safe_emit: "id_safe H (id_emit ex rk p) s"
  unfolding id_emit_def by (rule id_safe_frame) simp_all

lemma id_safe_reading: "id_safe H (reading f) s"
  by (rule id_reading_rule) simp

lemma id_safe_query: "id_safe H (atomically (\<lambda>s. (f s, s))) s"
  by (rule id_step_rule) (auto intro: good_same_id)

lemmas id_safe_rules = id_safe_bind id_safe_emit id_safe_reading id_safe_query

lemma found_user: "users_findById i s = Inr u \<Longrightarrow> u_key u \<in> u_key ` set (userRows s)"
  by (auto dest!: users_findById_found find_SomeD)

lemma id_safe_load_user:
  assumes "id_inv H s0" "\<And>u s. id_inv H s \<Longrightarrow> u_key u \<in> u_key ` set (userRows s) \<Longrightarrow> id_safe H (f u) s"
  shows "id_safe H (bind_ok (atomically (\<lambda>s. (users_findById i s, s))) f) s0"
  by (rule sessions.meets_bind_ok [where Q = "\<lambda>u s. u_key u \<in> u_key ` set (userRows s)"])
    (auto intro!: id_query_rule assms dest: found_user)

lemma id_safe_save_user:
  "u_key u \<in> u_key ` set (userRows s0) \<Longrightarrow> id_safe H (saving_user now u) s0"
  unfolding saving_user_def
  by (rule id_step_rule) (auto intro!: good_save_user dest: id_inv_wf evolves_user)

lemma id_safe_users_update: "id_inv H s \<Longrightarrow> id_safe H (users_update_async e i dto) s"
  unfolding users_update_async_def
  by (rule id_safe_load_user) (auto intro!: id_safe_save_user simp: u_key_def)

lemma id_safe_softDelete: "id_inv H s \<Longrightarrow> id_safe H (users_softDelete_async e i) s"
  unfolding users_softDelete_async_def
  by (rule id_safe_load_user) (auto intro!: id_safe_save_user id_safe_bind simp: u_key_def)

lemma id_safe_users_create: "id_inv H s \<Longrightarrow> id_safe H (users_create_async e dto) s"
  unfolding users_create_async_def
  by (rule id_safe_bind)
    (auto intro!: id_safe_reading id_inserting_rule good_insert_user dest: id_inv_wf split: option.split)

lemma found_membership: "find_membership i t s = Some m \<Longrightarrow> ms_key m \<in> ms_key ` set (membershipRows s)"
  by (auto dest!: find_SomeD)

definition known_member :: "membership option \<Rightarrow> id_state \<Rightarrow> bool" where
  "known_member x s \<longleftrightarrow> (\<forall>m. x = Some m \<longrightarrow> ms_key m \<in> ms_key ` set (membershipRows s))"

lemma known_member_later: "known_member x s \<Longrightarrow> id_evolves s s' \<Longrightarrow> known_member x s'"
  by (auto simp: known_member_def id_evolves_def)

lemma ms_key_updates [simp]:
  "ms_key (m\<lparr>m_status := st\<rparr>) = ms_key m" "ms_key (m\<lparr>m_roleId := i, m_status := st, m_joinedAt := j\<rparr>) = ms_key m"
  by (simp_all add: ms_key_def)

lemma id_safe_save_membership:
  assumes "ms_key m \<in> ms_key ` set (membershipRows s0)"
  shows "id_safe H (saving_membership now m) s0"
  unfolding saving_membership_def
proof (rule id_step_rule)
  fix s assume s: "id_evolves s0 s" "id_inv H s"
  have "id_good s (snd (save_membership now m s))"
    by (rule good_save_membership [OF id_inv_wf [OF s(2)] evolves_member [OF s(1) assms]])
  then show "id_good s (snd (map_prod Inr id (save_membership now m s))) \<and> True" by simp
qed

lemma id_safe_load_membership:
  assumes "id_inv H s0"
    and "\<And>x s. id_inv H s \<Longrightarrow> known_member x s \<Longrightarrow> id_safe H (f x) s"
  shows "id_safe H (bind_ok (reading (\<lambda>s. find_membership i t s)) f) s0"
  by (rule sessions.meets_bind_ok [where Q = known_member])
    (auto intro!: id_reading_rule assms simp: known_member_def dest: found_membership)

lemma id_safe_store_membership:
  assumes "known_member existing s0"
  shows "id_safe H (store_membership_async e dto st existing) s0"
  unfolding store_membership_async_def
proof (rule id_step_rule, intro conjI)
  fix s assume s: "id_evolves s0 s" "id_inv H s"
  have wf: "id_wf s" by (rule id_inv_wf [OF s(2)])
  have "id_good s s'" if "store_membership e dto st existing s = Inr (m, s')" for m s'
  proof (cases existing)
    case None
    then show ?thesis
      using that wf by (auto simp: store_membership_def Let_def map_sum_def split: sum.splits intro: good_insert_membership)
  next
    case (Some m0)
    then have "ms_key m0 \<in> ms_key ` set (membershipRows s)" using known_member_later [OF assms s(1)] by (simp add: known_member_def)
    then have "id_good s (snd (save_membership (id_now e)
        (m0\<lparr>m_roleId := cm_roleId dto, m_status := st, m_joinedAt := Some (id_now e)\<rparr>) s))"
      by (intro good_save_membership [OF wf]) simp
    then show ?thesis using that Some by (simp add: store_membership_def prod_eq_iff)
  qed
  then show "id_good s (snd (case store_membership e dto st existing s of Inl x \<Rightarrow> (Inl x, s) | Inr (m, s') \<Rightarrow> (Inr m, s')))"
    using good_same_id [OF s(2)] by (auto split: sum.split)
qed simp

lemma id_safe_memberships_create: "id_inv H s \<Longrightarrow> id_safe H (memberships_create_async e dto) s"
  unfolding memberships_create_async_def
proof (rule id_safe_load_membership)
  fix x s assume s: "id_inv H s" "known_member x s"
  show "id_safe H (bind_ok (atomically (\<lambda>s. (roles_findById (cm_roleId dto) s, s))) (\<lambda>role.
       if x \<noteq> None \<and> m_status (the x) \<noteq> MS_removed
       then Done (Inl (Conflict (''User '' @ cm_userId dto @ '' already has an active membership in tenant '' @ cm_tenantId dto)))
       else case membershipStatus_of (coalesce (cm_status dto) ''active'') of
         None \<Rightarrow> Done (Inl (QueryFailed ''22P02''))
       | Some st \<Rightarrow>
           bind_ok (store_membership_async e dto st x) (\<lambda>saved.
           bind_ok (id_emit ''chassis.tenants'' ''tenant.user-added'' (userAddedPayload e dto role)) (\<lambda>_.
           Done (Inr saved))))) s"
    by (rule sessions.meets_bind_ok [where Q = "\<lambda>_. known_member x", OF _ s(1)])
      (use s(2) in \<open>auto intro!: id_query_rule id_safe_rules id_safe_store_membership
        intro: known_member_later split: option.split\<close>)
qed

lemma id_safe_memberships_remove: "id_inv H s \<Longrightarrow> id_safe H (memberships_remove_async e i t) s"
  unfolding memberships_remove_async_def findByUserAndTenant_def
  by (rule id_safe_load_membership)
    (auto simp: known_member_def split: option.split intro!: id_safe_bind id_safe_save_membership)

lemma id_safe_assignRole: "id_inv H s \<Longrightarrow> id_safe H (assignRole_async e u i t r) s"
  unfolding assignRole_async_def
  by (auto split: sum.split option.split intro!: id_safe_rules id_safe_memberships_create id_safe_memberships_remove)

lemma id_safe_guards:
  "id_safe H p s \<Longrightarrow> id_safe H (guarded_async r a u p) s" "id_safe H p s \<Longrightarrow> id_safe H (with_uuid_async e i p) s"
  by (auto simp: guarded_async_def with_uuid_async_def split: sum.split)

lemma id_safe_startImpersonation: "id_inv H s \<Longrightarrow> id_safe H (startImpersonation_async e u dto) s"
  unfolding startImpersonation_async_def Let_def
  by (auto intro!: id_safe_rules id_safe_frame id_inserting_rule good_frame [OF id_inv_wf [where H = H]] split: if_splits)

lemma blacklist_tables:
  "userRows (blacklist e h x s) = userRows s" "membershipRows (blacklist e h x s) = membershipRows s"
  "tokenRows (blacklist e h x s) = tokenRows s" "roleRows (blacklist e h x s) = roleRows s"
  by (simp_all add: blacklist_def Let_def)

lemma id_safe_endImpersonation: "id_inv H s \<Longrightarrow> id_safe H (endImpersonation_async e u) s"
  unfolding endImpersonation_async_def Let_def
  by (auto intro!: id_safe_rules id_safe_frame split: option.split simp: revokeImpersonationToken_def blacklist_tables)


lemma id_safe_increment: "id_inv H s \<Longrightarrow> id_safe H (incrementLoginAttempts_async e k) s"
  unfolding incrementLoginAttempts_async_def
  by (rule id_safe_bind)
    (auto intro!: id_step_rule id_safe_frame good_frame [OF id_inv_wf [where H = H]] split: sum.split prod.split)

lemma id_safe_validateCredentials: "id_inv H s \<Longrightarrow> id_safe H (validateCredentials_async e m p) s"
  unfolding validateCredentials_async_def Let_def
  by (auto intro!: id_safe_rules id_safe_increment id_safe_frame split: option.split)

subsection \<open>What an answer promises\<close>

definition issued :: "id_env \<Rightarrow> tokenResponse result \<Rightarrow> id_state \<Rightarrow> bool" where
  "issued e r s \<longleftrightarrow> (\<forall>t. r = Inr t \<longrightarrow> token_stored (sha256 e (tok_refreshToken t)) s)"

lemma issued_Inl [simp]: "issued e (Inl x) s"
  by (simp add: issued_def)

lemma inserted_token: "insert_token e r s = Inr s' \<Longrightarrow> token_stored (rt_tokenHash r) s'"
  by (auto simp: insert_token_def token_stored_def split: if_splits)

lemma meets_login:
  assumes "id_inv H s0"
  shows "id_meets H (issued e) (login_async e u ip d) s0"
  unfolding login_async_def
proof (rule sessions.meets_bind_ok [where Q = "\<lambda>_ _. True", OF _ assms])
  show "id_meets H (\<lambda>r s. case r of Inl x \<Rightarrow> issued e (Inl x) s | Inr a \<Rightarrow> True)
      (reading (\<lambda>s. buildJwtPayload u (primaryMembership (u_id u) s) s)) s0"
    by (rule id_reading_rule) simp
  let ?stored = "token_stored (sha256 e (randomToken e))"
  fix claims s1 assume s1: "id_inv H s1"
  show "id_meets H (issued e) (bind_ok (inserting (insert_token e (new_token e (u_id u) ip d)) ()) (\<lambda>_.
     bind_ok (writing (updateLastLogin e (u_id u))) (\<lambda>_.
     bind_ok (id_emit ''chassis.audit'' ''user.login'' (loginPayload e u ip)) (\<lambda>_.
     Done (Inr \<lparr>tok_accessToken = signAccessToken e claims, tok_refreshToken = randomToken e,
                tok_expiresIn = getExpiresInSeconds e, tok_tokenType = ''Bearer''\<rparr>))))) s1"
  proof (rule sessions.meets_bind_ok [where Q = "\<lambda>_. ?stored", OF _ s1])
    show "id_meets H (\<lambda>r s. case r of Inl x \<Rightarrow> issued e (Inl x) s | Inr a \<Rightarrow> ?stored s)
        (inserting (insert_token e (new_token e (u_id u) ip d)) ()) s1"
      by (rule id_inserting_rule) (auto intro: good_insert_token id_inv_wf dest: inserted_token)
    fix a s2 assume s2: "id_inv H s2" "?stored s2"
    have upd: "id_safe H (writing (updateLastLogin e (u_id u))) s2"
      by (rule id_writing_rule) (auto intro: good_updateLastLogin id_inv_wf)
    show "id_meets H (issued e) (bind_ok (writing (updateLastLogin e (u_id u))) (\<lambda>_.
       bind_ok (id_emit ''chassis.audit'' ''user.login'' (loginPayload e u ip)) (\<lambda>_.
       Done (Inr \<lparr>tok_accessToken = signAccessToken e claims, tok_refreshToken = randomToken e,
                tok_expiresIn = getExpiresInSeconds e, tok_tokenType = ''Bearer''\<rparr>)))) s2"
      by (intro sessions.meets_then [OF upd s2(1)] sessions.meets_then [OF id_safe_emit])
        (auto simp: issued_def intro: evolves_stored [OF _ s2(2)] sessions.rely_trans)
  qed
qed


lemma meets_AuthController_login: "id_inv H s \<Longrightarrow> id_meets H (issued e) (AuthController_login_async e m p h a) s"
  unfolding AuthController_login_async_def
  by (rule sessions.meets_then [OF id_safe_validateCredentials]) (auto intro: meets_login split: option.split)

definition registered :: "id_env \<Rightarrow> registerDto \<Rightarrow> id_state \<Rightarrow> bool" where
  "registered e dto s \<longleftrightarrow> (newUserId e, toLowerCase (rg_email dto), False) \<in> u_key ` set (userRows s)"

lemma registered_later: "id_evolves s s' \<Longrightarrow> registered e dto s \<Longrightarrow> registered e dto s'"
  by (simp add: registered_def evolves_user)

lemma good_registration:
  assumes "id_inv H s" "insert_user (new_user e (registerUser dto)) s = Inr s'"
  shows "id_good s s' \<and> registered e dto s'"
proof
  show "id_good s s'" by (rule good_insert_user [OF id_inv_wf [OF assms(1)] assms(2)]) simp
  show "registered e dto s'" using assms(2) by (auto simp: insert_user_def registered_def u_key_def split: if_splits)
qed

lemma meets_conj:
  assumes "id_meets H Q p s" "J s" and stable: "\<And>s s'. id_evolves s s' \<Longrightarrow> J s \<Longrightarrow> J s'"
  shows "id_meets H (\<lambda>a s. Q a s \<and> J s) p s"
  using assms(1,2)
proof (induction p arbitrary: s rule: proc_induct)
  case (Await g)
  have "J (snd (g s'))" if "id_evolves s s'" "id_evolves s' (snd (g s'))" for s'
    by (rule stable [OF that(2) stable [OF that(1) Await.prems(2)]])
  with Await show ?case by (simp add: fst_map_prod)
qed simp

lemma meets_register:
  assumes "id_inv H s0"
  shows "id_meets H (\<lambda>r s. \<forall>t. r = Inr t \<longrightarrow> issued e r s \<and> registered e dto s) (register_async e dto) s0"
  unfolding register_async_def
proof (rule sessions.meets_bind_ok [where Q = "\<lambda>_. registered e dto", OF _ assms])
  show "id_meets H (\<lambda>r s. case r of Inl x \<Rightarrow> \<forall>t. Inl x = Inr t \<longrightarrow> issued e (Inl x) s \<and> registered e dto s
      | Inr u \<Rightarrow> registered e dto s) (users_create_async e (registerUser dto)) s0"
    unfolding users_create_async_def
    by (rule sessions.meets_then [OF id_safe_reading assms])
      (auto simp del: registerUser_def new_user_def split: option.split intro!: id_inserting_rule dest: good_registration)
  fix u s assume "id_inv H s" "registered e dto s"
  then have "id_meets H (\<lambda>r s. issued e r s \<and> registered e dto s) (login_async e u None None) s"
    by (rule meets_conj [OF meets_login]) (rule registered_later)
  then show "id_meets H (\<lambda>r s. \<forall>t. r = Inr t \<longrightarrow> issued e r s \<and> registered e dto s) (login_async e u None None) s"
    by (rule sessions.meets_weaken) auto
qed

lemma blacklist_revoked: "token_revoked h (blacklist e h' x s) = token_revoked h s"
  by (simp add: token_revoked_def blacklist_tables)

text \<open>Logging out a stored token revokes it, also when another logout of it runs at the same time.\<close>

lemma meets_logout:
  assumes "id_inv H s0"
  shows "id_meets H (\<lambda>_ s. sha256 e tok \<in> H \<longrightarrow> token_revoked (sha256 e tok) s) (logout_async e tok) s0"
proof -
  let ?h = "sha256 e tok"
  let ?Q = "\<lambda>_ s. ?h \<in> H \<longrightarrow> token_revoked ?h s"
  let ?known = "\<lambda>x s. case x of None \<Rightarrow> ?h \<notin> H
    | Some r \<Rightarrow> rt_tokenHash r = ?h \<and> rt_key r \<in> rt_key ` set (tokenRows s) \<and> (rt_isRevoked r \<longrightarrow> token_revoked ?h s)"
  have known: "?known (find_token ?h s) s" if "id_inv H s" for s
    using that by (auto simp: id_inv_def token_stored_def token_revoked_def find_None_iff split: option.split dest!: find_SomeD)
  show ?thesis
    unfolding logout_async_def Let_def
  proof (rule sessions.meets_bind_ok [where Q = ?known, OF _ assms])
    show "id_meets H (\<lambda>r s. case r of Inl x \<Rightarrow> ?Q (Inl x) s | Inr x \<Rightarrow> ?known x s) (reading (find_token ?h)) s0"
      by (rule id_reading_rule) (simp add: known)
    fix x s assume s: "id_inv H s" "?known x s"
    show "id_meets H ?Q (case x of None \<Rightarrow> Done (Inr ())
      | Some stored \<Rightarrow> if rt_isRevoked stored then Done (Inr ())
          else bind_ok (writing (\<lambda>s. s\<lparr>tokenRows := save_row rt_id (stored\<lparr>rt_revokedAt := Some (id_now e)\<rparr>) (tokenRows s)\<rparr>))
            (\<lambda>_. writing (blacklist e ?h (rt_expiresAt stored)))) s"
    proof (cases "\<exists>r. x = Some r \<and> \<not> rt_isRevoked r")
      case True
      then obtain r where r: "x = Some r" "\<not> rt_isRevoked r" "rt_tokenHash r = ?h" "rt_key r \<in> rt_key ` set (tokenRows s)"
        using s(2) by auto
      have "id_meets H ?Q (bind_ok (writing (revoke_row (id_now e) r)) (\<lambda>_. writing (blacklist e ?h (rt_expiresAt r)))) s"
      proof (rule sessions.meets_bind_ok [where Q = "\<lambda>_. token_revoked ?h", OF _ s(1)])
        show "id_meets H (\<lambda>q s. case q of Inl x \<Rightarrow> ?Q (Inl x) s | Inr x \<Rightarrow> token_revoked ?h s) (writing (revoke_row (id_now e) r)) s"
        proof (rule id_writing_rule)
          fix s1 assume "id_evolves s s1" "id_inv H s1"
          from good_revoke [OF id_inv_wf [OF this(2)] evolves_token [OF this(1) r(4)], of "id_now e"]
          show "id_good s1 (revoke_row (id_now e) r s1) \<and> (case Inr () of Inl x \<Rightarrow> ?Q (Inl x) (revoke_row (id_now e) r s1)
              | Inr x \<Rightarrow> token_revoked ?h (revoke_row (id_now e) r s1))"
            by (simp add: r(3))
        qed
        fix a s2 assume "token_revoked ?h s2"
        then show "id_meets H ?Q (writing (blacklist e ?h (rt_expiresAt r))) s2"
          by (intro id_writing_rule conjI good_frame [OF id_inv_wf [where H = H]])
            (simp_all add: blacklist_tables blacklist_revoked evolves_revoked)
      qed
      then show ?thesis using r by (simp add: revoke_row_def [abs_def])
    qed (use s(2) in \<open>auto split: option.splits\<close>)
  qed
qed

text \<open>A refresh that starts after its token was revoked is refused.\<close>

lemma revoked_found: "id_wf s \<Longrightarrow> token_revoked h s \<Longrightarrow> \<exists>r. find_token h s = Some r \<and> rt_isRevoked r"
  by (auto simp: token_revoked_def find_token_iff)

definition refused :: "'a result \<Rightarrow> bool" where
  "refused r \<longleftrightarrow> (\<exists>x. r = Inl x)"

lemma refused_simps [simp]: "refused (Inl x)" "\<not> refused (Inr a)"
  by (simp_all add: refused_def)

lemma meets_revoked_refresh:
  assumes "id_inv H s0" and revoked: "token_revoked (sha256 e tok) s0"
  shows "id_meets H (\<lambda>r _. refused r) (refreshAccessToken_async e tok) s0"
proof -
  let ?h = "sha256 e tok"
  let ?Q = "\<lambda>r _. refused r"
  have stored: "id_meets H ?Q (bind_ok (reading (\<lambda>s. map_option (\<lambda>r. (r, find_user (rt_userId r) s)) (find_token ?h s))) f) s"
    if "id_inv H s" "token_revoked ?h s"
      and f: "\<And>r u. rt_isRevoked r \<Longrightarrow> f (Some (r, u)) = Done (Inl (Unauthorized ''Invalid or expired refresh token''))" for s f
  proof (rule sessions.meets_bind_ok [where Q = "\<lambda>x _. \<exists>r u. x = Some (r, u) \<and> rt_isRevoked r", OF _ that(1)])
    show "id_meets H (\<lambda>r s. case r of Inl x \<Rightarrow> ?Q (Inl x) s | Inr x \<Rightarrow> \<exists>r u. x = Some (r, u) \<and> rt_isRevoked r)
        (reading (\<lambda>s. map_option (\<lambda>r. (r, find_user (rt_userId r) s)) (find_token ?h s))) s"
    proof (rule id_reading_rule)
      fix s' assume "id_evolves s s'" "id_inv H s'"
      from revoked_found [OF id_inv_wf [OF this(2)] evolves_revoked [OF this(1) that(2)]]
      show "case Inr (map_option (\<lambda>r. (r, find_user (rt_userId r) s')) (find_token ?h s')) of
          Inl x \<Rightarrow> ?Q (Inl x) s' | Inr x \<Rightarrow> \<exists>r u. x = Some (r, u) \<and> rt_isRevoked r"
        by auto
    qed
  qed (auto simp: f)
  show ?thesis
    unfolding refreshAccessToken_async_def Let_def
    by (rule sessions.meets_then [OF id_safe_reading assms(1)])
      (auto intro!: stored evolves_revoked [OF _ revoked] simp: rt_isValid_def)
qed

text \<open>What an answer says for good: a token handed out is on record, a registration has its account, and a
  logout of a token of \<open>H\<close> has revoked it.\<close>

fun id_answered :: "string set \<Rightarrow> id_env \<times> id_job \<Rightarrow> id_outcome \<Rightarrow> id_state \<Rightarrow> bool" where
  "id_answered H (e, Job (Ie_register dto)) (Tokens r) s = (\<forall>t. r = Inr t \<longrightarrow> issued e r s \<and> registered e dto s)"
| "id_answered H (e, Job (Ie_login m p h a)) (Tokens r) s = issued e r s"
| "id_answered H (e, Job (Ie_logout tok)) (Ended r) s = (sha256 e tok \<in> H \<longrightarrow> token_revoked (sha256 e tok) s)"
| "id_answered H _ _ _ = True"

lemma issued_later: "id_evolves s s' \<Longrightarrow> issued e r s \<Longrightarrow> issued e r s'"
  by (auto simp: issued_def intro: evolves_stored)

lemma id_answered_later: "id_evolves s s' \<Longrightarrow> id_answered H r a s \<Longrightarrow> id_answered H r a s'"
  by (cases "(H, r, a, s)" rule: id_answered.cases)
    (auto dest: issued_later registered_later evolves_revoked)

lemma meets_outcome:
  assumes "id_meets H Q p s" "id_inv H s" "\<And>r s. Q r s \<Longrightarrow> Q' (f r) s"
  shows "id_meets H Q' (bind_proc p (\<lambda>r. Done (f r))) s"
  by (rule sessions.meets_bind [OF assms(1,2)]) (simp add: assms(3))

lemma meets_ended:
  "id_safe H p s \<Longrightarrow> id_inv H s \<Longrightarrow> (\<And>r s. Q (Ended r) s) \<Longrightarrow> id_meets H Q (ended p) s"
  unfolding ended_def by (rule meets_outcome [where Q = "\<lambda>_ _. True"]) auto

lemma id_safe_refresh: "id_inv H s \<Longrightarrow> id_safe H (refreshAccessToken_async e tok) s"
  unfolding refreshAccessToken_async_def Let_def
  by (auto intro!: id_safe_rules split: option.split)

lemma meets_id_start:
  assumes "id_inv H s"
  shows "id_meets H (id_answered H r) (id_start r) s"
proof (cases r rule: id_start.cases)
  case (2 e dto)
  show ?thesis unfolding 2 id_start.simps by (rule meets_outcome [OF meets_register [OF assms] assms]) simp
next
  case (3 e m p h a)
  show ?thesis unfolding 3 id_start.simps by (rule meets_outcome [OF meets_AuthController_login [OF assms] assms]) simp
next
  case (4 e tok)
  show ?thesis unfolding 4 id_start.simps ended_def by (rule meets_outcome [OF meets_logout [OF assms] assms]) simp
next
  case (1 e tok)
  show ?thesis unfolding 1 id_start.simps by (rule meets_outcome [OF id_safe_refresh [OF assms] assms]) simp
next
  case (12 e u)
  show ?thesis unfolding 12 id_start.simps by (rule meets_outcome [OF id_safe_endImpersonation [OF assms] assms]) simp
qed (auto intro!: meets_ended id_safe_guards id_safe_users_create id_safe_softDelete id_safe_memberships_create
  id_safe_memberships_remove id_safe_assignRole id_safe_startImpersonation id_safe_bind id_safe_users_update assms)

interpretation identity: async_service "id_inv H" id_evolves id_start "id_answered H" for H
  by unfold_locales (erule meets_id_start, erule (1) id_answered_later)

subsection \<open>Every interleaving\<close>

definition stored_hashes :: "id_state \<Rightarrow> string set" where
  "stored_hashes s = rt_tokenHash ` set (tokenRows s)"

lemma id_inv_stored: "id_wf s \<Longrightarrow> id_inv (stored_hashes s) s"
  by (auto simp: id_inv_def stored_hashes_def token_stored_def)

text \<open>C6: any number of registrations, logins, logouts, refreshes, profile and membership changes and
  impersonations handled by the identity service at the same time, interrupted at every statement and
  Redis command in any order: after every step the tables satisfy their constraints, no account,
  membership or token disappears or changes its identity, no account gains or loses the admin flag, and
  no revoked token becomes usable. What an answer says stays true: the refresh token of a successful
  login is on record, a successful registration has its account (without the admin flag), and a logout
  has revoked the token it named.\<close>

theorem identity_interleaving_invariant:
  assumes "interleaved id_start ([], s0) (ps, s)" and "id_wf s0"
  shows "id_wf s \<and> id_evolves s0 s \<and> (\<forall>r a. (r, Done a) \<in> set ps \<longrightarrow> id_answered (stored_hashes s0) r a s)"
  using identity.interleaved_keeps [OF assms(1) identity.pool_ok_empty [OF id_inv_stored [OF assms(2)]]]
  by (auto dest: id_inv_wf)

lemma revoked_for_good:
  assumes "interleaved id_start (ps0, s0) (ps, s)" "identity.pool_ok H (ps0, s0)" "token_revoked h s0"
    and "length ps0 \<le> i" "i < length ps" "ps ! i = ((e, Refresh tok), Done a)" "sha256 e tok = h"
  shows "\<exists>x. a = Access (Inl x)"
proof -
  let ?Q = "\<lambda>(r :: id_env \<times> id_job) a (s :: id_state). \<forall>e tok. r = (e, Refresh tok) \<longrightarrow> sha256 e tok = h \<longrightarrow> (\<exists>x. a = Access (Inl x))"
  have starts: "id_meets H (?Q r) (id_start r) s" if s: "id_inv H s" "token_revoked h s" for r s
  proof (cases "\<exists>e tok. r = (e, Refresh tok) \<and> sha256 e tok = h")
    case True
    then obtain e tok where r: "r = (e, Refresh tok)" "sha256 e tok = h" by auto
    have "id_meets H (\<lambda>r _. refused r) (refreshAccessToken_async e tok) s" using s r(2) by (intro meets_revoked_refresh) auto
    then show ?thesis unfolding r(1) id_start.simps by (rule meets_outcome [OF _ s(1)]) (auto simp: refused_def)
  qed (auto intro!: sessions.meets_weaken [OF meets_id_start [OF s(1)]])
  have "identity.fulfils H ?Q (ps, s) i"
    using identity.late_arrivals [OF assms(1,2), of "token_revoked h" ?Q] starts assms(3-5) by (auto dest: evolves_revoked)
  with assms(6,7) show ?thesis by (simp add: identity.fulfils_def)
qed

text \<open>C4: a logout is final under every interleaving. Once the logout of a stored refresh token has been
  answered, every refresh that arrives later with that token is refused, whatever requests were and are
  in flight beside it: a login, another logout of the same token, or a refresh that read the row
  before it was revoked cannot bring it back.\<close>

theorem refresh_after_logout_refused:
  assumes "id_wf s0" and "interleaved id_start ([], s0) (ps1, s1)"
    and "((e, Job (Ie_logout tok)), Done (Ended r)) \<in> set ps1" and "sha256 e tok \<in> stored_hashes s0"
    and "interleaved id_start (ps1, s1) (ps, s)"
    and "length ps1 \<le> i" and "i < length ps" and "ps ! i = ((e', Refresh tok'), Done a)" and "sha256 e' tok' = sha256 e tok"
  shows "\<exists>x. a = Access (Inl x)"
proof (rule revoked_for_good [OF assms(5) _ _ assms(6-9)])
  note ok = identity.pool_ok_empty [OF id_inv_stored [OF assms(1)]]
  show "identity.pool_ok (stored_hashes s0) (ps1, s1)" using identity.interleaved_ok [OF assms(2) ok] by simp
  show "token_revoked (sha256 e tok) s1"
    using identity.interleaved_keeps(3) [OF assms(2) ok assms(3)] assms(4) by simp
qed

end
