(* ===== verification/Identity_Races.thy ===== *)
theory Identity_Races
  imports Identity_Interleaving Identity_Witnesses
begin

text \<open>
  Concrete interleavings of the identity service: a logout beside a refresh, wrong passwords tried in
  parallel, and a profile change that overtakes the removal of its account.
\<close>

lemmas xr_eval = atomically_def reading_def writing_def inserting_def bind_ok_def

subsection \<open>Logout\<close>

definition xl_logout :: "id_env \<times> id_job" where
  "xl_logout = (iw_env 1000, Job (Ie_logout ''rnd''))"

definition xl_refresh :: "id_env \<times> id_job" where
  "xl_refresh = (iw_env 2000, Refresh ''rnd'')"

text \<open>A refresh in flight when the token is revoked; a second logout at the same time.\<close>

definition xl_mid :: "(id_env \<times> id_job, id_state, id_outcome) pool \<times> id_state" where
  "xl_mid = replay id_start [xl_refresh, xl_logout, xl_logout] [0, 1, 2, 1, 2, 1, 2] ([], snd iw_login)"

definition xl_end :: "(id_env \<times> id_job, id_state, id_outcome) pool \<times> id_state" where
  "xl_end = replay id_start [xl_refresh] [3, 3, 0] xl_mid"

lemma xl_mid_done: "fst xl_mid ! 1 = (xl_logout, Done (Ended (Inr ())))" "length (fst xl_mid) = 3"
  by (simp_all add: xl_mid_def replay_def arrivals_def xl_refresh_def xl_logout_def refreshAccessToken_async_def
      logout_async_def ended_def xr_eval iw_login_def login_def issueTokens_def insert_token_def token_fits_def
      user_fits_def fits_def updateLastLogin_def Let_def iw_defs rt_isRevoked_def redis_get_def)

lemma xl_end_done: "\<exists>a. fst xl_end ! 3 = (xl_refresh, Done a)" "length (fst xl_end) = 4"
  by (simp_all add: xl_end_def xl_mid_def replay_def arrivals_def xl_refresh_def xl_logout_def refreshAccessToken_async_def
      logout_async_def ended_def xr_eval iw_login_def login_def issueTokens_def insert_token_def token_fits_def
      user_fits_def fits_def updateLastLogin_def Let_def iw_defs rt_isRevoked_def redis_get_def blacklist_def redis_setex_def
      parseExpiry_def parseDurationToSeconds_def unit_seconds_def is_digit_def read_digits_def digit_val_def)

lemma xl_stored: "sha256 (iw_env 1000) ''rnd'' \<in> stored_hashes (snd iw_login)"
  using iw_token by (auto simp: stored_hashes_def iw_env_def dest!: find_SomeD intro: rev_image_eqI)

lemma xl_logged_out: "(xl_logout, Done (Ended (Inr ()))) \<in> set (fst xl_mid)"
proof -
  have "1 < length (fst xl_mid)" by (simp add: xl_mid_done(2))
  from nth_mem [OF this] show ?thesis by (simp only: xl_mid_done(1))
qed

lemma xl_mid_interleaved: "interleaved id_start ([], snd iw_login) (fst xl_mid, snd xl_mid)"
  by (simp add: xl_mid_def replay_interleaved)

theorem identity_interleaving_invariant_witness:
  "id_wf (snd xl_mid) \<and> id_evolves (snd iw_login) (snd xl_mid) \<and> token_revoked ''h-rnd'' (snd xl_mid)"
proof -
  note inv = identity_interleaving_invariant [OF xl_mid_interleaved iw_login_wf]
  with xl_logged_out have "id_answered (stored_hashes (snd iw_login)) xl_logout (Ended (Inr ())) (snd xl_mid)" by blast
  with inv xl_stored show ?thesis by (simp add: xl_logout_def iw_env_def)
qed

theorem refresh_after_logout_refused_witness:
  "\<exists>x. fst xl_end ! 3 = (xl_refresh, Done (Access (Inl x)))"
proof -
  obtain a where a: "fst xl_end ! 3 = (xl_refresh, Done a)" using xl_end_done(1) by blast
  have later: "interleaved id_start (fst xl_mid, snd xl_mid) (fst xl_end, snd xl_end)"
    unfolding xl_end_def prod.collapse by (rule replay_interleaved)
  have "((iw_env 1000, Job (Ie_logout ''rnd'')), Done (Ended (Inr ()))) \<in> set (fst xl_mid)"
    using xl_logged_out by (simp add: xl_logout_def)
  from refresh_after_logout_refused [OF iw_login_wf xl_mid_interleaved this xl_stored later, of 3 "iw_env 2000" "''rnd''" a]
  show ?thesis using a xl_mid_done(2) xl_end_done(2) by (auto simp: xl_refresh_def iw_env_def)
qed

subsection \<open>Wrong passwords in parallel\<close>

text \<open>The counter is read before the password is checked and written after it, as two Redis commands. With
  at most two failures allowed, three wrong passwords and the right one are sent at the same time: all
  four are checked, and the last one logs in after three failures. One after the other the third would
  have been refused (\<open>login_lockout\<close>).\<close>

definition xp_try :: "string \<Rightarrow> id_env \<times> id_job" where
  "xp_try p = (iw_env 1000, Job (Ie_login ''bob@x.io'' p Map.empty None))"

definition xp_end :: "(id_env \<times> id_job, id_state, id_outcome) pool \<times> id_state" where
  "xp_end = replay id_start (map xp_try [''a'', ''b'', ''c'', ''pw'']) ([0, 1, 2, 3] @ [0, 0, 0, 1, 1, 2, 2] @ [3, 3, 3, 3, 3, 3]) ([], iw_state)"

lemma bob_low: "toLowerCase ''bob@x.io'' = ''bob@x.io''"
  by (simp add: toLowerCase_def lower_char_def)

lemma parallel_logins_evade_lockout:
  "interleaved id_start ([], iw_state) xp_end \<and> loginMaxAttempts (iw_env 1000) = Some 2 \<and>
   map snd (take 3 (fst xp_end)) = replicate 3 (Done (Tokens (Inl (Unauthorized ''Invalid email or password'')))) \<and>
   (\<exists>t. snd (fst xp_end ! 3) = Done (Tokens (Inr t)))"
proof (intro conjI)
  show "interleaved id_start ([], iw_state) xp_end" unfolding xp_end_def by (rule replay_interleaved)
  show "loginMaxAttempts (iw_env 1000) = Some 2" by (simp add: iw_env_def)
  note eval = xp_end_def replay_def arrivals_def xp_try_def AuthController_login_async_def validateCredentials_async_def
    incrementLoginAttempts_async_def login_async_def id_emit_def xr_eval loginAttemptsKey_def bob_low users_findByEmail_def
    redis_get_def redis_incr_def redis_expire_def redis_del_def insert_token_def token_fits_def fits_def Let_def digits_show_nat iw_defs
  show "map snd (take 3 (fst xp_end)) = replicate 3 (Done (Tokens (Inl (Unauthorized ''Invalid email or password''))))"
    by (simp add: eval numeral_3_eq_3)
  show "\<exists>t. snd (fst xp_end ! 3) = Done (Tokens (Inr t))"
    by (simp add: eval)
qed

subsection \<open>A profile change beside the removal of its account\<close>

text \<open>The profile change loads the row, the removal deactivates the account and is answered, and then the
  change saves the row as it was loaded: the account is active again.\<close>

definition xd_rename :: "id_env \<times> id_job" where
  "xd_rename = (iw_env 1000, Job (Ie_updateUser (iw_caller ''bob'' False) ''bob''
     \<lparr>uu_displayName = Value ''Bob'', uu_phone = Undefined, uu_avatarUrl = Undefined, uu_isActive = Undefined, uu_emailVerified = Undefined\<rparr>))"

definition xd_remove :: "id_env \<times> id_job" where
  "xd_remove = (iw_env 1000, Job (Ie_removeUser ((iw_caller ''adm'' True)\<lparr>jp_permissions := Some [''users:delete'']\<rparr>) ''bob''))"

definition xd_at :: "nat list \<Rightarrow> (id_env \<times> id_job, id_state, id_outcome) pool \<times> id_state" where
  "xd_at turns = replay id_start [xd_rename, xd_remove] turns ([], iw_state)"

lemma removed_account_revived:
  "interleaved id_start ([], iw_state) (xd_at [0, 1, 1, 0]) \<and>
   snd (fst (xd_at [0, 1, 1]) ! 1) = Done (Ended (Inr ())) \<and>
   map_option u_isActive (find_user ''bob'' (snd (xd_at [0, 1, 1]))) = Some False \<and>
   map_option u_isActive (find_user ''bob'' (snd (xd_at [0, 1, 1, 0]))) = Some True"
proof (intro conjI)
  note eval = xd_at_def replay_def arrivals_def xd_rename_def xd_remove_def ended_def users_update_async_def users_softDelete_async_def
    with_uuid_async_def guarded_async_def update_allowed_def saving_user_def save_user_def save_row_def users_findById_def xr_eval
    identity_PermissionsGuard_def permission_def Let_def iw_defs
  show "interleaved id_start ([], iw_state) (xd_at [0, 1, 1, 0])" unfolding xd_at_def by (rule replay_interleaved)
  show "snd (fst (xd_at [0, 1, 1]) ! 1) = Done (Ended (Inr ()))" by (simp add: eval)
  show "map_option u_isActive (find_user ''bob'' (snd (xd_at [0, 1, 1]))) = Some False" by (simp add: eval)
  show "map_option u_isActive (find_user ''bob'' (snd (xd_at [0, 1, 1, 0]))) = Some True" by (simp add: eval)
qed

end
