(* ===== verification/Feature_Async.thy ===== *)
theory Feature_Async
  imports Tenant_Features Async_Processes
begin

text \<open>
  Feature checks and toggles handled at the same time. The check reads the cache, then the tables, and
  then fills the cache; the toggle writes the table and then deletes the cached answer. A check that
  read the table before a toggle may fill the cache after it, so the cache is not coherent under
  interleaving; it is within the time to live: once that has passed since the toggle was answered, every
  new check answers the toggled value.
\<close>

subsection \<open>The two handlers with their awaits\<close>

definition cacheAnswer :: "tm_env \<Rightarrow> string \<Rightarrow> bool \<Rightarrow> (tm_state, bool result) proc" where
  "cacheAnswer e k enabled =
     bind_ok (writing (\<lambda>s. s\<lparr>tm_redis := redis_setex (tm_cacheNow e) k cacheTtlSeconds (flag enabled) (tm_redis s)\<rparr>))
       (\<lambda>_. Done (Inr enabled))"

definition isFeatureEnabled_async :: "tm_env \<Rightarrow> uuid \<Rightarrow> string \<Rightarrow> (tm_state, bool result) proc" where
  "isFeatureEnabled_async e tenantId featureCode =
     (let k = cacheKey tenantId featureCode in
      bind_ok (reading (\<lambda>s. redis_get (tm_now e) k (tm_redis s))) (\<lambda>cached.
        case cached of
          Some v \<Rightarrow> Done (Inr (v = ''1''))
        | None \<Rightarrow>
            bind_ok (reading (\<lambda>s. find_override tenantId featureCode s)) (\<lambda>override.
              case override of
                Some f \<Rightarrow> cacheAnswer e k (tf_isEnabled f)
              | None \<Rightarrow>
                  bind_ok (reading (\<lambda>s. find_definition featureCode s)) (\<lambda>definition.
                    cacheAnswer e k (case definition of Some d \<Rightarrow> fd_defaultEnabled d | None \<Rightarrow> False)))))"

definition newOverride :: "tm_env \<Rightarrow> uuid \<Rightarrow> string \<Rightarrow> bool \<Rightarrow> uuid \<Rightarrow> tenantFeature" where
  "newOverride e tenantId featureCode enabled userId =
     \<lparr>tf_id = newFeatureId e tenantId featureCode, tf_tenantId = tenantId, tf_featureCode = featureCode,
      tf_isEnabled = enabled, tf_enabledBy = Some userId, tf_enabledAt = tm_now e\<rparr>"

text \<open>Replacing a row under the constraints.\<close>

definition save_feature :: "tenantFeature \<Rightarrow> tm_state \<Rightarrow> tm_state result" where
  "save_feature f s =
     (if \<exists>x \<in> set (tenantFeatures s). tf_id x \<noteq> tf_id f \<and> tf_key x = tf_key f then Inl (QueryFailed ''23505'')
      else if find_definition (tf_featureCode f) s = None \<or> find_tenant (tf_tenantId f) s = None
      then Inl (QueryFailed ''23503'')
      else Inr (s\<lparr>tenantFeatures := save_row tf_id f (tenantFeatures s)\<rparr>))"

text \<open>\<^verbatim>\<open>save\<close> on a loaded row selects it again; it then updates the columns in which the entity
  differs from what was selected, in the row that is there by then, or inserts when none was found.\<close>

definition update_override :: "tenantFeature \<Rightarrow> tenantFeature \<Rightarrow> tm_state \<Rightarrow> tm_state result" where
  "update_override selected f s =
     (case find (\<lambda>x. tf_id x = tf_id f) (tenantFeatures s) of
        None \<Rightarrow> Inr s
      | Some row \<Rightarrow> save_feature (row\<lparr>
          tf_tenantId := changed tf_tenantId selected f row, tf_featureCode := changed tf_featureCode selected f row,
          tf_isEnabled := changed tf_isEnabled selected f row, tf_enabledBy := changed tf_enabledBy selected f row,
          tf_enabledAt := changed tf_enabledAt selected f row\<rparr>) s)"

definition saving_override :: "tenantFeature \<Rightarrow> (tm_state, tenantFeature result) proc" where
  "saving_override f =
     bind_ok (reading (\<lambda>s. find (\<lambda>x. tf_id x = tf_id f) (tenantFeatures s))) (\<lambda>selected.
       case selected of
         None \<Rightarrow> inserting (insert_feature f) f
       | Some row \<Rightarrow> if row = f then Done (Inr f) else inserting (update_override row f) f)"

definition saveOverride :: "tm_env \<Rightarrow> uuid \<Rightarrow> string \<Rightarrow> bool \<Rightarrow> uuid \<Rightarrow> tenantFeature option \<Rightarrow> (tm_state, tenantFeature result) proc" where
  "saveOverride e tenantId featureCode enabled userId existing =
     (case existing of
        Some f0 \<Rightarrow> saving_override (f0\<lparr>tf_isEnabled := enabled, tf_enabledBy := Some userId\<rparr>)
      | None \<Rightarrow>
          inserting (insert_feature (newOverride e tenantId featureCode enabled userId))
            (newOverride e tenantId featureCode enabled userId))"

definition toggleFeature_async ::
  "tm_env \<Rightarrow> uuid \<Rightarrow> string \<Rightarrow> bool \<Rightarrow> uuid \<Rightarrow> (tm_state, tenantFeature result) proc" where
  "toggleFeature_async e tenantId featureCode enabled userId =
     bind_ok (reading (\<lambda>s. find_definition featureCode s)) (\<lambda>definition.
       case definition of
         None \<Rightarrow> Done (Inl (NotFound (''Feature '' @ quoted featureCode @ '' is not a known feature code'')))
       | Some _ \<Rightarrow>
           bind_ok (reading (\<lambda>s. find_override tenantId featureCode s)) (\<lambda>existing.
           bind_ok (saveOverride e tenantId featureCode enabled userId existing) (\<lambda>saved.
           bind_ok (writing (\<lambda>s. s\<lparr>tm_redis := redis_del [cacheKey tenantId featureCode] (tm_redis s)\<rparr>)) (\<lambda>_.
           bind_ok (writing (\<lambda>s. s\<lparr>tm_bus := publish ''chassis.tenants'' ''tenant.feature-toggled''
               (TenantFeatureToggledEvent (tm_now e) tenantId featureCode enabled) (tm_bus s)\<rparr>)) (\<lambda>_.
           Done (Inr saved))))))"

datatype flag_job = Check uuid string | Toggle uuid string bool uuid

datatype flag_answer = Enabled "bool result" | Toggled "tenantFeature result"

fun flag_start :: "tm_env \<times> flag_job \<Rightarrow> (tm_state, flag_answer) proc" where
  "flag_start (e, Check t c) = bind_proc (isFeatureEnabled_async e t c) (\<lambda>r. Done (Enabled r))"
| "flag_start (e, Toggle t c b u) = bind_proc (toggleFeature_async e t c b u) (\<lambda>r. Done (Toggled r))"

text \<open>Without interruption they are the operations of the features service.\<close>

lemma run_isFeatureEnabled:
  "run_proc (isFeatureEnabled_async e t c) s = (Inr (fst (isFeatureEnabled e t c s)), snd (isFeatureEnabled e t c s))"
  by (simp add: isFeatureEnabled_async_def isFeatureEnabled_def cacheAnswer_def Let_def split: option.split)

lemma save_loaded:
  assumes wf: "tm_wf s" and f0: "find_override t c s = Some f0"
  shows "save_feature (f0\<lparr>tf_isEnabled := b, tf_enabledBy := u\<rparr>) s =
    Inr (s\<lparr>tenantFeatures := save_row tf_id (f0\<lparr>tf_isEnabled := b, tf_enabledBy := u\<rparr>) (tenantFeatures s)\<rparr>)"
proof -
  have m: "f0 \<in> set (tenantFeatures s)" using f0 wf by (simp add: find_override_iff)
  then have "x = f0" if "x \<in> set (tenantFeatures s)" "tf_key x = tf_key f0" for x
    using wf that distinct_map_eq [of tf_key "tenantFeatures s" x f0] by (simp add: tm_wf_def unique_on_def)
  moreover have "find_definition (tf_featureCode f0) s \<noteq> None \<and> find_tenant (tf_tenantId f0) s \<noteq> None"
    using wf m unfolding tm_wf_def by blast
  ultimately show ?thesis by (auto simp: save_feature_def)
qed

lemma run_saving_override:
  assumes wf: "tm_wf s" and f0: "find_override t c s = Some f0"
  shows "run_proc (saving_override (f0\<lparr>tf_isEnabled := b, tf_enabledBy := u\<rparr>)) s =
    (Inr (f0\<lparr>tf_isEnabled := b, tf_enabledBy := u\<rparr>),
     s\<lparr>tenantFeatures := save_row tf_id (f0\<lparr>tf_isEnabled := b, tf_enabledBy := u\<rparr>) (tenantFeatures s)\<rparr>)"
proof -
  let ?f = "f0\<lparr>tf_isEnabled := b, tf_enabledBy := u\<rparr>"
  have m: "f0 \<in> set (tenantFeatures s)" and uniq: "unique_on tf_id (tenantFeatures s)"
    using wf f0 by (simp_all add: find_override_iff tm_wf_def)
  then have sel: "find (\<lambda>x. tf_id x = tf_id ?f) (tenantFeatures s) = Some f0"
    using find_unique [of tf_id "tenantFeatures s" f0] by (simp add: unique_on_def)
  have same: "save_row tf_id ?f (tenantFeatures s) = tenantFeatures s" if "f0 = ?f"
    using save_row_same [OF uniq m] that by simp
  show ?thesis
    using sel same save_loaded [OF wf f0, of u b]
    by (simp add: saving_override_def update_override_def and_then_def changed_selected)
qed

lemma run_toggleFeature: "tm_wf s \<Longrightarrow> run_proc (toggleFeature_async e t c b u) s = toggleFeature e t c b u s"
  by (simp add: toggleFeature_async_def toggleFeature_def saveOverride_def newOverride_def run_saving_override Let_def
      split: option.split sum.split)

end
