(* ===== verification/Feature_Interleaving.thy ===== *)
theory Feature_Interleaving
  imports Feature_Async
begin

text \<open>
  What feature checks and toggles keep when they are interleaved, for one feature of one tenant and the
  value its toggles set: overrides keep their identity, the toggled value stays, and every cached
  answer is the toggled value or expires by a time \<open>T\<close> that is a time to live after the toggle.
\<close>

subsection \<open>Rely and invariant\<close>

definition tf_ident :: "tenantFeature \<Rightarrow> uuid \<times> uuid \<times> string" where
  "tf_ident f = (tf_id f, tf_tenantId f, tf_featureCode f)"

definition overridden :: "uuid \<Rightarrow> string \<Rightarrow> bool \<Rightarrow> tm_state \<Rightarrow> bool" where
  "overridden t c b s \<longleftrightarrow> (\<exists>f \<in> set (tenantFeatures s). tf_tenantId f = t \<and> tf_featureCode f = c \<and> tf_isEnabled f = b)"

definition flags_rely :: "uuid \<Rightarrow> string \<Rightarrow> bool \<Rightarrow> tm_state \<Rightarrow> tm_state \<Rightarrow> bool" where
  "flags_rely t c b s s' \<longleftrightarrow> tf_ident ` set (tenantFeatures s) \<subseteq> tf_ident ` set (tenantFeatures s') \<and>
     (overridden t c b s \<longrightarrow> overridden t c b s')"

definition expires_by :: "instant \<Rightarrow> string \<Rightarrow> tm_state \<Rightarrow> bool" where
  "expires_by T k s \<longleftrightarrow> (\<forall>v x. tm_redis s k = Some (v, x) \<longrightarrow> (\<exists>y. x = Some y \<and> y \<le> T))"

definition flags_inv :: "uuid \<Rightarrow> string \<Rightarrow> bool \<Rightarrow> instant \<Rightarrow> tm_state \<Rightarrow> bool" where
  "flags_inv t c b T s \<longleftrightarrow> unique_on tf_id (tenantFeatures s) \<and> unique_on tf_key (tenantFeatures s) \<and>
     (expires_by T (cacheKey t c) s \<or> overridden t c b s \<and> (\<exists>x. tm_redis s (cacheKey t c) = Some (flag b, x)))"

interpretation flags: shared_state "flags_inv t c b T" "flags_rely t c b" for t c b T
  by unfold_locales (auto simp: flags_rely_def)

abbreviation flags_meets ::
  "uuid \<Rightarrow> string \<Rightarrow> bool \<Rightarrow> instant \<Rightarrow> ('a \<Rightarrow> tm_state \<Rightarrow> bool) \<Rightarrow> (tm_state, 'a) proc \<Rightarrow> tm_state \<Rightarrow> bool" where
  "flags_meets t c b T \<equiv> meets (flags_inv t c b T) (flags_rely t c b)"

lemma rely_overridden: "flags_rely t c b s s' \<Longrightarrow> overridden t c b s \<Longrightarrow> overridden t c b s'"
  by (simp add: flags_rely_def)

lemma rely_ident: "flags_rely t c b s s' \<Longrightarrow> i \<in> tf_ident ` set (tenantFeatures s) \<Longrightarrow> i \<in> tf_ident ` set (tenantFeatures s')"
  by (auto simp: flags_rely_def)

lemma overridden_found:
  assumes "flags_inv t c b T s" "overridden t c b s"
  shows "\<exists>f. find_override t c s = Some f \<and> tf_isEnabled f = b"
proof -
  have u: "unique_on tf_key (tenantFeatures s)" using assms(1) by (simp add: flags_inv_def)
  from assms(2) obtain f where "f \<in> set (tenantFeatures s)" "tf_key f = (t, c)" "tf_isEnabled f = b"
    by (auto simp: overridden_def)
  with overrides.lookup_iff [OF u, of "(t, c)" f] show ?thesis by auto
qed

subsection \<open>The single steps\<close>

definition flags_good :: "uuid \<Rightarrow> string \<Rightarrow> bool \<Rightarrow> instant \<Rightarrow> tm_state \<Rightarrow> tm_state \<Rightarrow> bool" where
  "flags_good t c b T s s' \<longleftrightarrow> flags_inv t c b T s' \<and> flags_rely t c b s s'"

lemma flags_good_rows:
  assumes "flags_inv t c b T s" "tm_redis s' = tm_redis s"
    and "unique_on tf_id (tenantFeatures s')" "unique_on tf_key (tenantFeatures s')" "flags_rely t c b s s'"
  shows "flags_good t c b T s s'"
  using assms by (auto simp: flags_good_def flags_inv_def flags_rely_def expires_by_def)

lemma flags_good_cache:
  assumes "flags_inv t c b T s" "tenantFeatures s' = tenantFeatures s"
    and "tm_redis s' (cacheKey t c) = tm_redis s (cacheKey t c) \<or> expires_by T (cacheKey t c) s' \<or>
      overridden t c b s \<and> (\<exists>x. tm_redis s' (cacheKey t c) = Some (flag b, x))"
  shows "flags_good t c b T s s'"
  using assms by (auto simp: flags_good_def flags_inv_def flags_rely_def expires_by_def overridden_def)

text \<open>Saving an override that was loaded earlier replaces the row of the same identity.\<close>

lemma flags_good_save:
  assumes inv: "flags_inv t c b T s" and known: "tf_ident f \<in> tf_ident ` set (tenantFeatures s)"
    and same: "tf_key f = (t, c) \<Longrightarrow> tf_isEnabled f = b"
  defines "s' \<equiv> s\<lparr>tenantFeatures := save_row tf_id f (tenantFeatures s)\<rparr>"
  shows "flags_good t c b T s s' \<and> (tf_key f = (t, c) \<longrightarrow> overridden t c b s')"
proof -
  obtain f0 where f0: "f0 \<in> set (tenantFeatures s)" "tf_ident f = tf_ident f0" using known by auto
  let ?rows = "map (\<lambda>x. if tf_id x = tf_id f then f else x) (tenantFeatures s)"
  have rows: "tenantFeatures s' = ?rows" using f0 by (auto simp: s'_def save_row_def tf_ident_def)
  have "x = f0" if "x \<in> set (tenantFeatures s)" "tf_id x = tf_id f" for x
    using inv that f0 distinct_map_eq [of tf_id "tenantFeatures s" x f0]
    by (auto simp: flags_inv_def unique_on_def tf_ident_def)
  then have idents: "map tf_ident ?rows = map tf_ident (tenantFeatures s)" using f0(2) by auto
  have maps: "map tf_id ?rows = map tf_id (tenantFeatures s)" "map tf_key ?rows = map tf_key (tenantFeatures s)"
    using arg_cong [OF idents, of "map fst"] arg_cong [OF idents, of "map snd"] by (simp_all add: tf_ident_def comp_def)
  have uniq: "unique_on tf_id ?rows" "unique_on tf_key ?rows"
    using inv unfolding flags_inv_def unique_on_def maps by simp_all
  have mem: "f \<in> set ?rows" using f0 by (force simp: tf_ident_def)
  have "overridden t c b s'" if before: "overridden t c b s"
  proof -
    obtain x where x: "x \<in> set (tenantFeatures s)" "tf_tenantId x = t" "tf_featureCode x = c" "tf_isEnabled x = b"
      using before unfolding overridden_def by blast
    then have "(if tf_id x = tf_id f then f else x) \<in> set ?rows" by auto
    moreover have "tf_key f = (t, c)" if "tf_id x = tf_id f"
      using \<open>\<And>x. x \<in> set (tenantFeatures s) \<Longrightarrow> tf_id x = tf_id f \<Longrightarrow> x = f0\<close> [OF x(1) that] x(2,3) f0(2)
      by (simp add: tf_ident_def)
    ultimately show ?thesis using x same by (auto simp: overridden_def rows split: if_splits)
  qed
  moreover have "tf_ident ` set (tenantFeatures s) = tf_ident ` set ?rows"
    using arg_cong [OF idents, of set] by (simp only: list.set_map)
  ultimately have rely: "flags_rely t c b s s'" unfolding flags_rely_def rows by blast
  have "tm_redis s' = tm_redis s" by (simp add: s'_def)
  from flags_good_rows [OF inv this _ _ rely] have "flags_good t c b T s s'" unfolding rows using uniq by blast
  moreover have "overridden t c b s'" if "tf_key f = (t, c)"
    using mem that same [OF that] by (auto simp: overridden_def rows)
  ultimately show ?thesis by blast
qed

lemma flags_good_insert:
  assumes inv: "flags_inv t c b T s" and ins: "insert_feature f s = Inr s'"
    and same: "tf_key f = (t, c) \<Longrightarrow> tf_isEnabled f = b"
  shows "flags_good t c b T s s' \<and> (tf_key f = (t, c) \<longrightarrow> overridden t c b s')"
proof -
  have fresh: "tf_id f \<notin> tf_id ` set (tenantFeatures s)" "tf_key f \<notin> tf_key ` set (tenantFeatures s)"
    and s': "s' = s\<lparr>tenantFeatures := tenantFeatures s @ [f]\<rparr>"
    using ins by (auto simp: insert_feature_def split: if_splits)
  have "flags_good t c b T s s'"
    by (rule flags_good_rows [OF inv]) (use inv fresh in \<open>auto simp: s' flags_inv_def unique_on_def flags_rely_def overridden_def\<close>)
  with same show ?thesis by (auto simp: s' overridden_def)
qed

subsection \<open>The handlers\<close>

lemma flags_writing:
  "(\<And>s. flags_rely t c b s0 s \<Longrightarrow> flags_inv t c b T s \<Longrightarrow> flags_good t c b T s (f s) \<and> Q (Inr ()) (f s)) \<Longrightarrow>
     flags_meets t c b T Q (writing f) s0"
  unfolding writing_def by (rule flags.meets_atomically) (simp add: flags_good_def)

lemma flags_reading:
  "(\<And>s. flags_rely t c b s0 s \<Longrightarrow> flags_inv t c b T s \<Longrightarrow> Q (Inr (f s)) s) \<Longrightarrow> flags_meets t c b T Q (reading f) s0"
  unfolding reading_def by (rule flags.meets_atomically) (simp add: flags.rely_refl)

lemma flags_inserting:
  assumes "\<And>s s'. flags_rely t c b s0 s \<Longrightarrow> flags_inv t c b T s \<Longrightarrow> ins s = Inr s' \<Longrightarrow> flags_good t c b T s s' \<and> Q (Inr a) s'"
    and "\<And>x s. Q (Inl x) s"
  shows "flags_meets t c b T Q (inserting ins a) s0"
  unfolding inserting_def
proof (rule flags.meets_atomically)
  fix s assume "flags_rely t c b s0 s" "flags_inv t c b T s"
  note good = assms(1) [OF this]
  let ?r = "case ins s of Inl x \<Rightarrow> (Inl x, s) | Inr s' \<Rightarrow> (Inr a, s')"
  show "flags_inv t c b T (snd ?r) \<and> flags_rely t c b s (snd ?r) \<and> Q (fst ?r) (snd ?r)"
    by (cases "ins s") (use good \<open>flags_inv t c b T s\<close> assms(2) in \<open>simp_all add: flags_good_def flags.rely_refl\<close>)
qed

definition may_cache :: "uuid \<Rightarrow> string \<Rightarrow> bool \<Rightarrow> instant \<Rightarrow> tm_env \<Rightarrow> string \<Rightarrow> bool \<Rightarrow> tm_state \<Rightarrow> bool" where
  "may_cache t c b T e k v s \<longleftrightarrow> k \<noteq> cacheKey t c \<or> tm_cacheNow e + cacheTtlSeconds * 1000 \<le> T \<or> overridden t c b s \<and> v = b"

lemma meets_cacheAnswer:
  assumes "flags_inv t c b T s0" "may_cache t c b T e k v s0" "\<And>s. Q (Inr v) s"
  shows "flags_meets t c b T Q (cacheAnswer e k v) s0"
  unfolding cacheAnswer_def
proof (rule flags.meets_bind_ok [where Q = "\<lambda>_ _. True", OF _ assms(1)])
  show "flags_meets t c b T (\<lambda>r s. case r of Inl x \<Rightarrow> Q (Inl x) s | Inr _ \<Rightarrow> True)
      (writing (\<lambda>s. s\<lparr>tm_redis := redis_setex (tm_cacheNow e) k cacheTtlSeconds (flag v) (tm_redis s)\<rparr>)) s0"
    using assms(2) by (intro flags_writing conjI flags_good_cache)
      (auto simp: may_cache_def redis_setex_def expires_by_def dest: rely_overridden)
qed (simp add: assms(3))

text \<open>A check, from what its reads may find: the cache, the override, the default.\<close>

lemma meets_check:
  assumes inv: "flags_inv t c b T s0"
    and cached: "\<And>s v. flags_rely t c b s0 s \<Longrightarrow> flags_inv t c b T s \<Longrightarrow>
      redis_get (tm_now e) (cacheKey t' c') (tm_redis s) = Some v \<Longrightarrow> Q (Inr (v = ''1''))"
    and override: "\<And>s f. flags_rely t c b s0 s \<Longrightarrow> flags_inv t c b T s \<Longrightarrow> find_override t' c' s = Some f \<Longrightarrow>
      may_cache t c b T e (cacheKey t' c') (tf_isEnabled f) s \<and> Q (Inr (tf_isEnabled f))"
    and default: "\<And>s s' v. flags_rely t c b s0 s \<Longrightarrow> flags_inv t c b T s \<Longrightarrow> find_override t' c' s = None \<Longrightarrow>
      may_cache t c b T e (cacheKey t' c') v s' \<and> Q (Inr v)"
  shows "flags_meets t c b T (\<lambda>r _. Q r) (isFeatureEnabled_async e t' c') s0"
proof -
  let ?k = "cacheKey t' c'"
  have later: "may_cache t c b T e k v s \<Longrightarrow> flags_rely t c b s s' \<Longrightarrow> may_cache t c b T e k v s'" for k v s s'
    by (auto simp: may_cache_def dest: rely_overridden)
  let ?found = "\<lambda>x s. case x of Some f \<Rightarrow> may_cache t c b T e ?k (tf_isEnabled f) s \<and> Q (Inr (tf_isEnabled f))
    | None \<Rightarrow> \<forall>v s'. may_cache t c b T e ?k v s' \<and> Q (Inr v)"
  show ?thesis
    unfolding isFeatureEnabled_async_def Let_def
  proof (rule flags.meets_bind_ok [where Q = "\<lambda>x _. \<forall>v. x = Some v \<longrightarrow> Q (Inr (v = ''1''))", OF _ inv])
    show "flags_meets t c b T (\<lambda>r s. case r of Inl x \<Rightarrow> Q (Inl x) | Inr x \<Rightarrow> \<forall>v. x = Some v \<longrightarrow> Q (Inr (v = ''1'')))
        (reading (\<lambda>s. redis_get (tm_now e) ?k (tm_redis s))) s0"
      by (rule flags_reading) (auto intro: cached)
    fix x s assume x: "\<forall>v. x = Some v \<longrightarrow> Q (Inr (v = ''1''))" and s: "flags_inv t c b T s" "flags_rely t c b s0 s"
    have "flags_meets t c b T (\<lambda>r _. Q r) (bind_ok (reading (\<lambda>s. find_override t' c' s)) (\<lambda>override. case override of
          Some f \<Rightarrow> cacheAnswer e ?k (tf_isEnabled f)
        | None \<Rightarrow> bind_ok (reading (\<lambda>s. find_definition c' s)) (\<lambda>definition.
            cacheAnswer e ?k (case definition of Some d \<Rightarrow> fd_defaultEnabled d | None \<Rightarrow> False)))) s"
    proof (rule flags.meets_bind_ok [where Q = ?found, OF _ s(1)])
      show "flags_meets t c b T (\<lambda>r s. case r of Inl x \<Rightarrow> Q (Inl x) | Inr x \<Rightarrow> ?found x s) (reading (\<lambda>s. find_override t' c' s)) s"
      proof (rule flags_reading)
        fix s1 assume "flags_rely t c b s s1" "flags_inv t c b T s1"
        note known = flags.rely_trans [OF s(2) this(1)] this(2)
        show "case Inr (find_override t' c' s1) of Inl x \<Rightarrow> Q (Inl x) | Inr x \<Rightarrow> ?found x s1"
          by (cases "find_override t' c' s1") (use override [OF known] default [OF known] in simp_all)
      qed
      fix x s assume "flags_inv t c b T s" "?found x s"
      then show "flags_meets t c b T (\<lambda>r _. Q r) (case x of Some f \<Rightarrow> cacheAnswer e ?k (tf_isEnabled f)
        | None \<Rightarrow> bind_ok (reading (\<lambda>s. find_definition c' s)) (\<lambda>definition.
            cacheAnswer e ?k (case definition of Some d \<Rightarrow> fd_defaultEnabled d | None \<Rightarrow> False))) s"
        by (auto split: option.split intro!: meets_cacheAnswer flags_reading flags.meets_bind_ok [where Q = "\<lambda>_ _. True"])
    qed
    with x show "flags_meets t c b T (\<lambda>r _. Q r) (case x of Some v \<Rightarrow> Done (Inr (v = ''1''))
      | None \<Rightarrow> bind_ok (reading (\<lambda>s. find_override t' c' s)) (\<lambda>override. case override of
          Some f \<Rightarrow> cacheAnswer e ?k (tf_isEnabled f)
        | None \<Rightarrow> bind_ok (reading (\<lambda>s. find_definition c' s)) (\<lambda>definition.
            cacheAnswer e ?k (case definition of Some d \<Rightarrow> fd_defaultEnabled d | None \<Rightarrow> False)))) s"
      by (auto split: option.split)
  qed
qed

text \<open>A check whose answer cannot outlive \<open>T\<close>, and one that arrives when the toggled value is stored.\<close>

lemma meets_early_check:
  assumes "flags_inv t c b T s" "tm_cacheNow e + cacheTtlSeconds * 1000 \<le> T"
  shows "flags_meets t c b T (\<lambda>_ _. True) (isFeatureEnabled_async e t' c') s"
  by (rule meets_check [OF assms(1)]) (simp_all add: may_cache_def assms(2))

lemma cached_fresh:
  assumes "flags_inv t c b T s" "redis_get now (cacheKey t c) (tm_redis s) = Some v" "T \<le> now"
  shows "(v = ''1'') = b"
  using assms by (auto simp: flags_inv_def expires_by_def redis_get_def flag_def split: option.splits if_splits)

lemma meets_late_check:
  assumes inv: "flags_inv t c b T s0" and over: "overridden t c b s0" and "CHR '':'' \<notin> set t" "CHR '':'' \<notin> set t'"
  shows "flags_meets t c b T (\<lambda>r _. t' = t \<and> c' = c \<and> T \<le> tm_now e \<longrightarrow> r = Inr b) (isFeatureEnabled_async e t' c') s0"
proof (rule meets_check [OF inv])
  note key = cacheKey_inject [OF assms(4,3), of c' c]
  fix s assume s: "flags_rely t c b s0 s" "flags_inv t c b T s"
  note now = rely_overridden [OF s(1) over]
  note found = overridden_found [OF s(2) now]
  show "t' = t \<and> c' = c \<and> T \<le> tm_now e \<longrightarrow> Inr (v = ''1'') = Inr b"
    if "redis_get (tm_now e) (cacheKey t' c') (tm_redis s) = Some v" for v
    using cached_fresh [OF s(2), of "tm_now e" v] that by auto
  show "may_cache t c b T e (cacheKey t' c') (tf_isEnabled f) s \<and> (t' = t \<and> c' = c \<and> T \<le> tm_now e \<longrightarrow> Inr (tf_isEnabled f) = Inr b)"
    if "find_override t' c' s = Some f" for f
    using that found now by (auto simp: may_cache_def key)
  show "may_cache t c b T e (cacheKey t' c') v s' \<and> (t' = t \<and> c' = c \<and> T \<le> tm_now e \<longrightarrow> Inr v = Inr b)"
    if "find_override t' c' s = None" for v s'
    using that found by (auto simp: may_cache_def key)
qed

definition known_override :: "uuid \<Rightarrow> string \<Rightarrow> tenantFeature option \<Rightarrow> tm_state \<Rightarrow> bool" where
  "known_override t c x s \<longleftrightarrow> (\<forall>f. x = Some f \<longrightarrow> tf_ident f \<in> tf_ident ` set (tenantFeatures s) \<and> tf_key f = (t, c))"

lemma found_override: "known_override t c (find_override t c s) s"
  by (auto simp: known_override_def dest!: find_SomeD)

text \<open>The update after the select: the row kept its identity, and when the select already found the
  toggled value, no one has changed it since.\<close>

lemma flags_good_update:
  assumes inv: "flags_inv t c b T s" and up: "update_override old f s = Inr s'"
    and known: "tf_ident f \<in> tf_ident ` set (tenantFeatures s)" and old: "tf_ident old = tf_ident f"
    and same: "tf_key f = (t, c) \<Longrightarrow> tf_isEnabled f = b"
    and seen: "tf_key f = (t, c) \<Longrightarrow> tf_isEnabled old = b \<Longrightarrow> overridden t c b s"
  shows "flags_good t c b T s s' \<and> (tf_key f = (t, c) \<longrightarrow> overridden t c b s')"
proof -
  obtain row where row: "row \<in> set (tenantFeatures s)" "tf_ident f = tf_ident row" using known by auto
  then have "find (\<lambda>x. tf_id x = tf_id f) (tenantFeatures s) = Some row"
    using inv find_unique [of tf_id "tenantFeatures s" row] by (simp add: flags_inv_def unique_on_def tf_ident_def)
  then have save: "save_feature (row\<lparr>
          tf_tenantId := changed tf_tenantId old f row, tf_featureCode := changed tf_featureCode old f row,
          tf_isEnabled := changed tf_isEnabled old f row, tf_enabledBy := changed tf_enabledBy old f row,
          tf_enabledAt := changed tf_enabledAt old f row\<rparr>) s = Inr s'" (is "save_feature ?r s = _")
    using up by (simp add: update_override_def)
  have id: "tf_ident ?r = tf_ident f" using old row(2) by (simp add: tf_ident_def changed_def)
  have "tf_isEnabled ?r = b" if k: "tf_key f = (t, c)"
  proof (cases "tf_isEnabled f = tf_isEnabled old")
    case True
    with same [OF k] seen [OF k] have "overridden t c b s" by simp
    from overridden_found [OF inv this] obtain g where g: "find_override t c s = Some g" "tf_isEnabled g = b" by blast
    then have "g \<in> set (tenantFeatures s)" "tf_key g = tf_key row"
      using find_SomeD [OF g(1)] row(2) k by (auto simp: tf_ident_def)
    then have "g = row" using inv row(1) distinct_map_eq [of tf_key "tenantFeatures s" g row] by (simp add: flags_inv_def unique_on_def)
    with g(2) True show ?thesis by (simp add: changed_def)
  qed (use same [OF k] in \<open>simp add: changed_def\<close>)
  moreover have "s' = s\<lparr>tenantFeatures := save_row tf_id ?r (tenantFeatures s)\<rparr>"
    using save by (auto simp: save_feature_def split: if_splits)
  moreover have "tf_key ?r = tf_key f" using id by (simp add: tf_ident_def)
  ultimately show ?thesis using flags_good_save [OF inv, of ?r] known id by simp
qed

lemma meets_saving_override:
  assumes inv: "flags_inv t c b T s0" and known: "tf_ident f \<in> tf_ident ` set (tenantFeatures s0)"
    and same: "tf_key f = (t, c) \<Longrightarrow> tf_isEnabled f = b"
    and Q: "\<And>s. (tf_key f = (t, c) \<Longrightarrow> overridden t c b s) \<Longrightarrow> Q (Inr f) s" "\<And>x s. Q (Inl x) s"
  shows "flags_meets t c b T Q (saving_override f) s0"
  unfolding saving_override_def
proof (rule flags.meets_bind_ok [where Q = "\<lambda>x s. tf_ident f \<in> tf_ident ` set (tenantFeatures s) \<and>
    (\<exists>old. x = Some old \<and> tf_ident old = tf_ident f \<and> (tf_key f = (t, c) \<longrightarrow> tf_isEnabled old = b \<longrightarrow> overridden t c b s))", OF _ inv])
  let ?found = "\<lambda>x s. tf_ident f \<in> tf_ident ` set (tenantFeatures s) \<and>
    (\<exists>old. x = Some old \<and> tf_ident old = tf_ident f \<and> (tf_key f = (t, c) \<longrightarrow> tf_isEnabled old = b \<longrightarrow> overridden t c b s))"
  show "flags_meets t c b T (\<lambda>r s. case r of Inl x \<Rightarrow> Q (Inl x) s | Inr x \<Rightarrow> ?found x s)
      (reading (\<lambda>s. find (\<lambda>x. tf_id x = tf_id f) (tenantFeatures s))) s0"
  proof (rule flags_reading)
    fix s assume s: "flags_rely t c b s0 s" "flags_inv t c b T s"
    have kn: "tf_ident f \<in> tf_ident ` set (tenantFeatures s)" using rely_ident [OF s(1) known] .
    then obtain row where row: "row \<in> set (tenantFeatures s)" "tf_ident row = tf_ident f" by auto
    then have "find (\<lambda>x. tf_id x = tf_id f) (tenantFeatures s) = Some row"
      using s(2) find_unique [of tf_id "tenantFeatures s" row] by (simp add: flags_inv_def unique_on_def tf_ident_def)
    moreover have "overridden t c b s" if "tf_key f = (t, c)" "tf_isEnabled row = b"
      using row that by (auto simp: overridden_def tf_ident_def)
    ultimately show "case Inr (find (\<lambda>x. tf_id x = tf_id f) (tenantFeatures s)) of Inl x \<Rightarrow> Q (Inl x) s | Inr x \<Rightarrow> ?found x s"
      using kn row(2) by simp
  qed
  fix x s assume s: "flags_inv t c b T s" "?found x s"
  then obtain old where old: "x = Some old" "tf_ident old = tf_ident f"
    "tf_key f = (t, c) \<longrightarrow> tf_isEnabled old = b \<longrightarrow> overridden t c b s" by blast
  have "flags_meets t c b T Q (inserting (update_override old f) f) s"
  proof (rule flags_inserting)
    fix s1 s2 assume s1: "flags_rely t c b s s1" "flags_inv t c b T s1" "update_override old f s1 = Inr s2"
    have "flags_good t c b T s1 s2 \<and> (tf_key f = (t, c) \<longrightarrow> overridden t c b s2)"
      by (rule flags_good_update [OF s1(2,3) rely_ident [OF s1(1)] old(2) same])
        (use s(2) old(3) rely_overridden [OF s1(1)] in auto)
    then show "flags_good t c b T s1 s2 \<and> Q (Inr f) s2" using Q(1) by blast
  qed (rule Q(2))
  moreover have "flags_meets t c b T Q (Done (Inr f)) s" if "old = f"
    using old(3) same that Q(1) [of s] by simp
  ultimately show "flags_meets t c b T Q (case x of None \<Rightarrow> inserting (insert_feature f) f
      | Some row \<Rightarrow> if row = f then Done (Inr f) else inserting (update_override row f) f) s"
    by (simp add: old(1))
qed

lemma meets_saveOverride:
  assumes inv: "flags_inv t c b T s0" and same: "t' = t \<Longrightarrow> c' = c \<Longrightarrow> b' = b"
    and known: "known_override t' c' x s0"
  shows "flags_meets t c b T (\<lambda>r s. \<forall>f. r = Inr f \<longrightarrow> t' = t \<longrightarrow> c' = c \<longrightarrow> overridden t c b s) (saveOverride e t' c' b' u x) s0"
proof (cases x)
  case None
  show ?thesis
    unfolding saveOverride_def None option.case
  proof (rule flags_inserting)
    fix s s' assume "flags_rely t c b s0 s" "flags_inv t c b T s" "insert_feature (newOverride e t' c' b' u) s = Inr s'"
    from flags_good_insert [OF this(2,3)] same
    show "flags_good t c b T s s' \<and> (\<forall>f. Inr (newOverride e t' c' b' u) = Inr f \<longrightarrow> t' = t \<longrightarrow> c' = c \<longrightarrow> overridden t c b s')"
      by (auto simp: newOverride_def)
  qed simp
next
  case (Some f0)
  let ?f = "f0\<lparr>tf_isEnabled := b', tf_enabledBy := Some u\<rparr>"
  have f: "tf_ident ?f = tf_ident f0" "tf_key ?f = (t', c')" using known Some by (simp_all add: known_override_def tf_ident_def)
  show ?thesis
    unfolding saveOverride_def Some option.case
  proof (rule meets_saving_override [OF inv])
    show "tf_ident ?f \<in> tf_ident ` set (tenantFeatures s0)" using known Some f(1) by (simp add: known_override_def)
    show "tf_key ?f = (t, c) \<Longrightarrow> tf_isEnabled ?f = b" using same f(2) by simp
  qed (use f(2) in auto)
qed

lemma meets_toggle:
  assumes inv: "flags_inv t c b T s0" and same: "t' = t \<Longrightarrow> c' = c \<Longrightarrow> b' = b"
  shows "flags_meets t c b T (\<lambda>r s. \<forall>f. r = Inr f \<longrightarrow> t' = t \<longrightarrow> c' = c \<longrightarrow> overridden t c b s) (toggleFeature_async e t' c' b' u) s0"
proof -
  let ?Q = "\<lambda>r s. \<forall>f. r = Inr f \<longrightarrow> t' = t \<longrightarrow> c' = c \<longrightarrow> overridden t c b s"
  let ?done = "\<lambda>_ s. t' = t \<longrightarrow> c' = c \<longrightarrow> overridden t c b s"
  let ?del = "\<lambda>s. s\<lparr>tm_redis := redis_del [cacheKey t' c'] (tm_redis s)\<rparr>"
  let ?pub = "\<lambda>s. s\<lparr>tm_bus := publish ''chassis.tenants'' ''tenant.feature-toggled'' (TenantFeatureToggledEvent (tm_now e) t' c' b') (tm_bus s)\<rparr>"
  have wr: "flags_meets t c b T (\<lambda>r s. case r of Inl x \<Rightarrow> ?Q (Inl x) s | Inr a \<Rightarrow> ?done a s) (writing f) s"
    if "?done () s" "\<And>s. flags_inv t c b T s \<Longrightarrow> flags_good t c b T s (f s)" for f s
    by (rule flags_writing) (use that in \<open>auto simp: flags_good_def dest: rely_overridden\<close>)
  have del: "flags_good t c b T s (?del s)" and pub: "flags_good t c b T s (?pub s)" if "flags_inv t c b T s" for s
    by (rule flags_good_cache [OF that], auto simp: redis_del_def expires_by_def)+
  have tail: "flags_meets t c b T ?Q (bind_ok (writing ?del) (\<lambda>_. bind_ok (writing ?pub) (\<lambda>_. Done (Inr f)))) s"
    if "flags_inv t c b T s" "?done () s" for f :: tenantFeature and s
    by (rule flags.meets_bind_ok [where Q = ?done, OF wr that(1)], rule that, erule del,
        rule flags.meets_bind_ok [where Q = ?done, OF wr], assumption, erule pub) auto
  have store: "flags_meets t c b T ?Q (bind_ok (saveOverride e t' c' b' u x) (\<lambda>f.
      bind_ok (writing ?del) (\<lambda>_. bind_ok (writing ?pub) (\<lambda>_. Done (Inr f))))) s"
    if "flags_inv t c b T s" "known_override t' c' x s" for x s
  proof (rule flags.meets_bind_ok [where Q = ?done, OF _ that(1)])
    show "flags_meets t c b T (\<lambda>r s. case r of Inl x \<Rightarrow> ?Q (Inl x) s | Inr a \<Rightarrow> ?done a s) (saveOverride e t' c' b' u x) s"
      by (rule flags.meets_weaken [OF meets_saveOverride [OF that(1) same that(2)]]) (auto split: sum.split)
  qed (rule tail)
  have load: "flags_meets t c b T ?Q (bind_ok (reading (\<lambda>s. find_override t' c' s)) (\<lambda>x. bind_ok (saveOverride e t' c' b' u x) (\<lambda>f.
      bind_ok (writing ?del) (\<lambda>_. bind_ok (writing ?pub) (\<lambda>_. Done (Inr f)))))) s" if "flags_inv t c b T s" for s
    by (rule flags.meets_bind_ok [where Q = "known_override t' c'", OF flags_reading that])
      (simp add: found_override, rule store)
  show ?thesis
    unfolding toggleFeature_async_def
    by (rule flags.meets_bind_ok [where Q = "\<lambda>_ _. True", OF flags_reading inv]) 
      (simp, split option.split, intro conjI allI impI, simp, rule load)
qed

subsection \<open>Two phases: until the toggle is answered, and after\<close>

fun job_tenant :: "flag_job \<Rightarrow> uuid" where
  "job_tenant (Check t c) = t"
| "job_tenant (Toggle t c b u) = t"

text \<open>Toggles of the feature set the value \<open>b\<close>.\<close>

fun agrees :: "uuid \<Rightarrow> string \<Rightarrow> bool \<Rightarrow> flag_job \<Rightarrow> bool" where
  "agrees t c b (Toggle t' c' b' u) = (t' = t \<longrightarrow> c' = c \<longrightarrow> b' = b)"
| "agrees t c b (Check t' c') = True"

definition early :: "uuid \<Rightarrow> string \<Rightarrow> bool \<Rightarrow> instant \<Rightarrow> tm_env \<times> flag_job \<Rightarrow> bool" where
  "early t c b T r \<longleftrightarrow> agrees t c b (snd r) \<and>
     (\<forall>t' c'. snd r = Check t' c' \<longrightarrow> tm_cacheNow (fst r) + cacheTtlSeconds * 1000 \<le> T)"

definition later :: "uuid \<Rightarrow> string \<Rightarrow> bool \<Rightarrow> tm_env \<times> flag_job \<Rightarrow> bool" where
  "later t c b r \<longleftrightarrow> agrees t c b (snd r) \<and> CHR '':'' \<notin> set t \<and> CHR '':'' \<notin> set (job_tenant (snd r))"

fun toggle_stored :: "uuid \<Rightarrow> string \<Rightarrow> bool \<Rightarrow> tm_env \<times> flag_job \<Rightarrow> flag_answer \<Rightarrow> tm_state \<Rightarrow> bool" where
  "toggle_stored t c b (e, Toggle t' c' b' u) (Toggled r) s = (\<forall>f. r = Inr f \<longrightarrow> t' = t \<longrightarrow> c' = c \<longrightarrow> overridden t c b s)"
| "toggle_stored t c b _ _ _ = True"

lemma toggle_stored_later: "flags_rely t c b s s' \<Longrightarrow> toggle_stored t c b r a s \<Longrightarrow> toggle_stored t c b r a s'"
  by (cases "(t, c, b, r, a, s)" rule: toggle_stored.cases) (auto dest: rely_overridden)

fun fresh_answer :: "uuid \<Rightarrow> string \<Rightarrow> bool \<Rightarrow> instant \<Rightarrow> tm_env \<times> flag_job \<Rightarrow> flag_answer \<Rightarrow> bool" where
  "fresh_answer t c b T (e, Check t' c') a = (t' = t \<and> c' = c \<and> T \<le> tm_now e \<longrightarrow> a = Enabled (Inr b))"
| "fresh_answer t c b T _ a = True"

lemma meets_early_request:
  assumes "flags_inv t c b T s"
  shows "flags_meets t c b T (toggle_stored t c b r) (only (early t c b T) (Enabled (Inr False)) flag_start r) s"
proof (cases "early t c b T r")
  case False
  then show ?thesis by (cases r; cases "snd r") (auto simp: only_def)
next
  case True
  then show ?thesis
    by (cases r rule: flag_start.cases)
      (auto simp: only_def early_def intro!: flags.meets_bind [OF meets_early_check assms] flags.meets_bind [OF meets_toggle assms] assms)
qed

lemma meets_late_request:
  assumes "flags_inv t c b T s" "overridden t c b s"
  shows "flags_meets t c b T (\<lambda>a _. later t c b r \<longrightarrow> fresh_answer t c b T r a) (only (later t c b) (Enabled (Inr False)) flag_start r) s"
proof (cases "later t c b r")
  case True
  then show ?thesis
  proof (cases r rule: flag_start.cases)
    case (1 e t' c')
    then show ?thesis using True
      by (auto simp: only_def later_def intro!: flags.meets_bind [OF meets_late_check assms(1)] assms)
  next
    case (2 e t' c' b' u)
    then show ?thesis using True
      by (auto simp: only_def later_def intro!: flags.meets_bind [OF meets_toggle assms(1)] assms)
  qed
qed (simp add: only_def)

interpretation until_toggled: async_service "flags_inv t c b T" "flags_rely t c b"
    "only (early t c b T) (Enabled (Inr False)) flag_start" "toggle_stored t c b" for t c b T
  by unfold_locales (erule meets_early_request, erule (1) toggle_stored_later)

interpretation since_toggled: async_service "\<lambda>s. flags_inv t c b T s \<and> overridden t c b s" "flags_rely t c b"
    "only (later t c b) (Enabled (Inr False)) flag_start" "\<lambda>_ _ _. True" for t c b T
proof unfold_locales
  fix s r
  assume s: "flags_inv t c b T s \<and> overridden t c b s"
  have "flags_meets t c b T (\<lambda>_ _. True) (only (later t c b) (Enabled (Inr False)) flag_start r) s"
    by (rule flags.meets_weaken [OF meets_late_request]) (use s in auto)
  then show "meets (\<lambda>s. flags_inv t c b T s \<and> overridden t c b s) (flags_rely t c b) (\<lambda>_ _. True)
      (only (later t c b) (Enabled (Inr False)) flag_start r) s"
    by (rule meets_and) (rule rely_overridden)
qed simp

lemma pool_since:
  assumes ok: "until_toggled.pool_ok t c b T (ps, s)" and over: "overridden t c b s"
  shows "since_toggled.pool_ok t c b T (ps, s)"
proof -
  have "since_toggled.fulfils t c b T (\<lambda>_ _ _. True) (ps, s) i" if "i < length ps" for i
  proof -
    obtain r p where rp: "ps ! i = (r, p)" by (cases "ps ! i")
    have "flags_meets t c b T (toggle_stored t c b r) p s"
      using ok that rp by (auto simp: until_toggled.pool_ok_def until_toggled.fulfils_def)
    then have "flags_meets t c b T (\<lambda>_ _. True) p s" by (rule flags.meets_weaken) simp
    from meets_and [OF this, of "overridden t c b"] show ?thesis
      by (simp add: since_toggled.fulfils_def rp rely_overridden)
  qed
  with ok over show ?thesis by (simp add: until_toggled.pool_ok_def since_toggled.pool_ok_def)
qed

text \<open>C8: a toggle takes effect within the time to live under every interleaving. Checks and toggles of any
  tenants and features run at the same time, interrupted at every statement and Redis command; a check
  reads the cache, the tables and again the Redis clock at times of its own. Once a toggle is answered,
  every check that arrives later and looks into the cache at \<open>T\<close> or later reports the toggled value,
  where \<open>T\<close> is a time to live (300 seconds) after the last moment at which a check that was in
  flight when the toggle was answered fills the cache. It is required that in the whole run no
  request toggles that feature of the tenant to the other value, and that tenant identifiers contain no
  colon. (Before \<open>T\<close> a check may still be answered from an entry that a check in flight has cached after
  the toggle: \<open>stale_answer_after_toggle\<close>.)\<close>

theorem toggle_visible_within_ttl:
  assumes "tm_wf s0" and "expires_by T (cacheKey t c) s0"
    and run1: "interleaved flag_start ([], s0) (ps1, s1)"
    and toggled: "((e, Toggle t c b u), Done (Toggled (Inr f))) \<in> set ps1"
    and in_time: "\<forall>d t' c'. (d, Check t' c') \<in> fst ` set ps1 \<longrightarrow> tm_cacheNow d + cacheTtlSeconds * 1000 \<le> T"
    and run2: "interleaved flag_start (ps1, s1) (ps, s)"
    and others: "\<forall>r \<in> fst ` set ps. agrees t c b (snd r) \<and> CHR '':'' \<notin> set (job_tenant (snd r))"
    and i: "length ps1 \<le> i" "i < length ps" "ps ! i = ((e', Check t c), Done a)" "T \<le> tm_now e'"
  shows "a = Enabled (Inr b)"
proof -
  obtain rs where "map fst ps = map fst ps1 @ rs" using interleaved_requests [OF run2] by auto
  from arg_cong [OF this, of set] have "fst ` set ps = fst ` set ps1 \<union> set rs" by (simp only: list.set_map set_append)
  then have "\<forall>r \<in> set (arrived ([], s0) (ps1, s1)). early t c b T r"
    using in_time others by (simp add: arrived_def early_def) (metis UnI1 image_eqI list.set_map prod.collapse)
  then have run1': "interleaved (only (early t c b T) (Enabled (Inr False)) flag_start) ([], s0) (ps1, s1)"
    using interleaved_only [OF run1] by blast
  have "flags_inv t c b T s0" using assms(1,2) by (simp add: flags_inv_def tm_wf_def)
  then have ok1: "until_toggled.pool_ok t c b T (ps1, s1)"
    using until_toggled.interleaved_ok [OF run1'] until_toggled.pool_ok_empty by blast
  have over: "overridden t c b s1"
    using until_toggled.interleaved_keeps(3) [OF interleaved.none ok1 toggled] by simp
  have req: "(e', Check t c) \<in> fst ` set ps" using nth_mem [OF i(2)] i(3) by (metis fst_conv image_eqI)
  then have "CHR '':'' \<notin> set t" using others by force
  then have "\<forall>r \<in> set (arrived (ps1, s1) (ps, s)). later t c b r"
    using others set_drop_subset [of "length ps1" ps] by (auto simp: arrived_def later_def)
  then have run2': "interleaved (only (later t c b) (Enabled (Inr False)) flag_start) (ps1, s1) (ps, s)"
    using interleaved_only [OF run2] by blast
  let ?Q = "\<lambda>r a s. later t c b r \<longrightarrow> fresh_answer t c b T r a"
  have "since_toggled.fulfils t c b T ?Q (ps, s) i"
    using since_toggled.late_arrivals [OF run2' pool_since [OF ok1 over], of "\<lambda>_. True" ?Q] i(1,2)
    by (auto intro: meets_and [OF meets_late_request] rely_overridden)
  moreover have "later t c b (e', Check t c)" using \<open>CHR '':'' \<notin> set t\<close> by (simp add: later_def)
  ultimately show ?thesis using i(3,4) by (simp add: since_toggled.fulfils_def)
qed

end
