(* ===== verification/Feature_Races.thy ===== *)
theory Feature_Races
  imports Feature_Interleaving Tenant_Witnesses
begin

text \<open>
  A concrete interleaving of the tenant manager: a check reads the override, the feature is toggled off
  and the toggle answered, and then the check caches what it read.
\<close>

definition xf_state :: tm_state where
  "xf_state = ex_state\<lparr>tm_redis := Map.empty\<rparr>"

text \<open>A check that looks into the cache at one time and fills it half a second later.\<close>

definition xf_check :: "instant \<Rightarrow> tm_env \<times> flag_job" where
  "xf_check now = (ex_env\<lparr>tm_now := now, tm_cacheNow := now + 500\<rparr>, Check ''t1'' ''reports'')"

definition xf_toggle :: "tm_env \<times> flag_job" where
  "xf_toggle = (ex_env, Toggle ''t1'' ''reports'' False ''u1'')"

text \<open>Both requests of the first phase have finished; then three checks arrive, the last one after the
  time to live.\<close>

definition xf_mid :: "(tm_env \<times> flag_job, tm_state, flag_answer) pool \<times> tm_state" where
  "xf_mid = replay flag_start [xf_check 1000, xf_toggle] [0, 0, 1, 1, 1, 1, 1, 1, 0] ([], xf_state)"

definition xf_end :: "(tm_env \<times> flag_job, tm_state, flag_answer) pool \<times> tm_state" where
  "xf_end = replay flag_start [xf_check 2000, xf_check 301500] [2, 3, 3, 3] xf_mid"

lemmas xf_eval = xf_end_def xf_mid_def replay_def arrivals_def xf_check_def xf_toggle_def xf_state_def
  isFeatureEnabled_async_def toggleFeature_async_def cacheAnswer_def saveOverride_def saving_override_def update_override_def changed_def save_feature_def newOverride_def
  atomically_def reading_def writing_def inserting_def bind_ok_def redis_get_def redis_setex_def redis_del_def
  cacheTtlSeconds_def flag_def cacheKey_def save_row_def Let_def ex_defs

lemma xf_mid_pool: "\<exists>f. fst xf_mid = [(xf_check 1000, Done (Enabled (Inr True))), (xf_toggle, Done (Toggled (Inr f)))]"
  by (simp add: xf_eval)

lemma xf_end_pool: "\<exists>f a. fst xf_end = [(xf_check 1000, Done (Enabled (Inr True))), (xf_toggle, Done (Toggled (Inr f))),
    (xf_check 2000, Done (Enabled (Inr True))), (xf_check 301500, Done a)]"
  by (simp add: xf_eval)

lemma xf_runs:
  "interleaved flag_start ([], xf_state) (fst xf_mid, snd xf_mid)"
  "interleaved flag_start (fst xf_mid, snd xf_mid) (fst xf_end, snd xf_end)"
  using replay_interleaved [of flag_start "([], xf_state)"] replay_interleaved [of flag_start xf_mid]
  by (simp_all add: xf_mid_def xf_end_def)

text \<open>The check at 2000 arrives after the toggle was answered and still reports the feature as enabled,
  while the table says that it is disabled: the cached answer is stale for up to the time to live.\<close>

lemma stale_answer_after_toggle:
  "interleaved flag_start ([], xf_state) xf_mid \<and> interleaved flag_start xf_mid xf_end \<and>
   (\<exists>f. snd (fst xf_mid ! 1) = Done (Toggled (Inr f)) \<and> \<not> tf_isEnabled f) \<and>
   fst xf_end ! 2 = (xf_check 2000, Done (Enabled (Inr True)))"
proof (intro conjI)
  show "interleaved flag_start ([], xf_state) xf_mid" "interleaved flag_start xf_mid xf_end" using xf_runs by simp_all
  show "\<exists>f. snd (fst xf_mid ! 1) = Done (Toggled (Inr f)) \<and> \<not> tf_isEnabled f" by (simp add: xf_eval)
  show "fst xf_end ! 2 = (xf_check 2000, Done (Enabled (Inr True)))" using xf_end_pool by auto
qed

theorem toggle_visible_within_ttl_witness: "fst xf_end ! 3 = (xf_check 301500, Done (Enabled (Inr False)))"
proof -
  obtain f where mid: "fst xf_mid = [(xf_check 1000, Done (Enabled (Inr True))), (xf_toggle, Done (Toggled (Inr f)))]"
    using xf_mid_pool by blast
  obtain f' a where pool: "fst xf_end = [(xf_check 1000, Done (Enabled (Inr True))), (xf_toggle, Done (Toggled (Inr f'))),
    (xf_check 2000, Done (Enabled (Inr True))), (xf_check 301500, Done a)]"
    using xf_end_pool by blast
  have "a = Enabled (Inr False)"
  proof (rule toggle_visible_within_ttl [OF _ _ xf_runs(1) _ _ xf_runs(2)])
    show "tm_wf xf_state" using ex_wf by (simp add: tm_wf_def xf_state_def)
    show "expires_by 301500 (cacheKey ''t1'' ''reports'') xf_state" by (simp add: expires_by_def xf_state_def)
    show "((ex_env, Toggle ''t1'' ''reports'' False ''u1''), Done (Toggled (Inr f))) \<in> set (fst xf_mid)"
      by (simp add: mid xf_toggle_def)
    show "\<forall>d t' c'. (d, Check t' c') \<in> fst ` set (fst xf_mid) \<longrightarrow> tm_cacheNow d + cacheTtlSeconds * 1000 \<le> 301500"
      by (simp add: mid xf_check_def xf_toggle_def ex_env_def cacheTtlSeconds_def)
    show "\<forall>r \<in> fst ` set (fst xf_end). agrees ''t1'' ''reports'' False (snd r) \<and> CHR '':'' \<notin> set (job_tenant (snd r))"
      by (simp add: pool xf_check_def xf_toggle_def)
    show "length (fst xf_mid) \<le> 3" "3 < length (fst xf_end)" by (simp_all add: mid pool)
    show "fst xf_end ! 3 = ((ex_env\<lparr>tm_now := 301500, tm_cacheNow := 302000\<rparr>, Check ''t1'' ''reports''), Done a)" by (simp add: pool xf_check_def)
    show "301500 \<le> tm_now (ex_env\<lparr>tm_now := 301500, tm_cacheNow := 302000\<rparr>)" by simp
  qed
  then show ?thesis by (simp add: pool)
qed

end
