(* ===== verification/Tenant_Async.thy ===== *)
theory Tenant_Async
  imports Tenant_Control Feature_Async
begin

text \<open>
  The entry points of the tenant manager with their awaits. The body of \<^verbatim>\<open>dataSource.transaction\<close> takes
  effect at its commit and is one step. Every request of the \<^verbatim>\<open>SCAN\<close> loop is a step of its own, and the
  server may answer each from another key space, so that the loop need not end: it makes at most
  \<open>n\<close> requests, and a handler that is still in the loop then has the outcome \<^const>\<open>None\<close>. The theorems hold
  for every \<open>n\<close>.
\<close>

definition tm_emit :: "string \<Rightarrow> json \<Rightarrow> (tm_state, unit result) proc" where
  "tm_emit rk p = writing (\<lambda>s. s\<lparr>tm_bus := publish ''chassis.tenants'' rk p (tm_bus s)\<rparr>)"

text \<open>
  Saving a loaded tenant is two statements: \<^verbatim>\<open>save\<close> selects the row again, and then updates the columns
  in which the entity differs from the row it selected, and \<^verbatim>\<open>updated_at\<close>. What others write between
  the two statements is overwritten in these columns and stays in the rest; an entity that differs in
  nothing is not written.
\<close>

definition update_columns :: "instant \<Rightarrow> tenant \<Rightarrow> tenant \<Rightarrow> tenant \<Rightarrow> tenant" where
  "update_columns now selected t row = row\<lparr>
     t_name := changed t_name selected t row, t_slug := changed t_slug selected t row,
     t_status := changed t_status selected t row,
     t_stripeCustomerId := changed t_stripeCustomerId selected t row,
     t_currentPlan := changed t_currentPlan selected t row, t_metadata := changed t_metadata selected t row,
     t_enabledFeatures := changed t_enabledFeatures selected t row,
     t_adminEmail := changed t_adminEmail selected t row, t_phone := changed t_phone selected t row,
     t_address := changed t_address selected t row, t_trialEndsAt := changed t_trialEndsAt selected t row,
     t_suspendedAt := changed t_suspendedAt selected t row,
     t_cancelledAt := changed t_cancelledAt selected t row,
     t_createdAt := changed t_createdAt selected t row, t_updatedAt := now\<rparr>"

definition update_tenant :: "instant \<Rightarrow> tenant \<Rightarrow> tenant \<Rightarrow> tm_state \<Rightarrow> tm_state" where
  "update_tenant now selected t s =
     (case find_tenant (t_id t) s of
        None \<Rightarrow> s
      | Some row \<Rightarrow> s\<lparr>tenants := save_row t_id (update_columns now selected t row) (tenants s)\<rparr>)"

definition saving_tenant :: "instant \<Rightarrow> tenant \<Rightarrow> (tm_state, tenant result) proc" where
  "saving_tenant now t =
     bind_ok (reading (\<lambda>s. find_tenant (t_id t) s)) (\<lambda>selected.
       case selected of
         None \<Rightarrow> atomically (\<lambda>s. map_prod Inr id (save_tenant now t s))
       | Some row \<Rightarrow>
           if row = t then Done (Inr t)
           else bind_ok (writing (update_tenant now row t)) (\<lambda>_. Done (Inr (t\<lparr>t_updatedAt := now\<rparr>))))"

definition loading_tenant :: "uuid \<Rightarrow> (tm_state, tenant result) proc" where
  "loading_tenant i = atomically (\<lambda>s. (tenants_findById i s, s))"

subsection \<open>Provisioning\<close>

definition provision_async ::
  "tm_env \<Rightarrow> createTenantDto \<Rightarrow> string \<Rightarrow> plan \<Rightarrow> uuid \<Rightarrow> (tm_state, tenant result) proc" where
  "provision_async e dto planCode plan userId = atomically (\<lambda>s.
     case provision e dto planCode plan userId s of
       Inl x \<Rightarrow>
         (Inl (if x = QueryFailed ''23505''
               then Conflict (''Tenant slug '' @ quoted (finalSlug e (ct_name dto)) @ '' is already taken'') else x), s)
     | Inr (t, s') \<Rightarrow> (Inr t, s'))"

definition createTenant_async :: "tm_env \<Rightarrow> createTenantDto \<Rightarrow> uuid \<Rightarrow> (tm_state, tenant result) proc" where
  "createTenant_async e dto userId =
     (let planCode = coalesce (ct_plan dto) ''free'' in
      bind_ok (reading (plans_findByCode (tm_now e) planCode)) (\<lambda>plan.
      bind_ok (provision_async e dto planCode plan userId) (\<lambda>t.
      bind_ok (writing (requestOwnerMembership e (t_id t) userId)) (\<lambda>_.
      bind_ok (tm_emit ''tenant.provisioned''
        (TenantProvisionedEvent (tm_now e) (t_id t) (t_slug t) (t_currentPlan t) (t_adminEmail t))) (\<lambda>_.
      Done (Inr t))))))"

subsection \<open>Features of a plan\<close>

fun insertFeatures_async :: "tm_env \<Rightarrow> uuid \<Rightarrow> string list \<Rightarrow> uuid \<Rightarrow> (tm_state, unit result) proc" where
  "insertFeatures_async e tenantId [] userId = Done (Inr ())"
| "insertFeatures_async e tenantId (c # cs) userId =
     bind_ok (inserting (insert_feature (newOverride e tenantId c True userId)) ())
       (\<lambda>_. insertFeatures_async e tenantId cs userId)"

definition replaceTenantFeatures_async :: "tm_env \<Rightarrow> uuid \<Rightarrow> string list \<Rightarrow> uuid \<Rightarrow> (tm_state, unit result) proc" where
  "replaceTenantFeatures_async e tenantId featureCodes userId =
     bind_ok (writing (\<lambda>s. s\<lparr>tenantFeatures := delete_where (\<lambda>f. tf_tenantId f = tenantId) (tenantFeatures s)\<rparr>))
       (\<lambda>_. insertFeatures_async e tenantId featureCodes userId)"

fun scan_async :: "nat \<Rightarrow> tm_env \<Rightarrow> string \<Rightarrow> nat \<Rightarrow> string list \<Rightarrow> (tm_state, string list option) proc" where
  "scan_async 0 e pattern cursor keys = Done None"
| "scan_async (Suc n) e pattern cursor keys =
     bind_proc (atomically (\<lambda>s. (scan e (tm_redis s) pattern cursor, s))) (\<lambda>(nextCursor, batch).
       if nextCursor = 0 then Done (Some (keys @ batch)) else scan_async n e pattern nextCursor (keys @ batch))"

definition invalidateTenantFeatureCache_async :: "nat \<Rightarrow> tm_env \<Rightarrow> uuid \<Rightarrow> (tm_state, unit option) proc" where
  "invalidateTenantFeatureCache_async n e tenantId =
     bind_proc (scan_async n e (tenant_prefix tenantId @ ''*'') 0 []) (\<lambda>found.
       case found of
         None \<Rightarrow> Done None
       | Some keys \<Rightarrow>
           if keys = [] then Done (Some ())
           else bind_proc (writing (\<lambda>s. s\<lparr>tm_redis := redis_del keys (tm_redis s)\<rparr>)) (\<lambda>_. Done (Some ())))"

subsection \<open>Updates and lifecycle\<close>

definition savePlan_async :: "tm_env \<Rightarrow> uuid \<Rightarrow> string \<Rightarrow> tenant \<Rightarrow> (tm_state, tenant result) proc" where
  "savePlan_async e i newPlan t =
     bind_ok (reading (plans_findByCode (tm_now e) newPlan)) (\<lambda>plan.
     let codes = p_includedFeatures plan in
     bind_ok (saving_tenant (tm_now e) (t\<lparr>t_currentPlan := newPlan, t_enabledFeatures := codes\<rparr>)) (\<lambda>saved.
     bind_ok (replaceTenantFeatures_async e i (if codes \<noteq> [] then codes else coalesce (planFeatures newPlan) []) i) (\<lambda>_.
     Done (Inr saved))))"

definition changePlan_async :: "nat \<Rightarrow> tm_env \<Rightarrow> uuid \<Rightarrow> string \<Rightarrow> tenant \<Rightarrow> (tm_state, tenant result option) proc" where
  "changePlan_async n e i newPlan t =
     bind_proc (savePlan_async e i newPlan t) (\<lambda>r.
       case r of
         Inl x \<Rightarrow> Done (Some (Inl x))
       | Inr saved \<Rightarrow>
           bind_proc (invalidateTenantFeatureCache_async n e i) (\<lambda>invalidated.
             case invalidated of
               None \<Rightarrow> Done None
             | Some _ \<Rightarrow>
                 bind_proc (tm_emit ''tenant.plan-changed'' (TenantPlanChangedEvent (tm_now e) i (t_currentPlan t) newPlan))
                   (\<lambda>_. Done (Some (Inr saved)))))"

definition saved_async :: "(tm_state, 'a result) proc \<Rightarrow> (tm_state, 'a result option) proc" where
  "saved_async p = bind_proc p (\<lambda>r. Done (Some r))"

definition updateTenant_async :: "nat \<Rightarrow> tm_env \<Rightarrow> uuid \<Rightarrow> updateTenantDto \<Rightarrow> (tm_state, tenant result option) proc" where
  "updateTenant_async n e i dto =
     bind_proc (loading_tenant i) (\<lambda>r.
       case r of
         Inl x \<Rightarrow> Done (Some (Inl x))
       | Inr t0 \<Rightarrow>
           (case patch_tenant dto t0 of
              Inl x \<Rightarrow> Done (Some (Inl x))
            | Inr t \<Rightarrow>
                (case ut_plan dto of
                   Value p \<Rightarrow>
                     if p \<noteq> t_currentPlan t0 then changePlan_async n e i p t
                     else saved_async (saving_tenant (tm_now e) t)
                 | _ \<Rightarrow> saved_async (saving_tenant (tm_now e) t))))"

definition suspendTenant_async :: "tm_env \<Rightarrow> uuid \<Rightarrow> string field \<Rightarrow> (tm_state, tenant result) proc" where
  "suspendTenant_async e i reason =
     bind_ok (loading_tenant i) (\<lambda>t.
       if t_status t = TS_suspended then Done (Inl (BadRequest ''Tenant is already suspended''))
       else if t_status t = TS_cancelled then Done (Inl (BadRequest ''Cannot suspend a cancelled tenant''))
       else
         bind_ok (saving_tenant (tm_now e) (t\<lparr>t_status := TS_suspended, t_suspendedAt := Some (tm_now e)\<rparr>)) (\<lambda>saved.
         bind_ok (tm_emit ''tenant.suspended'' (TenantSuspendedEvent (tm_now e) i reason)) (\<lambda>_. Done (Inr saved))))"

definition activateTenant_async :: "tm_env \<Rightarrow> uuid \<Rightarrow> (tm_state, tenant result) proc" where
  "activateTenant_async e i =
     bind_ok (loading_tenant i) (\<lambda>t.
       if t_status t = TS_active then Done (Inl (BadRequest ''Tenant is already active''))
       else if t_status t = TS_cancelled then Done (Inl (BadRequest ''Cannot activate a cancelled tenant''))
       else saving_tenant (tm_now e) (t\<lparr>t_status := TS_active, t_suspendedAt := None\<rparr>))"

definition archiveTenant_async :: "nat \<Rightarrow> tm_env \<Rightarrow> uuid \<Rightarrow> (tm_state, unit result option) proc" where
  "archiveTenant_async n e i =
     bind_proc (loading_tenant i) (\<lambda>r.
       case r of
         Inl x \<Rightarrow> Done (Some (Inl x))
       | Inr t \<Rightarrow>
           if t_status t = TS_cancelled then Done (Some (Inl (BadRequest ''Tenant is already archived/cancelled'')))
           else
             bind_proc (saving_tenant (tm_now e) (t\<lparr>t_status := TS_cancelled, t_cancelledAt := Some (tm_now e)\<rparr>)) (\<lambda>_.
             bind_proc (invalidateTenantFeatureCache_async n e i) (\<lambda>invalidated.
             Done (map_option Inr invalidated))))"

definition handleSubscriptionStatus_async :: "tm_env \<Rightarrow> string field \<Rightarrow> string option \<Rightarrow> string option \<Rightarrow> (tm_state, unit result) proc" where
  "handleSubscriptionStatus_async e i status plan =
     bind_ok (reading (\<lambda>s. subscription_tenant i s)) (\<lambda>x.
       case x of
         None \<Rightarrow> Done (Inr ())
       | Some t0 \<Rightarrow>
           (let t1 = applySubscriptionStatus e status t0;
                t2 = (if truthy plan \<and> the plan \<noteq> t_currentPlan t1 then t1\<lparr>t_currentPlan := the plan\<rparr> else t1)
            in if fits_null 50 plan then bind_ok (saving_tenant (tm_now e) t2) (\<lambda>_. Done (Inr ()))
               else Done (Inr ())))"

subsection \<open>Requests and messages\<close>

text \<open>What a request ends with; \<open>Scanning\<close> is one that is still in the invalidation loop.\<close>

datatype tm_outcome = Created "tenant result" | Finished "unit result" | Scanning

definition tm_ended :: "(tm_state, 'a result) proc \<Rightarrow> (tm_state, tm_outcome) proc" where
  "tm_ended p = bind_proc p (\<lambda>r. Done (Finished (map_sum id (\<lambda>_. ()) r)))"

definition tm_maybe :: "(tm_state, 'a result option) proc \<Rightarrow> (tm_state, tm_outcome) proc" where
  "tm_maybe p = bind_proc p (\<lambda>r. Done (case r of None \<Rightarrow> Scanning | Some r \<Rightarrow> Finished (map_sum id (\<lambda>_. ()) r)))"

text \<open>The checks of the controllers, in their order.\<close>

fun refusal :: "tm_env \<Rightarrow> tm_event \<Rightarrow> exn option" where
  "refusal e (Ev_create u dto) = (if jp_isPlatformAdmin u then None else Some (Forbidden ''Only platform admins can provision tenants''))"
| "refusal e (Ev_update u i dto) =
     (if \<not> isUUID e i then Some bad_uuid
      else if \<not> jp_isPlatformAdmin u \<and> jp_tenantId u \<noteq> Some i then Some (Forbidden ''Access denied to this tenant'')
      else if truthy (field_or_null (ut_plan dto)) \<and> \<not> jp_isPlatformAdmin u
      then Some (Forbidden ''Only platform admins can change the subscription plan'') else None)"
| "refusal e (Ev_suspend u i why) =
     (if \<not> isUUID e i then Some bad_uuid
      else if \<not> jp_isPlatformAdmin u then Some (Forbidden ''Only platform admins can suspend tenants'') else None)"
| "refusal e (Ev_activate u i) =
     (if \<not> isUUID e i then Some bad_uuid
      else if \<not> jp_isPlatformAdmin u then Some (Forbidden ''Only platform admins can activate tenants'') else None)"
| "refusal e (Ev_remove u i) =
     (if \<not> isUUID e i then Some bad_uuid
      else if \<not> jp_isPlatformAdmin u then Some (Forbidden ''Only platform admins can archive tenants'') else None)"
| "refusal e (Ev_toggle u i code enabled) =
     (if \<not> isUUID e i then Some bad_uuid
      else if \<not> jp_isPlatformAdmin u then Some (Forbidden ''Only platform admins can toggle features'') else None)"
| "refusal e (Ev_check token i code) =
     (case internalServiceGuard e token of Inl x \<Rightarrow> Some x | Inr _ \<Rightarrow> if isUUID e i then None else Some bad_uuid)"
| "refusal e (Ev_billingSynced i c) = None"
| "refusal e (Ev_subscriptionStatus i status plan) = None"

fun tm_handler :: "nat \<Rightarrow> tm_env \<Rightarrow> tm_event \<Rightarrow> (tm_state, tm_outcome) proc" where
  "tm_handler n e (Ev_create u dto) = bind_proc (createTenant_async e dto (jp_sub u)) (\<lambda>r. Done (Created r))"
| "tm_handler n e (Ev_update u i dto) = tm_maybe (updateTenant_async n e i dto)"
| "tm_handler n e (Ev_suspend u i why) = tm_ended (suspendTenant_async e i why)"
| "tm_handler n e (Ev_activate u i) = tm_ended (activateTenant_async e i)"
| "tm_handler n e (Ev_remove u i) = tm_maybe (archiveTenant_async n e i)"
| "tm_handler n e (Ev_toggle u i code enabled) = tm_ended (toggleFeature_async e i code enabled (jp_sub u))"
| "tm_handler n e (Ev_check token i code) = tm_ended (isFeatureEnabled_async e i code)"
| "tm_handler n e (Ev_billingSynced i c) = tm_ended (writing (handleBillingSynced e (Value i) c))"
| "tm_handler n e (Ev_subscriptionStatus i status plan) = tm_ended (handleSubscriptionStatus_async e (Value i) status plan)"

definition tm_start :: "nat \<Rightarrow> tm_env \<times> tm_event \<Rightarrow> (tm_state, tm_outcome) proc" where
  "tm_start n r = (case refusal (fst r) (snd r) of
     Some x \<Rightarrow> Done (Finished (Inl x)) | None \<Rightarrow> tm_handler n (fst r) (snd r))"

subsection \<open>Without interruption\<close>

lemma run_tm_emit [simp]: "run_proc (tm_emit rk p) s = (Inr (), s\<lparr>tm_bus := publish ''chassis.tenants'' rk p (tm_bus s)\<rparr>)"
  by (simp add: tm_emit_def)

lemma update_columns_whole: "t_id row = t_id t \<Longrightarrow> update_columns now row t row = t\<lparr>t_updatedAt := now\<rparr>"
  by (simp add: update_columns_def changed_selected)

text \<open>Uninterrupted it is the save of the sequential model.\<close>

lemma stored_save_tenant: "tm_wf s \<Longrightarrow> find_tenant (t_id t) s = Some t \<Longrightarrow> save_tenant now t s = (t, s)"
  using find_tenant_iff [of s "t_id t" t] save_row_same [of t_id "tenants s" t]
  by (simp add: save_tenant_def) (simp add: tm_wf_def)

lemma run_saving [simp]:
  "tm_wf s \<Longrightarrow> run_proc (saving_tenant now t) s = (Inr (fst (save_tenant now t s)), snd (save_tenant now t s))"
proof (cases "find_tenant (t_id t) s")
  assume wf: "tm_wf s"
  case (Some row)
  then have id: "t_id row = t_id t" by (auto dest: find_SomeD)
  show ?thesis
  proof (cases "row = t")
    case True
    with Some show ?thesis using stored_save_tenant [OF wf, of t now] by (simp add: saving_tenant_def and_then_def)
  next
    case False
    with Some id show ?thesis
      by (simp add: saving_tenant_def and_then_def update_tenant_def save_tenant_def Let_def update_columns_whole)
  qed
qed (simp add: saving_tenant_def and_then_def map_prod_def case_prod_beta)

lemma run_loading [simp]: "run_proc (loading_tenant i) s = (tenants_findById i s, s)"
  by (simp add: loading_tenant_def)

lemma run_createTenant: "run_proc (createTenant_async e dto u) s = createTenant e dto u s"
  by (simp add: createTenant_async_def createTenant_def provision_async_def Let_def split: sum.split prod.split)

lemma run_insertFeatures: "run_proc (insertFeatures_async e t cs u) s = insertFeatures e t cs u s"
  by (induction cs arbitrary: s) (simp_all add: newOverride_def split: sum.split)

lemma run_replace: "run_proc (replaceTenantFeatures_async e t cs u) s = replaceTenantFeatures e t cs u s"
  by (simp add: replaceTenantFeatures_async_def replaceTenantFeatures_def run_insertFeatures)

text \<open>Where the loop of the sequential model returns, enough requests are enough.\<close>

lemma run_scan:
  "scan_loop reply cursor keys = Some found \<Longrightarrow> reply = scan e (tm_redis s) pat \<Longrightarrow>
    \<exists>m. \<forall>n \<ge> m. run_proc (scan_async n e pat cursor keys) s = (Some found, s)"
proof (induction rule: scan_loop.raw_induct [rotated 1, consumes 1, case_names step])
  case (step loop reply cursor keys found)
  obtain nx batch where rep: "reply cursor = (nx, batch)" by (cases "reply cursor")
  have run: "run_proc (scan_async (Suc n) e pat cursor keys) s =
      (if nx = 0 then (Some (keys @ batch), s) else run_proc (scan_async n e pat nx (keys @ batch)) s)" for n
    using rep step(3) by (simp add: run_bind)
  show ?case
  proof (cases "nx = 0")
    case True
    then have "found = keys @ batch" using step(2) rep by (simp add: Let_def)
    then have "run_proc (scan_async n e pat cursor keys) s = (Some found, s)" if "n \<ge> 1" for n
      using run [of "n - 1"] True that by (cases n) auto
    then show ?thesis by blast
  next
    case False
    then have "loop reply nx (keys @ batch) = Some found" using step(2) rep by (simp add: Let_def)
    from step(1) [OF this step(3)] obtain m where
      m: "run_proc (scan_async n e pat nx (keys @ batch)) s = (Some found, s)" if "n \<ge> m" for n by blast
    have "run_proc (scan_async n e pat cursor keys) s = (Some found, s)" if "n \<ge> Suc m" for n
      using run [of "n - 1"] m [of "n - 1"] False that by (cases n) auto
    then show ?thesis by blast
  qed
qed

lemma run_invalidate:
  assumes "invalidateTenantFeatureCache e t s = Some s'"
  shows "\<exists>m. \<forall>n \<ge> m. run_proc (invalidateTenantFeatureCache_async n e t) s = (Some (), s')"
proof -
  obtain keys where keys: "scan_loop (scan e (tm_redis s) (tenant_prefix t @ ''*'')) 0 [] = Some keys"
      "s' = (if keys = [] then s else s\<lparr>tm_redis := redis_del keys (tm_redis s)\<rparr>)"
    using assms by (auto simp: invalidateTenantFeatureCache_def split: option.splits)
  from run_scan [OF keys(1) refl] obtain m where
    m: "\<forall>n \<ge> m. run_proc (scan_async n e (tenant_prefix t @ ''*'') 0 []) s = (Some keys, s)" by blast
  then show ?thesis
    by (intro exI [of _ m]) (simp add: invalidateTenantFeatureCache_async_def run_bind keys(2))
qed

lemma run_savePlan:
  "tm_wf s \<Longrightarrow> run_proc (savePlan_async e i p t) s =
     (let codes = p_includedFeatures (plans_findByCode (tm_now e) p s);
          (saved, s1) = save_tenant (tm_now e) (t\<lparr>t_currentPlan := p, t_enabledFeatures := codes\<rparr>) s;
          (r, s2) = replaceTenantFeatures e i (if codes \<noteq> [] then codes else coalesce (planFeatures p) []) i s1
      in (map_sum id (\<lambda>_. saved) r, s2))"
  by (simp add: savePlan_async_def Let_def run_replace and_then_def split: prod.split sum.split)

lemma run_changePlan:
  assumes "tm_wf s" "changePlan e i p t s = Some (r, s')"
  shows "\<exists>m. \<forall>n \<ge> m. run_proc (changePlan_async n e i p t) s = (Some r, s')"
proof -
  obtain saved s0 where rp: "repriced e p t s = (saved, s0)" by (cases "repriced e p t s")
  obtain q s1 where q: "replaceTenantFeatures e i (sync_codes e p s) i s0 = (q, s1)"
    by (cases "replaceTenantFeatures e i (sync_codes e p s) i s0")
  define r1 where "r1 = map_sum id (\<lambda>_. saved) q"
  have sp: "run_proc (savePlan_async e i p t) s = (r1, s1)"
    unfolding run_savePlan [OF assms(1)] Let_def rp prod.case q r1_def by simp
  have eq: "changePlan e i p t s = (case r1 of
      Inl x \<Rightarrow> Some (Inl x, s1)
    | Inr saved \<Rightarrow> map_option (\<lambda>s3. (Inr saved, s3\<lparr>tm_bus := publish ''chassis.tenants'' ''tenant.plan-changed''
          (TenantPlanChangedEvent (tm_now e) i (t_currentPlan t) p) (tm_bus s3)\<rparr>)) (invalidateTenantFeatureCache e i s1))"
    unfolding changePlan_def Let_def rp prod.case q r1_def by (cases q; cases "invalidateTenantFeatureCache e i s1") simp_all
  show ?thesis
  proof (cases r1)
    case (Inl x)
    then show ?thesis using sp assms by (auto simp: eq changePlan_async_def run_bind)
  next
    case (Inr saved)
    then obtain s3 where s3: "invalidateTenantFeatureCache e i s1 = Some s3" using assms by (auto simp: eq)
    from run_invalidate [OF this] obtain m where
      "\<forall>n \<ge> m. run_proc (invalidateTenantFeatureCache_async n e i) s1 = (Some (), s3)" by blast
    then show ?thesis
      using sp assms Inr s3 by (intro exI [of _ m]) (auto simp: eq changePlan_async_def run_bind)
  qed
qed

lemma run_updateTenant:
  assumes "tm_wf s" "updateTenant e i dto s = Some (r, s')"
  shows "\<exists>m. \<forall>n \<ge> m. run_proc (updateTenant_async n e i dto) s = (Some r, s')"
proof (cases "\<exists>t0 t p. tenants_findById i s = Inr t0 \<and> patch_tenant dto t0 = Inr t \<and> ut_plan dto = Value p \<and> p \<noteq> t_currentPlan t0")
  case True
  then obtain t0 t p where t: "tenants_findById i s = Inr t0" "patch_tenant dto t0 = Inr t" "ut_plan dto = Value p" "p \<noteq> t_currentPlan t0"
    by blast
  then have "changePlan e i p t s = Some (r, s')" using assms by (simp add: updateTenant_def)
  from run_changePlan [OF assms(1) this] t show ?thesis by (simp add: updateTenant_async_def run_bind)
next
  case False
  then have "run_proc (updateTenant_async n e i dto) s = (Some r, s')" for n
    using assms by (auto simp: updateTenant_def updateTenant_async_def saved_async_def run_bind split: sum.splits field.splits prod.splits)
  then show ?thesis by blast
qed

lemma run_archiveTenant:
  assumes "tm_wf s" "archiveTenant e i s = Some (r, s')"
  shows "\<exists>m. \<forall>n \<ge> m. run_proc (archiveTenant_async n e i) s = (Some r, s')"
proof (cases "\<exists>t. tenants_findById i s = Inr t \<and> t_status t \<noteq> TS_cancelled")
  case True
  then obtain t where t: "tenants_findById i s = Inr t" "t_status t \<noteq> TS_cancelled" by blast
  let ?s1 = "snd (save_tenant (tm_now e) (t\<lparr>t_status := TS_cancelled, t_cancelledAt := Some (tm_now e)\<rparr>) s)"
  have "invalidateTenantFeatureCache e i ?s1 = Some s'" "r = Inr ()"
    using assms t by (auto simp: archiveTenant_def case_prod_beta)
  moreover from run_invalidate [OF this(1)] obtain m where
    "\<forall>n \<ge> m. run_proc (invalidateTenantFeatureCache_async n e i) ?s1 = (Some (), s')" by blast
  ultimately show ?thesis using t assms(1) by (intro exI [of _ m]) (simp add: archiveTenant_async_def run_bind)
next
  case False
  then have "run_proc (archiveTenant_async n e i) s = (Some r, s')" for n
    using assms by (auto simp: archiveTenant_def archiveTenant_async_def run_bind split: sum.splits)
  then show ?thesis by blast
qed

lemma run_suspendTenant: "tm_wf s \<Longrightarrow> run_proc (suspendTenant_async e i why) s = suspendTenant e i why s"
  by (cases "tenants_findById i s") (simp_all add: suspendTenant_async_def suspendTenant_def case_prod_beta Let_def)

lemma run_activateTenant: "tm_wf s \<Longrightarrow> run_proc (activateTenant_async e i) s = activateTenant e i s"
  by (cases "tenants_findById i s") (simp_all add: activateTenant_async_def activateTenant_def case_prod_beta Let_def)

lemma run_subscriptionStatus:
  "tm_wf s \<Longrightarrow> run_proc (handleSubscriptionStatus_async e i st p) s = (Inr (), handleSubscriptionStatus e i st p s)"
  by (simp add: handleSubscriptionStatus_async_def handleSubscriptionStatus_def Let_def split: option.split)

lemma run_tm_ended: "snd (run_proc (tm_ended p) s) = snd (run_proc p s)"
  by (simp add: tm_ended_def run_bind case_prod_beta)

lemma run_tm_maybe: "run_proc p s = (Some r, s') \<Longrightarrow> snd (run_proc (tm_maybe p) s) = s'"
  by (simp add: tm_maybe_def run_bind)

text \<open>Every step of the sequential transition system is a run of the interruptible handler.\<close>

lemma run_tm_start:
  assumes "tm_wf s" "tm_step e ev s s'"
  shows "\<exists>m. \<forall>n \<ge> m. snd (run_proc (tm_start n (e, ev)) s) = s'"
  using assms(2)
proof (cases rule: tm_step.cases)
  case (update u i dto r)
  show ?thesis
  proof (cases "refusal e ev")
    case None
    then obtain r' where "updateTenant e i dto s = Some (r', s')"
      using update by (auto simp: TenantsController_update_def respond_def split: if_splits)
    from run_updateTenant [OF assms(1) this] show ?thesis using update None by (auto simp: tm_start_def intro: run_tm_maybe)
  qed (use update in \<open>auto simp: tm_start_def TenantsController_update_def split: if_splits\<close>)
next
  case (remove u i r)
  show ?thesis
  proof (cases "refusal e ev")
    case None
    then have "archiveTenant e i s = Some (r, s')" using remove by (auto simp: TenantsController_remove_def split: if_splits)
    from run_archiveTenant [OF assms(1) this] show ?thesis using remove None by (auto simp: tm_start_def intro: run_tm_maybe)
  qed (use remove in \<open>auto simp: tm_start_def TenantsController_remove_def split: if_splits\<close>)
qed (auto simp: tm_start_def run_tm_ended run_bind case_prod_beta run_createTenant run_suspendTenant [OF assms(1)] run_activateTenant [OF assms(1)]
    run_toggleFeature [OF assms(1)] run_isFeatureEnabled run_subscriptionStatus [OF assms(1)] TenantsController_create_def TenantsController_suspend_def
    TenantsController_activate_def FeaturesController_toggleFeature_def FeaturesController_checkFeature_def split: sum.split)

end
