(* ===== verification/Tenant_Interleaving.thy ===== *)
theory Tenant_Interleaving
  imports Tenant_Async
begin

text \<open>
  Requests and messages of the tenant manager handled at the same time. A tenant keeps its identifier and
  its slug, and nobody writes the catalogues (\<open>tm_evolves\<close>); feature rows come and go with the
  plans. The constraints of the tables hold in every interleaving, and no tenant is left in
  provisioning. The agreement of status and timestamps, which the operations keep one at a time, does not:
  two saves may each write the columns in which they differ from what they selected
  (\<open>active_tenant_with_suspension\<close> in \<open>Tenant_Races\<close>).
\<close>

subsection \<open>Rely\<close>

definition t_key :: "tenant \<Rightarrow> uuid \<times> string" where
  "t_key t = (t_id t, t_slug t)"

definition tm_evolves :: "tm_state \<Rightarrow> tm_state \<Rightarrow> bool" where
  "tm_evolves s s' \<longleftrightarrow> t_key ` set (tenants s) \<subseteq> t_key ` set (tenants s') \<and>
     featureDefs s' = featureDefs s \<and> plans s' = plans s"

text \<open>The statuses a stored tenant can have, and the invariant of the tables.\<close>

definition settled :: "tenantStatus \<Rightarrow> bool" where
  "settled a \<longleftrightarrow> a \<in> {TS_active, TS_suspended, TS_cancelled}"

definition tm_tables :: "tm_state \<Rightarrow> bool" where
  "tm_tables s \<longleftrightarrow> tm_wf s \<and> (\<forall>t \<in> set (tenants s). settled (t_status t))"

lemma settled_simps [simp]: "settled TS_active" "settled TS_suspended" "settled TS_cancelled"
  by (simp_all add: settled_def)

lemma lifecycle_settled: "lifecycle_row t \<Longrightarrow> settled (t_status t)"
  by (cases "t_status t") simp_all

lemma tm_inv_tables: "tm_inv s \<Longrightarrow> tm_tables s"
  by (auto simp: tm_inv_def tm_tables_def intro: lifecycle_settled)

lemma tm_tables_cong:
  "tenants s' = tenants s \<Longrightarrow> tenantFeatures s' = tenantFeatures s \<Longrightarrow> featureDefs s' = featureDefs s \<Longrightarrow>
   plans s' = plans s \<Longrightarrow> tm_tables s' = tm_tables s"
  by (simp add: tm_tables_def tm_wf_def)

interpretation manager: shared_state tm_tables tm_evolves
  by unfold_locales (auto simp: tm_evolves_def)

abbreviation tm_meets :: "('a \<Rightarrow> tm_state \<Rightarrow> bool) \<Rightarrow> (tm_state, 'a) proc \<Rightarrow> tm_state \<Rightarrow> bool" where
  "tm_meets \<equiv> meets tm_tables tm_evolves"

abbreviation tm_safe :: "(tm_state, 'a) proc \<Rightarrow> tm_state \<Rightarrow> bool" where
  "tm_safe \<equiv> tm_meets (\<lambda>_ _. True)"

text \<open>A row that was loaded: it has the key of a tenant, and a status a stored tenant can have.\<close>

definition known_tenant :: "tenant \<Rightarrow> tm_state \<Rightarrow> bool" where
  "known_tenant t s \<longleftrightarrow> t_key t \<in> t_key ` set (tenants s) \<and> settled (t_status t)"

lemma known_tenant_later: "tm_evolves s s' \<Longrightarrow> known_tenant t s \<Longrightarrow> known_tenant t s'"
  by (auto simp: known_tenant_def tm_evolves_def)

lemma found_tenant: "tm_tables s \<Longrightarrow> find_tenant i s = Some t \<Longrightarrow> known_tenant t s"
  by (auto simp: known_tenant_def tm_tables_def dest!: find_SomeD)

subsection \<open>The single steps\<close>

definition tm_good :: "tm_state \<Rightarrow> tm_state \<Rightarrow> bool" where
  "tm_good s s' \<longleftrightarrow> tm_tables s' \<and> tm_evolves s s'"

lemma tm_good_same: "tm_tables s \<Longrightarrow> tm_good s s"
  by (simp add: tm_good_def manager.rely_refl)

lemma tm_good_frame:
  "tm_tables s \<Longrightarrow> tenants s' = tenants s \<Longrightarrow> tenantFeatures s' = tenantFeatures s \<Longrightarrow> featureDefs s' = featureDefs s \<Longrightarrow>
   plans s' = plans s \<Longrightarrow> tm_good s s'"
  using tm_tables_cong [of s' s] by (simp add: tm_good_def tm_evolves_def)

lemma tm_good_features:
  "tm_tables s \<Longrightarrow> tm_wf s' \<Longrightarrow> tenants s' = tenants s \<Longrightarrow> featureDefs s' = featureDefs s \<Longrightarrow> plans s' = plans s \<Longrightarrow> tm_good s s'"
  by (simp add: tm_good_def tm_evolves_def tm_tables_def)

lemma known_row:
  assumes "tm_tables s" "known_tenant t s"
  obtains row where "find_tenant (t_id t) s = Some row" "row \<in> set (tenants s)" "t_key row = t_key t"
proof -
  obtain row where "row \<in> set (tenants s)" "t_key row = t_key t" using assms(2) by (auto simp: known_tenant_def)
  moreover have "find_tenant (t_id t) s = Some row"
    using calculation assms(1) by (simp add: find_tenant_iff tm_tables_def t_key_def)
  ultimately show ?thesis using that by blast
qed

lemma tm_good_replace:
  assumes inv: "tm_tables s" and known: "known_tenant t s"
  shows "tm_good s (s\<lparr>tenants := save_row t_id t (tenants s)\<rparr>)"
proof -
  obtain t0 where t0: "find_tenant (t_id t) s = Some t0" "t0 \<in> set (tenants s)" "t_key t0 = t_key t"
    by (rule known_row [OF assms])
  have wf: "tm_wf s" using inv by (simp add: tm_tables_def)
  then have rows: "set (save_row t_id t (tenants s)) = insert t {x \<in> set (tenants s). t_id x \<noteq> t_id t}"
    by (simp add: set_save_row tm_wf_def)
  have "x = t0" if "x \<in> set (tenants s)" "t_id x = t_id t" for x
    using that t0(1) find_tenant_iff [OF wf, of "t_id t" x] by simp
  then have "t_key ` set (tenants s) \<subseteq> t_key ` set (save_row t_id t (tenants s))"
    using t0(3) by (auto simp: rows)
  moreover have "tm_wf (s\<lparr>tenants := save_row t_id t (tenants s)\<rparr>)"
    by (rule tm_wf_replace [OF wf t0(1)]) (use t0(3) in \<open>simp add: t_key_def\<close>)
  moreover have "\<forall>x \<in> set (save_row t_id t (tenants s)). settled (t_status x)"
    using inv known by (auto simp: rows tm_tables_def known_tenant_def)
  ultimately show ?thesis by (simp add: tm_good_def tm_tables_def tm_evolves_def)
qed

lemma tm_good_save:
  assumes "tm_tables s" "known_tenant t s"
  shows "tm_good s (snd (save_tenant now t s))"
proof -
  have "known_tenant (fst (save_tenant now t s)) s" using assms(2) by (simp add: known_tenant_def t_key_def)
  from tm_good_replace [OF assms(1) this] show ?thesis by (simp add: save_tenant_def Let_def)
qed

text \<open>The update of the differing columns, between loaded rows of the same tenant.\<close>

lemma tm_good_update:
  assumes "tm_tables s" "known_tenant t s" "known_tenant selected s" "t_id selected = t_id t"
  shows "tm_good s (update_tenant now selected t s)"
proof -
  obtain row where row: "find_tenant (t_id t) s = Some row" "row \<in> set (tenants s)" "t_key row = t_key t"
    by (rule known_row [OF assms(1,2)])
  obtain row' where "find_tenant (t_id selected) s = Some row'" "t_key row' = t_key selected"
    by (rule known_row [OF assms(1,3)])
  with row(1) assms(4) have "t_key selected = t_key row" by simp
  let ?r = "update_columns now selected t row"
  have "t_key ?r = t_key row" using row(3) \<open>t_key selected = t_key row\<close> by (simp add: update_columns_def changed_def t_key_def)
  moreover have "settled (t_status ?r)"
    using assms(1,2) row(2) by (simp add: update_columns_def changed_def known_tenant_def tm_tables_def)
  ultimately have "known_tenant ?r s" using row(2) by (auto simp: known_tenant_def)
  from tm_good_replace [OF assms(1) this] show ?thesis by (simp add: update_tenant_def row(1))
qed

lemma tm_good_insert_feature: "tm_tables s \<Longrightarrow> insert_feature f s = Inr s' \<Longrightarrow> tm_good s s'"
  by (rule tm_good_features) (auto simp: tm_tables_def insert_feature_wf dest: insert_feature_eqs(1))

lemma save_feature_wf:
  assumes wf: "tm_wf s" and sv: "save_feature f s = Inr s'"
  shows "tm_wf s'"
proof -
  have new: "tf_key x \<noteq> tf_key f" if "x \<in> set (tenantFeatures s)" "tf_id x \<noteq> tf_id f" for x
    using sv that by (auto simp: save_feature_def split: if_splits)
  have refs: "find_definition (tf_featureCode f) s \<noteq> None" "find_tenant (tf_tenantId f) s \<noteq> None"
    and s': "s' = s\<lparr>tenantFeatures := save_row tf_id f (tenantFeatures s)\<rparr>"
    using sv by (auto simp: save_feature_def split: if_splits)
  have "unique_on tf_key (save_row tf_id f (tenantFeatures s))"
    by (rule unique_save_row_other) (use wf new in \<open>auto simp: tm_wf_def\<close>)
  with wf refs show ?thesis by (auto simp: s' tm_wf_def unique_save_row set_save_row)
qed

lemma tm_good_save_feature: "tm_tables s \<Longrightarrow> save_feature f s = Inr s' \<Longrightarrow> tm_good s s'"
  using save_feature_wf [of s f s']
  by (intro tm_good_features) (auto simp: tm_tables_def save_feature_def split: if_splits)

lemma tm_good_update_override: "tm_tables s \<Longrightarrow> update_override f0 f s = Inr s' \<Longrightarrow> tm_good s s'"
  by (auto simp: update_override_def split: option.splits intro: tm_good_save_feature tm_good_same)

lemma tm_good_replaced:
  "tm_tables s \<Longrightarrow> tm_good s (s\<lparr>tenantFeatures := delete_where p (tenantFeatures s)\<rparr>)"
  by (rule tm_good_features) (auto simp: tm_tables_def tm_wf_def unique_delete_where)

lemma tm_good_synced: "tm_tables s \<Longrightarrow> tm_good s (handleBillingSynced e i c s)"
proof -
  assume s: "tm_tables s"
  let ?s' = "handleBillingSynced e i c s"
  have "map t_key (tenants ?s') = map t_key (tenants s)" "map t_status (tenants ?s') = map t_status (tenants s)"
    by (auto simp: handleBillingSynced_def update_where_def t_key_def split: field.split)
  from arg_cong [OF this(1), of set] arg_cong [OF this(2), of set]
  have keys: "t_key ` set (tenants ?s') = t_key ` set (tenants s)" "t_status ` set (tenants ?s') = t_status ` set (tenants s)"
    by simp_all
  have "\<forall>a \<in> t_status ` set (tenants s). settled a" using s by (simp add: tm_tables_def)
  then have "\<forall>t \<in> set (tenants ?s'). settled (t_status t)" unfolding keys(2) [symmetric] by simp
  moreover have "tm_wf ?s'"
    using s by (auto simp: tm_tables_def tm_wf_def handleBillingSynced_def unique_update_where find_update_where split: field.split)
  moreover have "featureDefs ?s' = featureDefs s" "plans ?s' = plans s"
    by (simp_all add: handleBillingSynced_def split: field.split)
  ultimately show ?thesis by (simp add: tm_good_def tm_tables_def tm_evolves_def keys(1))
qed

lemma tm_good_provision:
  assumes "tm_tables s" "provision e dto p plan u s = Inr (t, s')"
  shows "tm_good s s' \<and> (newTenantId e, finalSlug e (ct_name dto)) \<in> t_key ` set (tenants s')"
proof -
  note res = provision_result [OF assms(2)]
  have "tm_tables s'" using assms(1) res(4,15) by (auto simp: tm_tables_def res(1))
  moreover have "t_key t = (newTenantId e, finalSlug e (ct_name dto))" by (simp add: t_key_def res(2,3))
  ultimately show ?thesis by (auto simp: tm_good_def tm_evolves_def res(1,12,13))
qed

subsection \<open>The handlers\<close>

lemma tm_atomic_rule:
  "(\<And>s. tm_evolves s0 s \<Longrightarrow> tm_tables s \<Longrightarrow> tm_good s (snd (f s)) \<and> Q (fst (f s)) (snd (f s))) \<Longrightarrow> tm_meets Q (atomically f) s0"
  by (rule manager.meets_atomically) (simp add: tm_good_def)

lemma tm_reading_rule: "(\<And>s. tm_evolves s0 s \<Longrightarrow> tm_tables s \<Longrightarrow> Q (Inr (f s)) s) \<Longrightarrow> tm_meets Q (reading f) s0"
  unfolding reading_def by (rule tm_atomic_rule) (simp add: tm_good_same)

lemma tm_safe_writing: "(\<And>s. tm_tables s \<Longrightarrow> tm_good s (f s)) \<Longrightarrow> tm_safe (writing f) s0"
  unfolding writing_def by (rule tm_atomic_rule) simp

lemma tm_safe_inserting:
  assumes "\<And>s s'. tm_tables s \<Longrightarrow> ins s = Inr s' \<Longrightarrow> tm_good s s'"
  shows "tm_safe (inserting ins a) s0"
  unfolding inserting_def by (rule tm_atomic_rule) (auto split: sum.split intro: assms tm_good_same)

lemma tm_safe_bind: "tm_safe p s0 \<Longrightarrow> tm_tables s0 \<Longrightarrow> (\<And>a s. tm_tables s \<Longrightarrow> tm_safe (f a) s) \<Longrightarrow> tm_safe (bind_ok p f) s0"
  by (rule manager.meets_then) auto

lemma tm_safe_bind_proc:
  "tm_safe p s0 \<Longrightarrow> tm_tables s0 \<Longrightarrow> (\<And>a s. tm_tables s \<Longrightarrow> tm_safe (f a) s) \<Longrightarrow> tm_safe (bind_proc p f) s0"
  by (rule manager.meets_bind) auto

lemma tm_safe_reading: "tm_safe (reading f) s"
  by (rule tm_reading_rule) simp

lemma tm_safe_frame:
  "(\<And>s. tenants (f s) = tenants s) \<Longrightarrow> (\<And>s. tenantFeatures (f s) = tenantFeatures s) \<Longrightarrow>
   (\<And>s. featureDefs (f s) = featureDefs s) \<Longrightarrow> (\<And>s. plans (f s) = plans s) \<Longrightarrow> tm_safe (writing f) s0"
  by (rule tm_safe_writing) (simp add: tm_good_frame)

lemma tm_safe_emit: "tm_safe (tm_emit rk p) s"
  unfolding tm_emit_def by (rule tm_safe_frame) simp_all

lemmas tm_safe_rules = tm_safe_bind tm_safe_bind_proc tm_safe_reading tm_safe_emit

text \<open>Loading a tenant, and saving one that was loaded.\<close>

lemma meets_loading: "tm_meets (\<lambda>r s. \<forall>t. r = Inr t \<longrightarrow> known_tenant t s) (loading_tenant i) s0"
  unfolding loading_tenant_def
  by (rule tm_atomic_rule) (auto intro: tm_good_same found_tenant dest: find_tenant_id)

lemma tm_safe_loaded:
  assumes "tm_tables s0" "\<And>t s. tm_tables s \<Longrightarrow> known_tenant t s \<Longrightarrow> tm_safe (f (Inr t)) s"
    and "\<And>x s. tm_tables s \<Longrightarrow> tm_safe (f (Inl x)) s"
  shows "tm_safe (bind_proc (loading_tenant i) f) s0"
proof (rule manager.meets_bind [OF meets_loading assms(1)])
  fix r :: "tenant result" and s assume "tm_tables s" "\<forall>t. r = Inr t \<longrightarrow> known_tenant t s"
  then show "tm_safe (f r) s" by (cases r) (auto intro: assms(2,3))
qed

lemma tm_safe_loaded_ok:
  assumes "tm_tables s0" "\<And>t s. tm_tables s \<Longrightarrow> known_tenant t s \<Longrightarrow> tm_safe (f t) s"
  shows "tm_safe (bind_ok (loading_tenant i) f) s0"
  unfolding bind_ok_def by (rule tm_safe_loaded) (simp_all add: assms)

lemma tm_safe_saving:
  assumes "tm_tables s0" "known_tenant t s0"
  shows "tm_safe (saving_tenant now t) s0"
  unfolding saving_tenant_def
proof (rule manager.meets_bind_ok [where Q = "\<lambda>x s. known_tenant t s \<and>
    (\<forall>row. x = Some row \<longrightarrow> known_tenant row s \<and> t_id row = t_id t)", OF _ assms(1)])
  show "tm_meets (\<lambda>r s. case r of Inl x \<Rightarrow> True | Inr x \<Rightarrow> known_tenant t s \<and>
      (\<forall>row. x = Some row \<longrightarrow> known_tenant row s \<and> t_id row = t_id t)) (reading (\<lambda>s. find_tenant (t_id t) s)) s0"
    by (rule tm_reading_rule) (auto intro: found_tenant known_tenant_later [OF _ assms(2)] dest: find_SomeD)
  fix x s assume s: "tm_tables s" "known_tenant t s \<and> (\<forall>row. x = Some row \<longrightarrow> known_tenant row s \<and> t_id row = t_id t)"
  have "tm_safe (atomically (\<lambda>s. map_prod Inr id (save_tenant now t s))) s"
    by (rule tm_atomic_rule) (simp add: tm_good_save known_tenant_later [OF _ conjunct1 [OF s(2)]])
  moreover have "tm_safe (writing (update_tenant now row t)) s" if "x = Some row" for row
    unfolding writing_def
    by (rule tm_atomic_rule) (use s(2) that in \<open>auto intro!: tm_good_update elim: known_tenant_later\<close>)
  ultimately show "tm_safe (case x of None \<Rightarrow> atomically (\<lambda>s. map_prod Inr id (save_tenant now t s))
    | Some row \<Rightarrow> if row = t then Done (Inr t)
        else bind_ok (writing (update_tenant now row t)) (\<lambda>_. Done (Inr (t\<lparr>t_updatedAt := now\<rparr>)))) s"
    using s(1) by (cases x) (auto intro!: tm_safe_bind)
qed

lemma known_tenant_changed:
  "known_tenant t s \<Longrightarrow> t_key t' = t_key t \<Longrightarrow> settled (t_status t') \<Longrightarrow> known_tenant t' s"
  by (simp add: known_tenant_def)

lemma tm_safe_saveOverride:
  assumes "tm_tables s"
  shows "tm_safe (saveOverride e t c b u x) s"
  using assms
  by (cases x) (auto simp: saveOverride_def saving_override_def intro!: tm_safe_bind tm_safe_reading tm_safe_inserting
      intro: tm_good_insert_feature tm_good_update_override split: option.split)

lemma tm_safe_toggle: "tm_tables s \<Longrightarrow> tm_safe (toggleFeature_async e t c b u) s"
  unfolding toggleFeature_async_def
  by (auto intro!: tm_safe_rules tm_safe_saveOverride tm_safe_frame split: option.split)

lemma tm_safe_check: "tm_tables s \<Longrightarrow> tm_safe (isFeatureEnabled_async e t c) s"
  unfolding isFeatureEnabled_async_def cacheAnswer_def Let_def
  by (auto intro!: tm_safe_rules tm_safe_frame split: option.split)

lemma tm_safe_insertFeatures: "tm_tables s \<Longrightarrow> tm_safe (insertFeatures_async e t cs u) s"
  by (induction cs arbitrary: s) (auto intro!: tm_safe_rules tm_safe_inserting tm_good_insert_feature)

lemma tm_safe_replace: "tm_tables s \<Longrightarrow> tm_safe (replaceTenantFeatures_async e t cs u) s"
  unfolding replaceTenantFeatures_async_def
  by (auto intro!: tm_safe_rules tm_safe_writing tm_good_replaced tm_safe_insertFeatures)

lemma tm_safe_scan: "tm_tables s \<Longrightarrow> tm_safe (scan_async n e pat c ks) s"
proof (induction n arbitrary: c ks s)
  case (Suc n)
  have "tm_safe (atomically (\<lambda>s. (scan e (tm_redis s) pat c, s))) s"
    by (rule tm_atomic_rule) (simp add: tm_good_same)
  then show ?case
    unfolding scan_async.simps by (rule tm_safe_bind_proc) (auto simp: Suc split: prod.split)
qed simp

lemma tm_safe_invalidate: "tm_tables s \<Longrightarrow> tm_safe (invalidateTenantFeatureCache_async n e t) s"
  unfolding invalidateTenantFeatureCache_async_def
  by (auto intro!: tm_safe_rules tm_safe_scan tm_safe_frame split: option.split)

lemma tm_safe_savePlan:
  assumes "tm_tables s0" "known_tenant t s0"
  shows "tm_safe (savePlan_async e i p t) s0"
  unfolding savePlan_async_def Let_def
proof (rule manager.meets_bind_ok [where Q = "\<lambda>_. known_tenant t", OF _ assms(1)])
  show "tm_meets (\<lambda>r s. case r of Inl x \<Rightarrow> True | Inr a \<Rightarrow> known_tenant t s) (reading (plans_findByCode (tm_now e) p)) s0"
    by (rule tm_reading_rule) (simp add: known_tenant_later [OF _ assms(2)])
  fix plan s assume s: "tm_tables s" "known_tenant t s"
  have "known_tenant (t\<lparr>t_currentPlan := p, t_enabledFeatures := p_includedFeatures plan\<rparr>) s"
    by (rule known_tenant_changed [OF s(2)]) (use s(2) in \<open>simp_all add: t_key_def known_tenant_def\<close>)
  then show "tm_safe (bind_ok (saving_tenant (tm_now e) (t\<lparr>t_currentPlan := p, t_enabledFeatures := p_includedFeatures plan\<rparr>)) (\<lambda>saved.
     bind_ok (replaceTenantFeatures_async e i (if p_includedFeatures plan \<noteq> [] then p_includedFeatures plan
       else coalesce (planFeatures p) []) i) (\<lambda>_. Done (Inr saved)))) s"
    using s(1) by (intro tm_safe_bind tm_safe_saving) (auto intro!: tm_safe_bind tm_safe_replace)
qed

lemma tm_safe_changePlan: "tm_tables s \<Longrightarrow> known_tenant t s \<Longrightarrow> tm_safe (changePlan_async n e i p t) s"
  unfolding changePlan_async_def
  by (auto intro!: tm_safe_bind_proc tm_safe_savePlan tm_safe_invalidate tm_safe_emit split: sum.split option.split)

lemma tm_safe_saved: "tm_tables s \<Longrightarrow> tm_safe p s \<Longrightarrow> tm_safe (saved_async p) s"
  unfolding saved_async_def by (auto intro!: tm_safe_bind_proc)

lemma tm_safe_updateTenant:
  assumes "tm_tables s"
  shows "tm_safe (updateTenant_async n e i dto) s"
  unfolding updateTenant_async_def
proof (rule tm_safe_loaded [OF assms])
  fix t0 s assume s: "tm_tables s" "known_tenant t0 s"
  have "known_tenant t s" if "patch_tenant dto t0 = Inr t" for t
    using patch_tenant_keeps [OF that] s(2) by (auto simp: known_tenant_def t_key_def)
  then show "tm_safe (case Inr t0 of Inl x \<Rightarrow> Done (Some (Inl x))
    | Inr t0 \<Rightarrow> (case patch_tenant dto t0 of Inl x \<Rightarrow> Done (Some (Inl x))
      | Inr t \<Rightarrow> (case ut_plan dto of
          Value p \<Rightarrow> if p \<noteq> t_currentPlan t0 then changePlan_async n e i p t else saved_async (saving_tenant (tm_now e) t)
        | _ \<Rightarrow> saved_async (saving_tenant (tm_now e) t)))) s"
    using s(1) by (auto intro!: tm_safe_changePlan tm_safe_saved tm_safe_saving split: sum.split field.split)
qed simp

lemma tm_safe_suspend: "tm_tables s \<Longrightarrow> tm_safe (suspendTenant_async e i why) s"
  unfolding suspendTenant_async_def
  by (rule tm_safe_loaded_ok)
    (auto intro!: tm_safe_rules tm_safe_saving known_tenant_changed [of _ _ "_\<lparr>t_status := _, t_suspendedAt := _\<rparr>"] simp: t_key_def)

lemma tm_safe_activate: "tm_tables s \<Longrightarrow> tm_safe (activateTenant_async e i) s"
  unfolding activateTenant_async_def
  by (rule tm_safe_loaded_ok)
    (auto intro!: tm_safe_saving known_tenant_changed [of _ _ "_\<lparr>t_status := _, t_suspendedAt := _\<rparr>"] simp: t_key_def)

lemma tm_safe_archive: "tm_tables s \<Longrightarrow> tm_safe (archiveTenant_async n e i) s"
  unfolding archiveTenant_async_def
  by (rule tm_safe_loaded)
    (auto intro!: tm_safe_bind_proc tm_safe_saving tm_safe_invalidate
      known_tenant_changed [of _ _ "_\<lparr>t_status := _, t_cancelledAt := _\<rparr>"] simp: t_key_def)

lemma applySubscriptionStatus_settled: "settled (t_status t) \<Longrightarrow> settled (t_status (applySubscriptionStatus e st t))"
  by (simp add: applySubscriptionStatus_def)

lemma tm_safe_subscriptionStatus:
  assumes "tm_tables s0"
  shows "tm_safe (handleSubscriptionStatus_async e i st p) s0"
  unfolding handleSubscriptionStatus_async_def
proof (rule manager.meets_bind_ok [where Q = "\<lambda>x s. \<forall>t. x = Some t \<longrightarrow> known_tenant t s", OF _ assms])
  show "tm_meets (\<lambda>r s. case r of Inl x \<Rightarrow> True | Inr x \<Rightarrow> \<forall>t. x = Some t \<longrightarrow> known_tenant t s) (reading (\<lambda>s. subscription_tenant i s)) s0"
    by (rule tm_reading_rule) (auto intro: found_tenant subscription_tenant_stored)
  fix x s assume s: "tm_tables s" "\<forall>t. x = Some t \<longrightarrow> known_tenant t s"
  have "known_tenant (applySubscriptionStatus e st t) s" "known_tenant ((applySubscriptionStatus e st t)\<lparr>t_currentPlan := q\<rparr>) s"
    if "x = Some t" for t q
    using s(2) that by (auto simp: known_tenant_def t_key_def applySubscriptionStatus_keeps applySubscriptionStatus_settled)
  then show "tm_safe (case x of None \<Rightarrow> Done (Inr ()) | Some t0 \<Rightarrow>
      (let t1 = applySubscriptionStatus e st t0;
           t2 = (if truthy p \<and> the p \<noteq> t_currentPlan t1 then t1\<lparr>t_currentPlan := the p\<rparr> else t1)
       in if fits_null 50 p then bind_ok (saving_tenant (tm_now e) t2) (\<lambda>_. Done (Inr ())) else Done (Inr ()))) s"
    using s(1) by (cases x) (auto simp: Let_def intro!: tm_safe_bind tm_safe_saving)
qed

subsection \<open>What an answer promises\<close>

fun tm_answered :: "tm_env \<times> tm_event \<Rightarrow> tm_outcome \<Rightarrow> tm_state \<Rightarrow> bool" where
  "tm_answered (e, Ev_create u dto) (Created r) s =
     (\<forall>t. r = Inr t \<longrightarrow> (newTenantId e, finalSlug e (ct_name dto)) \<in> t_key ` set (tenants s))"
| "tm_answered _ _ _ = True"

lemma tm_answered_later: "tm_evolves s s' \<Longrightarrow> tm_answered r a s \<Longrightarrow> tm_answered r a s'"
  by (cases "(r, a, s)" rule: tm_answered.cases) (auto simp: tm_evolves_def)

lemma evolves_tenants: "tm_evolves s s' \<Longrightarrow> k \<in> t_key ` set (tenants s) \<Longrightarrow> k \<in> t_key ` set (tenants s')"
  by (auto simp: tm_evolves_def)

lemma meets_createTenant:
  assumes "tm_tables s0"
  shows "tm_meets (\<lambda>r. tm_answered (e, Ev_create u dto) (Created r)) (createTenant_async e dto (jp_sub u)) s0"
  unfolding createTenant_async_def Let_def
proof (rule manager.meets_then [OF tm_safe_reading assms])
  let ?Q = "\<lambda>r. tm_answered (e, Ev_create u dto) (Created r)"
  let ?stored = "\<lambda>s. (newTenantId e, finalSlug e (ct_name dto)) \<in> t_key ` set (tenants s)"
  fix plan s assume s: "tm_tables s"
  let ?p = "coalesce (ct_plan dto) ''free''"
  show "tm_meets ?Q (bind_ok (provision_async e dto ?p plan (jp_sub u)) (\<lambda>t.
      bind_ok (writing (requestOwnerMembership e (t_id t) (jp_sub u))) (\<lambda>_.
      bind_ok (tm_emit ''tenant.provisioned''
        (TenantProvisionedEvent (tm_now e) (t_id t) (t_slug t) (t_currentPlan t) (t_adminEmail t))) (\<lambda>_.
      Done (Inr t))))) s"
  proof (rule manager.meets_bind_ok [where Q = "\<lambda>_. ?stored", OF _ s])
    show "tm_meets (\<lambda>r s. case r of Inl x \<Rightarrow> ?Q (Inl x) s | Inr _ \<Rightarrow> ?stored s) (provision_async e dto ?p plan (jp_sub u)) s"
      unfolding provision_async_def
      by (rule tm_atomic_rule) (auto simp: tm_good_same dest!: tm_good_provision split: sum.split)
    fix t s2 assume s2: "tm_tables s2" "?stored s2"
    show "tm_meets ?Q (bind_ok (writing (requestOwnerMembership e (t_id t) (jp_sub u))) (\<lambda>_.
      bind_ok (tm_emit ''tenant.provisioned''
        (TenantProvisionedEvent (tm_now e) (t_id t) (t_slug t) (t_currentPlan t) (t_adminEmail t))) (\<lambda>_.
      Done (Inr t)))) s2"
      by (intro manager.meets_then [OF _ s2(1)] manager.meets_then [OF tm_safe_emit] tm_safe_frame)
        (auto simp: requestOwnerMembership_def intro: evolves_tenants [OF _ s2(2)] manager.rely_trans)
  qed
qed simp

lemma tm_safe_ended:
  "tm_safe p s \<Longrightarrow> tm_tables s \<Longrightarrow> tm_safe (tm_ended p) s"
  unfolding tm_ended_def by (auto intro!: tm_safe_bind_proc)

lemma tm_safe_maybe:
  "tm_safe p s \<Longrightarrow> tm_tables s \<Longrightarrow> tm_safe (tm_maybe p) s"
  unfolding tm_maybe_def by (auto intro!: tm_safe_bind_proc)

lemmas tm_safe_handlers = tm_safe_updateTenant tm_safe_suspend tm_safe_activate tm_safe_archive tm_safe_toggle tm_safe_check
  tm_safe_subscriptionStatus tm_safe_writing [OF tm_good_synced]

lemma meets_tm_start:
  assumes "tm_tables s"
  shows "tm_meets (tm_answered r) (tm_start n r) s"
proof (cases "refusal (fst r) (snd r)")
  case (Some x)
  then show ?thesis by (cases r; cases "snd r") (auto simp: tm_start_def)
next
  case None
  obtain e ev where r: "r = (e, ev)" by (cases r)
  show ?thesis
  proof (cases "\<exists>u dto. ev = Ev_create u dto")
    case True
    then obtain u dto where "ev = Ev_create u dto" by blast
    with None r show ?thesis
      by (auto simp: tm_start_def simp del: tm_answered.simps intro!: manager.meets_bind [OF meets_createTenant [OF assms] assms])
  next
    case False
    then have all: "tm_answered r a s'" for a s' using r by (cases ev; cases a) auto
    have "tm_safe (tm_handler n e ev) s"
      using False assms by (cases ev) (auto intro!: tm_safe_ended tm_safe_maybe tm_safe_handlers)
    then have "tm_meets (tm_answered r) (tm_handler n e ev) s" by (rule manager.meets_weaken) (rule all)
    with None r show ?thesis by (simp add: tm_start_def)
  qed
qed

interpretation tm_service: async_service tm_tables tm_evolves "tm_start n" tm_answered for n
  by unfold_locales (erule meets_tm_start, erule (1) tm_answered_later)


subsection \<open>Every interleaving\<close>

text \<open>C7: the tenant manager handles any number of requests and billing messages at the same time, interrupted
  at every statement and Redis command in any order (a save is its select and its update), with any
  number of requests in its invalidation loops: after every step identifiers, slugs and feature
  overrides are unique, no feature row dangles, and every tenant is active, suspended or cancelled, none
  half provisioned; no tenant disappears or changes its slug, nobody writes the catalogues, and a tenant
  whose provisioning was answered exists with the announced identifier and slug.\<close>

theorem tenant_interleaving_invariant:
  assumes "interleaved (tm_start n) ([], s0) (ps, s)" and "tm_inv s0"
  shows "tm_wf s \<and> (\<forall>t \<in> set (tenants s). t_status t \<in> {TS_active, TS_suspended, TS_cancelled}) \<and>
    tm_evolves s0 s \<and> (\<forall>r a. (r, Done a) \<in> set ps \<longrightarrow> tm_answered r a s)"
  using tm_service.interleaved_keeps [OF assms(1) tm_service.pool_ok_empty [OF tm_inv_tables [OF assms(2)]]]
  by (auto simp: tm_tables_def settled_def)

end
