(* ===== verification/Tenant_Races.thy ===== *)
theory Tenant_Races
  imports Tenant_Interleaving Tenant_Witnesses
begin

text \<open>
  Concrete interleavings of the tenant manager: a change of a tenant's phone number that is in flight
  while the tenant is archived.
\<close>

definition xt_patch :: "tm_env \<times> tm_event" where
  "xt_patch = (ex_env, Ev_update (ex_user False) ''t1'' (ex_update Undefined))"

definition xt_archive :: "tm_env \<times> tm_event" where
  "xt_archive = (ex_env, Ev_remove (ex_user True) ''t1'')"

definition xt_create :: "tm_env \<times> tm_event" where
  "xt_create = (ex_env, Ev_create (ex_user True) (ex_create ''New''))"

definition xt_at :: "nat list \<Rightarrow> (tm_env \<times> tm_event, tm_state, tm_outcome) pool \<times> tm_state" where
  "xt_at turns = replay (tm_start 5) [xt_patch, xt_archive, xt_create] turns ([], ex_state)"

lemma xt_interleaved: "interleaved (tm_start 5) ([], ex_state) (fst (xt_at turns), snd (xt_at turns))"
  by (simp add: xt_at_def replay_interleaved)

lemmas xt_eval = xt_at_def replay_def arrivals_def xt_patch_def xt_archive_def xt_create_def tm_start_def tm_maybe_def
  updateTenant_async_def archiveTenant_async_def loading_tenant_def saving_tenant_def saved_async_def invalidateTenantFeatureCache_async_def
  scan_async.simps numeral_eq_Suc batch_reply_def tenants_findById_def patch_tenant_def patch_val_def patch_opt_def update_tenant_def update_columns_def changed_def save_tenant_def save_row_def
  bind_ok_def reading_def writing_def atomically_def tenant_prefix_def redis_del_def Let_def ex_defs

text \<open>The change loads the row, the tenant is archived and the request answered, and then the change saves
  the row as it was loaded: the cancelled tenant is active again. One request at a time, a cancelled
  tenant stays cancelled unless the billing engine reactivates it (\<open>cancelled_is_final\<close>).\<close>

lemma archived_tenant_revived:
  "interleaved (tm_start 5) ([], ex_state) (xt_at [0, 1, 1, 1, 1, 1, 0, 0]) \<and>
   snd (fst (xt_at [0, 1, 1, 1, 1, 1]) ! 1) = Done (Finished (Inr ())) \<and>
   map_option t_status (find_tenant ''t1'' (snd (xt_at [0, 1, 1, 1, 1, 1]))) = Some TS_cancelled \<and>
   map_option t_status (find_tenant ''t1'' (snd (xt_at [0, 1, 1, 1, 1, 1, 0, 0]))) = Some TS_active"
proof (intro conjI)
  show "interleaved (tm_start 5) ([], ex_state) (xt_at [0, 1, 1, 1, 1, 1, 0, 0])" unfolding xt_at_def by (rule replay_interleaved)
  show "snd (fst (xt_at [0, 1, 1, 1, 1, 1]) ! 1) = Done (Finished (Inr ()))" by (simp add: xt_eval)
  show "map_option t_status (find_tenant ''t1'' (snd (xt_at [0, 1, 1, 1, 1, 1]))) = Some TS_cancelled" by (simp add: xt_eval)
  show "map_option t_status (find_tenant ''t1'' (snd (xt_at [0, 1, 1, 1, 1, 1, 0, 0]))) = Some TS_active" by (simp add: xt_eval)
qed

text \<open>
  The two statements of a save are interruptible as well. A tenant is suspended; its activation
  selects the row and finds the status and the suspension instant changed; a past-due message about
  the tenant, which loaded it while it was active, comes in between.
\<close>

definition xt_active :: "tm_env \<times> tm_event" where
  "xt_active = (ex_env\<lparr>tm_now := 3000\<rparr>, Ev_activate (ex_user True) ''t1'')"

definition xt_pastDue :: "instant \<Rightarrow> tm_env \<times> tm_event" where
  "xt_pastDue now = (ex_env\<lparr>tm_now := now\<rparr>, Ev_subscriptionStatus ''t1'' (Some ''past_due'') None)"

definition xt_twice :: "nat list \<Rightarrow> (tm_env \<times> tm_event, tm_state, tm_outcome) pool \<times> tm_state" where
  "xt_twice turns = replay (tm_start 5) [xt_pastDue 1000, xt_active, xt_pastDue 2000] turns ([], ex_state)"

lemmas xt_twice_eval = xt_twice_def xt_active_def xt_pastDue_def tm_ended_def activateTenant_async_def
  handleSubscriptionStatus_async_def applySubscriptionStatus_def

text \<open>The first message suspends the tenant at 1000. The second one selects the suspended row, so that
  only the suspension instant differs from what it is to store; the activation then makes the tenant
  active and clears the instant; and the second message writes its instant: the tenant is active and
  carries a suspension, which no sequence of whole operations brings about (\<open>tm_inv\<close>).\<close>

lemma active_tenant_with_suspension:
  "interleaved (tm_start 5) ([], ex_state) (xt_twice [0, 0, 0, 2, 2, 1, 1, 1, 2]) \<and>
   map_option (\<lambda>t. (t_status t, t_suspendedAt t)) (find_tenant ''t1'' (snd (xt_twice [0, 0, 0, 2, 2, 1, 1, 1, 2]))) =
     Some (TS_active, Some 2000)"
proof
  show "interleaved (tm_start 5) ([], ex_state) (xt_twice [0, 0, 0, 2, 2, 1, 1, 1, 2])"
    unfolding xt_twice_def by (rule replay_interleaved)
  show "map_option (\<lambda>t. (t_status t, t_suspendedAt t)) (find_tenant ''t1'' (snd (xt_twice [0, 0, 0, 2, 2, 1, 1, 1, 2]))) =
     Some (TS_active, Some 2000)" by (simp add: xt_eval xt_twice_eval)
qed

text \<open>With a third request, the creation of a tenant, between the steps of the other two.\<close>

definition xt_all :: "(tm_env \<times> tm_event, tm_state, tm_outcome) pool \<times> tm_state" where
  "xt_all = xt_at [0, 1, 2, 1, 2, 1, 1, 1, 2, 0, 0, 2]"

lemmas xt_create_eval = createTenant_async_def provision_async_def provision_def provisioningRow_def insert_tenant_def
  tenant_fits_def fits_def toLowerCase_def insert_feature_def plans_findByCode_def finalSlug_def tm_emit_def requestOwnerMembership_def

lemma xt_created: "\<exists>t. snd (fst xt_all ! 2) = Done (Created (Inr t))" "fst (fst xt_all ! 2) = xt_create" "length (fst xt_all) = 3"
  by (simp_all add: xt_all_def xt_eval xt_create_eval)

theorem tenant_interleaving_invariant_witness:
  "tm_wf (snd xt_all) \<and> tm_evolves ex_state (snd xt_all) \<and>
   (''t2'', finalSlug ex_env ''New'') \<in> t_key ` set (tenants (snd xt_all))"
proof -
  have "interleaved (tm_start 5) ([], ex_state) (fst xt_all, snd xt_all)" unfolding xt_all_def by (rule xt_interleaved)
  note inv = tenant_interleaving_invariant [OF this ex_inv]
  obtain t where "fst xt_all ! 2 = (xt_create, Done (Created (Inr t)))"
    using xt_created(1,2) by (metis prod.collapse)
  then have "(xt_create, Done (Created (Inr t))) \<in> set (fst xt_all)"
    using nth_mem [of 2 "fst xt_all"] xt_created(3) by simp
  with inv have "tm_answered xt_create (Created (Inr t)) (snd xt_all)" by blast
  then have "(newTenantId ex_env, finalSlug ex_env (ct_name (ex_create ''New''))) \<in> t_key ` set (tenants (snd xt_all))"
    by (simp add: xt_create_def)
  with inv show ?thesis by (simp add: ex_env_def ex_create_def)
qed

end
